(* ===== verification/Prelude.thy ===== *)
theory Prelude
  imports Main "HOL-Library.Multiset" "HOL-Library.Sublist"
begin

text \<open>
  Shared vocabulary and generic facts: the collections of simplification rules the component
  theories add to, the signed 64-bit integers of the Go program (kept as integers, with the
  wrap-around written out), and lemmas on lists, multisets and maps that more than one
  component uses.
\<close>

named_theorems go_string_simps \<open>evaluation rules of the string library\<close>
named_theorems render_simps \<open>what the checkers change: render fields only\<close>

subsection \<open>Machine integers\<close>

text \<open>
  Go's \<open>int\<close> is 64 bits wide on the released targets (linux/amd64 and linux/arm64).  A value is
  an integer; an addition of two values that come from outside wraps around.
\<close>

type_synonym goint = int

definition int64_min :: goint where
  "int64_min = - (2 ^ 63)"

definition int64_max :: goint where
  "int64_max = 2 ^ 63 - 1"

definition wrap64 :: "int \<Rightarrow> goint" where
  "wrap64 x = (x + 2 ^ 63) mod 2 ^ 64 - 2 ^ 63"

definition clamp64 :: "int \<Rightarrow> goint" where
  "clamp64 x = (if x < int64_min then int64_min else if int64_max < x then int64_max else x)"

definition in_int64 :: "int \<Rightarrow> bool" where
  "in_int64 x \<longleftrightarrow> int64_min \<le> x \<and> x \<le> int64_max"

lemma wrap64_id: "in_int64 x \<Longrightarrow> wrap64 x = x"
  by (simp add: in_int64_def wrap64_def int64_min_def int64_max_def)

lemma in_int64_wrap64 [simp]: "in_int64 (wrap64 x)"
proof -
  have "0 \<le> (x + 2 ^ 63) mod 2 ^ 64" "(x + 2 ^ 63) mod 2 ^ 64 < 2 ^ 64"
    by simp_all
  then show ?thesis
    by (simp add: in_int64_def wrap64_def int64_min_def int64_max_def)
qed

lemma in_int64_clamp64 [simp]: "in_int64 (clamp64 x)"
  by (auto simp: in_int64_def clamp64_def int64_min_def int64_max_def)

lemma clamp64_id: "in_int64 x \<Longrightarrow> clamp64 x = x"
  by (auto simp: in_int64_def clamp64_def)

text \<open>
  Go's integer division truncates towards zero; the remainder takes the dividend's sign.
\<close>

definition quot :: "int \<Rightarrow> int \<Rightarrow> int" where
  "quot a b = sgn a * sgn b * (\<bar>a\<bar> div \<bar>b\<bar>)"

definition remdr :: "int \<Rightarrow> int \<Rightarrow> int" where
  "remdr a b = a - b * quot a b"

lemma quot_nonneg [simp]: "0 \<le> a \<Longrightarrow> 0 < b \<Longrightarrow> quot a b = a div b"
  by (cases "a = 0") (simp_all add: quot_def)

lemma remdr_nonneg [simp]: "0 \<le> a \<Longrightarrow> 0 < b \<Longrightarrow> remdr a b = a mod b"
  by (simp add: remdr_def minus_mult_div_eq_mod)

subsection \<open>Lists and multisets\<close>

lemma mset_concat_map: "mset (concat (map f xs)) = \<Sum>\<^sub># (image_mset (\<lambda>x. mset (f x)) (mset xs))"
  by (induction xs) auto

lemma mset_concat_perm:
  "mset xs = mset ys \<Longrightarrow> mset (concat (map f xs)) = mset (concat (map f ys))"
  by (simp add: mset_concat_map)

lemma length_filter_perm: "mset xs = mset ys \<Longrightarrow> length (filter P xs) = length (filter P ys)"
  by (metis mset_filter size_mset)

lemma filter_none: "(\<And>x. x \<in> set xs \<Longrightarrow> \<not> P x) \<Longrightarrow> filter P xs = []"
  by simp

lemma filter_every: "(\<And>x. x \<in> set xs \<Longrightarrow> P x) \<Longrightarrow> filter P xs = xs"
  by simp

text \<open>A run of a component over a list of inputs, and an invariant of its states.\<close>

lemma foldl_invariant:
  assumes "I s" and "\<And>s x. I s \<Longrightarrow> x \<in> set xs \<Longrightarrow> I (f s x)"
  shows "I (foldl f s xs)"
  using assms by (induction xs arbitrary: s) auto

subsection \<open>Errors as values\<close>

text \<open>\<open>v, err := f (); if err != nil { return err }\<close> in front of the rest of a function.\<close>

fun bindE :: "'e + 'a \<Rightarrow> ('a \<Rightarrow> 'e + 'b) \<Rightarrow> 'e + 'b" where
  "bindE (Inl e) f = Inl e"
| "bindE (Inr x) f = f x"

lemma bindE_Inr_iff: "bindE m f = Inr y \<longleftrightarrow> (\<exists>x. m = Inr x \<and> f x = Inr y)"
  by (cases m) auto

lemma bindE_Inl_iff: "bindE m f = Inl e \<longleftrightarrow> m = Inl e \<or> (\<exists>x. m = Inr x \<and> f x = Inl e)"
  by (cases m) auto

end
