(* ===== verification/Go_Strings.thy ===== *)
theory Go_Strings
  imports Prelude "HOL-Library.Char_ord" "HOL-Library.List_Lexorder"
begin

text \<open>
  What the program uses of Go's \<open>strings\<close> and \<open>strconv\<close> packages.  A Go string is a sequence of
  bytes, so it is a list of 8-bit characters here; the functions that Go defines on runes
  (\<open>TrimSpace\<close>, \<open>Fields\<close>, \<open>ToLower\<close>, \<open>ToUpper\<close>, \<open>EqualFold\<close>) recognise the UTF-8 encodings of the
  runes that matter: the white space runes, and the runes outside ASCII whose case mapping is
  an ASCII letter.  No other rune outside ASCII is mapped into ASCII, so every test against an
  ASCII text has the outcome it has in Go.
\<close>

subsection \<open>Prefixes, suffixes, search\<close>

definition HasPrefix :: "string \<Rightarrow> string \<Rightarrow> bool" where
  "HasPrefix s p = prefix p s"

definition HasSuffix :: "string \<Rightarrow> string \<Rightarrow> bool" where
  "HasSuffix s p = suffix p s"

definition TrimSuffix :: "string \<Rightarrow> string \<Rightarrow> string" where
  "TrimSuffix s p = (if HasSuffix s p then take (length s - length p) s else s)"

text \<open>\<open>strings.Index\<close>: the first position of a substring, \<open>None\<close> where Go returns -1.\<close>

fun Index :: "string \<Rightarrow> string \<Rightarrow> nat option" where
  "Index [] sub = (if sub = [] then Some 0 else None)"
| "Index (c # cs) sub =
     (if prefix sub (c # cs) then Some 0 else map_option Suc (Index cs sub))"

definition Contains :: "string \<Rightarrow> string \<Rightarrow> bool" where
  "Contains s sub = (Index s sub \<noteq> None)"

text \<open>\<open>strings.LastIndex\<close> for a one-byte substring.\<close>

fun LastIndexByte :: "string \<Rightarrow> char \<Rightarrow> nat option" where
  "LastIndexByte [] c = None"
| "LastIndexByte (x # xs) c =
     (case LastIndexByte xs c of
        Some i \<Rightarrow> Some (Suc i)
      | None \<Rightarrow> if x = c then Some 0 else None)"

lemma Index_Some:
  "Index s sub = Some i \<Longrightarrow> take (length sub) (drop i s) = sub \<and> i + length sub \<le> length s"
proof (induction s arbitrary: i)
  case Nil
  then show ?case by (simp split: if_splits)
next
  case (Cons c cs)
  show ?case
  proof (cases "prefix sub (c # cs)")
    case True
    with Cons.prems have "i = 0" by simp
    with True show ?thesis
      by (auto simp: prefix_def dest: arg_cong [where f = length])
  next
    case False
    with Cons.prems obtain j where "Index cs sub = Some j" "i = Suc j" by auto
    with Cons.IH [of j] show ?thesis by simp
  qed
qed

lemma Index_Some_split:
  assumes "Index s sub = Some i"
  shows "s = take i s @ sub @ drop (i + length sub) s"
proof -
  have "drop i s = sub @ drop (i + length sub) s"
    using Index_Some [OF assms]
    by (metis add.commute append_take_drop_id drop_drop)
  then show ?thesis by (metis append_take_drop_id)
qed

lemma Index_None_iff: "Index s sub = None \<longleftrightarrow> \<not> sublist sub s"
  by (induction s) (auto simp: sublist_Cons_right)

lemma Contains_iff: "Contains s sub \<longleftrightarrow> sublist sub s"
  by (simp add: Contains_def Index_None_iff)

lemma Index_first: "Index s sub = Some i \<Longrightarrow> j < i \<Longrightarrow> \<not> prefix sub (drop j s)"
proof (induction s arbitrary: i j)
  case Nil
  then show ?case by (simp split: if_splits)
next
  case (Cons c cs)
  then show ?case
    by (cases j) (auto split: if_splits)
qed

lemma Index_append_first:
  assumes "\<And>j. j < length a \<Longrightarrow> \<not> prefix sub (drop j (a @ sub @ b))"
  shows "Index (a @ sub @ b) sub = Some (length a)"
  using assms
proof (induction a)
  case Nil
  have "Index (sub @ b) sub = Some 0"
    by (cases "sub @ b") (auto simp: prefix_def, metis)
  then show ?case by simp
next
  case (Cons c cs)
  have no: "\<not> prefix sub (c # cs @ sub @ b)"
    using Cons.prems [of 0] by simp
  have "Index (cs @ sub @ b) sub = Some (length cs)"
    using Cons.prems [of "Suc j" for j] by (intro Cons.IH) auto
  with no show ?case by simp
qed

text \<open>Searching for a single byte.\<close>

lemma Index_byte_append:
  assumes "c \<notin> set a"
  shows "Index (a @ c # b) [c] = Some (length a)"
proof -
  have "\<not> prefix [c] (drop j (a @ [c] @ b))" if "j < length a" for j
  proof -
    have "drop j (a @ [c] @ b) = a ! j # drop (Suc j) (a @ [c] @ b)"
      using that by (simp add: Cons_nth_drop_Suc [symmetric] nth_append)
    moreover have "a ! j \<noteq> c" using assms that nth_mem by fastforce
    ultimately show ?thesis by simp
  qed
  then have "Index (a @ [c] @ b) [c] = Some (length a)"
    by (rule Index_append_first)
  then show ?thesis by simp
qed

lemma Index_byte_None: "Index s [c] = None \<longleftrightarrow> c \<notin> set s"
  by (induction s) auto

lemma Index_byte_Some:
  assumes "Index s [c] = Some i"
  shows "s = take i s @ c # drop (Suc i) s" and "c \<notin> set (take i s)"
proof -
  show "s = take i s @ c # drop (Suc i) s"
    using Index_Some_split [OF assms] by simp
  have "s ! j \<noteq> c" if "j < i" for j
  proof -
    have "i < length s" using Index_Some [OF assms] by simp
    with that have "drop j s = s ! j # drop (Suc j) s"
      by (simp add: Cons_nth_drop_Suc)
    with Index_first [OF assms that] show ?thesis by auto
  qed
  then show "c \<notin> set (take i s)"
    by (auto simp: in_set_conv_nth)
qed

subsection \<open>Splitting and joining\<close>

text \<open>
  \<open>splitn k s sep\<close> cuts \<open>s\<close> at the first \<open>k\<close> separators: \<open>strings.SplitN (s, sep, k + 1)\<close> for a
  non-empty separator.  A string has at most \<open>length s\<close> separators, so that many cuts is \<open>Split\<close>.
\<close>

fun splitn :: "nat \<Rightarrow> string \<Rightarrow> string \<Rightarrow> string list" where
  "splitn 0 s sep = [s]"
| "splitn (Suc k) s sep =
     (case Index s sep of
        None \<Rightarrow> [s]
      | Some m \<Rightarrow> take m s # splitn k (drop (m + length sep) s) sep)"

definition SplitN :: "string \<Rightarrow> string \<Rightarrow> nat \<Rightarrow> string list" where
  "SplitN s sep n = (if n = 0 then [] else splitn (n - 1) s sep)"

definition Split :: "string \<Rightarrow> string \<Rightarrow> string list" where
  "Split s sep = splitn (length s) s sep"

fun Join :: "string list \<Rightarrow> string \<Rightarrow> string" where
  "Join [] sep = []"
| "Join [x] sep = x"
| "Join (x # y # zs) sep = x @ sep @ Join (y # zs) sep"

lemma splitn_not_Nil [simp]: "splitn k s sep \<noteq> []"
  by (cases k) (auto split: option.splits)

lemma Split_not_Nil [simp]: "Split s sep \<noteq> []"
  by (simp add: Split_def)

lemma Join_Cons: "xs \<noteq> [] \<Longrightarrow> Join (x # xs) sep = x @ sep @ Join xs sep"
  by (cases xs) auto

lemma Join_splitn: "Join (splitn k s sep) sep = s"
proof (induction k arbitrary: s)
  case 0
  then show ?case by simp
next
  case (Suc k)
  show ?case
  proof (cases "Index s sep")
    case None
    then show ?thesis by simp
  next
    case (Some m)
    then show ?thesis
      using Index_Some_split [OF Some] Suc.IH [of "drop (m + length sep) s"]
      by (simp add: Join_Cons)
  qed
qed

lemma Join_Split: "Join (Split s sep) sep = s"
  by (simp add: Split_def Join_splitn)

text \<open>Enough cuts split completely: no part holds a one-byte separator.\<close>

lemma splitn_byte_complete:
  "length s \<le> k \<Longrightarrow> p \<in> set (splitn k s [c]) \<Longrightarrow> c \<notin> set p"
proof (induction k arbitrary: s)
  case 0
  then show ?case by simp
next
  case (Suc k)
  show ?case
  proof (cases "Index s [c]")
    case None
    with Suc.prems show ?thesis by (simp add: Index_byte_None)
  next
    case (Some m)
    have "Suc m \<le> length s" using Index_Some [OF Some] by simp
    with Suc.prems(1) have "length (drop (Suc m) s) \<le> k" by simp
    with Some Suc.prems(2) Suc.IH [of "drop (Suc m) s"] Index_byte_Some(2) [OF Some]
    show ?thesis by auto
  qed
qed

lemma Split_byte_complete: "p \<in> set (Split s [c]) \<Longrightarrow> c \<notin> set p"
  unfolding Split_def by (rule splitn_byte_complete [OF order_refl])

lemma splitn_no_sep:
  assumes "c \<notin> set s"
  shows "splitn k s [c] = [s]"
proof -
  have "Index s [c] = None" using assms by (simp add: Index_byte_None)
  then show ?thesis by (cases k) simp_all
qed

lemma splitn_byte_enough:
  "length s \<le> k \<Longrightarrow> length s \<le> k' \<Longrightarrow> splitn k s [c] = splitn k' s [c]"
proof (induction k arbitrary: k' s)
  case 0
  then show ?case by (simp add: splitn_no_sep)
next
  case (Suc k)
  show ?case
  proof (cases "Index s [c]")
    case None
    then show ?thesis by (cases k') simp_all
  next
    case (Some m)
    have le: "Suc m \<le> length s" using Index_Some [OF Some] by simp
    with Suc.prems obtain j where j: "k' = Suc j" by (cases k') auto
    have "splitn k (drop (Suc m) s) [c] = splitn j (drop (Suc m) s) [c]"
      using Suc.prems le j by (intro Suc.IH) auto
    with Some j show ?thesis by simp
  qed
qed

lemma Split_byte_Cons:
  assumes "c \<notin> set a"
  shows "Split (a @ c # b) [c] = a # Split b [c]"
proof -
  have "splitn (length (a @ c # b)) (a @ c # b) [c] = a # splitn (length a + length b) b [c]"
    by (simp add: Index_byte_append [OF assms])
  also have "splitn (length a + length b) b [c] = splitn (length b) b [c]"
    by (rule splitn_byte_enough) simp_all
  finally show ?thesis by (simp add: Split_def)
qed

lemma Split_byte_no_sep: "c \<notin> set s \<Longrightarrow> Split s [c] = [s]"
  by (simp add: Split_def splitn_no_sep)

text \<open>One byte at a time: the equations that evaluate a split at a byte.\<close>

lemma Split_byte_simps [simp]:
  "Split [] [c] = [[]]"
  "Split (c # s) [c] = [] # Split s [c]"
  "x \<noteq> c \<Longrightarrow> Split (x # s) [c] = (x # hd (Split s [c])) # tl (Split s [c])"
proof -
  show "Split [] [c] = [[]]" by (simp add: Split_def)
  show "Split (c # s) [c] = [] # Split s [c]"
    using Split_byte_Cons [of c "[]" s] by simp
  show "Split (x # s) [c] = (x # hd (Split s [c])) # tl (Split s [c])" if "x \<noteq> c"
  proof (cases "c \<in> set s")
    case True
    then obtain a b where ab: "s = a @ c # b" "c \<notin> set a"
      by (metis split_list_first)
    with that show ?thesis
      using Split_byte_Cons [of c a b] Split_byte_Cons [of c "x # a" b] by simp
  next
    case False
    with that show ?thesis by (simp add: Split_byte_no_sep)
  qed
qed

subsection \<open>White space\<close>

text \<open>
  \<open>space_len s\<close> is the number of bytes of the white space rune \<open>s\<close> starts with, 0 if it starts
  with none: the six ASCII spaces, and U+0085, U+00A0, U+1680, U+2000 to U+200A, U+2028,
  U+2029, U+202F, U+205F and U+3000 in UTF-8.  \<open>rspace_len\<close> is the same at the end of a string,
  which it takes reversed.  UTF-8 encodings of whole runes cannot overlap, so looking at the
  bytes finds the same runes as decoding the string.
\<close>

definition ascii_space :: "char \<Rightarrow> bool" where
  "ascii_space c \<longleftrightarrow> c \<in> {CHR 0x09, CHR 0x0A, CHR 0x0B, CHR 0x0C, CHR 0x0D, CHR 0x20}"

definition e280_space :: "char \<Rightarrow> bool" where
  "e280_space c \<longleftrightarrow> (of_char c :: nat) \<in> {0x80..0x8A} \<union> {0xA8, 0xA9, 0xAF}"

definition space3 :: "char \<Rightarrow> char \<Rightarrow> char \<Rightarrow> bool" where
  "space3 a b c \<longleftrightarrow>
     a = CHR 0xE1 \<and> b = CHR 0x9A \<and> c = CHR 0x80 \<or>
     a = CHR 0xE2 \<and> b = CHR 0x80 \<and> e280_space c \<or>
     a = CHR 0xE2 \<and> b = CHR 0x81 \<and> c = CHR 0x9F \<or>
     a = CHR 0xE3 \<and> b = CHR 0x80 \<and> c = CHR 0x80"

definition space2 :: "char \<Rightarrow> char \<Rightarrow> bool" where
  "space2 a b \<longleftrightarrow> a = CHR 0xC2 \<and> (b = CHR 0x85 \<or> b = CHR 0xA0)"

definition space_len :: "string \<Rightarrow> nat" where
  "space_len s =
     (case s of
        [] \<Rightarrow> 0
      | a # s1 \<Rightarrow> if ascii_space a then 1 else
          (case s1 of
             [] \<Rightarrow> 0
           | b # s2 \<Rightarrow> if space2 a b then 2 else
               (case s2 of [] \<Rightarrow> 0 | c # s3 \<Rightarrow> if space3 a b c then 3 else 0)))"

definition rspace_len :: "string \<Rightarrow> nat" where
  "rspace_len s =
     (case s of
        [] \<Rightarrow> 0
      | c # s1 \<Rightarrow> if ascii_space c then 1 else
          (case s1 of
             [] \<Rightarrow> 0
           | b # s2 \<Rightarrow> if space2 b c then 2 else
               (case s2 of [] \<Rightarrow> 0 | a # s3 \<Rightarrow> if space3 a b c then 3 else 0)))"

lemma space_len_le: "space_len s \<le> length s"
  by (auto simp: space_len_def split: list.splits)

lemma rspace_len_le: "rspace_len s \<le> length s"
  by (auto simp: rspace_len_def split: list.splits)

lemma space_len_append: "0 < space_len s \<Longrightarrow> 0 < space_len (s @ t)"
  by (auto simp: space_len_def split: list.splits if_splits)

function trim_left :: "string \<Rightarrow> string" where
  "trim_left s = (if space_len s = 0 then s else trim_left (drop (space_len s) s))"
  by pat_completeness auto
termination
  by (relation "measure length") (auto simp: space_len_def split: list.splits)

function trim_rev :: "string \<Rightarrow> string" where
  "trim_rev s = (if rspace_len s = 0 then s else trim_rev (drop (rspace_len s) s))"
  by pat_completeness auto
termination
  by (relation "measure length") (auto simp: rspace_len_def split: list.splits)

declare trim_left.simps [simp del] trim_rev.simps [simp del]

definition TrimSpace :: "string \<Rightarrow> string" where
  "TrimSpace s = rev (trim_rev (rev (trim_left s)))"

lemma trim_left_suffix: "suffix (trim_left s) s"
proof (induction s rule: trim_left.induct)
  case (1 s)
  show ?case
  proof (cases "space_len s = 0")
    case True
    then show ?thesis by (simp add: trim_left.simps [of s])
  next
    case False
    with "1.IH" have "suffix (trim_left s) (drop (space_len s) s)"
      by (simp add: trim_left.simps [of s])
    then show ?thesis by (meson suffix_drop suffix_order.trans)
  qed
qed

lemma trim_rev_suffix: "suffix (trim_rev s) s"
proof (induction s rule: trim_rev.induct)
  case (1 s)
  show ?case
  proof (cases "rspace_len s = 0")
    case True
    then show ?thesis by (simp add: trim_rev.simps [of s])
  next
    case False
    with "1.IH" have "suffix (trim_rev s) (drop (rspace_len s) s)"
      by (simp add: trim_rev.simps [of s])
    then show ?thesis by (meson suffix_drop suffix_order.trans)
  qed
qed

lemma space_len_trim_left [simp]: "space_len (trim_left s) = 0"
proof (induction s rule: trim_left.induct)
  case (1 s)
  then show ?case
    by (cases "space_len s = 0") (simp_all add: trim_left.simps [of s])
qed

lemma rspace_len_trim_rev [simp]: "rspace_len (trim_rev s) = 0"
proof (induction s rule: trim_rev.induct)
  case (1 s)
  then show ?case
    by (cases "rspace_len s = 0") (simp_all add: trim_rev.simps [of s])
qed

lemma prefix_TrimSpace: "prefix (TrimSpace s) (trim_left s)"
  using trim_rev_suffix [of "rev (trim_left s)"]
  by (simp add: TrimSpace_def suffix_to_prefix)

lemma space_len_TrimSpace [simp]: "space_len (TrimSpace s) = 0"
proof -
  obtain t where "trim_left s = TrimSpace s @ t"
    using prefix_TrimSpace by (auto simp: prefix_def)
  then show ?thesis
    using space_len_append [of "TrimSpace s" t] space_len_trim_left [of s] by auto
qed

lemma rspace_len_TrimSpace [simp]: "rspace_len (rev (TrimSpace s)) = 0"
  by (simp add: TrimSpace_def)

lemma TrimSpace_fixed: "space_len s = 0 \<Longrightarrow> rspace_len (rev s) = 0 \<Longrightarrow> TrimSpace s = s"
  by (simp add: TrimSpace_def trim_left.simps [of s] trim_rev.simps [of "rev s"])

lemma TrimSpace_idem [simp]: "TrimSpace (TrimSpace s) = TrimSpace s"
  by (rule TrimSpace_fixed) simp_all

text \<open>A text that starts with a visible ASCII byte still does when it is trimmed.\<close>

definition visible :: "char \<Rightarrow> bool" where
  "visible x \<longleftrightarrow> \<not> ascii_space x \<and> x \<notin> {CHR 0xC2, CHR 0xE1, CHR 0xE2, CHR 0xE3}"

lemma trim_rev_visible: "visible x \<Longrightarrow> \<exists>u'. trim_rev (u @ [x]) = u' @ [x]"
proof (induction "length u" arbitrary: u rule: less_induct)
  case less
  let ?n = "rspace_len (u @ [x])"
  show ?case
  proof (cases "?n = 0")
    case True
    then show ?thesis by (subst trim_rev.simps) simp
  next
    case False
    have "?n \<le> length u"
      using less.prems
      by (cases u; cases "tl u"; cases "tl (tl u)")
        (auto simp: rspace_len_def visible_def space2_def space3_def)
    then have "trim_rev (u @ [x]) = trim_rev (drop ?n u @ [x])"
      using False by (subst trim_rev.simps) simp
    moreover have "length (drop ?n u) < length u" using False \<open>?n \<le> length u\<close> by simp
    ultimately show ?thesis using less by metis
  qed
qed

lemma TrimSpace_visible: "visible x \<Longrightarrow> \<exists>s'. TrimSpace (x # s) = x # s'"
proof -
  assume x: "visible x"
  have "trim_left (x # s) = x # s"
    using x by (subst trim_left.simps)
      (auto simp: space_len_def visible_def space2_def space3_def split: list.splits)
  moreover obtain u where "trim_rev (rev s @ [x]) = u @ [x]"
    using trim_rev_visible [OF x] by blast
  ultimately show ?thesis by (simp add: TrimSpace_def)
qed

lemma set_TrimSpace: "set (TrimSpace s) \<subseteq> set s"
proof -
  have "set (TrimSpace s) \<subseteq> set (trim_left s)"
    using prefix_TrimSpace by (metis set_mono_prefix)
  also have "\<dots> \<subseteq> set s" using trim_left_suffix by (metis set_mono_suffix)
  finally show ?thesis .
qed

text \<open>\<open>strings.Fields\<close>: the maximal runs of bytes between white space.\<close>

function fields_from :: "string \<Rightarrow> string \<Rightarrow> string list" where
  "fields_from s cur =
     (if s = [] then (if cur = [] then [] else [rev cur])
      else if space_len s = 0 then fields_from (tl s) (hd s # cur)
      else if cur = [] then fields_from (drop (space_len s) s) []
      else rev cur # fields_from (drop (space_len s) s) [])"
  by pat_completeness auto
termination
  by (relation "measure (\<lambda>(s, cur). length s)") auto

declare fields_from.simps [simp del]

definition Fields :: "string \<Rightarrow> string list" where
  "Fields s = fields_from s []"

lemma fields_from_nonempty: "f \<in> set (fields_from s cur) \<Longrightarrow> f \<noteq> []"
proof (induction s cur rule: fields_from.induct)
  case (1 s cur)
  then show ?case
    by (subst (asm) fields_from.simps) (auto split: if_splits)
qed

lemma Fields_nonempty: "f \<in> set (Fields s) \<Longrightarrow> f \<noteq> []"
  by (simp add: Fields_def fields_from_nonempty)

subsection \<open>Case mapping, cut sets, replacement\<close>

definition code :: "char \<Rightarrow> nat" where
  "code c = of_char c"

definition is_digit :: "char \<Rightarrow> bool" where
  "is_digit c \<longleftrightarrow> 48 \<le> code c \<and> code c \<le> 57"

definition is_upper :: "char \<Rightarrow> bool" where
  "is_upper c \<longleftrightarrow> 65 \<le> code c \<and> code c \<le> 90"

definition is_lower :: "char \<Rightarrow> bool" where
  "is_lower c \<longleftrightarrow> 97 \<le> code c \<and> code c \<le> 122"

text \<open>ASCII letters differ from their other case in bit 5.\<close>

fun set_bit5 :: "bool \<Rightarrow> char \<Rightarrow> char" where
  "set_bit5 b (Char b0 b1 b2 b3 b4 b5 b6 b7) = Char b0 b1 b2 b3 b4 b b6 b7"

definition lower_char :: "char \<Rightarrow> char" where
  "lower_char c = (if is_upper c then set_bit5 True c else c)"

definition upper_char :: "char \<Rightarrow> char" where
  "upper_char c = (if is_lower c then set_bit5 False c else c)"

text \<open>
  Outside ASCII, \<open>ToLower\<close> maps U+212A (Kelvin) to \<open>k\<close> and U+0130 to \<open>i\<close>, \<open>ToUpper\<close> maps U+0131
  to \<open>I\<close> and U+017F to \<open>S\<close>, and \<open>EqualFold\<close> identifies U+212A with \<open>k\<close> and U+017F with \<open>s\<close>.
\<close>

fun ToLower :: "string \<Rightarrow> string" where
  "ToLower [] = []"
| "ToLower (c # cs) =
     (if prefix [CHR 0xE2, CHR 0x84, CHR 0xAA] (c # cs) then CHR ''k'' # ToLower (drop 2 cs)
      else if prefix [CHR 0xC4, CHR 0xB0] (c # cs) then CHR ''i'' # ToLower (drop 1 cs)
      else lower_char c # ToLower cs)"

fun ToUpper :: "string \<Rightarrow> string" where
  "ToUpper [] = []"
| "ToUpper (c # cs) =
     (if prefix [CHR 0xC4, CHR 0xB1] (c # cs) then CHR ''I'' # ToUpper (drop 1 cs)
      else if prefix [CHR 0xC5, CHR 0xBF] (c # cs) then CHR ''S'' # ToUpper (drop 1 cs)
      else upper_char c # ToUpper cs)"

fun fold_case :: "string \<Rightarrow> string" where
  "fold_case [] = []"
| "fold_case (c # cs) =
     (if prefix [CHR 0xE2, CHR 0x84, CHR 0xAA] (c # cs) then CHR ''k'' # fold_case (drop 2 cs)
      else if prefix [CHR 0xC5, CHR 0xBF] (c # cs) then CHR ''s'' # fold_case (drop 1 cs)
      else lower_char c # fold_case cs)"

definition EqualFold :: "string \<Rightarrow> string \<Rightarrow> bool" where
  "EqualFold s t = (fold_case s = fold_case t)"

text \<open>\<open>strings.Trim\<close> with a one-byte cut set, and \<open>strings.ReplaceAll\<close> of one byte.\<close>

definition TrimByte :: "string \<Rightarrow> char \<Rightarrow> string" where
  "TrimByte s c = rev (dropWhile (\<lambda>x. x = c) (rev (dropWhile (\<lambda>x. x = c) s)))"

definition ReplaceByte :: "string \<Rightarrow> char \<Rightarrow> string \<Rightarrow> string" where
  "ReplaceByte s c new = concat (map (\<lambda>x. if x = c then new else [x]) s)"

subsection \<open>Decimal numbers\<close>

definition digit_char :: "int \<Rightarrow> char" where
  "digit_char d = ''0123456789'' ! nat d"

definition digit_val :: "char \<Rightarrow> int" where
  "digit_val c = int (code c) - 48"

function digits_of :: "int \<Rightarrow> string" where
  "digits_of n =
     (if n < 10 then [digit_char n] else digits_of (n div 10) @ [digit_char (n mod 10)])"
  by pat_completeness auto
termination
  by (relation "measure nat") auto

declare digits_of.simps [simp del]

definition Itoa :: "goint \<Rightarrow> string" where
  "Itoa x = (if x < 0 then ''-'' @ digits_of (- x) else digits_of x)"

datatype num_error = ErrSyntax | ErrRange

text \<open>
  \<open>ParseUint\<close>: digits from the left, stopping at the first byte that is no digit (a syntax
  error) or at the first digit that leaves the unsigned 64-bit range (a range error).
\<close>

fun uint_loop :: "string \<Rightarrow> int \<Rightarrow> num_error + int" where
  "uint_loop [] n = Inr n"
| "uint_loop (c # cs) n =
     (if \<not> is_digit c then Inl ErrSyntax
      else if 2 ^ 64 - 1 < n * 10 + digit_val c then Inl ErrRange
      else uint_loop cs (n * 10 + digit_val c))"

definition ParseUint :: "string \<Rightarrow> num_error + int" where
  "ParseUint s = (if s = [] then Inl ErrSyntax else uint_loop s 0)"

text \<open>
  \<open>strconv.Atoi\<close> returns a value and an error; the value is 0 on a syntax error and the
  nearest bound on a range error.
\<close>

definition Atoi :: "string \<Rightarrow> goint \<times> num_error option" where
  "Atoi s =
     (let neg = (s \<noteq> [] \<and> hd s = CHR ''-'');
          ds = (if s \<noteq> [] \<and> (hd s = CHR ''-'' \<or> hd s = CHR ''+'') then tl s else s)
      in case ParseUint ds of
           Inl ErrSyntax \<Rightarrow> (0, Some ErrSyntax)
         | Inl ErrRange \<Rightarrow> (if neg then int64_min else int64_max, Some ErrRange)
         | Inr n \<Rightarrow>
             if \<not> neg \<and> 2 ^ 63 \<le> n then (int64_max, Some ErrRange)
             else if neg \<and> 2 ^ 63 < n then (int64_min, Some ErrRange)
             else (if neg then - n else n, None))"

abbreviation Atoi0 :: "string \<Rightarrow> goint" where
  "Atoi0 s \<equiv> fst (Atoi s)"

lemma digit_cases: "0 \<le> d \<Longrightarrow> d < (10 :: int) \<Longrightarrow> d \<in> {0, 1, 2, 3, 4, 5, 6, 7, 8, 9}"
  by (simp, presburger)

lemma digit_char_facts:
  assumes "0 \<le> d" "d < 10"
  shows "is_digit (digit_char d) \<and> digit_val (digit_char d) = d"
  using digit_cases [OF assms]
  by (auto simp: digit_char_def is_digit_def digit_val_def code_def)

lemma is_digit_digit_char [simp]: "0 \<le> d \<Longrightarrow> d < 10 \<Longrightarrow> is_digit (digit_char d)"
  by (simp add: digit_char_facts)

lemma digit_val_digit_char [simp]: "0 \<le> d \<Longrightarrow> d < 10 \<Longrightarrow> digit_val (digit_char d) = d"
  by (simp add: digit_char_facts)

lemma digit_val_bounds: "is_digit c \<Longrightarrow> 0 \<le> digit_val c \<and> digit_val c < 10"
  by (auto simp: is_digit_def digit_val_def)

lemma uint_loop_append:
  "uint_loop (s @ t) n = (case uint_loop s n of Inl e \<Rightarrow> Inl e | Inr m \<Rightarrow> uint_loop t m)"
  by (induction s arbitrary: n) auto

lemma uint_loop_digits: "0 \<le> n \<Longrightarrow> n < 2 ^ 64 \<Longrightarrow> uint_loop (digits_of n) 0 = Inr n"
proof (induction n rule: digits_of.induct)
  case (1 n)
  show ?case
  proof (cases "n < 10")
    case True
    with "1.prems" show ?thesis by (simp add: digits_of.simps [of n])
  next
    case False
    with 1 have "uint_loop (digits_of (n div 10)) 0 = Inr (n div 10)" by simp
    with False "1.prems" show ?thesis
      by (simp add: digits_of.simps [of n] uint_loop_append)
  qed
qed

lemma digits_of_not_Nil [simp]: "digits_of n \<noteq> []"
  by (subst digits_of.simps) simp

lemma digits_of_digits: "0 \<le> n \<Longrightarrow> c \<in> set (digits_of n) \<Longrightarrow> is_digit c"
proof (induction n rule: digits_of.induct)
  case (1 n)
  then show ?case
    by (cases "n < 10") (auto simp: digits_of.simps [of n])
qed

lemma hd_digits_of: "0 \<le> n \<Longrightarrow> is_digit (hd (digits_of n))"
  by (rule digits_of_digits [of n]) simp_all

lemma digit_not_sign: "is_digit c \<Longrightarrow> c \<noteq> CHR ''-'' \<and> c \<noteq> CHR ''+''"
  by (auto simp: is_digit_def code_def)

lemma ParseUint_digits: "0 \<le> n \<Longrightarrow> n < 2 ^ 64 \<Longrightarrow> ParseUint (digits_of n) = Inr n"
  by (simp add: ParseUint_def uint_loop_digits)

text \<open>Printing then parsing gives the number back.\<close>

lemma Atoi_Itoa: "in_int64 x \<Longrightarrow> Atoi (Itoa x) = (x, None)"
proof (cases "x < 0")
  case True
  assume "in_int64 x"
  with True have "- x < 2 ^ 64" "\<not> 2 ^ 63 < - x"
    by (auto simp: in_int64_def int64_min_def)
  with True show ?thesis
    by (simp add: Itoa_def Atoi_def ParseUint_digits)
next
  case False
  assume "in_int64 x"
  with False have "x < 2 ^ 64" "\<not> 2 ^ 63 \<le> x"
    by (auto simp: in_int64_def int64_max_def)
  with False digit_not_sign [OF hd_digits_of [of x]] show ?thesis
    by (simp add: Itoa_def Atoi_def ParseUint_digits)
qed

lemma uint_loop_nonneg: "uint_loop t n = Inr m \<Longrightarrow> 0 \<le> n \<Longrightarrow> 0 \<le> m"
  by (induction t n rule: uint_loop.induct) (auto dest: digit_val_bounds split: if_splits)

lemma ParseUint_nonneg: "ParseUint t = Inr m \<Longrightarrow> 0 \<le> m"
  by (auto simp: ParseUint_def dest: uint_loop_nonneg split: if_splits)

lemma in_int64_Atoi: "in_int64 (Atoi0 s)"
  by (auto simp: Atoi_def Let_def in_int64_def int64_min_def int64_max_def
      dest: ParseUint_nonneg split: sum.splits num_error.splits)

lemma Itoa_inj: "in_int64 x \<Longrightarrow> in_int64 y \<Longrightarrow> Itoa x = Itoa y \<Longrightarrow> x = y"
  using Atoi_Itoa by (metis fst_conv)

end
