(* ===== verification/Go_Float.thy ===== *)
theory Go_Float
  imports Complex_Main Go_Strings
begin

text \<open>
  Go's \<open>float64\<close>: IEEE 754 binary64, as far as the program uses it.  A finite value is its sign
  and its magnitude, an exact rational; every operation computes the exact result and rounds it
  to 53 bits, ties to even, with gradual underflow below \<open>2 powi (-1022)\<close> and overflow to an
  infinity at \<open>2 ^ 1024\<close>.  \<open>ParseFloat\<close> and the \<open>%.nf\<close> formatting follow \<open>strconv\<close>, which rounds
  correctly in both directions.
\<close>

datatype float64 = FNaN | FInf bool | FNum bool rat

subsection \<open>Rounding\<close>

function ilog2 :: "int \<Rightarrow> int" where
  "ilog2 n = (if n \<le> 1 then 0 else ilog2 (n div 2) + 1)"
  by pat_completeness auto
termination
  by (relation "measure nat") auto

declare ilog2.simps [simp del]

definition floor_log2 :: "rat \<Rightarrow> int" where
  "floor_log2 q =
     (case quotient_of q of
        (n, d) \<Rightarrow> (let k = ilog2 n - ilog2 d
                   in if 2 powi k \<le> q then k else k - 1))"

definition round_even :: "rat \<Rightarrow> int" where
  "round_even q =
     (let f = \<lfloor>q\<rfloor>; r = q - of_int f
      in if r < 1 / 2 then f else if 1 / 2 < r then f + 1 else if even f then f else f + 1)"

definition round_exp :: "rat \<Rightarrow> int" where
  "round_exp q = max (- 1074) (floor_log2 q - 52)"

definition round_mag :: "rat \<Rightarrow> rat" where
  "round_mag q = of_int (round_even (q / 2 powi round_exp q)) * 2 powi round_exp q"

definition mk_float :: "bool \<Rightarrow> rat \<Rightarrow> float64" where
  "mk_float s q =
     (if q = 0 then FNum s 0
      else let r = round_mag q in if 2 ^ 1024 \<le> r then FInf s else FNum s r)"

subsection \<open>Arithmetic and comparison\<close>

fun sign_of :: "float64 \<Rightarrow> bool" where
  "sign_of FNaN = False"
| "sign_of (FInf s) = s"
| "sign_of (FNum s q) = s"

definition signed :: "bool \<Rightarrow> rat \<Rightarrow> rat" where
  "signed s q = (if s then - q else q)"

definition of_exact :: "bool \<Rightarrow> rat \<Rightarrow> float64" where
  "of_exact zero_sign v = (if v = 0 then FNum zero_sign 0 else mk_float (v < 0) \<bar>v\<bar>)"

fun fneg :: "float64 \<Rightarrow> float64" where
  "fneg FNaN = FNaN"
| "fneg (FInf s) = FInf (\<not> s)"
| "fneg (FNum s q) = FNum (\<not> s) q"

fun fadd :: "float64 \<Rightarrow> float64 \<Rightarrow> float64" where
  "fadd (FNum s p) (FNum t q) = of_exact (s \<and> t) (signed s p + signed t q)"
| "fadd (FInf s) (FNum t q) = FInf s"
| "fadd (FNum s p) (FInf t) = FInf t"
| "fadd (FInf s) (FInf t) = (if s = t then FInf s else FNaN)"
| "fadd _ _ = FNaN"

definition fsub :: "float64 \<Rightarrow> float64 \<Rightarrow> float64" where
  "fsub a b = fadd a (fneg b)"

fun fmul :: "float64 \<Rightarrow> float64 \<Rightarrow> float64" where
  "fmul (FNum s p) (FNum t q) = mk_float (s \<noteq> t) (p * q)"
| "fmul (FInf s) (FNum t q) = (if q = 0 then FNaN else FInf (s \<noteq> t))"
| "fmul (FNum s p) (FInf t) = (if p = 0 then FNaN else FInf (s \<noteq> t))"
| "fmul (FInf s) (FInf t) = FInf (s \<noteq> t)"
| "fmul _ _ = FNaN"

fun fdiv :: "float64 \<Rightarrow> float64 \<Rightarrow> float64" where
  "fdiv (FNum s p) (FNum t q) =
     (if q = 0 then (if p = 0 then FNaN else FInf (s \<noteq> t)) else mk_float (s \<noteq> t) (p / q))"
| "fdiv (FInf s) (FNum t q) = FInf (s \<noteq> t)"
| "fdiv (FNum s p) (FInf t) = FNum (s \<noteq> t) 0"
| "fdiv _ _ = FNaN"

text \<open>Comparisons with a NaN are false.\<close>

fun flt :: "float64 \<Rightarrow> float64 \<Rightarrow> bool" where
  "flt (FNum s p) (FNum t q) = (signed s p < signed t q)"
| "flt (FInf s) (FNum t q) = s"
| "flt (FNum s p) (FInf t) = (\<not> t)"
| "flt (FInf s) (FInf t) = (s \<and> \<not> t)"
| "flt _ _ = False"

fun feq :: "float64 \<Rightarrow> float64 \<Rightarrow> bool" where
  "feq (FNum s p) (FNum t q) = (signed s p = signed t q)"
| "feq (FInf s) (FInf t) = (s = t)"
| "feq _ _ = False"

definition fle :: "float64 \<Rightarrow> float64 \<Rightarrow> bool" where
  "fle a b = (flt a b \<or> feq a b)"

definition fzero :: float64 where
  "fzero = FNum False 0"

text \<open>\<open>float64 (x)\<close> of an integer.\<close>

definition of_goint :: "goint \<Rightarrow> float64" where
  "of_goint x = mk_float (x < 0) (of_int \<bar>x\<bar>)"

text \<open>
  \<open>int (f)\<close> truncates.  Outside the 64-bit range (and for NaN) Go leaves the value to the
  target's conversion instruction: the parameter \<open>oob\<close>.
\<close>

definition goint_of :: "(float64 \<Rightarrow> goint) \<Rightarrow> float64 \<Rightarrow> goint" where
  "goint_of oob f =
     (case f of
        FNum s q \<Rightarrow>
          (let t = (if s then - \<lfloor>q\<rfloor> else \<lfloor>q\<rfloor>) in if in_int64 t then t else oob f)
      | _ \<Rightarrow> oob f)"

subsection \<open>Formatting\<close>

definition pad_zeros :: "nat \<Rightarrow> string \<Rightarrow> string" where
  "pad_zeros n s = replicate (n - length s) (CHR ''0'') @ s"

text \<open>\<open>Sprintf ("%.<prec>f")\<close>.\<close>

fun fmt_fixed :: "nat \<Rightarrow> float64 \<Rightarrow> string" where
  "fmt_fixed prec FNaN = ''NaN''"
| "fmt_fixed prec (FInf s) = (if s then ''-Inf'' else ''+Inf'')"
| "fmt_fixed prec (FNum s q) =
     (let n = round_even (q * 10 ^ prec);
          ip = digits_of (n div 10 ^ prec);
          fp = (if prec = 0 then [] else ''.'' @ pad_zeros prec (digits_of (n mod 10 ^ prec)))
      in (if s then ''-'' else []) @ ip @ fp)"

subsection \<open>Parsing\<close>

text \<open>
  \<open>strconv.ParseFloat\<close>: the names of infinity and NaN in any case, then decimal and
  hexadecimal floating point literals, with underscores between digits.
\<close>

definition parse_special :: "string \<Rightarrow> float64 option" where
  "parse_special s =
     (let l = map lower_char s;
          neg = (l \<noteq> [] \<and> hd l = CHR ''-'');
          r = (if l \<noteq> [] \<and> (hd l = CHR ''-'' \<or> hd l = CHR ''+'') then tl l else l)
      in if r = ''inf'' \<or> r = ''infinity'' then Some (FInf neg)
         else if l = ''nan'' then Some FNaN else None)"

definition hex_val :: "char \<Rightarrow> int option" where
  "hex_val c =
     (if is_digit c then Some (digit_val c)
      else if 97 \<le> code (lower_char c) \<and> code (lower_char c) \<le> 102
      then Some (int (code (lower_char c)) - 87) else None)"

record mant_state =
  ms_mant :: int
  ms_frac :: nat
  ms_dot :: bool
  ms_digits :: bool

text \<open>The mantissa: digits of the base, one dot, underscores; it stops at any other byte.\<close>

fun scan_mant :: "bool \<Rightarrow> string \<Rightarrow> mant_state \<Rightarrow> mant_state \<times> string" where
  "scan_mant hex [] st = (st, [])"
| "scan_mant hex (c # cs) st =
     (if c = CHR ''_'' then scan_mant hex cs st
      else if c = CHR ''.'' then
        (if ms_dot st then (st, c # cs) else scan_mant hex cs (st\<lparr>ms_dot := True\<rparr>))
      else case (if hex then hex_val c else if is_digit c then Some (digit_val c) else None) of
             None \<Rightarrow> (st, c # cs)
           | Some d \<Rightarrow> scan_mant hex cs
               (st\<lparr>ms_mant := ms_mant st * (if hex then 16 else 10) + d,
                  ms_frac := (if ms_dot st then Suc (ms_frac st) else ms_frac st),
                  ms_digits := True\<rparr>))"

text \<open>The exponent's digits; beyond 10000 the value is not accumulated further.\<close>

fun scan_exp :: "string \<Rightarrow> int \<Rightarrow> int \<times> string" where
  "scan_exp [] e = (e, [])"
| "scan_exp (c # cs) e =
     (if c = CHR ''_'' then scan_exp cs e
      else if is_digit c then scan_exp cs (if e < 10000 then e * 10 + digit_val c else e)
      else (e, c # cs))"

text \<open>The rule for underscores: only between digits, where a base prefix counts as a digit.\<close>

fun underscore_loop :: "bool \<Rightarrow> char \<Rightarrow> string \<Rightarrow> bool" where
  "underscore_loop hex saw [] = (saw \<noteq> CHR ''_'')"
| "underscore_loop hex saw (c # cs) =
     (if is_digit c \<or> hex \<and> hex_val c \<noteq> None then underscore_loop hex (CHR ''0'') cs
      else if c = CHR ''_'' then saw = CHR ''0'' \<and> underscore_loop hex (CHR ''_'') cs
      else saw \<noteq> CHR ''_'' \<and> underscore_loop hex (CHR ''!'') cs)"

definition underscore_ok :: "string \<Rightarrow> bool" where
  "underscore_ok s0 =
     (let s = (if s0 \<noteq> [] \<and> (hd s0 = CHR ''-'' \<or> hd s0 = CHR ''+'') then tl s0 else s0);
          pre = (case s of a # b # _ \<Rightarrow> a = CHR ''0'' \<and> lower_char b \<in> set ''box'' | _ \<Rightarrow> False);
          hex = (pre \<and> lower_char (s ! 1) = CHR ''x'')
      in if pre then underscore_loop hex (CHR ''0'') (drop 2 s)
         else underscore_loop False (CHR ''^'') s)"

text \<open>The exact value of a literal, \<open>None\<close> for a text that is none.\<close>

definition read_float :: "string \<Rightarrow> (bool \<times> rat) option" where
  "read_float s =
     (let neg = (s \<noteq> [] \<and> hd s = CHR ''-'');
          s1 = (if s \<noteq> [] \<and> (hd s = CHR ''-'' \<or> hd s = CHR ''+'') then tl s else s);
          hex = (case s1 of a # b # _ # _ \<Rightarrow> a = CHR ''0'' \<and> lower_char b = CHR ''x'' | _ \<Rightarrow> False);
          (m, rest) = scan_mant hex (if hex then drop 2 s1 else s1)
             \<lparr>ms_mant = 0, ms_frac = 0, ms_dot = False, ms_digits = False\<rparr>;
          base = (rat_of_int (ms_mant m) / (if hex then 16 else 10) ^ ms_frac m);
          uok = (CHR ''_'' \<in> set s \<longrightarrow> underscore_ok s)
      in if \<not> ms_digits m then None
         else case rest of
             [] \<Rightarrow> if hex \<or> \<not> uok then None else Some (neg, base)
           | x # r1 \<Rightarrow>
               if lower_char x \<noteq> (if hex then CHR ''p'' else CHR ''e'') then None
               else let eneg = (r1 \<noteq> [] \<and> hd r1 = CHR ''-'');
                        r2 = (if r1 \<noteq> [] \<and> (hd r1 = CHR ''-'' \<or> hd r1 = CHR ''+'')
                              then tl r1 else r1)
                    in if r2 = [] \<or> \<not> is_digit (hd r2) then None
                       else case scan_exp r2 0 of
                              (e, tail) \<Rightarrow>
                                let p = (if hex then 2 else 10) ^ nat e
                                in if tail \<noteq> [] \<or> \<not> uok then None
                                   else Some (neg, if eneg then base / p else base * p))"

definition ParseFloat :: "string \<Rightarrow> float64 \<times> num_error option" where
  "ParseFloat s =
     (case parse_special s of
        Some f \<Rightarrow> (f, None)
      | None \<Rightarrow>
          (case read_float s of
             None \<Rightarrow> (fzero, Some ErrSyntax)
           | Some (neg, q) \<Rightarrow>
               (case mk_float neg q of
                  FInf t \<Rightarrow> (FInf t, Some ErrRange)
                | f \<Rightarrow> (f, None))))"

abbreviation ParseFloat0 :: "string \<Rightarrow> float64" where
  "ParseFloat0 s \<equiv> fst (ParseFloat s)"

subsection \<open>The rounding error: exactness and monotonicity\<close>

lemma ilog2_bounds: "0 < n \<Longrightarrow> 0 \<le> ilog2 n \<and> 2 ^ nat (ilog2 n) \<le> n \<and> n < 2 * 2 ^ nat (ilog2 n)"
proof (induction n rule: ilog2.induct)
  case (1 n)
  show ?case
  proof (cases "n \<le> 1")
    case True
    with "1.prems" show ?thesis by (simp add: ilog2.simps [of n])
  next
    case False
    with "1.IH" have IH: "0 \<le> ilog2 (n div 2)" "2 ^ nat (ilog2 (n div 2)) \<le> n div 2"
      "n div 2 < 2 * 2 ^ nat (ilog2 (n div 2))" by auto
    have "nat (ilog2 (n div 2) + 1) = Suc (nat (ilog2 (n div 2)))"
      using IH(1) by linarith
    with False IH show ?thesis by (simp add: ilog2.simps [of n]) linarith
  qed
qed

lemma powi_nat: "0 \<le> k \<Longrightarrow> (2 :: rat) powi k = 2 ^ nat k"
  by (simp add: power_int_def)

lemma ilog2_powi:
  assumes "0 < n"
  shows "2 powi ilog2 n \<le> (of_int n :: rat)" "(of_int n :: rat) < 2 powi (ilog2 n + 1)"
proof -
  have b: "0 \<le> ilog2 n" "2 ^ nat (ilog2 n) \<le> n" "n < 2 * 2 ^ nat (ilog2 n)"
    using ilog2_bounds [OF assms] by auto
  have p: "(2 :: rat) powi ilog2 n = of_int (2 ^ nat (ilog2 n))"
    using b(1) by (simp add: powi_nat)
  show "2 powi ilog2 n \<le> (of_int n :: rat)"
    using b(2) by (simp only: p of_int_le_iff)
  have "(2 :: rat) powi (ilog2 n + 1) = of_int (2 * 2 ^ nat (ilog2 n))"
    using b(1) by (simp add: powi_nat power_int_add)
  then show "(of_int n :: rat) < 2 powi (ilog2 n + 1)"
    using b(3) by (simp only: of_int_less_iff)
qed

lemma floor_log2_bounds:
  assumes "0 < q"
  shows "2 powi floor_log2 q \<le> q" and "q < 2 powi (floor_log2 q + 1)"
proof -
  obtain n d where nd: "quotient_of q = (n, d)" by (cases "quotient_of q")
  have q: "q = of_int n / of_int d" and d: "0 < d"
    using quotient_of_div [OF nd] quotient_of_denom_pos [OF nd] by auto
  with assms have n: "0 < n"
    by (metis divide_less_0_iff linorder_neqE_linordered_idom of_int_0 of_int_0_less_iff
        of_int_less_0_iff order_less_asym div_0)
  let ?k = "ilog2 n - ilog2 d"
  have low: "2 powi (?k - 1) \<le> q"
  proof -
    have "(2 :: rat) powi (?k - 1) = 2 powi ilog2 n / 2 powi (ilog2 d + 1)"
      by (simp add: power_int_diff power_int_add)
    also have "\<dots> \<le> of_int n / of_int d"
      using ilog2_powi [OF n] ilog2_powi [OF d] d n
      by (intro frac_le) auto
    finally show ?thesis by (simp add: q)
  qed
  have high: "q < 2 powi (?k + 1)"
  proof -
    have "of_int n / of_int d < 2 powi (ilog2 n + 1) / (2 powi ilog2 d :: rat)"
      using ilog2_powi [OF n] ilog2_powi [OF d] d n
      by (intro frac_less) auto
    also have "\<dots> = 2 powi (?k + 1)"
      by (simp add: power_int_diff power_int_add)
    finally show ?thesis by (simp add: q)
  qed
  have fl: "floor_log2 q = (if 2 powi ?k \<le> q then ?k else ?k - 1)"
    by (simp add: floor_log2_def nd Let_def)
  show "2 powi floor_log2 q \<le> q" using fl low by auto
  show "q < 2 powi (floor_log2 q + 1)" using fl high by auto
qed

lemma powi2_less_iff: "(2 :: rat) powi a < 2 powi b \<longleftrightarrow> a < b"
  by (metis linorder_not_less one_less_numeral_iff order_less_imp_le power_int_increasing
      power_int_strict_increasing semiring_norm(76))

lemma powi2_le_iff: "(2 :: rat) powi a \<le> 2 powi b \<longleftrightarrow> a \<le> b"
  by (metis linorder_not_le powi2_less_iff)

lemma floor_log2_unique:
  assumes "2 powi k \<le> q" and "q < 2 powi (k + 1)"
  shows "floor_log2 q = k"
proof -
  have q: "0 < q" using assms(1) zero_less_power_int [of "2 :: rat" k] by linarith
  have "2 powi k < (2 :: rat) powi (floor_log2 q + 1)"
    using floor_log2_bounds(2) [OF q] assms(1) by linarith
  moreover have "2 powi floor_log2 q < (2 :: rat) powi (k + 1)"
    using floor_log2_bounds(1) [OF q] assms(2) by linarith
  ultimately show ?thesis by (simp add: powi2_less_iff)
qed

lemma floor_log2_mono:
  assumes "0 < p" and "p \<le> q"
  shows "floor_log2 p \<le> floor_log2 q"
proof -
  have "2 powi floor_log2 p < (2 :: rat) powi (floor_log2 q + 1)"
    using floor_log2_bounds(1) [of p] floor_log2_bounds(2) [of q] assms by linarith
  then show ?thesis by (simp add: powi2_less_iff)
qed

lemma round_even_mono: "p \<le> q \<Longrightarrow> round_even p \<le> round_even q"
proof -
  assume le: "p \<le> q"
  then have fl: "\<lfloor>p\<rfloor> \<le> \<lfloor>q\<rfloor>" by (rule floor_mono)
  have near: "\<lfloor>x\<rfloor> \<le> round_even x \<and> round_even x \<le> \<lfloor>x\<rfloor> + 1" for x
    by (simp add: round_even_def Let_def)
  show ?thesis
  proof (cases "\<lfloor>p\<rfloor> = \<lfloor>q\<rfloor>")
    case True
    with le show ?thesis by (auto simp: round_even_def Let_def)
  next
    case False
    with fl have "\<lfloor>p\<rfloor> + 1 \<le> \<lfloor>q\<rfloor>" by simp
    with near [of p] near [of q] show ?thesis by linarith
  qed
qed

lemma round_even_of_int [simp]: "round_even (of_int n) = n"
  by (simp add: round_even_def Let_def)

lemma powi2_pos [simp]: "0 < (2 :: rat) powi k"
  by (simp add: zero_less_power_int)

lemma scaled_mono: "p \<le> q \<Longrightarrow> p / 2 powi e \<le> q / (2 :: rat) powi e"
  by (simp add: divide_right_mono)

lemma round_even_ge: "of_int k \<le> x \<Longrightarrow> k \<le> round_even x"
  using round_even_mono [of "of_int k" x] by simp

lemma round_even_le: "x \<le> of_int k \<Longrightarrow> round_even x \<le> k"
  using round_even_mono [of x "of_int k"] by simp

lemma of_int_le_pow2: "k \<le> 2 ^ n \<Longrightarrow> (of_int k :: rat) \<le> 2 ^ n"
  by (metis of_int_le_iff of_int_numeral of_int_power)

lemma pow2_le_of_int: "2 ^ n \<le> k \<Longrightarrow> 2 ^ n \<le> (of_int k :: rat)"
  by (metis of_int_le_iff of_int_numeral of_int_power)

lemma round_mag_mono:
  assumes "0 < p" and "p \<le> q"
  shows "round_mag p \<le> round_mag q"
proof -
  have q: "0 < q" using assms by linarith
  have le: "round_exp p \<le> round_exp q"
    using floor_log2_mono [OF assms] by (simp add: round_exp_def)
  show ?thesis
  proof (cases "round_exp p = round_exp q")
    case True
    then show ?thesis
      using round_even_mono [OF scaled_mono [OF assms(2), of "round_exp q"]]
      by (simp add: round_mag_def)
  next
    case False
    with le have lt: "round_exp p < round_exp q" by simp
    then have eq: "round_exp q = floor_log2 q - 52" by (auto simp: round_exp_def)
    have "(2 :: rat) powi 52 \<le> q / 2 powi round_exp q"
      using floor_log2_bounds(1) [OF q] by (simp add: eq power_int_diff field_simps)
    then have hi: "2 ^ 52 \<le> round_even (q / 2 powi round_exp q)"
      by (intro round_even_ge) (simp add: powi_nat)
    have ep: "floor_log2 p + 1 \<le> round_exp p + 53" by (simp add: round_exp_def)
    have "p < 2 powi (floor_log2 p + 1)" by (rule floor_log2_bounds(2) [OF assms(1)])
    also have "\<dots> \<le> 2 powi (round_exp p + 53)" using ep by (simp add: powi2_le_iff)
    finally have "p / 2 powi round_exp p \<le> 2 powi 53"
      by (simp add: power_int_add field_simps)
    then have lo: "round_even (p / 2 powi round_exp p) \<le> 2 ^ 53"
      by (intro round_even_le) (simp add: powi_nat)
    have "round_mag p \<le> 2 ^ 53 * 2 powi round_exp p"
      unfolding round_mag_def
      by (intro mult_right_mono of_int_le_pow2 lo) simp
    also have "\<dots> = 2 powi (round_exp p + 53)" by (simp add: power_int_add powi_nat)
    also have "\<dots> \<le> 2 powi (round_exp q + 52)" using lt by (simp add: powi2_le_iff)
    also have "\<dots> = 2 ^ 52 * 2 powi round_exp q" by (simp add: power_int_add powi_nat)
    also have "\<dots> \<le> round_mag q"
      unfolding round_mag_def
      by (intro mult_right_mono pow2_le_of_int hi) simp
    finally show ?thesis .
  qed
qed

text \<open>Integers below \<open>2 ^ 53\<close> are exact.\<close>

lemma round_mag_of_int:
  assumes "0 < n" and "n < 2 ^ 53"
  shows "round_mag (of_int n) = of_int n"
proof -
  let ?q = "of_int n :: rat"
  have "?q < of_int (2 ^ 53)" using assms(2) by (simp only: of_int_less_iff)
  then have q: "0 < ?q" "1 \<le> ?q" "?q < 2 powi 53"
    using assms(1) by (simp_all add: powi_nat)
  have "floor_log2 ?q < 53"
    using floor_log2_bounds(1) [OF q(1)] q(3) powi2_less_iff [of "floor_log2 ?q" 53] by linarith
  moreover have "0 \<le> floor_log2 ?q"
    using floor_log2_bounds(2) [OF q(1)] q(2) powi2_less_iff [of 0 "floor_log2 ?q + 1"] by simp
  ultimately have e: "round_exp ?q = floor_log2 ?q - 52" "round_exp ?q \<le> 0"
    by (simp_all add: round_exp_def)
  have "?q / 2 powi round_exp ?q = of_int (n * 2 ^ nat (- round_exp ?q))"
    using e(2) by (simp add: power_int_def field_simps)
  then have "round_even (?q / 2 powi round_exp ?q) = n * 2 ^ nat (- round_exp ?q)"
    by (simp only: round_even_of_int)
  moreover have "(2 :: rat) ^ nat (- round_exp ?q) * 2 powi round_exp ?q = 1"
    using e(2) by (simp add: power_int_def field_simps)
  ultimately show ?thesis by (simp add: round_mag_def)
qed

lemma round_mag_nonneg: "0 < q \<Longrightarrow> 0 \<le> round_mag q"
proof -
  assume "0 < q"
  then have "0 \<le> round_even (q / 2 powi round_exp q)"
    by (intro round_even_ge) simp
  then show ?thesis by (simp add: round_mag_def)
qed

lemma mk_float_of_int:
  assumes "0 \<le> n" and "n < 2 ^ 53"
  shows "mk_float s (of_int n) = FNum s (of_int n)"
proof (cases "n = 0")
  case True
  then show ?thesis by (simp add: mk_float_def)
next
  case False
  with assms have n: "0 < n" by simp
  have "(of_int n :: rat) < of_int (2 ^ 53)" using assms(2) by (simp only: of_int_less_iff)
  then have "\<not> 2 ^ 1024 \<le> (of_int n :: rat)" by simp
  with n show ?thesis
    using round_mag_of_int [OF n assms(2)] by (simp add: mk_float_def)
qed

lemma of_goint_small: "\<bar>x\<bar> < 2 ^ 53 \<Longrightarrow> of_goint x = FNum (x < 0) (of_int \<bar>x\<bar>)"
  unfolding of_goint_def by (rule mk_float_of_int) simp_all

text \<open>
  A value between 0 and an exact integer bound rounds to a finite value between the same bounds.
\<close>

lemma mk_float_between:
  assumes "0 \<le> q" and "q \<le> of_int n" and "n < 2 ^ 53"
  obtains r where "mk_float s q = FNum s r" and "0 \<le> r" and "r \<le> of_int n"
proof (cases "q = 0")
  case True
  with assms that [of 0] show ?thesis by (simp add: mk_float_def)
next
  case False
  with assms have q: "0 < q" by simp
  with assms(2) have "0 < (of_int n :: rat)" by linarith
  then have n: "0 < n" by simp
  have le: "round_mag q \<le> of_int n"
    using round_mag_mono [OF q assms(2)] round_mag_of_int [OF n assms(3)] by simp
  have "(of_int n :: rat) < of_int (2 ^ 53)" using assms(3) by (simp only: of_int_less_iff)
  with le have "\<not> 2 ^ 1024 \<le> round_mag q" by simp
  with q that [of "round_mag q"] le round_mag_nonneg [OF q] show ?thesis
    by (simp add: mk_float_def)
qed

end
