(* ===== verification/Inspect_Model.thy ===== *)
theory Inspect_Model
  imports Go_Float
begin

text \<open>
  The data of an inspection (src/model/types.go): one record per struct, the fields in the
  source's order with a prefix per struct, and the zero value Go gives an uninitialised struct.
  A pointer is an option, a slice a list (a nil slice is the empty list).  The status of a check
  is one of the four constants of the source or unset: the source writes the empty string where
  a render status is not set, and nothing else ever sets one.  \<open>ir_Services\<close> is Go's map from
  modules to statuses as a list of entries with distinct keys, in the order an iteration over
  the map visits them, which Go leaves open.
\<close>

datatype CheckStatus = StatusOK | StatusWarn | StatusUnknown | StatusNotice | StatusUnset

record DiskUsage =
  du_MountPoint :: string
  du_FsType :: string
  du_Usage :: string
  du_UsageFloat :: float64

definition DiskUsage_zero :: DiskUsage where
  "DiskUsage_zero =
     \<lparr>du_MountPoint = [], du_FsType = [], du_Usage = [], du_UsageFloat = fzero\<rparr>"

record NetworkStats =
  ns_CloseWait :: goint
  ns_Established :: goint
  ns_Listen :: goint
  ns_TimeWait :: goint

definition NetworkStats_zero :: NetworkStats where
  "NetworkStats_zero =
     \<lparr>ns_CloseWait = 0, ns_Established = 0, ns_Listen = 0, ns_TimeWait = 0\<rparr>"

record HostMetrics =
  hm_IP :: string
  hm_CPUUsage :: float64
  hm_MemUsage :: float64
  hm_LoadAvg1 :: float64
  hm_LoadAvg5 :: float64
  hm_LoadAvg15 :: float64
  hm_SwapUsage :: float64
  hm_DiskUsage :: "DiskUsage list"
  hm_InodeUsage :: "DiskUsage list"
  hm_MaxOpenFiles :: goint
  hm_ProcessTotal :: goint
  hm_Ntpd :: string
  hm_Chronyd :: string
  hm_SELinux :: string
  hm_Firewalld :: string
  hm_Proxy :: goint
  hm_Iptables :: string
  hm_Network :: NetworkStats
  hm_RunDays :: goint
  hm_Version :: string
  hm_Kernel :: string
  hm_Memory :: float64
  hm_Swap :: float64
  hm_Core :: goint
  hm_Manufacturer :: string
  hm_Product :: string
  hm_Serial :: string
  hm_Error :: string

definition HostMetrics_zero :: HostMetrics where
  "HostMetrics_zero =
     \<lparr>hm_IP = [], hm_CPUUsage = fzero, hm_MemUsage = fzero, hm_LoadAvg1 = fzero,
      hm_LoadAvg5 = fzero, hm_LoadAvg15 = fzero, hm_SwapUsage = fzero, hm_DiskUsage = [],
      hm_InodeUsage = [], hm_MaxOpenFiles = 0, hm_ProcessTotal = 0, hm_Ntpd = [],
      hm_Chronyd = [], hm_SELinux = [], hm_Firewalld = [], hm_Proxy = 0, hm_Iptables = [],
      hm_Network = NetworkStats_zero, hm_RunDays = 0, hm_Version = [], hm_Kernel = [],
      hm_Memory = fzero, hm_Swap = fzero, hm_Core = 0, hm_Manufacturer = [], hm_Product = [],
      hm_Serial = [], hm_Error = []\<rparr>"

record ServiceModule =
  sm_Module :: string
  sm_Status :: string
  sm_Resolved :: string
  sm_HealthzAPI :: string
  sm_MainPID :: goint
  sm_StartTime :: string
  sm_Workers :: goint
  sm_RenderStatus :: CheckStatus
  sm_HealthzRenderStatus :: CheckStatus

definition ServiceModule_zero :: ServiceModule where
  "ServiceModule_zero =
     \<lparr>sm_Module = [], sm_Status = [], sm_Resolved = [], sm_HealthzAPI = [],
      sm_MainPID = 0, sm_StartTime = [], sm_Workers = 0, sm_RenderStatus = StatusUnset,
      sm_HealthzRenderStatus = StatusUnset\<rparr>"

record ServiceStatus =
  ss_HostIP :: string
  ss_Module :: string
  ss_Services :: "ServiceModule list"
  ss_ContainersUp :: goint
  ss_ContainersExited :: goint
  ss_ExitedRenderStatus :: CheckStatus
  ss_Error :: string

definition ServiceStatus_zero :: ServiceStatus where
  "ServiceStatus_zero =
     \<lparr>ss_HostIP = [], ss_Module = [], ss_Services = [], ss_ContainersUp = 0,
      ss_ContainersExited = 0, ss_ExitedRenderStatus = StatusUnset, ss_Error = []\<rparr>"

record ESNode =
  en_IP :: string
  en_HeapPercent :: goint
  en_RAMPercent :: goint
  en_CPU :: goint
  en_Load1m :: float64
  en_Load5m :: float64
  en_Load15m :: float64
  en_Role :: string
  en_HeapStatus :: CheckStatus
  en_RAMStatus :: CheckStatus

definition ESNode_zero :: ESNode where
  "ESNode_zero =
     \<lparr>en_IP = [], en_HeapPercent = 0, en_RAMPercent = 0, en_CPU = 0, en_Load1m = fzero,
      en_Load5m = fzero, en_Load15m = fzero, en_Role = [], en_HeapStatus = StatusUnset,
      en_RAMStatus = StatusUnset\<rparr>"

record ESNodeReach =
  er_IP :: string
  er_Status :: string
  er_Detail :: string
  er_RenderStatus :: CheckStatus

definition ESNodeReach_zero :: ESNodeReach where
  "ESNodeReach_zero =
     \<lparr>er_IP = [], er_Status = [], er_Detail = [],
      er_RenderStatus = StatusUnset\<rparr>"

record ESCluster =
  ec_Instance :: string
  ec_ClusterName :: string
  ec_Status :: string
  ec_NumberOfNodes :: goint
  ec_NumberOfDataNodes :: goint
  ec_ActivePrimaryShards :: goint
  ec_ActiveShards :: goint
  ec_UnassignedShards :: goint
  ec_PendingTasks :: goint
  ec_ActiveShardsPercent :: float64
  ec_Nodes :: "ESNode list"
  ec_NodeReachability :: "ESNodeReach list"
  ec_Error :: string
  ec_ErrorClass :: string
  ec_HealthStatus :: CheckStatus
  ec_UnassignedStatus :: CheckStatus
  ec_PendingStatus :: CheckStatus

definition ESCluster_zero :: ESCluster where
  "ESCluster_zero =
     \<lparr>ec_Instance = [], ec_ClusterName = [], ec_Status = [], ec_NumberOfNodes = 0,
      ec_NumberOfDataNodes = 0, ec_ActivePrimaryShards = 0, ec_ActiveShards = 0,
      ec_UnassignedShards = 0, ec_PendingTasks = 0, ec_ActiveShardsPercent = fzero,
      ec_Nodes = [], ec_NodeReachability = [], ec_Error = [], ec_ErrorClass = [],
      ec_HealthStatus = StatusUnset, ec_UnassignedStatus = StatusUnset,
      ec_PendingStatus = StatusUnset\<rparr>"

record MySQLNode =
  mn_IP :: string
  mn_Version :: string
  mn_MaxConnections :: goint
  mn_ExpireLogsDays :: goint
  mn_MaxAllowedPacket :: goint
  mn_Role :: string
  mn_BinlogCount :: goint
  mn_SlaveIOState :: string
  mn_SlaveSQLState :: string
  mn_SlowQueryLog :: string
  mn_CharacterSet :: string
  mn_BufferPoolSize :: goint
  mn_BufferPoolInstances :: goint
  mn_InnodbIOCapacity :: goint
  mn_InnodbReadIOThreads :: goint
  mn_InnodbWriteIOThreads :: goint
  mn_InteractiveTimeout :: goint
  mn_TableOpenCache :: goint
  mn_WaitTimeout :: goint
  mn_Error :: string
  mn_ErrorClass :: string

definition MySQLNode_zero :: MySQLNode where
  "MySQLNode_zero =
     \<lparr>mn_IP = [], mn_Version = [], mn_MaxConnections = 0, mn_ExpireLogsDays = 0,
      mn_MaxAllowedPacket = 0, mn_Role = [], mn_BinlogCount = 0, mn_SlaveIOState = [],
      mn_SlaveSQLState = [], mn_SlowQueryLog = [], mn_CharacterSet = [],
      mn_BufferPoolSize = 0, mn_BufferPoolInstances = 0, mn_InnodbIOCapacity = 0,
      mn_InnodbReadIOThreads = 0, mn_InnodbWriteIOThreads = 0, mn_InteractiveTimeout = 0,
      mn_TableOpenCache = 0, mn_WaitTimeout = 0, mn_Error = [], mn_ErrorClass = []\<rparr>"

record MySQLCluster =
  mc_Instance :: string
  mc_Nodes :: "MySQLNode list"
  mc_Error :: string

definition MySQLCluster_zero :: MySQLCluster where
  "MySQLCluster_zero =
     \<lparr>mc_Instance = [], mc_Nodes = [], mc_Error = []\<rparr>"

record MySQLReplicationStatus =
  mr_IORunning :: string
  mr_SQLRunning :: string
  mr_SecondsBehindMaster :: goint
  mr_LastIOError :: string
  mr_LastSQLError :: string
  mr_MasterHost :: string
  mr_Status :: string

definition MySQLReplicationStatus_zero :: MySQLReplicationStatus where
  "MySQLReplicationStatus_zero =
     \<lparr>mr_IORunning = [], mr_SQLRunning = [], mr_SecondsBehindMaster = 0,
      mr_LastIOError = [], mr_LastSQLError = [], mr_MasterHost = [], mr_Status = []\<rparr>"

record MySQLMasterStatus =
  mm_IP :: string
  mm_ReadOnly :: bool
  mm_Status :: string
  mm_Error :: string
  mm_ErrorClass :: string

definition MySQLMasterStatus_zero :: MySQLMasterStatus where
  "MySQLMasterStatus_zero =
     \<lparr>mm_IP = [], mm_ReadOnly = False, mm_Status = [], mm_Error = [],
      mm_ErrorClass = []\<rparr>"

record MySQLSlaveStatus =
  ms_IP :: string
  ms_Replication :: "MySQLReplicationStatus option"
  ms_Error :: string
  ms_ErrorClass :: string

definition MySQLSlaveStatus_zero :: MySQLSlaveStatus where
  "MySQLSlaveStatus_zero =
     \<lparr>ms_IP = [], ms_Replication = None, ms_Error = [], ms_ErrorClass = []\<rparr>"

record RedisReplicationStatus =
  rr_IP :: string
  rr_Role :: string
  rr_MasterHost :: string
  rr_MasterPort :: goint
  rr_MasterLinkStatus :: string
  rr_MasterLastIOSeconds :: goint
  rr_MasterSyncInProgress :: bool
  rr_ConnectedSlaves :: goint
  rr_RoleConsistencyStatus :: string
  rr_LinkStatus :: string
  rr_Error :: string
  rr_ErrorClass :: string

definition RedisReplicationStatus_zero :: RedisReplicationStatus where
  "RedisReplicationStatus_zero =
     \<lparr>rr_IP = [], rr_Role = [], rr_MasterHost = [], rr_MasterPort = 0,
      rr_MasterLinkStatus = [], rr_MasterLastIOSeconds = 0, rr_MasterSyncInProgress = False,
      rr_ConnectedSlaves = 0, rr_RoleConsistencyStatus = [], rr_LinkStatus = [],
      rr_Error = [], rr_ErrorClass = []\<rparr>"

record ReplicationReport =
  rp_MySQLMasters :: "MySQLMasterStatus list"
  rp_MySQLSlaves :: "MySQLSlaveStatus list"
  rp_RedisNodes :: "RedisReplicationStatus list"

definition ReplicationReport_zero :: ReplicationReport where
  "ReplicationReport_zero =
     \<lparr>rp_MySQLMasters = [], rp_MySQLSlaves = [], rp_RedisNodes = []\<rparr>"

record RedisNode =
  rn_IP :: string
  rn_Role :: string
  rn_ClusterEnabled :: string
  rn_Version :: string
  rn_UsedMemory :: string
  rn_MaxMemory :: string
  rn_UptimeDays :: string
  rn_ConnectedClients :: string
  rn_BlockedClients :: string
  rn_CeleryQueue :: goint
  rn_MonitorQueue :: goint
  rn_Error :: string
  rn_ErrorClass :: string
  rn_CeleryQueueStatus :: CheckStatus
  rn_MonitorQueueStatus :: CheckStatus
  rn_ErrorStatus :: CheckStatus

definition RedisNode_zero :: RedisNode where
  "RedisNode_zero =
     \<lparr>rn_IP = [], rn_Role = [], rn_ClusterEnabled = [], rn_Version = [],
      rn_UsedMemory = [], rn_MaxMemory = [], rn_UptimeDays = [], rn_ConnectedClients = [],
      rn_BlockedClients = [], rn_CeleryQueue = 0, rn_MonitorQueue = 0, rn_Error = [],
      rn_ErrorClass = [], rn_CeleryQueueStatus = StatusUnset,
      rn_MonitorQueueStatus = StatusUnset, rn_ErrorStatus = StatusUnset\<rparr>"

record RedisCluster =
  rc_Instance :: string
  rc_Nodes :: "RedisNode list"
  rc_Error :: string

definition RedisCluster_zero :: RedisCluster where
  "RedisCluster_zero =
     \<lparr>rc_Instance = [], rc_Nodes = [], rc_Error = []\<rparr>"

record SentinelNodeStatus =
  sn_IP :: string
  sn_Port :: string
  sn_Reachable :: bool
  sn_Error :: string
  sn_ErrorClass :: string
  sn_RenderStatus :: CheckStatus

definition SentinelNodeStatus_zero :: SentinelNodeStatus where
  "SentinelNodeStatus_zero =
     \<lparr>sn_IP = [], sn_Port = [], sn_Reachable = False, sn_Error = [],
      sn_ErrorClass = [], sn_RenderStatus = StatusUnset\<rparr>"

record SentinelClusterStatus =
  sc_MasterName :: string
  sc_Sentinels :: "SentinelNodeStatus list"
  sc_DiscoveredMaster :: string
  sc_MasterReachable :: bool
  sc_Status :: string
  sc_MasterEnvMatch :: string
  sc_Error :: string
  sc_ErrorClass :: string
  sc_MasterReachableStatus :: CheckStatus
  sc_MasterEnvMatchStatus :: CheckStatus
  sc_OverallStatus :: CheckStatus

definition SentinelClusterStatus_zero :: SentinelClusterStatus where
  "SentinelClusterStatus_zero =
     \<lparr>sc_MasterName = [], sc_Sentinels = [], sc_DiscoveredMaster = [],
      sc_MasterReachable = False, sc_Status = [], sc_MasterEnvMatch = [], sc_Error = [],
      sc_ErrorClass = [], sc_MasterReachableStatus = StatusUnset,
      sc_MasterEnvMatchStatus = StatusUnset, sc_OverallStatus = StatusUnset\<rparr>"

record MongoMember =
  gm_Name :: string
  gm_Health :: goint
  gm_StateStr :: string
  gm_Uptime :: goint
  gm_SyncingTo :: string
  gm_SyncSourceHost :: string
  gm_HealthStatus :: CheckStatus

definition MongoMember_zero :: MongoMember where
  "MongoMember_zero =
     \<lparr>gm_Name = [], gm_Health = 0, gm_StateStr = [], gm_Uptime = 0, gm_SyncingTo = [],
      gm_SyncSourceHost = [], gm_HealthStatus = StatusUnset\<rparr>"

record MongoCluster =
  gc_Instance :: string
  gc_Members :: "MongoMember list"
  gc_Error :: string
  gc_ErrorClass :: string

definition MongoCluster_zero :: MongoCluster where
  "MongoCluster_zero =
     \<lparr>gc_Instance = [], gc_Members = [], gc_Error = [], gc_ErrorClass = []\<rparr>"

record RabbitMQAlarm =
  ra_Node :: string
  ra_MemAlarm :: bool
  ra_DiskFreeAlarm :: bool
  ra_MemStatus :: CheckStatus
  ra_DiskFreeStatus :: CheckStatus

definition RabbitMQAlarm_zero :: RabbitMQAlarm where
  "RabbitMQAlarm_zero =
     \<lparr>ra_Node = [], ra_MemAlarm = False, ra_DiskFreeAlarm = False,
      ra_MemStatus = StatusUnset, ra_DiskFreeStatus = StatusUnset\<rparr>"

record RabbitMQQueue =
  rq_VHost :: string
  rq_Queue :: string
  rq_MessageCount :: goint
  rq_Consumers :: goint
  rq_Durable :: bool
  rq_MessageStatus :: CheckStatus
  rq_ConsumerStatus :: CheckStatus

definition RabbitMQQueue_zero :: RabbitMQQueue where
  "RabbitMQQueue_zero =
     \<lparr>rq_VHost = [], rq_Queue = [], rq_MessageCount = 0, rq_Consumers = 0,
      rq_Durable = False, rq_MessageStatus = StatusUnset,
      rq_ConsumerStatus = StatusUnset\<rparr>"

record RabbitMQVHostSummary =
  rv_VHost :: string
  rv_Queues :: goint
  rv_Messages :: goint
  rv_Consumers :: goint

definition RabbitMQVHostSummary_zero :: RabbitMQVHostSummary where
  "RabbitMQVHostSummary_zero =
     \<lparr>rv_VHost = [], rv_Queues = 0, rv_Messages = 0, rv_Consumers = 0\<rparr>"

record RabbitMQStatus =
  rs_ClusterPartition :: bool
  rs_Uptime :: string
  rs_TotalConnections :: goint
  rs_AbnormalConnections :: goint
  rs_TotalChannels :: goint
  rs_NodeAlarms :: "RabbitMQAlarm list"
  rs_VHostSummary :: "RabbitMQVHostSummary list"
  rs_ExceedingQueues :: "RabbitMQQueue list"
  rs_NoConsumerQueues :: "RabbitMQQueue list"
  rs_QueuesError :: string
  rs_Error :: string
  rs_ErrorClass :: string
  rs_PartitionStatus :: CheckStatus
  rs_AbnormalConnStatus :: CheckStatus

definition RabbitMQStatus_zero :: RabbitMQStatus where
  "RabbitMQStatus_zero =
     \<lparr>rs_ClusterPartition = False, rs_Uptime = [], rs_TotalConnections = 0,
      rs_AbnormalConnections = 0, rs_TotalChannels = 0, rs_NodeAlarms = [],
      rs_VHostSummary = [], rs_ExceedingQueues = [], rs_NoConsumerQueues = [],
      rs_QueuesError = [], rs_Error = [], rs_ErrorClass = [],
      rs_PartitionStatus = StatusUnset, rs_AbnormalConnStatus = StatusUnset\<rparr>"

record CheckResult =
  cr_Field :: string
  cr_Value :: string
  cr_Status :: CheckStatus
  cr_Threshold :: string

definition CheckResult_zero :: CheckResult where
  "CheckResult_zero =
     \<lparr>cr_Field = [], cr_Value = [], cr_Status = StatusUnset, cr_Threshold = []\<rparr>"

record CheckSummary =
  cs_Total :: goint
  cs_OK :: goint
  cs_Warn :: goint
  cs_Unknown :: goint

definition CheckSummary_zero :: CheckSummary where
  "CheckSummary_zero =
     \<lparr>cs_Total = 0, cs_OK = 0, cs_Warn = 0, cs_Unknown = 0\<rparr>"

record HostCheckResult =
  hc_Metrics :: HostMetrics
  hc_Checks :: "CheckResult list"

definition HostCheckResult_zero :: HostCheckResult where
  "HostCheckResult_zero =
     \<lparr>hc_Metrics = HostMetrics_zero, hc_Checks = []\<rparr>"

record DependencyResult =
  dr_Item :: string
  dr_Endpoint :: string
  dr_Status :: string
  dr_Detail :: string
  dr_RenderStatus :: CheckStatus

definition DependencyResult_zero :: DependencyResult where
  "DependencyResult_zero =
     \<lparr>dr_Item = [], dr_Endpoint = [], dr_Status = [], dr_Detail = [],
      dr_RenderStatus = StatusUnset\<rparr>"

record BKMonitorV3Section =
  bs_Dependencies :: "DependencyResult list"

definition BKMonitorV3Section_zero :: BKMonitorV3Section where
  "BKMonitorV3Section_zero =
     \<lparr>bs_Dependencies = []\<rparr>"

record InspectReport =
  ir_Timestamp :: string
  ir_Hosts :: "HostCheckResult list"
  ir_Services :: "(string \<times> ServiceStatus list) list"
  ir_ES :: "ESCluster list"
  ir_MySQL :: "MySQLCluster list"
  ir_RedisStandalone :: "RedisNode list"
  ir_RedisSentinel :: "SentinelClusterStatus option"
  ir_MongoDB :: "MongoCluster list"
  ir_RabbitMQ :: "RabbitMQStatus option"
  ir_Replication :: "ReplicationReport option"
  ir_BKMonitorV3 :: "BKMonitorV3Section option"
  ir_Summary :: CheckSummary
  ir_AllChecks :: "CheckResult list"

definition InspectReport_zero :: InspectReport where
  "InspectReport_zero =
     \<lparr>ir_Timestamp = [], ir_Hosts = [], ir_Services = [], ir_ES = [], ir_MySQL = [],
      ir_RedisStandalone = [], ir_RedisSentinel = None, ir_MongoDB = [], ir_RabbitMQ = None,
      ir_Replication = None, ir_BKMonitorV3 = None, ir_Summary = CheckSummary_zero,
      ir_AllChecks = []\<rparr>"

end
