(* ===== verification/Config_Load.thy ===== *)
theory Config_Load
  imports Inspect_Model
begin

text \<open>
  The configuration (src/config/config.go): the records it fills, and \<open>Load\<close>, which reads the
  environment.  The environment is a map from variable names to values.  A parse failure of a
  threshold aborts the load with the variable and its value; \<open>Validate\<close> refuses a configuration
  without hosts.
\<close>

subsection \<open>The records\<close>

record ModuleHosts =
  mh_Module :: string
  mh_IPs :: "string list"

record BKMonitorV3DepConfig =
  bd_RedisHost :: string
  bd_RedisPort :: string
  bd_RedisPassword :: string
  bd_MySQLHost :: string
  bd_MySQLPort :: string
  bd_MySQLUser :: string
  bd_MySQLPassword :: string
  bd_RabbitMQHost :: string
  bd_RabbitMQPort :: string
  bd_RabbitMQUser :: string
  bd_RabbitMQPassword :: string
  bd_RabbitMQVHost :: string
  bd_ZKHost :: string
  bd_ZKPort :: string
  bd_ES7Host :: string
  bd_ES7RestPort :: string
  bd_ES7User :: string
  bd_ES7Password :: string
  bd_InfluxDBHost :: string
  bd_InfluxDBPort :: string

record Credentials =
  cd_MySQLUser :: string
  cd_MySQLPassword :: string
  cd_RedisPassword :: string
  cd_MongoDBUser :: string
  cd_MongoDBPassword :: string
  cd_ES7Password :: string
  cd_RabbitMQUser :: string
  cd_RabbitMQPassword :: string

record Thresholds =
  th_CPUUsage :: float64
  th_DiskUsage :: float64
  th_InodeUsage :: float64
  th_MemUsage :: float64
  th_MaxOpenFiles :: goint
  th_MySQLReplLagSec :: goint
  th_RedisReplIOSec :: goint
  th_RabbitMQQueueBacklog :: goint
  th_RabbitMQNoConsumerVHostBlacklist :: "string list"
  th_ESHeapPercent :: goint
  th_ESRAMPercent :: goint
  th_ESUnassignedShards :: goint
  th_RedisCeleryQueue :: goint
  th_RedisMonitorQueue :: goint
  th_ServiceContainersExited :: goint

record Config =
  cf_PaaSIPs :: "string list"
  cf_CMDBIPs :: "string list"
  cf_JobIPs :: "string list"
  cf_GSEIPs :: "string list"
  cf_APPOIPs :: "string list"
  cf_APPTIPs :: "string list"
  cf_IAMIPs :: "string list"
  cf_UserMgrIPs :: "string list"
  cf_NodeManIPs :: "string list"
  cf_MonitorV3IPs :: "string list"
  cf_MonitorV3MonitorIPs :: "string list"
  cf_MonitorV3InfluxDBProxyIPs :: "string list"
  cf_MonitorV3TransferIPs :: "string list"
  cf_MonitorV3UnifyQueryIPs :: "string list"
  cf_ES7IPs :: "string list"
  cf_MySQLIPs :: "string list"
  cf_MySQLMasterIPs :: "string list"
  cf_MySQLSlaveIPs :: "string list"
  cf_MySQLPort :: string
  cf_RedisIPs :: "string list"
  cf_RedisMasterIPs :: "string list"
  cf_RedisSlaveIPs :: "string list"
  cf_RedisSentinelIPs :: "string list"
  cf_RedisPort :: string
  cf_MongoDBIPs :: "string list"
  cf_MongoDBPort :: string
  cf_MongoRSName :: string
  cf_RabbitMQIPs :: "string list"
  cf_BKMonitorV3 :: BKMonitorV3DepConfig
  cf_AllHosts :: "string list"
  cf_Creds :: Credentials
  cf_Thresholds :: Thresholds
  cf_SSHUser :: string
  cf_SSHPort :: goint
  cf_SSHKeyPath :: string
  cf_SSHUseSudo :: bool
  cf_SSHTimeout :: goint
  cf_RabbitMQAPITimeoutSec :: goint
  cf_OutputDir :: string
  cf_CheckMountPath :: string
  cf_DiskIncludeNFS :: bool

datatype config_error = InvalidFloat string string | InvalidInt string string | NoHosts

type_synonym environment = "string \<Rightarrow> string option"

subsection \<open>Reading variables\<close>

definition Getenv :: "environment \<Rightarrow> string \<Rightarrow> string" where
  "Getenv env key = (case env key of None \<Rightarrow> [] | Some v \<Rightarrow> v)"

definition parseIPList :: "string \<Rightarrow> string list" where
  "parseIPList val =
     (if val = [] then []
      else concat (map (\<lambda>p. let p = TrimSpace p in if p \<noteq> [] then [p] else []) (Split val '','')))"

fun firstNonEmpty :: "string list \<Rightarrow> string" where
  "firstNonEmpty [] = []"
| "firstNonEmpty (v # vals) = (if v \<noteq> [] then v else firstNonEmpty vals)"

definition envOrDefault :: "environment \<Rightarrow> string \<Rightarrow> string \<Rightarrow> string" where
  "envOrDefault env key defaultVal = (let v = Getenv env key in if v \<noteq> [] then v else defaultVal)"

definition parseFloatEnv :: "environment \<Rightarrow> string \<Rightarrow> float64 \<Rightarrow> config_error + float64" where
  "parseFloatEnv env key def =
     (let v = Getenv env key
      in if v = [] then Inr def
         else case ParseFloat v of
                (f, None) \<Rightarrow> Inr f
              | (_, Some _) \<Rightarrow> Inl (InvalidFloat key v))"

definition parseIntEnv :: "environment \<Rightarrow> string \<Rightarrow> goint \<Rightarrow> config_error + goint" where
  "parseIntEnv env key def =
     (let v = Getenv env key
      in if v = [] then Inr def
         else case Atoi v of
                (n, None) \<Rightarrow> Inr n
              | (_, Some _) \<Rightarrow> Inl (InvalidInt key v))"

definition blacklist_key :: string where
  "blacklist_key = ''INSPECT_RABBITMQ_NO_CONSUMER_VHOST_BLACKLIST''"

definition parseVHostBlacklist :: "environment \<Rightarrow> string \<Rightarrow> string list \<Rightarrow> string list" where
  "parseVHostBlacklist env envVal def =
     (if env blacklist_key = None then def
      else concat (map (\<lambda>p. let p = TrimSpace p in if p \<noteq> [] then [p] else []) (Split envVal '','')))"

definition parseBoolEnv :: "environment \<Rightarrow> string \<Rightarrow> bool \<Rightarrow> bool" where
  "parseBoolEnv env key def =
     (let v = ToLower (TrimSpace (Getenv env key))
      in if v = [] then def else v \<in> {''1'', ''true'', ''yes'', ''on''})"

subsection \<open>Modules and hosts\<close>

definition roleIPs :: "Config \<Rightarrow> string list \<Rightarrow> string list" where
  "roleIPs c role = (if length role > 0 then role else cf_MonitorV3IPs c)"

definition GetModuleHosts :: "Config \<Rightarrow> ModuleHosts list" where
  "GetModuleHosts c =
    [\<lparr>mh_Module = ''paas'', mh_IPs = cf_PaaSIPs c\<rparr>,
     \<lparr>mh_Module = ''cmdb'', mh_IPs = cf_CMDBIPs c\<rparr>,
     \<lparr>mh_Module = ''job'', mh_IPs = cf_JobIPs c\<rparr>,
     \<lparr>mh_Module = ''gse'', mh_IPs = cf_GSEIPs c\<rparr>,
     \<lparr>mh_Module = ''appo'', mh_IPs = cf_APPOIPs c\<rparr>,
     \<lparr>mh_Module = ''appt'', mh_IPs = cf_APPTIPs c\<rparr>,
     \<lparr>mh_Module = ''iam'', mh_IPs = cf_IAMIPs c\<rparr>,
     \<lparr>mh_Module = ''usermgr'', mh_IPs = cf_UserMgrIPs c\<rparr>,
     \<lparr>mh_Module = ''nodeman'', mh_IPs = cf_NodeManIPs c\<rparr>,
     \<lparr>mh_Module = ''bkmonitorv3-monitor'', mh_IPs = roleIPs c (cf_MonitorV3MonitorIPs c)\<rparr>,
     \<lparr>mh_Module = ''bkmonitorv3-influxdb-proxy'',
      mh_IPs = roleIPs c (cf_MonitorV3InfluxDBProxyIPs c)\<rparr>,
     \<lparr>mh_Module = ''bkmonitorv3-transfer'', mh_IPs = roleIPs c (cf_MonitorV3TransferIPs c)\<rparr>,
     \<lparr>mh_Module = ''bkmonitorv3-unify-query'', mh_IPs = roleIPs c (cf_MonitorV3UnifyQueryIPs c)\<rparr>]"

definition all_ip_lists :: "Config \<Rightarrow> string list list" where
  "all_ip_lists c =
     [cf_PaaSIPs c, cf_CMDBIPs c, cf_JobIPs c, cf_GSEIPs c,
      cf_APPOIPs c, cf_APPTIPs c, cf_IAMIPs c, cf_UserMgrIPs c,
      cf_NodeManIPs c, cf_MonitorV3IPs c,
      cf_MonitorV3MonitorIPs c, cf_MonitorV3InfluxDBProxyIPs c,
      cf_MonitorV3TransferIPs c, cf_MonitorV3UnifyQueryIPs c,
      cf_ES7IPs c, cf_RabbitMQIPs c, cf_MySQLIPs c, cf_MongoDBIPs c,
      cf_RedisIPs c, cf_RedisSentinelIPs c]"

text \<open>The loop body of \<open>buildAllHosts\<close>: the set of hosts seen, and the hosts in order.\<close>

fun add_host :: "string set \<times> string list \<Rightarrow> string \<Rightarrow> string set \<times> string list" where
  "add_host (seen, hosts) ip =
     (if ip \<notin> seen then (insert ip seen, hosts @ [ip]) else (seen, hosts))"

definition buildAllHosts :: "Config \<Rightarrow> string list" where
  "buildAllHosts c = snd (foldl (foldl add_host) ({}, []) (all_ip_lists c))"

definition Validate_hosts :: "Config \<Rightarrow> config_error option" where
  "Validate_hosts c = (if length (cf_AllHosts c) = 0 then Some NoHosts else None)"

subsection \<open>Load\<close>

text \<open>
  \<open>Load\<close> in its parts: the endpoints of the bkmonitorv3 dependencies, the credentials, the
  thresholds, the record of everything read, and last the host list built from that record.
\<close>

definition load_deps :: "environment \<Rightarrow> BKMonitorV3DepConfig" where
  "load_deps env =
     \<lparr>bd_RedisHost = Getenv env ''BK_MONITOR_REDIS_HOST'',
      bd_RedisPort = Getenv env ''BK_MONITOR_REDIS_PORT'',
      bd_RedisPassword = Getenv env ''BK_MONITOR_REDIS_PASSWORD'',
      bd_MySQLHost = firstNonEmpty [Getenv env ''BK_MONITOR_MYSQL_HOST'', Getenv env ''BK_PAAS_MYSQL_HOST'', ''mysql.service.consul''],
      bd_MySQLPort = firstNonEmpty [Getenv env ''BK_MONITOR_MYSQL_PORT'', Getenv env ''BK_PAAS_MYSQL_PORT'', ''3306''],
      bd_MySQLUser = firstNonEmpty [Getenv env ''BK_MONITOR_MYSQL_USER'', Getenv env ''BK_PAAS_MYSQL_USER''],
      bd_MySQLPassword = firstNonEmpty [Getenv env ''BK_MONITOR_MYSQL_PASSWORD'', Getenv env ''BK_PAAS_MYSQL_PASSWORD''],
      bd_RabbitMQHost = Getenv env ''BK_MONITOR_RABBITMQ_HOST'',
      bd_RabbitMQPort = Getenv env ''BK_MONITOR_RABBITMQ_PORT'',
      bd_RabbitMQUser = Getenv env ''BK_MONITOR_RABBITMQ_USERNAME'',
      bd_RabbitMQPassword = Getenv env ''BK_MONITOR_RABBITMQ_PASSWORD'',
      bd_RabbitMQVHost = Getenv env ''BK_MONITOR_RABBITMQ_VHOST'',
      bd_ZKHost = Getenv env ''BK_GSE_ZK_HOST'',
      bd_ZKPort = Getenv env ''BK_GSE_ZK_PORT'',
      bd_ES7Host = Getenv env ''BK_MONITOR_ES7_HOST'',
      bd_ES7RestPort = Getenv env ''BK_MONITOR_ES7_REST_PORT'',
      bd_ES7User = Getenv env ''BK_MONITOR_ES7_USER'',
      bd_ES7Password = Getenv env ''BK_MONITOR_ES7_PASSWORD'',
      bd_InfluxDBHost = Getenv env ''BK_INFLUXDB_IP0'',
      bd_InfluxDBPort = Getenv env ''BK_MONITOR_INFLUXDB_PORT''\<rparr>"

definition load_creds :: "environment \<Rightarrow> Credentials" where
  "load_creds env =
     \<lparr>cd_MySQLUser = envOrDefault env ''BK_MYSQL_ADMIN_USER'' ''root'',
      cd_MySQLPassword = Getenv env ''BK_MYSQL_ADMIN_PASSWORD'',
      cd_RedisPassword = Getenv env ''BK_REDIS_ADMIN_PASSWORD'',
      cd_MongoDBUser = envOrDefault env ''BK_MONGODB_ADMIN_USER'' ''root'',
      cd_MongoDBPassword = Getenv env ''BK_MONGODB_ADMIN_PASSWORD'',
      cd_ES7Password = Getenv env ''BK_ES7_ADMIN_PASSWORD'',
      cd_RabbitMQUser = envOrDefault env ''BK_RABBITMQ_ADMIN_USER'' ''admin'',
      cd_RabbitMQPassword = Getenv env ''BK_RABBITMQ_ADMIN_PASSWORD''\<rparr>"

definition load_thresholds :: "environment \<Rightarrow> config_error + Thresholds" where
  "load_thresholds env =
     bindE (parseFloatEnv env ''INSPECT_CPU_THRESHOLD'' (FNum False 95)) (\<lambda>cpu.
     bindE (parseFloatEnv env ''INSPECT_DISK_THRESHOLD'' (FNum False 95)) (\<lambda>disk.
     bindE (parseFloatEnv env ''INSPECT_INODE_THRESHOLD'' (FNum False 95)) (\<lambda>inode.
     bindE (parseFloatEnv env ''INSPECT_MEM_THRESHOLD'' (FNum False 95)) (\<lambda>mem.
     bindE (parseIntEnv env ''INSPECT_MAX_OPEN_FILES'' 65536) (\<lambda>maxOpen.
     bindE (parseIntEnv env ''INSPECT_MYSQL_REPL_LAG_THRESHOLD'' 60) (\<lambda>mysqlLag.
     bindE (parseIntEnv env ''INSPECT_REDIS_REPL_IO_THRESHOLD'' 10) (\<lambda>redisIO.
     bindE (parseIntEnv env ''INSPECT_RABBITMQ_QUEUE_BACKLOG_THRESHOLD'' 10000) (\<lambda>rmqBacklog.
     bindE (parseIntEnv env ''INSPECT_ES_HEAP_THRESHOLD'' 85) (\<lambda>esHeap.
     bindE (parseIntEnv env ''INSPECT_ES_RAM_THRESHOLD'' 95) (\<lambda>esRAM.
     bindE (parseIntEnv env ''INSPECT_ES_UNASSIGNED_SHARDS_THRESHOLD'' 0) (\<lambda>esUnassigned.
     bindE (parseIntEnv env ''INSPECT_REDIS_CELERY_QUEUE_THRESHOLD'' 1000) (\<lambda>redisCelery.
     bindE (parseIntEnv env ''INSPECT_REDIS_MONITOR_QUEUE_THRESHOLD'' 10000) (\<lambda>redisMonitor.
     bindE (parseIntEnv env ''INSPECT_DOCKER_EXITED_THRESHOLD'' 0) (\<lambda>dockerExited.
     Inr \<lparr>th_CPUUsage = cpu,
          th_DiskUsage = disk,
          th_InodeUsage = inode,
          th_MemUsage = mem,
          th_MaxOpenFiles = maxOpen,
          th_MySQLReplLagSec = mysqlLag,
          th_RedisReplIOSec = redisIO,
          th_RabbitMQQueueBacklog = rmqBacklog,
          th_RabbitMQNoConsumerVHostBlacklist =
          parseVHostBlacklist env (Getenv env blacklist_key) [''bk_bknodeman''],
          th_ESHeapPercent = esHeap,
          th_ESRAMPercent = esRAM,
          th_ESUnassignedShards = esUnassigned,
          th_RedisCeleryQueue = redisCelery,
          th_RedisMonitorQueue = redisMonitor,
          th_ServiceContainersExited = dockerExited\<rparr>))))))))))))))"

definition load_config :: "environment \<Rightarrow> string \<Rightarrow> Thresholds \<Rightarrow> goint \<Rightarrow> goint \<Rightarrow> Config" where
  "load_config env outputDir th port rmqAPITimeout =
     \<lparr>cf_PaaSIPs = parseIPList (Getenv env ''BK_PAAS_IP_COMMA''),
      cf_CMDBIPs = parseIPList (Getenv env ''BK_CMDB_IP_COMMA''),
      cf_JobIPs = parseIPList (Getenv env ''BK_JOB_IP_COMMA''),
      cf_GSEIPs = parseIPList (Getenv env ''BK_GSE_IP_COMMA''),
      cf_APPOIPs = parseIPList (Getenv env ''BK_APPO_IP_COMMA''),
      cf_APPTIPs = parseIPList (Getenv env ''BK_APPT_IP_COMMA''),
      cf_IAMIPs = parseIPList (Getenv env ''BK_IAM_IP_COMMA''),
      cf_UserMgrIPs = parseIPList (Getenv env ''BK_USERMGR_IP_COMMA''),
      cf_NodeManIPs = parseIPList (Getenv env ''BK_NODEMAN_IP_COMMA''),
      cf_MonitorV3IPs = parseIPList (Getenv env ''BK_MONITORV3_IP_COMMA''),
      cf_MonitorV3MonitorIPs = parseIPList (Getenv env ''BK_MONITORV3_MONITOR_IP_COMMA''),
      cf_MonitorV3InfluxDBProxyIPs = parseIPList (Getenv env ''BK_MONITORV3_INFLUXDB_PROXY_IP_COMMA''),
      cf_MonitorV3TransferIPs = parseIPList (Getenv env ''BK_MONITORV3_TRANSFER_IP_COMMA''),
      cf_MonitorV3UnifyQueryIPs = parseIPList (Getenv env ''BK_MONITORV3_UNIFY_QUERY_IP_COMMA''),
      cf_ES7IPs = parseIPList (Getenv env ''BK_ES7_IP_COMMA''),
      cf_MySQLIPs = parseIPList (Getenv env ''BK_MYSQL_IP_COMMA''),
      cf_MySQLMasterIPs = parseIPList (Getenv env ''BK_MYSQL_MASTER_IP_COMMA''),
      cf_MySQLSlaveIPs = parseIPList (Getenv env ''BK_MYSQL_SLAVE_IP_COMMA''),
      cf_MySQLPort = envOrDefault env ''INSPECT_MYSQL_PORT'' ''3306'',
      cf_RedisIPs = parseIPList (Getenv env ''BK_REDIS_IP_COMMA''),
      cf_RedisMasterIPs = parseIPList (Getenv env ''BK_REDIS_MASTER_IP_COMMA''),
      cf_RedisSlaveIPs = parseIPList (Getenv env ''BK_REDIS_SLAVE_IP_COMMA''),
      cf_RedisSentinelIPs = parseIPList (Getenv env ''BK_REDIS_SENTINEL_IP_COMMA''),
      cf_RedisPort = envOrDefault env ''INSPECT_REDIS_PORT'' ''6379'',
      cf_MongoDBIPs = parseIPList (Getenv env ''BK_MONGODB_IP_COMMA''),
      cf_MongoDBPort = envOrDefault env ''INSPECT_MONGODB_PORT'' ''27017'',
      cf_MongoRSName = envOrDefault env ''INSPECT_MONGO_RS_NAME'' ''rs0'',
      cf_RabbitMQIPs = parseIPList (Getenv env ''BK_RABBITMQ_IP_COMMA''),
      cf_BKMonitorV3 = load_deps env,
      cf_AllHosts = [],
      cf_Creds = load_creds env,
      cf_Thresholds = th,
      cf_SSHUser = envOrDefault env ''INSPECT_SSH_USER'' ''root'',
      cf_SSHPort = port,
      cf_SSHKeyPath = Getenv env ''INSPECT_SSH_KEY_PATH'',
      cf_SSHUseSudo = parseBoolEnv env ''INSPECT_SSH_USE_SUDO'' False,
      cf_SSHTimeout = 30,
      cf_RabbitMQAPITimeoutSec = rmqAPITimeout,
      cf_OutputDir = outputDir,
      cf_CheckMountPath = Getenv env ''CHECK_MOUNT_PATH'',
      cf_DiskIncludeNFS = parseBoolEnv env ''INSPECT_DISK_INCLUDE_NFS'' False\<rparr>"

definition Load :: "environment \<Rightarrow> string \<Rightarrow> config_error + Config" where
  "Load env outputDir =
     bindE (load_thresholds env) (\<lambda>th.
     bindE (parseIntEnv env ''INSPECT_SSH_PORT'' 22) (\<lambda>port.
     bindE (parseIntEnv env ''INSPECT_RABBITMQ_API_TIMEOUT_SEC'' 60) (\<lambda>rmqAPITimeout.
     let c = load_config env outputDir th port rmqAPITimeout
     in Inr (c\<lparr>cf_AllHosts := buildAllHosts c\<rparr>))))"

subsection \<open>Lists of addresses\<close>

definition clean_ip :: "string \<Rightarrow> bool" where
  "clean_ip ip \<longleftrightarrow> ip \<noteq> [] \<and> TrimSpace ip = ip \<and> CHR '','' \<notin> set ip"

lemma TrimSpace_Nil [simp]: "TrimSpace [] = []"
  by (rule TrimSpace_fixed) (simp_all add: space_len_def rspace_len_def)

lemma parseIPList_clean: "ip \<in> set (parseIPList val) \<Longrightarrow> clean_ip ip"
  using set_TrimSpace Split_byte_complete
  by (fastforce simp: parseIPList_def clean_ip_def Let_def split: if_splits)

lemma Split_Join_comma:
  assumes "\<And>ip. ip \<in> set ips \<Longrightarrow> c \<notin> set ip" and "ips \<noteq> []"
  shows "Split (Join ips [c]) [c] = ips"
  using assms
proof (induction ips)
  case Nil
  then show ?case by simp
next
  case (Cons ip ips)
  show ?case
  proof (cases "ips = []")
    case True
    with Cons.prems show ?thesis by (simp add: Split_byte_no_sep)
  next
    case False
    with Cons show ?thesis
      by (simp add: Join_Cons Split_byte_Cons)
  qed
qed

lemma Join_eq_Nil: "ips \<noteq> [] \<Longrightarrow> hd ips \<noteq> [] \<Longrightarrow> Join ips sep \<noteq> []"
  by (cases ips; cases "tl ips") auto

lemma concat_keep_all:
  "(\<And>p. p \<in> set ps \<Longrightarrow> TrimSpace p = p \<and> p \<noteq> []) \<Longrightarrow>
   concat (map (\<lambda>p. let p = TrimSpace p in if p \<noteq> [] then [p] else []) ps) = ps"
  by (induction ps) (auto simp: Let_def)

lemma parseIPList_Join:
  assumes "\<And>ip. ip \<in> set ips \<Longrightarrow> clean_ip ip"
  shows "parseIPList (Join ips '','') = ips"
proof (cases "ips = []")
  case True
  then show ?thesis by (simp add: parseIPList_def)
next
  case False
  with assms have "hd ips \<noteq> []" by (auto simp: clean_ip_def)
  with False have "Join ips '','' \<noteq> []" by (rule Join_eq_Nil)
  moreover have "Split (Join ips '','') '','' = ips"
    using assms False by (intro Split_Join_comma) (auto simp: clean_ip_def)
  ultimately show ?thesis
    using concat_keep_all [of ips] assms by (simp add: parseIPList_def clean_ip_def)
qed

subsection \<open>The list of all hosts\<close>

lemma foldl_foldl: "foldl (foldl f) s xss = foldl f s (concat xss)"
  by (induction xss arbitrary: s) auto

lemma add_host_fold:
  "foldl add_host (set hs, hs) ips =
     (set hs \<union> set ips, hs @ rev (remdups (rev (filter (\<lambda>x. x \<notin> set hs) ips))))"
proof (induction ips rule: rev_induct)
  case Nil
  then show ?case by simp
next
  case (snoc ip ips)
  then show ?case by (cases "ip \<in> set hs \<union> set ips") auto
qed

text \<open>\<open>buildAllHosts\<close> keeps the first occurrence of every address, in order.\<close>

lemma buildAllHosts_eq: "buildAllHosts c = rev (remdups (rev (concat (all_ip_lists c))))"
  using add_host_fold [of "[]" "concat (all_ip_lists c)"]
  by (simp add: buildAllHosts_def foldl_foldl)

lemma distinct_buildAllHosts: "distinct (buildAllHosts c)"
  by (simp add: buildAllHosts_eq)

lemma set_buildAllHosts: "set (buildAllHosts c) = (\<Union>ips \<in> set (all_ip_lists c). set ips)"
  by (simp add: buildAllHosts_eq)

lemma all_ip_lists_AllHosts [simp]: "all_ip_lists (c\<lparr>cf_AllHosts := hs\<rparr>) = all_ip_lists c"
  by (simp add: all_ip_lists_def)

lemma Load_AllHosts: "Load env d = Inr c \<Longrightarrow> \<exists>c0. c = c0\<lparr>cf_AllHosts := buildAllHosts c0\<rparr>"
  by (auto simp: Load_def bindE_Inr_iff Let_def)

lemma Load_hosts: "Load env d = Inr c \<Longrightarrow> cf_AllHosts c = buildAllHosts c"
  by (auto dest!: Load_AllHosts simp: buildAllHosts_eq)

subsection \<open>Errors of the load\<close>

text \<open>The variables that must parse, in the order \<open>Load\<close> reads them.\<close>

definition float_keys :: "string list" where
  "float_keys =
     [''INSPECT_CPU_THRESHOLD'', ''INSPECT_DISK_THRESHOLD'', ''INSPECT_INODE_THRESHOLD'',
      ''INSPECT_MEM_THRESHOLD'']"

definition int_keys :: "string list" where
  "int_keys =
     [''INSPECT_MAX_OPEN_FILES'', ''INSPECT_MYSQL_REPL_LAG_THRESHOLD'',
      ''INSPECT_REDIS_REPL_IO_THRESHOLD'', ''INSPECT_RABBITMQ_QUEUE_BACKLOG_THRESHOLD'',
      ''INSPECT_ES_HEAP_THRESHOLD'', ''INSPECT_ES_RAM_THRESHOLD'',
      ''INSPECT_ES_UNASSIGNED_SHARDS_THRESHOLD'', ''INSPECT_REDIS_CELERY_QUEUE_THRESHOLD'',
      ''INSPECT_REDIS_MONITOR_QUEUE_THRESHOLD'', ''INSPECT_DOCKER_EXITED_THRESHOLD'',
      ''INSPECT_SSH_PORT'', ''INSPECT_RABBITMQ_API_TIMEOUT_SEC'']"

definition float_fault :: "environment \<Rightarrow> string \<Rightarrow> config_error list" where
  "float_fault env key =
     (let v = Getenv env key
      in if v \<noteq> [] \<and> snd (ParseFloat v) \<noteq> None then [InvalidFloat key v] else [])"

definition int_fault :: "environment \<Rightarrow> string \<Rightarrow> config_error list" where
  "int_fault env key =
     (let v = Getenv env key
      in if v \<noteq> [] \<and> snd (Atoi v) \<noteq> None then [InvalidInt key v] else [])"

definition load_faults :: "environment \<Rightarrow> config_error list" where
  "load_faults env = concat (map (float_fault env) float_keys) @ concat (map (int_fault env) int_keys)"

text \<open>\<open>first_fault xs m\<close>: the computation \<open>m\<close> fails exactly when \<open>xs\<close> has a fault, with the first.\<close>

definition first_fault :: "'e list \<Rightarrow> 'e + 'a \<Rightarrow> bool" where
  "first_fault xs m = (case xs of e # _ \<Rightarrow> m = Inl e | [] \<Rightarrow> (\<exists>t. m = Inr t))"

lemma first_fault_Inr: "first_fault [] (Inr t)"
  by (simp add: first_fault_def)

lemma first_fault_float:
  "(\<And>x. first_fault ys (f x)) \<Longrightarrow>
   first_fault (float_fault env key @ ys) (bindE (parseFloatEnv env key def) f)"
  by (cases ys) (auto simp: first_fault_def parseFloatEnv_def float_fault_def Let_def
      split: prod.splits option.splits)

lemma first_fault_int:
  "(\<And>x. first_fault ys (f x)) \<Longrightarrow>
   first_fault (int_fault env key @ ys) (bindE (parseIntEnv env key def) f)"
  by (cases ys) (auto simp: first_fault_def parseIntEnv_def int_fault_def Let_def
      split: prod.splits option.splits)

lemma first_fault_bindE:
  "first_fault xs m \<Longrightarrow> (\<And>x. first_fault ys (f x)) \<Longrightarrow> first_fault (xs @ ys) (bindE m f)"
  by (cases m; cases xs) (auto simp: first_fault_def)

lemma load_thresholds_faults:
  "first_fault (concat (map (float_fault env) float_keys) @
      concat (map (int_fault env) (take 10 int_keys))) (load_thresholds env)"
  unfolding load_thresholds_def float_keys_def int_keys_def
  by (simp, intro first_fault_float first_fault_int first_fault_int [of "[]", simplified]
      first_fault_Inr)

lemma Load_faults: "first_fault (load_faults env) (Load env d)"
proof -
  have keys: "load_faults env =
    (concat (map (float_fault env) float_keys) @ concat (map (int_fault env) (take 10 int_keys))) @
    int_fault env ''INSPECT_SSH_PORT'' @ int_fault env ''INSPECT_RABBITMQ_API_TIMEOUT_SEC'' @ []"
    by (simp add: load_faults_def int_keys_def)
  show ?thesis
    unfolding keys Load_def Let_def
    by (intro first_fault_bindE load_thresholds_faults first_fault_int first_fault_Inr)
qed

end
