(* ===== verification/Config_Properties.thy ===== *)
theory Config_Properties
  imports Config_Load
begin

text \<open>
  The properties of the configuration loader (src/config/config.go).
\<close>

text \<open>
  C29. Loading fails exactly when a numeric variable does not parse, and then with the first such
  variable in the order they are read, naming the variable and its value.
\<close>

theorem load_reports_first_fault:
  "case load_faults env of
     [] \<Rightarrow> (\<exists>c. Load env outputDir = Inr c)
   | e # _ \<Rightarrow> Load env outputDir = Inl e"
  using Load_faults [of env outputDir]
  by (simp add: first_fault_def split: list.splits)

text \<open>
  A list of addresses survives the environment: joined with commas it parses back, and
  whatever parses is trimmed, without empty parts and without commas.
\<close>

lemma ip_list_roundtrip:
  "(\<forall>ip \<in> set (parseIPList val). clean_ip ip) \<and> parseIPList (Join (parseIPList val) '','') = parseIPList val"
  using parseIPList_clean parseIPList_Join by blast

text \<open>
  The list of all hosts of a loaded configuration is every address of the role lists once,
  in the order of first occurrence.
\<close>

lemma loaded_hosts:
  assumes "Load env outputDir = Inr c"
  shows "cf_AllHosts c = rev (remdups (rev (concat (all_ip_lists c)))) \<and> distinct (cf_AllHosts c) \<and>
    set (cf_AllHosts c) = (\<Union>ips \<in> set (all_ip_lists c). set ips)"
  by (simp add: Load_hosts [OF assms] buildAllHosts_eq)

end
