(* ===== verification/Sample_Values.thy ===== *)
theory Sample_Values
  imports Config_Load
begin

text \<open>Thresholds for the witnesses, near the defaults.\<close>

definition sample_thresholds :: Thresholds where
  "sample_thresholds =
     \<lparr>th_CPUUsage = of_goint 95, th_DiskUsage = of_goint 80, th_InodeUsage = of_goint 80,
      th_MemUsage = of_goint 95, th_MaxOpenFiles = 102400, th_MySQLReplLagSec = 30,
      th_RedisReplIOSec = 10, th_RabbitMQQueueBacklog = 1000,
      th_RabbitMQNoConsumerVHostBlacklist = [], th_ESHeapPercent = 85, th_ESRAMPercent = 95,
      th_ESUnassignedShards = 0, th_RedisCeleryQueue = 1000, th_RedisMonitorQueue = 1000,
      th_ServiceContainersExited = 0\<rparr>"

end
