(* ===== verification/Texts.thy ===== *)
theory Texts
  imports Prelude
begin

text \<open>
  The texts of the program that are not ASCII, as the UTF-8 bytes Go writes.  Each comment gives
  the meaning of the Chinese text.
\<close>

definition newline :: string where
  "newline = [CHR 0x0A]"

definition txt_ge :: string where
  \<comment> \<open>the sign "greater or equal" and a space\<close>
  "txt_ge =
     [CHR 0xE2, CHR 0x89, CHR 0xA5] @ '' ''"

definition txt_expect :: string where
  \<comment> \<open>"expected" and a space (qi wang)\<close>
  "txt_expect =
     [CHR 0xE6, CHR 0x9C, CHR 0x9F, CHR 0xE6, CHR 0x9C, CHR 0x9B] @ '' ''"

definition txt_alert_title :: string where
  \<comment> \<open>the bracketed "WeOps inspection alert"\<close>
  "txt_alert_title =
     ''[WeOps '' @ [CHR 0xE5, CHR 0xB7, CHR 0xA1, CHR 0xE6, CHR 0xA3, CHR 0x80, CHR 0xE5,
     CHR 0x91, CHR 0x8A, CHR 0xE8, CHR 0xAD, CHR 0xA6] @ ''] ''"

definition txt_recovery_title :: string where
  \<comment> \<open>the bracketed "WeOps inspection recovery"\<close>
  "txt_recovery_title =
     ''[WeOps '' @ [CHR 0xE5, CHR 0xB7, CHR 0xA1, CHR 0xE6, CHR 0xA3, CHR 0x80, CHR 0xE6,
     CHR 0x81, CHR 0xA2, CHR 0xE5, CHR 0xA4, CHR 0x8D] @ ''] ''"

definition txt_items_abnormal :: string where
  \<comment> \<open>"items abnormal"\<close>
  "txt_items_abnormal =
     '' '' @ [CHR 0xE9, CHR 0xA1, CHR 0xB9, CHR 0xE5, CHR 0xBC, CHR 0x82, CHR 0xE5, CHR 0xB8,
     CHR 0xB8]"

definition txt_all_ok_open :: string where
  \<comment> \<open>"all normal (" before the number of checks\<close>
  "txt_all_ok_open =
     [CHR 0xE5, CHR 0x85, CHR 0xA8, CHR 0xE9, CHR 0x83, CHR 0xA8, CHR 0xE6, CHR 0xAD,
     CHR 0xA3, CHR 0xE5, CHR 0xB8, CHR 0xB8] @ '' (''"

definition txt_checks_close :: string where
  \<comment> \<open>"checks)" after the number\<close>
  "txt_checks_close =
     '' '' @ [CHR 0xE9, CHR 0xA1, CHR 0xB9, CHR 0xE6, CHR 0xA3, CHR 0x80, CHR 0xE6, CHR 0x9F,
     CHR 0xA5] @ '')''"

definition txt_total :: string where
  \<comment> \<open>"Summary: in all" and a space\<close>
  "txt_total =
     ''Summary: '' @ [CHR 0xE5, CHR 0x85, CHR 0xB1] @ '' ''"

definition txt_checks_comma :: string where
  \<comment> \<open>"checks," after the total\<close>
  "txt_checks_comma =
     '' '' @ [CHR 0xE9, CHR 0xA1, CHR 0xB9, CHR 0xE6, CHR 0xA3, CHR 0x80, CHR 0xE6, CHR 0x9F,
     CHR 0xA5, CHR 0xEF, CHR 0xBC, CHR 0x8C]"

definition txt_ok_comma :: string where
  \<comment> \<open>"normal,"\<close>
  "txt_ok_comma =
     '' '' @ [CHR 0xE6, CHR 0xAD, CHR 0xA3, CHR 0xE5, CHR 0xB8, CHR 0xB8, CHR 0xEF, CHR 0xBC,
     CHR 0x8C]"

definition txt_warn_comma :: string where
  \<comment> \<open>"alerts,"\<close>
  "txt_warn_comma =
     '' '' @ [CHR 0xE5, CHR 0x91, CHR 0x8A, CHR 0xE8, CHR 0xAD, CHR 0xA6, CHR 0xEF, CHR 0xBC,
     CHR 0x8C]"

definition txt_unknown :: string where
  \<comment> \<open>"unknown"\<close>
  "txt_unknown =
     '' '' @ [CHR 0xE6, CHR 0x9C, CHR 0xAA, CHR 0xE7, CHR 0x9F, CHR 0xA5]"

definition txt_details :: string where
  \<comment> \<open>"alert details:"\<close>
  "txt_details =
     [CHR 0xE5, CHR 0x91, CHR 0x8A, CHR 0xE8, CHR 0xAD, CHR 0xA6, CHR 0xE6, CHR 0x98,
     CHR 0x8E, CHR 0xE7, CHR 0xBB, CHR 0x86] @ '':''"

definition txt_threshold_open :: string where
  \<comment> \<open>"(threshold" after two spaces\<close>
  "txt_threshold_open =
     ''  ('' @ [CHR 0xE9, CHR 0x98, CHR 0x88, CHR 0xE5, CHR 0x80, CHR 0xBC] @ '' ''"

definition txt_see_attachment :: string where
  \<comment> \<open>"see the attachment weops_inspection.html."\<close>
  "txt_see_attachment =
     [CHR 0xE8, CHR 0xAF, CHR 0xA6, CHR 0xE8, CHR 0xA7, CHR 0x81, CHR 0xE9, CHR 0x99,
     CHR 0x84, CHR 0xE4, CHR 0xBB, CHR 0xB6] @ '' weops_inspection.html'' @ [CHR 0xE3,
     CHR 0x80, CHR 0x82]"

definition txt_all_recovered :: string where
  \<comment> \<open>"all checks are back to normal (in all"\<close>
  "txt_all_recovered =
     [CHR 0xE6, CHR 0x89, CHR 0x80, CHR 0xE6, CHR 0x9C, CHR 0x89, CHR 0xE6, CHR 0xA3,
     CHR 0x80, CHR 0xE6, CHR 0x9F, CHR 0xA5, CHR 0xE9, CHR 0xA1, CHR 0xB9, CHR 0xE5,
     CHR 0xB7, CHR 0xB2, CHR 0xE6, CHR 0x81, CHR 0xA2, CHR 0xE5, CHR 0xA4, CHR 0x8D,
     CHR 0xE6, CHR 0xAD, CHR 0xA3, CHR 0xE5, CHR 0xB8, CHR 0xB8] @ '' ('' @ [CHR 0xE5,
     CHR 0x85, CHR 0xB1] @ '' ''"

definition txt_items_see :: string where
  \<comment> \<open>"items). see the attachment."\<close>
  "txt_items_see =
     '' '' @ [CHR 0xE9, CHR 0xA1, CHR 0xB9] @ '')'' @ [CHR 0xE3, CHR 0x80, CHR 0x82,
     CHR 0xE8, CHR 0xAF, CHR 0xA6, CHR 0xE8, CHR 0xA7, CHR 0x81, CHR 0xE9, CHR 0x99,
     CHR 0x84, CHR 0xE4, CHR 0xBB, CHR 0xB6, CHR 0xE3, CHR 0x80, CHR 0x82]"

definition txt_healthy :: string where
  \<comment> \<open>"healthy"\<close>
  "txt_healthy =
     [CHR 0xE5, CHR 0x81, CHR 0xA5, CHR 0xE5, CHR 0xBA, CHR 0xB7]"

definition txt_abnormal :: string where
  \<comment> \<open>"abnormal"\<close>
  "txt_abnormal =
     [CHR 0xE5, CHR 0xBC, CHR 0x82, CHR 0xE5, CHR 0xB8, CHR 0xB8]"

end
