(* ===== verification/Check_Base.thy ===== *)
theory Check_Base
  imports Config_Load Texts
begin

text \<open>
  What all checkers share: building a result, running a checker over a slice in place, the
  summary, and the contract of a checker as a locale.  A checker takes a part of the report and
  returns it with its render fields filled in, and the results it found.
\<close>

subsection \<open>Results\<close>

definition mk_check :: "string \<Rightarrow> string \<Rightarrow> CheckStatus \<Rightarrow> string \<Rightarrow> CheckResult" where
  "mk_check field val status threshold =
     \<lparr>cr_Field = field, cr_Value = val, cr_Status = status, cr_Threshold = threshold\<rparr>"

lemma mk_check_sel [simp]:
  "cr_Field (mk_check f v s t) = f" "cr_Value (mk_check f v s t) = v"
  "cr_Status (mk_check f v s t) = s" "cr_Threshold (mk_check f v s t) = t"
  by (simp_all add: mk_check_def)

text \<open>\<open>if b { add (..., StatusWarn, ...) } else { add (..., StatusOK, ...) }\<close>\<close>

definition warn_if :: "bool \<Rightarrow> CheckStatus" where
  "warn_if b = (if b then StatusWarn else StatusOK)"

lemma warn_if_simps [simp]:
  "warn_if b = StatusWarn \<longleftrightarrow> b" "warn_if b = StatusOK \<longleftrightarrow> \<not> b"
  "StatusWarn = warn_if b \<longleftrightarrow> b" "StatusOK = warn_if b \<longleftrightarrow> \<not> b"
  "warn_if b \<noteq> StatusUnknown" "warn_if b \<noteq> StatusNotice" "warn_if b \<noteq> StatusUnset"
  by (auto simp: warn_if_def)

text \<open>
  \<open>for i := range xs { results = append (results, check (&xs[i])...) }\<close>
\<close>

fun check_list :: "('a \<Rightarrow> 'a \<times> CheckResult list) \<Rightarrow> 'a list \<Rightarrow> 'a list \<times> CheckResult list" where
  "check_list check [] = ([], [])"
| "check_list check (x # xs) =
     (let (x', r) = check x; (xs', rs) = check_list check xs in (x' # xs', r @ rs))"

lemma check_list_eq:
  "check_list check xs = (map (\<lambda>x. fst (check x)) xs, concat (map (\<lambda>x. snd (check x)) xs))"
  by (induction xs) (simp_all add: case_prod_beta Let_def)

subsection \<open>The summary\<close>

definition summarize_step :: "CheckSummary \<Rightarrow> CheckResult \<Rightarrow> CheckSummary" where
  "summarize_step s r =
     (case cr_Status r of
        StatusOK \<Rightarrow> s\<lparr>cs_OK := cs_OK s + 1, cs_Total := cs_Total s + 1\<rparr>
      | StatusWarn \<Rightarrow> s\<lparr>cs_Warn := cs_Warn s + 1, cs_Total := cs_Total s + 1\<rparr>
      | StatusUnknown \<Rightarrow> s\<lparr>cs_Unknown := cs_Unknown s + 1, cs_Total := cs_Total s + 1\<rparr>
      | StatusNotice \<Rightarrow> s
      | StatusUnset \<Rightarrow> s)"

definition Summarize :: "CheckResult list \<Rightarrow> CheckSummary" where
  "Summarize results = foldl summarize_step CheckSummary_zero results"

definition count_status :: "CheckStatus \<Rightarrow> CheckResult list \<Rightarrow> int" where
  "count_status st results = int (length (filter (\<lambda>r. cr_Status r = st) results))"

lemma count_status_Nil [simp]: "count_status st [] = 0"
  by (simp add: count_status_def)

lemma count_status_Cons [simp]:
  "count_status st (r # rs) = (if cr_Status r = st then 1 else 0) + count_status st rs"
  by (simp add: count_status_def)

lemma count_status_append [simp]:
  "count_status st (xs @ ys) = count_status st xs + count_status st ys"
  by (simp add: count_status_def)

lemma count_status_perm: "mset xs = mset ys \<Longrightarrow> count_status st xs = count_status st ys"
  unfolding count_status_def by (metis length_filter_perm)

lemma foldl_summarize:
  "foldl summarize_step s rs =
     \<lparr>cs_Total = cs_Total s + count_status StatusOK rs + count_status StatusWarn rs
        + count_status StatusUnknown rs,
      cs_OK = cs_OK s + count_status StatusOK rs,
      cs_Warn = cs_Warn s + count_status StatusWarn rs,
      cs_Unknown = cs_Unknown s + count_status StatusUnknown rs\<rparr>"
proof (induction rs arbitrary: s)
  case Nil
  then show ?case by simp
next
  case (Cons r rs)
  then show ?case
    by (cases "cr_Status r") (simp_all add: summarize_step_def)
qed

lemma Summarize_counts:
  "Summarize rs =
     \<lparr>cs_Total = count_status StatusOK rs + count_status StatusWarn rs
        + count_status StatusUnknown rs,
      cs_OK = count_status StatusOK rs,
      cs_Warn = count_status StatusWarn rs,
      cs_Unknown = count_status StatusUnknown rs\<rparr>"
  by (simp add: Summarize_def foldl_summarize CheckSummary_zero_def)

lemma Summarize_perm: "mset xs = mset ys \<Longrightarrow> Summarize xs = Summarize ys"
  unfolding Summarize_counts by (simp only: count_status_perm [of xs ys])

subsection \<open>The contract of a checker\<close>

text \<open>
  \<open>erase\<close> blanks the render fields.  A checker changes nothing else, its results do not depend on
  render fields left from before, and its results have the severities of the component.
\<close>

locale checker =
  fixes check :: "'a \<Rightarrow> 'a \<times> CheckResult list"
    and erase :: "'a \<Rightarrow> 'a"
    and sevs :: "CheckStatus set"
  assumes erase_check: "erase (fst (check x)) = erase x"
    and results_erase: "snd (check (erase x)) = snd (check x)"
    and severity: "r \<in> set (snd (check x)) \<Longrightarrow> cr_Status r \<in> sevs"
begin

lemma results_data: "erase x = erase y \<Longrightarrow> snd (check x) = snd (check y)"
  by (metis results_erase)

lemma recheck: "snd (check (fst (check x))) = snd (check x)"
  by (rule results_data) (rule erase_check)

lemma count_absent: "st \<notin> sevs \<Longrightarrow> count_status st (snd (check x)) = 0"
  using severity by (auto simp: count_status_def filter_empty_conv)

end

text \<open>A checker lifted to a slice keeps the contract.\<close>

lemma checker_slice:
  assumes "checker check erase sevs"
  shows "checker (check_list check) (map erase) sevs"
proof -
  note laws = checker.erase_check [OF assms] checker.results_erase [OF assms]
    checker.severity [OF assms]
  show ?thesis
    by unfold_locales (auto simp: check_list_eq laws(1,2) comp_def dest: laws(3))
qed

text \<open>
  A checker that paints: started from blank render fields it paints one red cell per alarming
  result, but for the results that have no cell (a collection error), which \<open>unpainted\<close> counts.
  \<open>cells\<close> lists the render fields.
\<close>

definition alarming :: "CheckStatus \<Rightarrow> bool" where
  "alarming st \<longleftrightarrow> st = StatusWarn \<or> st = StatusNotice"

definition red_cells :: "CheckStatus list \<Rightarrow> nat" where
  "red_cells cells = length (filter alarming cells)"

lemma red_cells_simps [simp]:
  "red_cells [] = 0"
  "red_cells (c # cs) = (if alarming c then Suc (red_cells cs) else red_cells cs)"
  "red_cells (cs @ ds) = red_cells cs + red_cells ds"
  by (simp_all add: red_cells_def)

lemma alarming_simps [simp]:
  "alarming StatusWarn" "alarming StatusNotice" "\<not> alarming StatusOK"
  "\<not> alarming StatusUnknown" "\<not> alarming StatusUnset"
  by (simp_all add: alarming_def)

definition alarms :: "CheckResult list \<Rightarrow> nat" where
  "alarms rs = length (filter (\<lambda>r. alarming (cr_Status r)) rs)"

lemma alarms_simps [simp]:
  "alarms [] = 0"
  "alarms (r # rs) = (if alarming (cr_Status r) then Suc (alarms rs) else alarms rs)"
  "alarms (rs @ ss) = alarms rs + alarms ss"
  by (simp_all add: alarms_def)

locale painting_checker = checker +
  fixes cells :: "'a \<Rightarrow> CheckStatus list"
    and unpainted :: "'a \<Rightarrow> nat"
  assumes paint:
    "alarms (snd (check (erase x))) = red_cells (cells (fst (check (erase x)))) + unpainted x"

lemma painting_checker_slice:
  assumes "painting_checker check erase sevs cells unpainted"
  shows "painting_checker (check_list check) (map erase) sevs (\<lambda>xs. concat (map cells xs))
    (\<lambda>xs. sum_list (map unpainted xs))"
proof (intro painting_checker.intro checker_slice painting_checker_axioms.intro)
  show "checker check erase sevs" using assms by (rule painting_checker.axioms)
  fix xs
  show "alarms (snd (check_list check (map erase xs))) =
    red_cells (concat (map cells (fst (check_list check (map erase xs)))))
      + sum_list (map unpainted xs)"
    by (induction xs) (simp_all add: check_list_eq painting_checker.paint [OF assms])
qed

text \<open>Where nothing is left unpainted there is one red cell per alarming result.\<close>

locale colouring_checker = painting_checker check erase sevs cells "\<lambda>_. 0"
  for check :: "'a \<Rightarrow> 'a \<times> CheckResult list"
    and erase :: "'a \<Rightarrow> 'a"
    and sevs :: "CheckStatus set"
    and cells :: "'a \<Rightarrow> CheckStatus list"
begin

lemma one_cell_each:
  "red_cells (cells (fst (check (erase x)))) = alarms (snd (check (erase x)))"
  using paint [of x] by simp

end

lemma colouring_checker_slice:
  assumes "colouring_checker check erase sevs cells"
  shows "colouring_checker (check_list check) (map erase) sevs (\<lambda>xs. concat (map cells xs))"
  using painting_checker_slice [OF colouring_checker.axioms [OF assms]]
  by (simp add: colouring_checker_def)

text \<open>A section that may be missing (a nil pointer in Go) has no results.\<close>

definition check_opt :: "('a \<Rightarrow> 'a \<times> CheckResult list) \<Rightarrow> 'a option \<Rightarrow> 'a option \<times> CheckResult list" where
  "check_opt check s =
     (case s of None \<Rightarrow> (None, []) | Some x \<Rightarrow> let (x', r) = check x in (Some x', r))"

lemma check_opt_simps [simp]:
  "check_opt check None = (None, [])"
  "check_opt check (Some x) = (Some (fst (check x)), snd (check x))"
  by (simp_all add: check_opt_def case_prod_beta Let_def)

lemma checker_opt:
  assumes "checker check erase sevs"
  shows "checker (check_opt check) (map_option erase) sevs"
proof -
  note laws = checker.erase_check [OF assms] checker.results_erase [OF assms]
    checker.severity [OF assms]
  show ?thesis
  proof (unfold_locales, goal_cases)
    case (1 s)
    then show ?case by (cases s) (simp_all add: laws(1))
  next
    case (2 s)
    then show ?case by (cases s) (simp_all add: laws(2))
  next
    case (3 r s)
    then show ?case by (cases s) (auto dest: laws(3))
  qed
qed

end
