(* ===== verification/Check_Rules.thy ===== *)
theory Check_Rules
  imports Check_Base
begin

text \<open>
  The rules of src/checker/rules.go: host thresholds, the services of a module, their docker
  containers and collection errors, and the replication report.
\<close>

subsection \<open>Hosts\<close>

text \<open>
  The value of a disk or inode row: the parsed number, or the text parsed again where the number
  is zero.
\<close>

definition usage_value :: "DiskUsage \<Rightarrow> float64" where
  "usage_value du =
     (let val = du_UsageFloat du
      in if feq val fzero then ParseFloat0 (TrimSuffix (du_Usage du) ''%'') else val)"

definition usage_check :: "string \<Rightarrow> float64 \<Rightarrow> string \<Rightarrow> DiskUsage \<Rightarrow> CheckResult" where
  "usage_check kind limit thr du =
     mk_check (kind @ ''('' @ du_MountPoint du @ '')'') (du_Usage du)
       (warn_if (fle limit (usage_value du))) thr"

definition percent_threshold :: "float64 \<Rightarrow> string" where
  "percent_threshold limit = txt_ge @ fmt_fixed 0 limit @ ''%''"

definition load_text :: "HostMetrics \<Rightarrow> string" where
  "load_text h =
     fmt_fixed 2 (hm_LoadAvg1 h) @ ''/'' @ fmt_fixed 2 (hm_LoadAvg5 h) @ ''/''
       @ fmt_fixed 2 (hm_LoadAvg15 h) @ '' (cores: '' @ Itoa (hm_Core h) @ '')''"

definition load_rising :: "HostMetrics \<Rightarrow> bool" where
  "load_rising h \<longleftrightarrow>
     flt (hm_LoadAvg5 h) (hm_LoadAvg1 h) \<and> flt (hm_LoadAvg15 h) (hm_LoadAvg5 h) \<and>
     flt (of_goint (hm_Core h)) (hm_LoadAvg15 h)"

definition CheckHost :: "HostMetrics \<Rightarrow> Thresholds \<Rightarrow> CheckResult list" where
  "CheckHost h t =
     [mk_check ''cpu_usage'' (fmt_fixed 2 (hm_CPUUsage h) @ ''%'')
        (warn_if (fle (th_CPUUsage t) (hm_CPUUsage h)))
        (percent_threshold (th_CPUUsage t)),
      mk_check ''mem_usage'' (fmt_fixed 2 (hm_MemUsage h) @ ''%'')
        (warn_if (fle (th_MemUsage t) (hm_MemUsage h)))
        (percent_threshold (th_MemUsage t))]
     @ map (usage_check ''disk_usage'' (th_DiskUsage t) (percent_threshold (th_DiskUsage t)))
         (hm_DiskUsage h)
     @ map (usage_check ''inode_usage'' (th_InodeUsage t) (percent_threshold (th_InodeUsage t)))
         (hm_InodeUsage h)
     @ [mk_check ''max_open_files'' (Itoa (hm_MaxOpenFiles h))
          (warn_if (hm_MaxOpenFiles h < th_MaxOpenFiles t))
          (''< '' @ Itoa (th_MaxOpenFiles t)),
        mk_check ''selinux'' (hm_SELinux h)
          (warn_if (hm_SELinux h \<noteq> ''Disabled'' \<and> hm_SELinux h \<noteq> ''N/A''))
          (txt_expect @ ''Disabled''),
        mk_check ''firewalld'' (hm_Firewalld h)
          (warn_if (hm_Firewalld h \<noteq> ''inactive'' \<and> hm_Firewalld h \<noteq> ''N/A''))
          (txt_expect @ ''inactive''),
        mk_check ''chronyd'' (hm_Chronyd h)
          (warn_if (hm_Chronyd h \<noteq> ''active'' \<and> hm_Chronyd h \<noteq> ''N/A''))
          (txt_expect @ ''active''),
        mk_check ''load_average'' (load_text h)
          (warn_if (load_rising h)) []]"

subsection \<open>Services\<close>

definition CheckService ::
  "ServiceModule \<Rightarrow> string \<Rightarrow> string \<Rightarrow> ServiceModule \<times> CheckResult list" where
  "CheckService sm hostIP moduleKey =
     (let prefix = ''service.'' @ moduleKey @ ''/'' @ sm_Module sm @ ''.'';
          (sm, r1) =
            (if sm_Status sm = [] then
               (sm\<lparr>sm_RenderStatus := StatusUnknown\<rparr>,
                [mk_check (prefix @ ''status'') ''(empty)'' StatusUnknown (txt_expect @ ''active'')])
             else if sm_Status sm = ''active'' then
               (sm\<lparr>sm_RenderStatus := StatusOK\<rparr>,
                [mk_check (prefix @ ''status'') (sm_Status sm) StatusOK (txt_expect @ ''active'')])
             else
               (sm\<lparr>sm_RenderStatus := StatusWarn\<rparr>,
                [mk_check (prefix @ ''status'') (sm_Status sm) StatusWarn (txt_expect @ ''active'')]));
          (sm, r2) =
            (if sm_HealthzAPI sm = [] then (sm\<lparr>sm_HealthzRenderStatus := StatusUnset\<rparr>, [])
             else if sm_HealthzAPI sm = ''N/A'' then (sm\<lparr>sm_HealthzRenderStatus := StatusUnset\<rparr>, [])
             else if sm_HealthzAPI sm = ''ok'' then
               (sm\<lparr>sm_HealthzRenderStatus := StatusOK\<rparr>,
                [mk_check (prefix @ ''healthz'') (sm_HealthzAPI sm) StatusOK (txt_expect @ ''ok'')])
             else
               (sm\<lparr>sm_HealthzRenderStatus := StatusWarn\<rparr>,
                [mk_check (prefix @ ''healthz'') (sm_HealthzAPI sm) StatusWarn (txt_expect @ ''ok'')]))
      in (sm, r1 @ r2))"

definition CheckServiceContainers ::
  "ServiceStatus \<Rightarrow> Thresholds \<Rightarrow> ServiceStatus \<times> CheckResult list" where
  "CheckServiceContainers s t =
     (if ss_ContainersUp s = 0 \<and> ss_ContainersExited s = 0 then (s, [])
      else if ss_ContainersExited s > th_ServiceContainersExited t then
        (s\<lparr>ss_ExitedRenderStatus := StatusNotice\<rparr>,
         [mk_check (''service.'' @ ss_Module s @ ''.docker.exited'') (Itoa (ss_ContainersExited s))
            StatusNotice (''> '' @ Itoa (th_ServiceContainersExited t))])
      else (s\<lparr>ss_ExitedRenderStatus := StatusOK\<rparr>, []))"

definition CheckServiceCollectError :: "ServiceStatus \<Rightarrow> CheckResult list" where
  "CheckServiceCollectError s =
     (if ss_Error s = [] then []
      else [mk_check (''service.'' @ ss_Module s @ ''.collect_error'') (ss_Error s) StatusNotice []])"

subsection \<open>Replication\<close>

definition check_mysql_master :: "MySQLMasterStatus \<Rightarrow> CheckResult" where
  "check_mysql_master m =
     mk_check (''mysql_master('' @ mm_IP m @ '').read_only'') (if mm_ReadOnly m then ''ON'' else ''OFF'')
       (warn_if (mm_Status m \<noteq> ''ok'')) []"

definition check_mysql_slave :: "string \<Rightarrow> MySQLSlaveStatus \<Rightarrow> CheckResult list" where
  "check_mysql_slave thr s =
     (case ms_Replication s of
        None \<Rightarrow> []
      | Some r \<Rightarrow>
          [mk_check (''mysql_slave('' @ ms_IP s @ '').replication'')
             (mr_IORunning r @ ''/'' @ mr_SQLRunning r @ '' lag='' @ Itoa (mr_SecondsBehindMaster r)
                @ ''s'')
             (warn_if (mr_Status r \<noteq> ''ok'')) thr])"

definition check_redis_replica :: "string \<Rightarrow> RedisReplicationStatus \<Rightarrow> CheckResult list" where
  "check_redis_replica thr n =
     [mk_check (''redis('' @ rr_IP n @ '').role'') (rr_Role n)
        (warn_if (rr_RoleConsistencyStatus n \<noteq> ''ok'')) []]
     @ (if rr_Role n = ''slave'' \<and> rr_LinkStatus n \<noteq> [] \<and> rr_LinkStatus n \<noteq> ''N/A'' then
          [mk_check (''redis('' @ rr_IP n @ '').link'')
             (rr_MasterLinkStatus n @ '' io='' @ Itoa (rr_MasterLastIOSeconds n) @ ''s'')
             (warn_if (rr_LinkStatus n \<noteq> ''ok'')) thr]
        else [])"

definition CheckReplication ::
  "ReplicationReport option \<Rightarrow> Thresholds \<Rightarrow> CheckResult list" where
  "CheckReplication rep t =
     (case rep of
        None \<Rightarrow> []
      | Some rep \<Rightarrow>
          map check_mysql_master (rp_MySQLMasters rep)
          @ concat (map (check_mysql_slave (''lag > '' @ Itoa (th_MySQLReplLagSec t) @ ''s''))
              (rp_MySQLSlaves rep))
          @ concat (map (check_redis_replica (''io > '' @ Itoa (th_RedisReplIOSec t) @ ''s''))
              (rp_RedisNodes rep)))"

subsection \<open>The contract\<close>

definition erase_service :: "ServiceModule \<Rightarrow> ServiceModule" where
  "erase_service sm = sm\<lparr>sm_RenderStatus := StatusUnset, sm_HealthzRenderStatus := StatusUnset\<rparr>"

definition erase_exited :: "ServiceStatus \<Rightarrow> ServiceStatus" where
  "erase_exited s = s\<lparr>ss_ExitedRenderStatus := StatusUnset\<rparr>"

lemmas erase_service_simps = erase_service_def erase_exited_def

interpretation service: colouring_checker "\<lambda>sm. CheckService sm hostIP moduleKey" erase_service
  "{StatusOK, StatusWarn, StatusUnknown}" "\<lambda>sm. [sm_RenderStatus sm, sm_HealthzRenderStatus sm]"
  for hostIP moduleKey
  by unfold_locales
    (auto simp: CheckService_def erase_service_simps Let_def split: if_splits)

interpretation containers: colouring_checker "\<lambda>s. CheckServiceContainers s t" erase_exited
  "{StatusNotice}" "\<lambda>s. [ss_ExitedRenderStatus s]"
  for t
  by unfold_locales
    (auto simp: CheckServiceContainers_def erase_service_simps split: if_splits)

interpretation collect_error: checker "\<lambda>s. (s, CheckServiceCollectError s)" "\<lambda>s. s" "{StatusNotice}"
  by unfold_locales (auto simp: CheckServiceCollectError_def split: if_splits)

interpretation host: checker "\<lambda>h. (h, CheckHost h t)" "\<lambda>h. h" "{StatusOK, StatusWarn}"
  for t
  by unfold_locales (auto simp: CheckHost_def usage_check_def)

lemma replica_severity:
  "r \<in> set (check_redis_replica thr n) \<Longrightarrow> cr_Status r = StatusOK \<or> cr_Status r = StatusWarn"
  "r \<in> set (check_mysql_slave thr s) \<Longrightarrow> cr_Status r = StatusOK \<or> cr_Status r = StatusWarn"
  "cr_Status (check_mysql_master m) = StatusOK \<or> cr_Status (check_mysql_master m) = StatusWarn"
  by (auto simp: check_redis_replica_def check_mysql_slave_def check_mysql_master_def
      split: if_splits option.splits)

interpretation replication: checker "\<lambda>rep. (rep, CheckReplication rep t)" "\<lambda>rep. rep"
  "{StatusOK, StatusWarn}"
  for t
  by unfold_locales
    (simp_all add: CheckReplication_def split: option.splits, use replica_severity in blast)

end
