(* ===== verification/Check_ES.thy ===== *)
theory Check_ES
  imports Check_Base
begin

text \<open>
  The Elasticsearch checker (src/checker/es.go).  \<open>checkOneESCluster\<close> threads the cluster, whose
  render fields it fills in, and the results through its steps; a collection error of the
  cluster stops it after the first.
\<close>

definition safeInstance :: "string \<Rightarrow> string" where
  "safeInstance s = (if s = [] then ''unknown'' else s)"

definition check_es_node :: "string \<Rightarrow> Thresholds \<Rightarrow> ESNode \<Rightarrow> ESNode \<times> CheckResult list" where
  "check_es_node pre t n =
     (let (n, r1) =
            (if en_HeapPercent n > th_ESHeapPercent t then
               (n\<lparr>en_HeapStatus := StatusNotice\<rparr>,
                [mk_check (pre @ en_IP n @ ''.heap'') (Itoa (en_HeapPercent n) @ ''%'')
                   StatusNotice []])
             else (n\<lparr>en_HeapStatus := StatusOK\<rparr>, []));
          (n, r2) =
            (if en_RAMPercent n > th_ESRAMPercent t then
               (n\<lparr>en_RAMStatus := StatusNotice\<rparr>,
                [mk_check (pre @ en_IP n @ ''.ram'') (Itoa (en_RAMPercent n) @ ''%'')
                   StatusNotice []])
             else (n\<lparr>en_RAMStatus := StatusOK\<rparr>, []))
      in (n, r1 @ r2))"

definition check_es_reach :: "string \<Rightarrow> ESNodeReach \<Rightarrow> ESNodeReach \<times> CheckResult list" where
  "check_es_reach pre nr =
     (if er_Status nr = ''unreachable'' then
        (nr\<lparr>er_RenderStatus := StatusWarn\<rparr>,
         [mk_check (pre @ er_IP nr @ ''.reachability'') (er_Status nr) StatusWarn []])
      else (nr\<lparr>er_RenderStatus := StatusOK\<rparr>, []))"

definition checkOneESCluster :: "ESCluster \<Rightarrow> Thresholds \<Rightarrow> ESCluster \<times> CheckResult list" where
  "checkOneESCluster c t =
     (let pre = ''es.'' @ safeInstance (ec_Instance c) @ ''.''
      in if ec_Error c \<noteq> [] then
           (c\<lparr>ec_HealthStatus := StatusWarn\<rparr>,
            [mk_check (pre @ ''cluster_error'') (ec_Error c) StatusWarn []])
         else
           let (c, r1) =
                 (if ec_Status c \<noteq> [] \<and> ec_Status c \<noteq> ''green'' then
                    (c\<lparr>ec_HealthStatus := StatusNotice\<rparr>,
                     [mk_check (pre @ ''cluster_status'') (ec_Status c) StatusNotice []])
                  else if ec_Status c = ''green'' then (c\<lparr>ec_HealthStatus := StatusOK\<rparr>, [])
                  else (c, []));
               (c, r2) =
                 (if ec_UnassignedShards c > th_ESUnassignedShards t then
                    (c\<lparr>ec_UnassignedStatus := StatusNotice\<rparr>,
                     [mk_check (pre @ ''unassigned_shards'') (Itoa (ec_UnassignedShards c))
                        StatusNotice []])
                  else (c\<lparr>ec_UnassignedStatus := StatusOK\<rparr>, []));
               (c, r3) =
                 (if ec_PendingTasks c > 0 then
                    (c\<lparr>ec_PendingStatus := StatusNotice\<rparr>,
                     [mk_check (pre @ ''pending_tasks'') (Itoa (ec_PendingTasks c))
                        StatusNotice []])
                  else (c\<lparr>ec_PendingStatus := StatusOK\<rparr>, []));
               (nodes, r4) = check_list (check_es_node pre t) (ec_Nodes c);
               (reach, r5) = check_list (check_es_reach pre) (ec_NodeReachability c)
           in (c\<lparr>ec_Nodes := nodes, ec_NodeReachability := reach\<rparr>, r1 @ r2 @ r3 @ r4 @ r5))"

definition CheckES :: "ESCluster list \<Rightarrow> Thresholds \<Rightarrow> ESCluster list \<times> CheckResult list" where
  "CheckES clusters t = check_list (\<lambda>c. checkOneESCluster c t) clusters"

subsection \<open>The contract\<close>

definition erase_es_node :: "ESNode \<Rightarrow> ESNode" where
  "erase_es_node n = n\<lparr>en_HeapStatus := StatusUnset, en_RAMStatus := StatusUnset\<rparr>"

definition erase_es_reach :: "ESNodeReach \<Rightarrow> ESNodeReach" where
  "erase_es_reach nr = nr\<lparr>er_RenderStatus := StatusUnset\<rparr>"

definition erase_es :: "ESCluster \<Rightarrow> ESCluster" where
  "erase_es c =
     c\<lparr>ec_HealthStatus := StatusUnset, ec_UnassignedStatus := StatusUnset,
       ec_PendingStatus := StatusUnset, ec_Nodes := map erase_es_node (ec_Nodes c),
       ec_NodeReachability := map erase_es_reach (ec_NodeReachability c)\<rparr>"

definition node_cells :: "ESNode \<Rightarrow> CheckStatus list" where
  "node_cells n = [en_HeapStatus n, en_RAMStatus n]"

definition reach_cells :: "ESNodeReach \<Rightarrow> CheckStatus list" where
  "reach_cells nr = [er_RenderStatus nr]"

definition es_cells :: "ESCluster \<Rightarrow> CheckStatus list" where
  "es_cells c =
     [ec_HealthStatus c, ec_UnassignedStatus c, ec_PendingStatus c]
     @ concat (map node_cells (ec_Nodes c)) @ concat (map reach_cells (ec_NodeReachability c))"

interpretation es_node: colouring_checker "check_es_node pre t" erase_es_node "{StatusNotice}"
  node_cells for pre t
  by unfold_locales
    (auto simp: check_es_node_def erase_es_node_def node_cells_def Let_def split: if_splits)

interpretation es_reach: colouring_checker "check_es_reach pre" erase_es_reach "{StatusWarn}"
  reach_cells for pre
  by unfold_locales
    (auto simp: check_es_reach_def erase_es_reach_def reach_cells_def split: if_splits)

interpretation es_nodes: colouring_checker "check_list (check_es_node pre t)"
  "map erase_es_node" "{StatusNotice}" "\<lambda>xs. concat (map node_cells xs)" for pre t
  by (rule colouring_checker_slice) (rule es_node.colouring_checker_axioms)

interpretation es_reaches: colouring_checker "check_list (check_es_reach pre)"
  "map erase_es_reach" "{StatusWarn}" "\<lambda>xs. concat (map reach_cells xs)" for pre
  by (rule colouring_checker_slice) (rule es_reach.colouring_checker_axioms)

text \<open>The cluster's own cells: health, unassigned shards, pending tasks.\<close>

lemma erase_erase_node: "erase_es_node (erase_es_node n) = erase_es_node n"
  by (simp add: erase_es_node_def)

lemma erase_erase_reach: "erase_es_reach (erase_es_reach n) = erase_es_reach n"
  by (simp add: erase_es_reach_def)

lemma concat_blank: "red_cells (concat (map (\<lambda>x. cells (er x)) xs)) = 0"
  if "\<And>x. red_cells (cells (er x)) = 0"
  using that by (induction xs) auto

lemma blank_cells:
  "red_cells (node_cells (erase_es_node n)) = 0" "red_cells (reach_cells (erase_es_reach r)) = 0"
  by (simp_all add: node_cells_def reach_cells_def erase_es_node_def erase_es_reach_def)

interpretation es: colouring_checker "\<lambda>c. checkOneESCluster c t" erase_es
  "{StatusWarn, StatusNotice}" es_cells for t
proof (unfold_locales, goal_cases)
  case (1 c)
  show ?case
    using es_nodes.erase_check es_reaches.erase_check
    by (auto simp: checkOneESCluster_def erase_es_def Let_def case_prod_beta)
next
  case (2 c)
  show ?case
    using es_nodes.results_erase es_reaches.results_erase
    by (auto simp: checkOneESCluster_def erase_es_def Let_def case_prod_beta)
next
  case (3 r c)
  then show ?case
    using es_nodes.severity es_reaches.severity
    by (fastforce simp: checkOneESCluster_def Let_def case_prod_beta split: if_splits)
next
  case (4 c)
  define pre where "pre = ''es.'' @ safeInstance (ec_Instance c) @ ''.''"
  show ?case
    using es_nodes.one_cell_each [of pre t "ec_Nodes c"]
      es_reaches.one_cell_each [of pre "ec_NodeReachability c"]
    by (auto simp: checkOneESCluster_def erase_es_def es_cells_def Let_def case_prod_beta
        concat_blank blank_cells comp_def pre_def)
qed

interpretation es_clusters: colouring_checker "\<lambda>cs. CheckES cs t" "map erase_es"
  "{StatusWarn, StatusNotice}" "\<lambda>xs. concat (map es_cells xs)" for t
  unfolding CheckES_def by (rule colouring_checker_slice) (rule es.colouring_checker_axioms)

end
