(* ===== verification/Check_Redis.thy ===== *)
theory Check_Redis
  imports Check_ES
begin

text \<open>
  The Redis checkers (src/checker/redis.go): standalone nodes and the sentinel cluster.
\<close>

definition check_redis_node :: "Thresholds \<Rightarrow> RedisNode \<Rightarrow> RedisNode \<times> CheckResult list" where
  "check_redis_node t n =
     (let pre = ''redis.'' @ rn_IP n @ ''.'';
          (n, r1) =
            (if rn_Error n \<noteq> [] then
               (n\<lparr>rn_ErrorStatus := StatusWarn\<rparr>,
                [mk_check (pre @ ''error'') (rn_Error n) StatusWarn []])
             else (n\<lparr>rn_ErrorStatus := StatusUnset\<rparr>, []));
          (n, r2) =
            (if rn_CeleryQueue n > th_RedisCeleryQueue t then
               (n\<lparr>rn_CeleryQueueStatus := StatusNotice\<rparr>,
                [mk_check (pre @ ''celery_queue'') (Itoa (rn_CeleryQueue n)) StatusNotice []])
             else (n\<lparr>rn_CeleryQueueStatus := StatusOK\<rparr>, []));
          (n, r3) =
            (if rn_MonitorQueue n > th_RedisMonitorQueue t then
               (n\<lparr>rn_MonitorQueueStatus := StatusNotice\<rparr>,
                [mk_check (pre @ ''monitor_queue'') (Itoa (rn_MonitorQueue n)) StatusNotice []])
             else (n\<lparr>rn_MonitorQueueStatus := StatusOK\<rparr>, []))
      in (n, r1 @ r2 @ r3))"

definition CheckRedis :: "RedisNode list \<Rightarrow> Thresholds \<Rightarrow> RedisNode list \<times> CheckResult list" where
  "CheckRedis nodes t = check_list (check_redis_node t) nodes"

definition check_sentinel_node :: "SentinelNodeStatus \<Rightarrow> SentinelNodeStatus \<times> CheckResult list" where
  "check_sentinel_node sn =
     (if \<not> sn_Reachable sn then
        (sn\<lparr>sn_RenderStatus := StatusWarn\<rparr>,
         [mk_check (''redis_sentinel.'' @ sn_IP sn @ ''.reachable'') ''false'' StatusWarn []])
      else (sn\<lparr>sn_RenderStatus := StatusOK\<rparr>, []))"

definition check_sentinel ::
  "SentinelClusterStatus \<Rightarrow> SentinelClusterStatus \<times> CheckResult list" where
  "check_sentinel s =
     (let r1 = (if sc_Error s \<noteq> [] then
                  [mk_check ''redis_sentinel.error'' (sc_Error s) StatusWarn []] else []);
          (s, r2) =
            (if \<not> sc_MasterReachable s then
               (s\<lparr>sc_MasterReachableStatus := StatusWarn\<rparr>,
                [mk_check ''redis_sentinel.master_reachable'' ''false'' StatusWarn []])
             else (s\<lparr>sc_MasterReachableStatus := StatusOK\<rparr>, []));
          (s, r3) =
            (if sc_MasterEnvMatch s = ''warn'' then
               (s\<lparr>sc_MasterEnvMatchStatus := StatusWarn\<rparr>,
                [mk_check ''redis_sentinel.master_env_match'' (sc_MasterEnvMatch s) StatusWarn []])
             else if sc_MasterEnvMatch s = ''ok'' then
               (s\<lparr>sc_MasterEnvMatchStatus := StatusOK\<rparr>, [])
             else (s\<lparr>sc_MasterEnvMatchStatus := StatusUnset\<rparr>, []));
          (s, r4) =
            (if sc_Status s \<noteq> ''ok'' then
               (s\<lparr>sc_OverallStatus := StatusWarn\<rparr>,
                [mk_check ''redis_sentinel.status'' (sc_Status s) StatusWarn []])
             else (s\<lparr>sc_OverallStatus := StatusOK\<rparr>, []));
          (sentinels, r5) = check_list check_sentinel_node (sc_Sentinels s)
      in (s\<lparr>sc_Sentinels := sentinels\<rparr>, r1 @ r2 @ r3 @ r4 @ r5))"

definition CheckRedisSentinel ::
  "SentinelClusterStatus option \<Rightarrow> SentinelClusterStatus option \<times> CheckResult list" where
  "CheckRedisSentinel s = check_opt check_sentinel s"

subsection \<open>The contract\<close>

definition erase_redis :: "RedisNode \<Rightarrow> RedisNode" where
  "erase_redis n = n\<lparr>rn_ErrorStatus := StatusUnset, rn_CeleryQueueStatus := StatusUnset,
     rn_MonitorQueueStatus := StatusUnset\<rparr>"

definition redis_cells :: "RedisNode \<Rightarrow> CheckStatus list" where
  "redis_cells n = [rn_ErrorStatus n, rn_CeleryQueueStatus n, rn_MonitorQueueStatus n]"

interpretation redis_node: colouring_checker "check_redis_node t" erase_redis
  "{StatusWarn, StatusNotice}" redis_cells for t
  by unfold_locales
    (auto simp: check_redis_node_def erase_redis_def redis_cells_def Let_def split: if_splits)

interpretation redis: colouring_checker "\<lambda>ns. CheckRedis ns t" "map erase_redis"
  "{StatusWarn, StatusNotice}" "\<lambda>ns. concat (map redis_cells ns)" for t
  unfolding CheckRedis_def
  by (rule colouring_checker_slice) (rule redis_node.colouring_checker_axioms)

definition erase_sentinel_node :: "SentinelNodeStatus \<Rightarrow> SentinelNodeStatus" where
  "erase_sentinel_node sn = sn\<lparr>sn_RenderStatus := StatusUnset\<rparr>"

definition erase_sentinel :: "SentinelClusterStatus \<Rightarrow> SentinelClusterStatus" where
  "erase_sentinel s = s\<lparr>sc_MasterReachableStatus := StatusUnset,
     sc_MasterEnvMatchStatus := StatusUnset, sc_OverallStatus := StatusUnset,
     sc_Sentinels := map erase_sentinel_node (sc_Sentinels s)\<rparr>"

definition sentinel_node_cells :: "SentinelNodeStatus \<Rightarrow> CheckStatus list" where
  "sentinel_node_cells sn = [sn_RenderStatus sn]"

definition sentinel_cells :: "SentinelClusterStatus \<Rightarrow> CheckStatus list" where
  "sentinel_cells s =
     [sc_MasterReachableStatus s, sc_MasterEnvMatchStatus s, sc_OverallStatus s]
     @ concat (map sentinel_node_cells (sc_Sentinels s))"

interpretation sentinel_node: colouring_checker check_sentinel_node erase_sentinel_node
  "{StatusWarn}" sentinel_node_cells
  by unfold_locales
    (auto simp: check_sentinel_node_def erase_sentinel_node_def sentinel_node_cells_def
      split: if_splits)

interpretation sentinel_nodes: colouring_checker "check_list check_sentinel_node"
  "map erase_sentinel_node" "{StatusWarn}" "\<lambda>xs. concat (map sentinel_node_cells xs)"
  by (rule colouring_checker_slice) (rule sentinel_node.colouring_checker_axioms)

interpretation sentinel: painting_checker check_sentinel erase_sentinel "{StatusWarn}"
  sentinel_cells "\<lambda>s. if sc_Error s \<noteq> [] then 1 else 0"
proof (unfold_locales, goal_cases)
  case (1 s)
  show ?case
    using sentinel_nodes.erase_check
    by (auto simp: check_sentinel_def erase_sentinel_def Let_def case_prod_beta)
next
  case (2 s)
  show ?case
    using sentinel_nodes.results_erase
    by (auto simp: check_sentinel_def erase_sentinel_def Let_def case_prod_beta)
next
  case (3 r s)
  then show ?case
    using sentinel_nodes.severity
    by (fastforce simp: check_sentinel_def Let_def case_prod_beta split: if_splits)
next
  case (4 s)
  show ?case
    using sentinel_nodes.one_cell_each [of "sc_Sentinels s"]
    by (cases "sc_Error s = []"; cases "sc_MasterReachable s"; cases "sc_Status s = ''ok''";
        cases "sc_MasterEnvMatch s = ''warn''"; cases "sc_MasterEnvMatch s = ''ok''")
      (simp_all add: check_sentinel_def erase_sentinel_def sentinel_cells_def Let_def
        case_prod_beta)
qed

interpretation sentinel_section: checker CheckRedisSentinel "map_option erase_sentinel"
  "{StatusWarn}"
  unfolding CheckRedisSentinel_def by (rule checker_opt) (rule sentinel.checker_axioms)

end
