(* ===== verification/Check_Mongo.thy ===== *)
theory Check_Mongo
  imports Check_ES
begin

text \<open>
  The MongoDB checker (src/checker/mongo.go).
\<close>

definition check_mongo_member :: "string \<Rightarrow> MongoMember \<Rightarrow> MongoMember \<times> CheckResult list" where
  "check_mongo_member pre m =
     (if gm_Health m \<noteq> 1 then
        (m\<lparr>gm_HealthStatus := StatusNotice\<rparr>,
         [mk_check (pre @ gm_Name m @ ''.health'') (Itoa (gm_Health m)) StatusNotice []])
      else (m\<lparr>gm_HealthStatus := StatusOK\<rparr>, []))"

definition check_mongo_cluster :: "MongoCluster \<Rightarrow> MongoCluster \<times> CheckResult list" where
  "check_mongo_cluster c =
     (let pre = ''mongo.'' @ safeInstance (gc_Instance c) @ ''.''
      in if gc_Error c \<noteq> [] then
           (c, [mk_check (pre @ ''error'') (gc_Error c) StatusWarn []])
         else
           let (members, rs) = check_list (check_mongo_member pre) (gc_Members c)
           in (c\<lparr>gc_Members := members\<rparr>, rs))"

definition CheckMongo :: "MongoCluster list \<Rightarrow> MongoCluster list \<times> CheckResult list" where
  "CheckMongo clusters = check_list check_mongo_cluster clusters"

subsection \<open>The contract\<close>

definition erase_member :: "MongoMember \<Rightarrow> MongoMember" where
  "erase_member m = m\<lparr>gm_HealthStatus := StatusUnset\<rparr>"

definition erase_mongo :: "MongoCluster \<Rightarrow> MongoCluster" where
  "erase_mongo c = c\<lparr>gc_Members := map erase_member (gc_Members c)\<rparr>"

definition member_cells :: "MongoMember \<Rightarrow> CheckStatus list" where
  "member_cells m = [gm_HealthStatus m]"

definition mongo_cells :: "MongoCluster \<Rightarrow> CheckStatus list" where
  "mongo_cells c = concat (map member_cells (gc_Members c))"

interpretation mongo_member: colouring_checker "check_mongo_member pre" erase_member
  "{StatusNotice}" member_cells for pre
  by unfold_locales
    (auto simp: check_mongo_member_def erase_member_def member_cells_def split: if_splits)

interpretation mongo_members: colouring_checker "check_list (check_mongo_member pre)"
  "map erase_member" "{StatusNotice}" "\<lambda>xs. concat (map member_cells xs)" for pre
  by (rule colouring_checker_slice) (rule mongo_member.colouring_checker_axioms)

lemma blank_member: "red_cells (member_cells (erase_member m)) = 0"
  by (simp add: member_cells_def erase_member_def)

lemma erase_erase_member: "erase_member (erase_member m) = erase_member m"
  by (simp add: erase_member_def)

interpretation mongo: painting_checker check_mongo_cluster erase_mongo
  "{StatusWarn, StatusNotice}" mongo_cells "\<lambda>c. if gc_Error c \<noteq> [] then 1 else 0"
proof (unfold_locales, goal_cases)
  case (1 c)
  show ?case
    using mongo_members.erase_check
    by (auto simp: check_mongo_cluster_def erase_mongo_def Let_def case_prod_beta)
next
  case (2 c)
  show ?case
    using mongo_members.results_erase
    by (auto simp: check_mongo_cluster_def erase_mongo_def Let_def case_prod_beta)
next
  case (3 r c)
  then show ?case
    using mongo_members.severity
    by (fastforce simp: check_mongo_cluster_def Let_def case_prod_beta split: if_splits)
next
  case (4 c)
  show ?case
    using mongo_members.one_cell_each
    by (auto simp: check_mongo_cluster_def erase_mongo_def mongo_cells_def Let_def
        case_prod_beta concat_blank blank_member comp_def)
qed

interpretation mongo_clusters: painting_checker CheckMongo "map erase_mongo"
  "{StatusWarn, StatusNotice}" "\<lambda>cs. concat (map mongo_cells cs)"
  "\<lambda>cs. sum_list (map (\<lambda>c. if gc_Error c \<noteq> [] then 1 else 0) cs)"
  unfolding CheckMongo_def
  by (rule painting_checker_slice) (rule mongo.painting_checker_axioms)

end
