(* ===== verification/Check_RabbitMQ.thy ===== *)
theory Check_RabbitMQ
  imports Check_ES
begin

text \<open>
  The RabbitMQ checker (src/checker/rabbitmq.go).  The queues of the section were already chosen
  by the collector; the checker maps each to one result.
\<close>

definition check_alarm :: "RabbitMQAlarm \<Rightarrow> RabbitMQAlarm \<times> CheckResult list" where
  "check_alarm a =
     (let (a, r1) =
            (if ra_MemAlarm a then
               (a\<lparr>ra_MemStatus := StatusWarn\<rparr>,
                [mk_check (''rabbitmq.node.'' @ ra_Node a @ ''.mem_alarm'') ''true'' StatusWarn []])
             else (a\<lparr>ra_MemStatus := StatusOK\<rparr>, []));
          (a, r2) =
            (if ra_DiskFreeAlarm a then
               (a\<lparr>ra_DiskFreeStatus := StatusWarn\<rparr>,
                [mk_check (''rabbitmq.node.'' @ ra_Node a @ ''.disk_free_alarm'') ''true''
                   StatusWarn []])
             else (a\<lparr>ra_DiskFreeStatus := StatusOK\<rparr>, []))
      in (a, r1 @ r2))"

definition check_backlog :: "string \<Rightarrow> RabbitMQQueue \<Rightarrow> RabbitMQQueue \<times> CheckResult list" where
  "check_backlog backlogThr q =
     (q\<lparr>rq_MessageStatus := StatusWarn\<rparr>,
      [mk_check (''rabbitmq.'' @ rq_VHost q @ ''.'' @ rq_Queue q @ ''.backlog'')
         (Itoa (rq_MessageCount q) @ '' msgs / '' @ Itoa (rq_Consumers q) @ '' consumers'')
         StatusWarn backlogThr])"

definition check_no_consumer :: "RabbitMQQueue \<Rightarrow> RabbitMQQueue \<times> CheckResult list" where
  "check_no_consumer q =
     (q\<lparr>rq_ConsumerStatus := StatusWarn\<rparr>,
      [mk_check (''rabbitmq.'' @ rq_VHost q @ ''.'' @ rq_Queue q @ ''.no_consumer'')
         (Itoa (rq_MessageCount q) @ '' msgs'') StatusWarn []])"

definition check_rabbitmq :: "Thresholds \<Rightarrow> RabbitMQStatus \<Rightarrow> RabbitMQStatus \<times> CheckResult list" where
  "check_rabbitmq t r =
     (let r1 = (if rs_Error r \<noteq> [] then
                  [mk_check ''rabbitmq.error'' (rs_Error r) StatusWarn []] else []);
          r2 = (if rs_QueuesError r \<noteq> [] then
                  [mk_check ''rabbitmq.queues_error'' (rs_QueuesError r) StatusWarn []] else []);
          (r, r3) =
            (if rs_ClusterPartition r then
               (r\<lparr>rs_PartitionStatus := StatusWarn\<rparr>,
                [mk_check ''rabbitmq.cluster_partition'' ''true'' StatusWarn []])
             else (r\<lparr>rs_PartitionStatus := StatusOK\<rparr>, []));
          (r, r4) =
            (if rs_AbnormalConnections r > 0 then
               (r\<lparr>rs_AbnormalConnStatus := StatusWarn\<rparr>,
                [mk_check ''rabbitmq.abnormal_connections'' (Itoa (rs_AbnormalConnections r))
                   StatusWarn []])
             else (r\<lparr>rs_AbnormalConnStatus := StatusUnset\<rparr>, []));
          (alarms', r5) = check_list check_alarm (rs_NodeAlarms r);
          backlogThr = ''> '' @ Itoa (th_RabbitMQQueueBacklog t) @ '' msgs'';
          (exceeding, r6) = check_list (check_backlog backlogThr) (rs_ExceedingQueues r);
          (noConsumer, r7) = check_list check_no_consumer (rs_NoConsumerQueues r)
      in (r\<lparr>rs_NodeAlarms := alarms', rs_ExceedingQueues := exceeding,
            rs_NoConsumerQueues := noConsumer\<rparr>,
          r1 @ r2 @ r3 @ r4 @ r5 @ r6 @ r7))"

definition CheckRabbitMQ ::
  "RabbitMQStatus option \<Rightarrow> Thresholds \<Rightarrow> RabbitMQStatus option \<times> CheckResult list" where
  "CheckRabbitMQ r t = check_opt (check_rabbitmq t) r"

subsection \<open>The contract\<close>

definition erase_alarm :: "RabbitMQAlarm \<Rightarrow> RabbitMQAlarm" where
  "erase_alarm a = a\<lparr>ra_MemStatus := StatusUnset, ra_DiskFreeStatus := StatusUnset\<rparr>"

definition erase_backlog :: "RabbitMQQueue \<Rightarrow> RabbitMQQueue" where
  "erase_backlog q = q\<lparr>rq_MessageStatus := StatusUnset\<rparr>"

definition erase_no_consumer :: "RabbitMQQueue \<Rightarrow> RabbitMQQueue" where
  "erase_no_consumer q = q\<lparr>rq_ConsumerStatus := StatusUnset\<rparr>"

definition erase_rabbitmq :: "RabbitMQStatus \<Rightarrow> RabbitMQStatus" where
  "erase_rabbitmq r = r\<lparr>rs_PartitionStatus := StatusUnset, rs_AbnormalConnStatus := StatusUnset,
     rs_NodeAlarms := map erase_alarm (rs_NodeAlarms r),
     rs_ExceedingQueues := map erase_backlog (rs_ExceedingQueues r),
     rs_NoConsumerQueues := map erase_no_consumer (rs_NoConsumerQueues r)\<rparr>"

definition alarm_cells :: "RabbitMQAlarm \<Rightarrow> CheckStatus list" where
  "alarm_cells a = [ra_MemStatus a, ra_DiskFreeStatus a]"

definition backlog_cells :: "RabbitMQQueue \<Rightarrow> CheckStatus list" where
  "backlog_cells q = [rq_MessageStatus q]"

definition no_consumer_cells :: "RabbitMQQueue \<Rightarrow> CheckStatus list" where
  "no_consumer_cells q = [rq_ConsumerStatus q]"

definition rabbitmq_cells :: "RabbitMQStatus \<Rightarrow> CheckStatus list" where
  "rabbitmq_cells r =
     [rs_PartitionStatus r, rs_AbnormalConnStatus r]
     @ concat (map alarm_cells (rs_NodeAlarms r))
     @ concat (map backlog_cells (rs_ExceedingQueues r))
     @ concat (map no_consumer_cells (rs_NoConsumerQueues r))"

interpretation alarm: colouring_checker check_alarm erase_alarm "{StatusWarn}" alarm_cells
  by unfold_locales
    (auto simp: check_alarm_def erase_alarm_def alarm_cells_def Let_def split: if_splits)

interpretation backlog: colouring_checker "check_backlog thr" erase_backlog "{StatusWarn}"
  backlog_cells for thr
  by unfold_locales (auto simp: check_backlog_def erase_backlog_def backlog_cells_def)

interpretation no_consumer: colouring_checker check_no_consumer erase_no_consumer "{StatusWarn}"
  no_consumer_cells
  by unfold_locales
    (auto simp: check_no_consumer_def erase_no_consumer_def no_consumer_cells_def)

interpretation alarm_list: colouring_checker "check_list check_alarm" "map erase_alarm"
  "{StatusWarn}" "\<lambda>xs. concat (map alarm_cells xs)"
  by (rule colouring_checker_slice) (rule alarm.colouring_checker_axioms)

interpretation backlogs: colouring_checker "check_list (check_backlog thr)" "map erase_backlog"
  "{StatusWarn}" "\<lambda>xs. concat (map backlog_cells xs)" for thr
  by (rule colouring_checker_slice) (rule backlog.colouring_checker_axioms)

interpretation no_consumers: colouring_checker "check_list check_no_consumer"
  "map erase_no_consumer" "{StatusWarn}" "\<lambda>xs. concat (map no_consumer_cells xs)"
  by (rule colouring_checker_slice) (rule no_consumer.colouring_checker_axioms)

interpretation rabbitmq: painting_checker "check_rabbitmq t" erase_rabbitmq "{StatusWarn}"
  rabbitmq_cells
  "\<lambda>r. (if rs_Error r \<noteq> [] then 1 else 0) + (if rs_QueuesError r \<noteq> [] then 1 else 0)"
  for t
proof (unfold_locales, goal_cases)
  case (1 r)
  show ?case
    using alarm_list.erase_check backlogs.erase_check no_consumers.erase_check
    by (auto simp: check_rabbitmq_def erase_rabbitmq_def Let_def case_prod_beta)
next
  case (2 r)
  show ?case
    using alarm_list.results_erase backlogs.results_erase no_consumers.results_erase
    by (auto simp: check_rabbitmq_def erase_rabbitmq_def Let_def case_prod_beta)
next
  case (3 c r)
  then show ?case
    using alarm_list.severity backlogs.severity no_consumers.severity
    by (fastforce simp: check_rabbitmq_def Let_def case_prod_beta split: if_splits)
next
  case (4 r)
  show ?case
    using alarm_list.one_cell_each [of "rs_NodeAlarms r"]
      backlogs.one_cell_each [of "''> '' @ Itoa (th_RabbitMQQueueBacklog t) @ '' msgs''"
        "rs_ExceedingQueues r"]
      no_consumers.one_cell_each [of "rs_NoConsumerQueues r"]
    by (cases "rs_Error r = []"; cases "rs_QueuesError r = []"; cases "rs_ClusterPartition r";
        cases "rs_AbnormalConnections r > 0")
      (simp_all add: check_rabbitmq_def erase_rabbitmq_def rabbitmq_cells_def Let_def
        case_prod_beta)
qed

interpretation rabbitmq_section: checker "\<lambda>r. CheckRabbitMQ r t" "map_option erase_rabbitmq"
  "{StatusWarn}" for t
  unfolding CheckRabbitMQ_def by (rule checker_opt) (rule rabbitmq.checker_axioms)

end
