(* ===== verification/Check_BKDeps.thy ===== *)
theory Check_BKDeps
  imports Check_Base
begin

text \<open>
  The checker of the bkmonitorv3 dependency probes (src/checker/bkdeps.go).
\<close>

definition check_dependency :: "DependencyResult \<Rightarrow> DependencyResult \<times> CheckResult list" where
  "check_dependency d =
     (if dr_Status d = ''ok'' then
        (d\<lparr>dr_RenderStatus := StatusOK\<rparr>,
         [mk_check (''bkdeps.'' @ dr_Item d @ ''.status'') (dr_Status d) StatusOK []])
      else if dr_Status d = ''skip'' then (d\<lparr>dr_RenderStatus := StatusUnset\<rparr>, [])
      else
        (d\<lparr>dr_RenderStatus := StatusNotice\<rparr>,
         [mk_check (''bkdeps.'' @ dr_Item d @ ''.status'') (dr_Status d) StatusNotice []]))"

definition check_section :: "BKMonitorV3Section \<Rightarrow> BKMonitorV3Section \<times> CheckResult list" where
  "check_section s =
     (let (deps, rs) = check_list check_dependency (bs_Dependencies s)
      in (s\<lparr>bs_Dependencies := deps\<rparr>, rs))"

definition CheckBKDeps ::
  "BKMonitorV3Section option \<Rightarrow> BKMonitorV3Section option \<times> CheckResult list" where
  "CheckBKDeps s = check_opt check_section s"

subsection \<open>The contract\<close>

definition erase_dependency :: "DependencyResult \<Rightarrow> DependencyResult" where
  "erase_dependency d = d\<lparr>dr_RenderStatus := StatusUnset\<rparr>"

definition erase_section :: "BKMonitorV3Section \<Rightarrow> BKMonitorV3Section" where
  "erase_section s = s\<lparr>bs_Dependencies := map erase_dependency (bs_Dependencies s)\<rparr>"

definition dependency_cells :: "DependencyResult \<Rightarrow> CheckStatus list" where
  "dependency_cells d = [dr_RenderStatus d]"

definition section_cells :: "BKMonitorV3Section \<Rightarrow> CheckStatus list" where
  "section_cells s = concat (map dependency_cells (bs_Dependencies s))"

interpretation dependency: colouring_checker check_dependency erase_dependency
  "{StatusOK, StatusNotice}" dependency_cells
  by unfold_locales
    (auto simp: check_dependency_def erase_dependency_def dependency_cells_def split: if_splits)

interpretation dependencies: colouring_checker "check_list check_dependency"
  "map erase_dependency" "{StatusOK, StatusNotice}" "\<lambda>xs. concat (map dependency_cells xs)"
  by (rule colouring_checker_slice) (rule dependency.colouring_checker_axioms)

interpretation bkdeps: colouring_checker check_section erase_section "{StatusOK, StatusNotice}"
  section_cells
  by unfold_locales
    (use dependencies.erase_check dependencies.results_erase dependencies.severity
        dependencies.one_cell_each in
      \<open>auto simp: check_section_def erase_section_def section_cells_def Let_def case_prod_beta\<close>)

interpretation bkdeps_section: checker CheckBKDeps "map_option erase_section"
  "{StatusOK, StatusNotice}"
  unfolding CheckBKDeps_def by (rule checker_opt) (rule bkdeps.checker_axioms)

end
