(* ===== verification/Check_Properties.thy ===== *)
theory Check_Properties
  imports Sample_Values Check_Rules Check_Redis Check_Mongo Check_RabbitMQ Check_BKDeps
begin

text \<open>
  The properties of the checkers: what they change, what they report, what they colour.
\<close>

subsection \<open>Render fields\<close>

text \<open>
  C17. Results and colours agree.  Started on a section without colours, each component checker
  paints one red or orange cell per warning and notice, but for the collection errors of the
  sentinel cluster, a MongoDB cluster and RabbitMQ, which have no cell.
\<close>

theorem one_cell_per_finding:
  "alarms (snd (CheckES (map erase_es cs) t)) =
     red_cells (concat (map es_cells (fst (CheckES (map erase_es cs) t)))) \<and>
   alarms (snd (CheckRedis (map erase_redis ns) t)) =
     red_cells (concat (map redis_cells (fst (CheckRedis (map erase_redis ns) t)))) \<and>
   alarms (snd (check_sentinel (erase_sentinel s))) =
     red_cells (sentinel_cells (fst (check_sentinel (erase_sentinel s))))
       + (if sc_Error s \<noteq> [] then 1 else 0) \<and>
   alarms (snd (CheckMongo (map erase_mongo gs))) =
     red_cells (concat (map mongo_cells (fst (CheckMongo (map erase_mongo gs)))))
       + length (filter (\<lambda>g. gc_Error g \<noteq> []) gs) \<and>
   alarms (snd (check_rabbitmq t (erase_rabbitmq r))) =
     red_cells (rabbitmq_cells (fst (check_rabbitmq t (erase_rabbitmq r))))
       + (if rs_Error r \<noteq> [] then 1 else 0) + (if rs_QueuesError r \<noteq> [] then 1 else 0) \<and>
   alarms (snd (check_section (erase_section b))) =
     red_cells (section_cells (fst (check_section (erase_section b))))"
proof -
  have sum: "sum_list (map (\<lambda>g. if gc_Error g \<noteq> [] then 1 else 0) gs) =
    length (filter (\<lambda>g. gc_Error g \<noteq> []) gs)"
    by (induction gs) auto
  show ?thesis
    using es_clusters.one_cell_each redis.one_cell_each sentinel.paint
      mongo_clusters.paint [of gs] rabbitmq.paint bkdeps.one_cell_each
    by (simp add: sum)
qed

text \<open>
  C18. A checker only colours: whatever it is given, it changes nothing but render fields; its
  results do not depend on the colours it finds (they are those for the same data without any
  colour, so data that differ in their colours only have the same results); and checking what it
  returned finds the same again.
\<close>

theorem checkers_only_colour:
  "map erase_es (fst (CheckES cs t)) = map erase_es cs \<and>
   snd (CheckES (map erase_es cs) t) = snd (CheckES cs t) \<and>
   snd (CheckES (fst (CheckES cs t)) t) = snd (CheckES cs t) \<and>
   map erase_redis (fst (CheckRedis ns t)) = map erase_redis ns \<and>
   snd (CheckRedis (map erase_redis ns) t) = snd (CheckRedis ns t) \<and>
   snd (CheckRedis (fst (CheckRedis ns t)) t) = snd (CheckRedis ns t) \<and>
   map_option erase_sentinel (fst (CheckRedisSentinel s)) = map_option erase_sentinel s \<and>
   snd (CheckRedisSentinel (map_option erase_sentinel s)) = snd (CheckRedisSentinel s) \<and>
   snd (CheckRedisSentinel (fst (CheckRedisSentinel s))) = snd (CheckRedisSentinel s) \<and>
   map erase_mongo (fst (CheckMongo gs)) = map erase_mongo gs \<and>
   snd (CheckMongo (map erase_mongo gs)) = snd (CheckMongo gs) \<and>
   snd (CheckMongo (fst (CheckMongo gs))) = snd (CheckMongo gs) \<and>
   map_option erase_rabbitmq (fst (CheckRabbitMQ r t)) = map_option erase_rabbitmq r \<and>
   snd (CheckRabbitMQ (map_option erase_rabbitmq r) t) = snd (CheckRabbitMQ r t) \<and>
   snd (CheckRabbitMQ (fst (CheckRabbitMQ r t)) t) = snd (CheckRabbitMQ r t) \<and>
   map_option erase_section (fst (CheckBKDeps b)) = map_option erase_section b \<and>
   snd (CheckBKDeps (map_option erase_section b)) = snd (CheckBKDeps b) \<and>
   snd (CheckBKDeps (fst (CheckBKDeps b))) = snd (CheckBKDeps b)"
  using es_clusters.erase_check es_clusters.results_erase es_clusters.recheck
    redis.erase_check redis.results_erase redis.recheck
    sentinel_section.erase_check sentinel_section.results_erase sentinel_section.recheck
    mongo_clusters.erase_check mongo_clusters.results_erase mongo_clusters.recheck
    rabbitmq_section.erase_check rabbitmq_section.results_erase rabbitmq_section.recheck
    bkdeps_section.erase_check bkdeps_section.results_erase bkdeps_section.recheck
  by (intro conjI) blast+

subsection \<open>What is reported\<close>

text \<open>
  The summary counts: its total is the number of OK, warning and unknown results (notices
  are not counted), and it does not depend on the order in which the checkers ran.
\<close>

lemma summary_counts:
  "Summarize rs =
     \<lparr>cs_Total = int (length (filter (\<lambda>r. cr_Status r \<in> {StatusOK, StatusWarn, StatusUnknown}) rs)),
      cs_OK = int (length (filter (\<lambda>r. cr_Status r = StatusOK) rs)),
      cs_Warn = int (length (filter (\<lambda>r. cr_Status r = StatusWarn) rs)),
      cs_Unknown = int (length (filter (\<lambda>r. cr_Status r = StatusUnknown) rs))\<rparr> \<and>
   (\<forall>rs'. mset rs' = mset rs \<longrightarrow> Summarize rs' = Summarize rs)"
proof -
  have "count_status StatusOK rs + count_status StatusWarn rs + count_status StatusUnknown rs =
    int (length (filter (\<lambda>r. cr_Status r \<in> {StatusOK, StatusWarn, StatusUnknown}) rs))"
    by (induction rs) auto
  then show ?thesis
    by (intro conjI allI impI Summarize_perm) (simp_all add: Summarize_counts count_status_def)
qed

text \<open>
  A host that could not be reached (no metrics collected) has exactly four warnings: open
  files, SELinux, firewalld and chronyd, whatever the error, for positive thresholds.
\<close>

lemma unreachable_host_warns:
  assumes "flt fzero (th_CPUUsage t)" "flt fzero (th_MemUsage t)" "0 < th_MaxOpenFiles t"
  shows "map cr_Field (filter (\<lambda>c. cr_Status c = StatusWarn)
      (CheckHost (HostMetrics_zero\<lparr>hm_IP := ip, hm_Error := err\<rparr>) t)) =
    [''max_open_files'', ''selinux'', ''firewalld'', ''chronyd'']"
proof -
  let ?h = "HostMetrics_zero\<lparr>hm_IP := ip, hm_Error := err\<rparr>"
  have pos: "flt fzero x \<Longrightarrow> \<not> fle x fzero" for x
    by (cases x) (auto simp: fle_def fzero_def signed_def)
  have "\<not> load_rising ?h"
    by (simp add: load_rising_def HostMetrics_zero_def fzero_def)
  then show ?thesis
    using assms by (simp add: CheckHost_def HostMetrics_zero_def pos)
qed

text \<open>
  C35. Laxer thresholds never add a host warning: every warning under the higher limits (and the
  lower demand on open files) is there under the stricter ones, with the same field and value.
\<close>

definition laxer :: "Thresholds \<Rightarrow> Thresholds \<Rightarrow> bool" where
  "laxer t t' \<longleftrightarrow> fle (th_CPUUsage t) (th_CPUUsage t') \<and> fle (th_MemUsage t) (th_MemUsage t') \<and>
     fle (th_DiskUsage t) (th_DiskUsage t') \<and> fle (th_InodeUsage t) (th_InodeUsage t') \<and>
     th_MaxOpenFiles t' \<le> th_MaxOpenFiles t"

definition warned :: "CheckResult list \<Rightarrow> (string \<times> string) list" where
  "warned cs = map (\<lambda>c. (cr_Field c, cr_Value c)) (filter (\<lambda>c. cr_Status c = StatusWarn) cs)"

lemma warned_simps [simp]:
  "warned [] = []"
  "warned (mk_check f v s thr # cs) = (if s = StatusWarn then (f, v) # warned cs else warned cs)"
  "warned (xs @ ys) = warned xs @ warned ys"
  by (simp_all add: warned_def)

lemma warned_usage [simp]:
  "warned (map (usage_check kind limit thr) ds) =
     map (\<lambda>du. (kind @ ''('' @ du_MountPoint du @ '')'', du_Usage du))
       (filter (\<lambda>du. fle limit (usage_value du)) ds)"
  by (induction ds) (simp_all add: usage_check_def)

lemma fle_trans: "fle a b \<Longrightarrow> fle b c \<Longrightarrow> fle a c"
  by (cases a; cases b; cases c) (auto simp: fle_def)

theorem laxer_thresholds_fewer_warnings:
  assumes "laxer t t'"
  shows "set (warned (CheckHost h t')) \<subseteq> set (warned (CheckHost h t))"
proof -
  have lim: "fle (th_CPUUsage t') v \<Longrightarrow> fle (th_CPUUsage t) v"
    "fle (th_MemUsage t') v \<Longrightarrow> fle (th_MemUsage t) v"
    "fle (th_DiskUsage t') v \<Longrightarrow> fle (th_DiskUsage t) v"
    "fle (th_InodeUsage t') v \<Longrightarrow> fle (th_InodeUsage t) v" for v
    using assms by (auto simp: laxer_def intro: fle_trans)
  have open_files: "n < th_MaxOpenFiles t' \<Longrightarrow> n < th_MaxOpenFiles t" for n
    using assms by (simp add: laxer_def)
  show ?thesis
    unfolding CheckHost_def warned_simps warned_usage set_append set_map set_filter warn_if_simps
    by (intro Un_mono image_mono Collect_mono) (auto simp: lim open_files)
qed

theorem laxer_thresholds_fewer_warnings_witness:
  "set (warned (CheckHost HostMetrics_zero (sample_thresholds\<lparr>th_MaxOpenFiles := 0\<rparr>)))
     \<subseteq> set (warned (CheckHost HostMetrics_zero sample_thresholds))"
  by (rule laxer_thresholds_fewer_warnings)
    (simp add: laxer_def sample_thresholds_def of_goint_small fle_def)

text \<open>
  Replication warns once per fault: a master that is not ok, a slave with a replication
  status that is not ok, a Redis node in the wrong role, and a Redis slave whose link was graded
  and is not ok.  A slave without a replication status is not reported at all.
\<close>

lemma replication_warnings:
  "count_status StatusWarn (CheckReplication (Some rep) t) =
     int (length (filter (\<lambda>m. mm_Status m \<noteq> ''ok'') (rp_MySQLMasters rep)))
     + int (length (filter (\<lambda>s. \<exists>r. ms_Replication s = Some r \<and> mr_Status r \<noteq> ''ok'')
         (rp_MySQLSlaves rep)))
     + int (length (filter (\<lambda>n. rr_RoleConsistencyStatus n \<noteq> ''ok'') (rp_RedisNodes rep)))
     + int (length (filter (\<lambda>n. rr_Role n = ''slave'' \<and> rr_LinkStatus n \<notin> {[], ''N/A'', ''ok''})
         (rp_RedisNodes rep)))"
proof -
  have "count_status StatusWarn (map check_mysql_master ms) =
    int (length (filter (\<lambda>m. mm_Status m \<noteq> ''ok'') ms))" for ms
    by (induction ms) (simp_all add: check_mysql_master_def)
  moreover have "count_status StatusWarn (concat (map (check_mysql_slave thr) ss)) =
    int (length (filter (\<lambda>s. \<exists>r. ms_Replication s = Some r \<and> mr_Status r \<noteq> ''ok'') ss))" for thr ss
    by (induction ss) (auto simp: check_mysql_slave_def split: option.splits)
  moreover have "count_status StatusWarn (concat (map (check_redis_replica thr) ns)) =
    int (length (filter (\<lambda>n. rr_RoleConsistencyStatus n \<noteq> ''ok'') ns))
    + int (length (filter (\<lambda>n. rr_Role n = ''slave'' \<and> rr_LinkStatus n \<notin> {[], ''N/A'', ''ok''}) ns))"
    for thr ns
    by (induction ns) (auto simp: check_redis_replica_def)
  ultimately show ?thesis by (simp add: CheckReplication_def)
qed

end
