(* ===== verification/Notify_Persistence.thy ===== *)
theory Notify_Persistence
  imports Go_Strings
begin

text \<open>
  Confirmation of alerts over N consecutive runs (src/notify/persistence.go), with the record of
  an alert (src/notify/alerts.go) and of a pending entry (src/notify/state.go).  A
  \<open>time.Time\<close> is the number of nanoseconds since Go's zero time; \<open>Sub\<close> saturates.  A Go map is a
  map, its key set \<open>map[string]bool\<close> a set; a nil map reads as the empty one.
\<close>

record AlertItem =
  ai_Host :: string
  ai_Field :: string
  ai_Value :: string
  ai_Threshold :: string

record PendingItem =
  pi_Count :: goint
  pi_FirstSeen :: int

type_synonym pending = "string \<Rightarrow> PendingItem option"

definition time_sub :: "int \<Rightarrow> int \<Rightarrow> goint" where
  "time_sub t u = clamp64 (t - u)"

definition pendingTTL :: goint where
  "pendingTTL = 24 * 3600 * 1000000000"

definition PendingKey :: "string \<Rightarrow> string \<Rightarrow> string" where
  "PendingKey host field = host @ ''|'' @ field"

definition item_key :: "AlertItem \<Rightarrow> string" where
  "item_key it = PendingKey (ai_Host it) (ai_Field it)"

record PersistenceResult =
  pr_Filtered :: "AlertItem list"
  pr_NextPending :: pending
  pr_PendingKeys :: "string set"

text \<open>The counter and the first sighting an item gets from the previous run's entry.\<close>

definition next_entry :: "pending \<Rightarrow> int \<Rightarrow> string \<Rightarrow> PendingItem" where
  "next_entry prev now key =
     (case prev key of
        Some entry \<Rightarrow>
          if time_sub now (pi_FirstSeen entry) < pendingTTL then
            \<lparr>pi_Count = wrap64 (pi_Count entry + 1), pi_FirstSeen = pi_FirstSeen entry\<rparr>
          else \<lparr>pi_Count = 1, pi_FirstSeen = now\<rparr>
      | None \<Rightarrow> \<lparr>pi_Count = 1, pi_FirstSeen = now\<rparr>)"

definition persist_item ::
  "pending \<Rightarrow> goint \<Rightarrow> int \<Rightarrow> PersistenceResult \<Rightarrow> AlertItem \<Rightarrow> PersistenceResult" where
  "persist_item prev n now res it =
     (let key = PendingKey (ai_Host it) (ai_Field it);
          e = next_entry prev now key
      in if pi_Count e \<ge> n then res\<lparr>pr_Filtered := pr_Filtered res @ [it]\<rparr>
         else res\<lparr>pr_NextPending := (pr_NextPending res)(key \<mapsto> e),
                  pr_PendingKeys := insert key (pr_PendingKeys res)\<rparr>)"

definition ApplyPersistence ::
  "AlertItem list \<Rightarrow> pending \<Rightarrow> goint \<Rightarrow> int \<Rightarrow> PersistenceResult" where
  "ApplyPersistence items prev n now =
     (let n = (if n < 1 then 1 else n);
          res = \<lparr>pr_Filtered = [], pr_NextPending = Map.empty, pr_PendingKeys = {}\<rparr>
      in if n = 1 then res\<lparr>pr_Filtered := pr_Filtered res @ items\<rparr>
         else foldl (persist_item prev n now) res items)"

definition UpdateRecoveryStreak :: "goint \<Rightarrow> string \<Rightarrow> bool \<Rightarrow> goint" where
  "UpdateRecoveryStreak prevStreak prevStatus rawWarnsEmpty =
     (if prevStatus \<noteq> ''alert'' then 0
      else if \<not> rawWarnsEmpty then 0
      else wrap64 (prevStreak + 1))"

subsection \<open>What a run does\<close>

definition fires :: "pending \<Rightarrow> goint \<Rightarrow> int \<Rightarrow> string \<Rightarrow> bool" where
  "fires prev n now key \<longleftrightarrow> n \<le> 1 \<or> n \<le> pi_Count (next_entry prev now key)"

definition keys_of :: "AlertItem list \<Rightarrow> string set" where
  "keys_of items = item_key ` set items"

lemma keys_of_simps [simp]:
  "keys_of [] = {}" "keys_of (it # items) = insert (item_key it) (keys_of items)"
  "keys_of (xs @ ys) = keys_of xs \<union> keys_of ys"
  by (auto simp: keys_of_def)

lemma item_key_mem [intro]: "it \<in> set items \<Longrightarrow> item_key it \<in> keys_of items"
  by (simp add: keys_of_def)

lemma persist_item_eq:
  assumes "1 < n"
  shows "persist_item prev n now res it =
    (if fires prev n now (item_key it) then res\<lparr>pr_Filtered := pr_Filtered res @ [it]\<rparr>
     else res\<lparr>pr_NextPending := (pr_NextPending res)
                (item_key it \<mapsto> next_entry prev now (item_key it)),
              pr_PendingKeys := insert (item_key it) (pr_PendingKeys res)\<rparr>)"
  using assms by (simp add: persist_item_def fires_def item_key_def Let_def)

lemma foldl_persist:
  assumes "1 < n"
  shows "foldl (persist_item prev n now) res items =
    \<lparr>pr_Filtered = pr_Filtered res @ filter (\<lambda>it. fires prev n now (item_key it)) items,
     pr_NextPending = (\<lambda>k. if k \<in> keys_of items \<and> \<not> fires prev n now k
        then Some (next_entry prev now k) else pr_NextPending res k),
     pr_PendingKeys = pr_PendingKeys res \<union> {k \<in> keys_of items. \<not> fires prev n now k}\<rparr>"
proof (induction items arbitrary: res)
  case Nil
  then show ?case by simp
next
  case (Cons it items)
  show ?case
    unfolding foldl.simps Cons.IH
    by (auto simp: persist_item_eq [OF assms] fun_eq_iff)
qed

lemma ApplyPersistence_eq:
  "ApplyPersistence items prev n now =
    \<lparr>pr_Filtered = filter (\<lambda>it. fires prev n now (item_key it)) items,
     pr_NextPending = (\<lambda>k. if k \<in> keys_of items \<and> \<not> fires prev n now k
        then Some (next_entry prev now k) else None),
     pr_PendingKeys = {k \<in> keys_of items. \<not> fires prev n now k}\<rparr>"
proof (cases "n \<le> 1")
  case True
  then show ?thesis by (auto simp: ApplyPersistence_def fires_def Let_def)
next
  case False
  then have "1 < n" by simp
  then show ?thesis by (auto simp: ApplyPersistence_def Let_def foldl_persist fun_eq_iff)
qed

lemmas persistence_simps =
  ApplyPersistence_eq PersistenceResult.simps

lemma Filtered_eq:
  "pr_Filtered (ApplyPersistence items prev n now) =
     filter (\<lambda>it. item_key it \<notin> pr_PendingKeys (ApplyPersistence items prev n now)) items"
  by (auto simp: persistence_simps intro: filter_cong)

lemma PendingKeys_dom:
  "pr_PendingKeys (ApplyPersistence items prev n now) =
     dom (pr_NextPending (ApplyPersistence items prev n now))"
  by (auto simp: persistence_simps dom_def)

subsection \<open>Runs\<close>

text \<open>
  The history of runs, the latest first: the alerts each run found and its time.  Every run starts
  from the pending map the run before left.
\<close>

type_synonym history = "(AlertItem list \<times> int) list"

fun pending_after :: "goint \<Rightarrow> history \<Rightarrow> pending" where
  "pending_after n [] = Map.empty"
| "pending_after n ((items, now) # past) =
     pr_NextPending (ApplyPersistence items (pending_after n past) n now)"

fun fired :: "goint \<Rightarrow> history \<Rightarrow> AlertItem list" where
  "fired n [] = []"
| "fired n ((items, now) # past) =
     pr_Filtered (ApplyPersistence items (pending_after n past) n now)"

definition seen_at :: "history \<Rightarrow> nat \<Rightarrow> string \<Rightarrow> bool" where
  "seen_at h i k \<longleftrightarrow> i < length h \<and> k \<in> keys_of (fst (h ! i))"

lemma seen_at_simps [simp]:
  "seen_at ((items, now) # past) 0 k \<longleftrightarrow> k \<in> keys_of items"
  "seen_at (run # past) (Suc i) k \<longleftrightarrow> seen_at past i k"
  by (auto simp: seen_at_def)

definition seen_last :: "history \<Rightarrow> int \<Rightarrow> string \<Rightarrow> bool" where
  "seen_last h c k \<longleftrightarrow> (\<forall>i < nat c. seen_at h i k)"

lemma seen_last_Cons:
  assumes "0 \<le> c"
  shows "seen_last ((items, now) # past) (c + 1) k \<longleftrightarrow> k \<in> keys_of items \<and> seen_last past c k"
proof -
  have "nat (c + 1) = Suc (nat c)" using assms by simp
  then show ?thesis by (simp add: seen_last_def All_less_Suc2)
qed

text \<open>The invariant of the pending map: a counter counts the runs that saw the key in a row.\<close>

definition counted :: "goint \<Rightarrow> history \<Rightarrow> string \<Rightarrow> PendingItem \<Rightarrow> bool" where
  "counted n h k e \<longleftrightarrow> 1 \<le> pi_Count e \<and> seen_last h (pi_Count e) k \<and>
     nat (pi_Count e) \<le> length h \<and> pi_FirstSeen e = snd (h ! (nat (pi_Count e) - 1))"

lemma counted_first: "k \<in> keys_of items \<Longrightarrow> counted n ((items, now) # past) k \<lparr>pi_Count = 1, pi_FirstSeen = now\<rparr>"
  by (simp add: counted_def seen_last_def)

lemma counted_next:
  assumes "counted n past k e" "k \<in> keys_of items"
  shows "counted n ((items, now) # past) k
    \<lparr>pi_Count = pi_Count e + 1, pi_FirstSeen = pi_FirstSeen e\<rparr>"
proof -
  from assms have c: "1 \<le> pi_Count e" by (simp add: counted_def)
  then obtain m where m: "nat (pi_Count e) = Suc m" "nat (pi_Count e + 1) = Suc (Suc m)"
    by (cases "nat (pi_Count e)") auto
  with assms c show ?thesis
    by (simp add: counted_def seen_last_Cons)
qed

lemma next_entry_counted:
  assumes inv: "\<And>e. prev k = Some e \<Longrightarrow> counted n past k e \<and> pi_Count e < n"
    and "k \<in> keys_of items" "in_int64 n"
  shows "counted n ((items, now) # past) k (next_entry prev now k)"
proof (cases "prev k")
  case None
  with assms(2) show ?thesis by (simp add: next_entry_def counted_first)
next
  case (Some e)
  with inv have e: "counted n past k e" "pi_Count e < n" by auto
  then have "wrap64 (pi_Count e + 1) = pi_Count e + 1"
    using assms(3) by (intro wrap64_id) (auto simp: counted_def in_int64_def int64_min_def)
  with Some e assms(2) show ?thesis
    by (simp add: next_entry_def counted_first counted_next)
qed

lemma pending_counted:
  assumes "in_int64 n"
  shows "pending_after n h k = Some e \<Longrightarrow> counted n h k e \<and> pi_Count e < n"
proof (induction h arbitrary: e)
  case Nil
  then show ?case by simp
next
  case (Cons run past)
  obtain items now where run: "run = (items, now)" by (cases run)
  with Cons.prems have "k \<in> keys_of items" "\<not> fires (pending_after n past) n now k"
    and e: "e = next_entry (pending_after n past) now k"
    by (auto simp: persistence_simps split: if_splits)
  with Cons.IH assms show ?case
    by (auto simp: run fires_def intro: next_entry_counted)
qed

lemma fired_seen:
  assumes "in_int64 n" "it \<in> set (fired n h)"
  shows "seen_last h n (item_key it)"
proof (cases h)
  case Nil
  with assms show ?thesis by simp
next
  case (Cons run past)
  obtain items now where h: "h = (items, now) # past" using Cons by (cases run) simp
  let ?k = "item_key it" and ?p = "pending_after n past"
  from assms(2) have it: "it \<in> set items" and f: "fires ?p n now ?k"
    by (auto simp: h persistence_simps)
  have c: "counted n ((items, now) # past) ?k (next_entry ?p now ?k)"
    using pending_counted [OF assms(1)] it assms(1)
    by (intro next_entry_counted) auto
  from f consider "n \<le> 1" | "n \<le> pi_Count (next_entry ?p now ?k)"
    by (auto simp: fires_def)
  then show ?thesis
  proof cases
    case 1
    then have "i = 0" if "i < nat n" for i using that by linarith
    moreover from it have "seen_at h 0 ?k" by (auto simp: h)
    ultimately show ?thesis by (metis seen_last_def)
  next
    case 2
    with c show ?thesis by (auto simp: h counted_def seen_last_def)
  qed
qed

subsection \<open>Runs of an alert that stays\<close>

lemma next_entry_fresh:
  assumes "prev k = Some e" "time_sub now (pi_FirstSeen e) < pendingTTL"
    and "in_int64 (pi_Count e + 1)"
  shows "next_entry prev now k = \<lparr>pi_Count = pi_Count e + 1, pi_FirstSeen = pi_FirstSeen e\<rparr>"
  using assms by (simp add: next_entry_def wrap64_id)

lemma next_entry_None [simp]:
  "prev k = None \<Longrightarrow> next_entry prev now k = \<lparr>pi_Count = 1, pi_FirstSeen = now\<rparr>"
  by (simp add: next_entry_def)

lemma next_entry_stale:
  assumes "\<And>e. prev k = Some e \<Longrightarrow> pendingTTL \<le> time_sub now (pi_FirstSeen e)"
  shows "next_entry prev now k = \<lparr>pi_Count = 1, pi_FirstSeen = now\<rparr>"
  using assms by (cases "prev k") (simp_all add: next_entry_def not_less)

text \<open>
  \<open>streak k past runs\<close>: the runs on top of \<open>past\<close> all saw the key.  Starting without an entry,
  the counter after \<open>m\<close> of them, below N, is \<open>m\<close> and its first sighting is the first of them.
\<close>

lemma streak_count:
  assumes "in_int64 n" "int (length runs) < n" "runs \<noteq> []"
    and "pending_after n past k = None"
    and "\<And>run. run \<in> set runs \<Longrightarrow> k \<in> keys_of (fst run)"
    and "\<And>run. run \<in> set runs \<Longrightarrow> time_sub (snd run) (snd (last runs)) < pendingTTL"
  shows "pending_after n (runs @ past) k =
    Some \<lparr>pi_Count = int (length runs), pi_FirstSeen = snd (last runs)\<rparr>"
  using assms(2-)
proof (induction runs)
  case Nil
  then show ?case by simp
next
  case (Cons run runs)
  obtain items now where run: "run = (items, now)" by (cases run)
  have k: "k \<in> keys_of items" using Cons.prems(4) [of run] by (simp add: run)
  show ?case
  proof (cases "runs = []")
    case True
    with Cons.prems k show ?thesis
      by (simp add: run persistence_simps fires_def next_entry_stale)
  next
    case False
    let ?e = "\<lparr>pi_Count = int (length runs), pi_FirstSeen = snd (last runs)\<rparr>"
    have "pending_after n (runs @ past) k = Some ?e"
      using Cons.prems False by (intro Cons.IH) auto
    moreover have "time_sub now (snd (last runs)) < pendingTTL"
      using Cons.prems(5) [of run] False by (simp add: run)
    moreover have "in_int64 (int (length runs) + 1)"
      using assms(1) Cons.prems(1) by (auto simp: in_int64_def int64_min_def)
    ultimately have "next_entry (pending_after n (runs @ past)) now k =
      \<lparr>pi_Count = int (length runs) + 1, pi_FirstSeen = snd (last runs)\<rparr>"
      by (simp add: next_entry_fresh)
    with Cons.prems(1) k False show ?thesis
      by (simp add: run persistence_simps fires_def)
  qed
qed

lemma streak_fires:
  assumes "in_int64 n" "int (length runs) = n" "runs \<noteq> []"
    and "pending_after n past k = None"
    and "\<And>run. run \<in> set runs \<Longrightarrow> k \<in> keys_of (fst run)"
    and "\<And>run. run \<in> set runs \<Longrightarrow> time_sub (snd run) (snd (last runs)) < pendingTTL"
  shows "k \<in> keys_of (fired n (runs @ past))"
proof (cases runs)
  case Nil
  with assms show ?thesis by simp
next
  case (Cons run rest)
  obtain items now where runs: "runs = (items, now) # rest" using Cons by (cases run) simp
  have k: "k \<in> keys_of items" using assms(5) [of "(items, now)"] by (simp add: runs)
  have "fires (pending_after n (rest @ past)) n now k"
  proof (cases "rest = []")
    case True
    with assms(2) show ?thesis by (simp add: runs fires_def)
  next
    case False
    let ?e = "\<lparr>pi_Count = int (length rest), pi_FirstSeen = snd (last rest)\<rparr>"
    have "pending_after n (rest @ past) k = Some ?e"
      using assms False by (intro streak_count) (auto simp: runs)
    moreover have "time_sub now (snd (last rest)) < pendingTTL"
      using assms(6) [of "(items, now)"] False by (simp add: runs)
    moreover have "in_int64 (int (length rest) + 1)" using assms(1,2) by (simp add: runs add.commute)
    ultimately show ?thesis
      using assms(2) by (simp add: runs fires_def next_entry_fresh)
  qed
  with k show ?thesis by (auto simp: runs persistence_simps keys_of_def)
qed

text \<open>Runs a day or more apart: every pending entry is stale, no counter passes one.\<close>

definition day_apart :: "history \<Rightarrow> bool" where
  "day_apart h \<longleftrightarrow> (\<forall>i. Suc i < length h \<longrightarrow> pendingTTL \<le> time_sub (snd (h ! i)) (snd (h ! Suc i)))"

lemma day_apart_Cons2 [simp]:
  "day_apart (r # s # h) \<longleftrightarrow> pendingTTL \<le> time_sub (snd r) (snd s) \<and> day_apart (s # h)"
  by (auto simp: day_apart_def nth_Cons split: nat.splits)

lemma day_apart_tl: "day_apart (r # h) \<Longrightarrow> day_apart h"
  by (cases h) (auto simp: day_apart_def [of "[]"])

lemma day_apart_pending:
  assumes "1 < n" "day_apart h" "pending_after n h k = Some e"
  shows "pi_Count e = 1 \<and> h \<noteq> [] \<and> pi_FirstSeen e = snd (hd h)"
  using assms(2,3)
proof (induction h arbitrary: e)
  case Nil
  then show ?case by simp
next
  case (Cons run past)
  obtain items now where run: "run = (items, now)" by (cases run)
  have "next_entry (pending_after n past) now k = \<lparr>pi_Count = 1, pi_FirstSeen = now\<rparr>"
  proof (rule next_entry_stale)
    fix e' assume e': "pending_after n past k = Some e'"
    with Cons.IH Cons.prems(1) have "past \<noteq> []" "pi_FirstSeen e' = snd (hd past)"
      by (auto dest: day_apart_tl)
    with Cons.prems(1) show "pendingTTL \<le> time_sub now (pi_FirstSeen e')"
      by (cases past) (simp_all add: run)
  qed
  moreover have "e = next_entry (pending_after n past) now k"
    using Cons.prems(2) by (auto simp: run persistence_simps split: if_splits)
  ultimately show ?case by (simp add: run)
qed

lemma day_apart_silent:
  assumes "1 < n" "day_apart h"
  shows "fired n h = []"
proof (cases h)
  case Nil
  then show ?thesis by simp
next
  case (Cons run past)
  obtain items now where h: "h = (items, now) # past" using Cons by (cases run) simp
  have "next_entry (pending_after n past) now k = \<lparr>pi_Count = 1, pi_FirstSeen = now\<rparr>" for k
  proof (rule next_entry_stale)
    fix e assume "pending_after n past k = Some e"
    with day_apart_pending [OF assms(1)] assms(2)
    have "past \<noteq> []" "pi_FirstSeen e = snd (hd past)" by (auto simp: h dest: day_apart_tl)
    with assms(2) show "pendingTTL \<le> time_sub now (pi_FirstSeen e)"
      by (cases past) (simp_all add: h)
  qed
  with assms(1) show ?thesis by (simp add: h persistence_simps fires_def)
qed

end
