(* ===== verification/Notify_Alerts.thy ===== *)
theory Notify_Alerts
  imports Notify_Persistence Check_Base
begin

text \<open>
  From the report to the alerts and back (src/notify/alerts.go, and \<open>demotePending\<close> and
  \<open>recomputeSummary\<close> of src/notify/notify.go).  \<open>hostByField\<close> is the map both build: the last host
  that has a check of that field.
\<close>

definition host_fields :: "HostCheckResult \<Rightarrow> (string \<times> string) list" where
  "host_fields h = map (\<lambda>c. (cr_Field c, hm_IP (hc_Metrics h))) (hc_Checks h)"

definition hostByField :: "HostCheckResult list \<Rightarrow> string \<Rightarrow> string option" where
  "hostByField hosts =
     foldl (\<lambda>m h. foldl (\<lambda>m (f, ip). m(f \<mapsto> ip)) m (host_fields h)) Map.empty hosts"

text \<open>A missing key of a Go map reads as the empty string.\<close>

definition attributed_host :: "HostCheckResult list \<Rightarrow> string \<Rightarrow> string" where
  "attributed_host hosts field =
     (case hostByField hosts field of None \<Rightarrow> [] | Some ip \<Rightarrow> ip)"

definition alert_item :: "HostCheckResult list \<Rightarrow> CheckResult \<Rightarrow> AlertItem" where
  "alert_item hosts c =
     \<lparr>ai_Host = attributed_host hosts (cr_Field c), ai_Field = cr_Field c,
      ai_Value = cr_Value c, ai_Threshold = cr_Threshold c\<rparr>"

definition ExtractAlerts :: "InspectReport option \<Rightarrow> AlertItem list" where
  "ExtractAlerts report =
     (case report of
        None \<Rightarrow> []
      | Some report \<Rightarrow>
          map (alert_item (ir_Hosts report))
            (filter (\<lambda>c. cr_Status c = StatusWarn) (ir_AllChecks report)))"

definition ExtractUnknowns :: "InspectReport option \<Rightarrow> goint" where
  "ExtractUnknowns report =
     (case report of
        None \<Rightarrow> 0
      | Some report \<Rightarrow>
          foldl (\<lambda>n c. if cr_Status c = StatusUnknown then n + 1 else n) 0
            (ir_AllChecks report))"

definition recompute_step :: "CheckSummary \<Rightarrow> CheckResult \<Rightarrow> CheckSummary" where
  "recompute_step s r =
     (case cr_Status r of
        StatusOK \<Rightarrow> s\<lparr>cs_OK := cs_OK s + 1, cs_Total := cs_Total s + 1\<rparr>
      | StatusWarn \<Rightarrow> s\<lparr>cs_Warn := cs_Warn s + 1, cs_Total := cs_Total s + 1\<rparr>
      | StatusUnknown \<Rightarrow> s\<lparr>cs_Unknown := cs_Unknown s + 1, cs_Total := cs_Total s + 1\<rparr>
      | _ \<Rightarrow> s)"

definition recomputeSummary :: "CheckResult list \<Rightarrow> CheckSummary" where
  "recomputeSummary results = foldl recompute_step CheckSummary_zero results"

definition demote_check :: "(string \<Rightarrow> string) \<Rightarrow> string set \<Rightarrow> CheckResult \<Rightarrow> CheckResult" where
  "demote_check host pendingKeys c =
     (if cr_Status c \<noteq> StatusWarn then c
      else if PendingKey (host (cr_Field c)) (cr_Field c) \<in> pendingKeys
        then c\<lparr>cr_Status := StatusNotice\<rparr>
      else c)"

definition demote_host :: "string set \<Rightarrow> HostCheckResult \<Rightarrow> HostCheckResult" where
  "demote_host pendingKeys h =
     h\<lparr>hc_Checks := map (demote_check (\<lambda>_. hm_IP (hc_Metrics h)) pendingKeys) (hc_Checks h)\<rparr>"

definition demotePending :: "InspectReport \<Rightarrow> string set \<Rightarrow> InspectReport" where
  "demotePending report pendingKeys =
     (if pendingKeys = {} then report
      else
        let report = report\<lparr>ir_Hosts := map (demote_host pendingKeys) (ir_Hosts report)\<rparr>;
            host = attributed_host (ir_Hosts report);
            report = report\<lparr>ir_AllChecks := map (demote_check host pendingKeys)
                              (ir_AllChecks report)\<rparr>
        in report\<lparr>ir_Summary := recomputeSummary (ir_AllChecks report)\<rparr>)"

subsection \<open>The summary\<close>

lemma recompute_Summarize: "recomputeSummary rs = Summarize rs"
proof -
  have "recompute_step = summarize_step"
    by (auto simp: fun_eq_iff recompute_step_def summarize_step_def split: CheckStatus.splits)
  then show ?thesis by (simp add: recomputeSummary_def Summarize_def)
qed

lemma count_warn_demoted:
  "count_status StatusWarn (map (demote_check host ks) cs) =
     int (length (filter (\<lambda>c. cr_Status c = StatusWarn \<and>
       PendingKey (host (cr_Field c)) (cr_Field c) \<notin> ks) cs))"
  by (induction cs) (auto simp: demote_check_def)

subsection \<open>Attribution\<close>

lemma demote_check_Field [simp]: "cr_Field (demote_check host ks c) = cr_Field c"
  by (simp add: demote_check_def)

lemma demote_host_sel [simp]:
  "hc_Metrics (demote_host ks h) = hc_Metrics h" "host_fields (demote_host ks h) = host_fields h"
  by (simp_all add: demote_host_def host_fields_def comp_def)

lemma hostByField_demoted [simp]: "hostByField (map (demote_host ks) hosts) = hostByField hosts"
  by (simp add: hostByField_def foldl_map)

lemma attributed_demoted [simp]:
  "attributed_host (map (demote_host ks) hosts) = attributed_host hosts"
  by (simp add: attributed_host_def fun_eq_iff)

lemma foldl_upd_lookup:
  "foldl (\<lambda>m (f, v). m(f \<mapsto> v)) m kvs k =
     (case map_of (rev kvs) k of Some v \<Rightarrow> Some v | None \<Rightarrow> m k)"
  by (induction kvs arbitrary: m) (auto split: option.splits simp: map_add_def)

lemma foldl_concat: "foldl (\<lambda>m x. foldl f m (g x)) m xs = foldl f m (concat (map g xs))"
  by (induction xs arbitrary: m) simp_all

lemma hostByField_eq:
  "hostByField hosts field = map_of (rev (concat (map host_fields hosts))) field"
  by (simp add: hostByField_def foldl_concat foldl_upd_lookup split: option.splits)

text \<open>Where the hosts' fields are distinct the attribution is the host's own.\<close>

lemma attributed_host_own:
  assumes "distinct (map fst (concat (map host_fields hosts)))"
    and "h \<in> set hosts" "c \<in> set (hc_Checks h)"
  shows "attributed_host hosts (cr_Field c) = hm_IP (hc_Metrics h)"
proof -
  let ?l = "concat (map host_fields hosts)"
  have "(cr_Field c, hm_IP (hc_Metrics h)) \<in> set ?l"
    using assms(2,3) by (auto simp: host_fields_def)
  then have "map_of (rev ?l) (cr_Field c) = Some (hm_IP (hc_Metrics h))"
    using assms(1) by (intro map_of_is_SomeI) (simp_all add: rev_map [symmetric])
  then show ?thesis by (simp add: attributed_host_def hostByField_eq)
qed

text \<open>With several hosts the last one that has the field takes it.\<close>

lemma attributed_host_last:
  assumes "c \<in> set (hc_Checks h)"
  shows "attributed_host (hosts @ [h]) (cr_Field c) = hm_IP (hc_Metrics h)"
proof -
  have "map_of (rev (host_fields h)) (cr_Field c) = Some (hm_IP (hc_Metrics h))"
  proof -
    obtain v where v: "map_of (rev (host_fields h)) (cr_Field c) = Some v"
      using assms by (metis (no_types, lifting) domD dom_map_of_conv_image_fst fst_conv
          host_fields_def image_eqI image_set set_rev)
    then have "(cr_Field c, v) \<in> set (host_fields h)" by (auto dest: map_of_SomeD)
    with v show ?thesis by (auto simp: host_fields_def)
  qed
  then show ?thesis by (simp add: attributed_host_def hostByField_eq map_add_def)
qed

subsection \<open>The report after the confirmation\<close>

lemma extract_demoted:
  assumes "ks \<noteq> {}"
  shows "ExtractAlerts (Some (demotePending report ks)) =
    filter (\<lambda>it. item_key it \<notin> ks) (ExtractAlerts (Some report))"
proof -
  have "map (alert_item hosts) (filter (\<lambda>c. cr_Status c = StatusWarn)
      (map (demote_check (attributed_host hosts) ks) cs)) =
    filter (\<lambda>it. item_key it \<notin> ks)
      (map (alert_item hosts) (filter (\<lambda>c. cr_Status c = StatusWarn) cs))" for hosts cs
    by (induction cs) (auto simp: demote_check_def alert_item_def item_key_def)
  moreover have "alert_item (map (demote_host ks) hosts) = alert_item hosts" for hosts
    by (simp add: alert_item_def fun_eq_iff)
  ultimately show ?thesis
    using assms by (simp add: ExtractAlerts_def demotePending_def Let_def)
qed

lemma summary_demoted:
  assumes "ks \<noteq> {}"
  shows "cs_Warn (ir_Summary (demotePending report ks)) =
    int (length (ExtractAlerts (Some (demotePending report ks))))"
  using assms
  by (simp add: demotePending_def ExtractAlerts_def recompute_Summarize Summarize_counts
      count_status_def Let_def)

end
