(* ===== verification/Go_Json.thy ===== *)
theory Go_Json
  imports Go_Float
begin

text \<open>
  UTF-8 decoding of a Go string one rune at a time, and JSON documents as encoding/json decodes
  them: the tree of the document, a number kept as its text.  An object keeps its fields in
  document order, duplicates included; the decoder matches a field name to a struct field
  without regard to case and the last one wins.
\<close>

subsection \<open>Runes\<close>

definition in_range :: "nat \<Rightarrow> nat \<Rightarrow> char \<Rightarrow> bool" where
  "in_range lo hi c \<longleftrightarrow> lo \<le> code c \<and> code c \<le> hi"

abbreviation cont :: "char \<Rightarrow> bool" where
  "cont \<equiv> in_range 128 191"

text \<open>The width of the first rune; \<open>None\<close> where the bytes are not valid, which Go counts as one.\<close>

definition rune_len :: "string \<Rightarrow> nat option" where
  "rune_len s =
     (case s of
        [] \<Rightarrow> None
      | c # cs \<Rightarrow>
          if code c < 128 then Some 1
          else case cs of
            [] \<Rightarrow> None
          | c1 # cs1 \<Rightarrow>
              if in_range 194 223 c then (if cont c1 then Some 2 else None)
              else case cs1 of
                [] \<Rightarrow> None
              | c2 # cs2 \<Rightarrow>
                  if in_range 224 239 c then
                    (if in_range (if code c = 224 then 160 else 128)
                          (if code c = 237 then 159 else 191) c1 \<and> cont c2
                     then Some 3 else None)
                  else case cs2 of
                    [] \<Rightarrow> None
                  | c3 # cs3 \<Rightarrow>
                      if in_range 240 244 c \<and>
                         in_range (if code c = 240 then 144 else 128)
                           (if code c = 244 then 143 else 191) c1 \<and> cont c2 \<and> cont c3
                      then Some 4 else None)"

lemma rune_len_bounds: "rune_len s = Some n \<Longrightarrow> 0 < n \<and> n \<le> length s"
  by (auto simp: rune_len_def split: list.splits if_splits)

function rune_count :: "string \<Rightarrow> nat" where
  "rune_count s =
     (if s = [] then 0
      else Suc (rune_count (case rune_len s of Some n \<Rightarrow> drop n s | None \<Rightarrow> tl s)))"
  by auto
termination
  by (relation "measure length") (auto split: option.splits dest: rune_len_bounds)

declare rune_count.simps [simp del]

lemma rune_count_Nil [simp]: "rune_count [] = 0"
  by (subst rune_count.simps) simp

lemma rune_count_ascii [simp]: "code c < 128 \<Longrightarrow> rune_count (c # s) = Suc (rune_count s)"
  by (subst rune_count.simps) (simp add: rune_len_def)

lemma rune_count_le: "rune_count s \<le> length s"
proof (induction s rule: rune_count.induct)
  case (1 s)
  show ?case
  proof (cases "s = []")
    case True
    then show ?thesis by simp
  next
    case False
    let ?rest = "case rune_len s of Some n \<Rightarrow> drop n s | None \<Rightarrow> tl s"
    have "length ?rest < length s"
      using False by (auto split: option.splits dest: rune_len_bounds)
    moreover have "rune_count ?rest \<le> length ?rest" by (rule 1) (rule False)
    ultimately show ?thesis using False by (subst rune_count.simps) simp
  qed
qed

text \<open>What encoding a string as JSON makes of it: every invalid byte becomes U+FFFD.\<close>

function to_valid :: "string \<Rightarrow> string" where
  "to_valid s =
     (if s = [] then []
      else case rune_len s of
        Some n \<Rightarrow> take n s @ to_valid (drop n s)
      | None \<Rightarrow> [CHR 0xEF, CHR 0xBF, CHR 0xBD] @ to_valid (tl s))"
  by auto
termination
  by (relation "measure length") (auto dest: rune_len_bounds)

declare to_valid.simps [simp del]

function valid_utf8 :: "string \<Rightarrow> bool" where
  "valid_utf8 s =
     (s = [] \<or> (case rune_len s of Some n \<Rightarrow> valid_utf8 (drop n s) | None \<Rightarrow> False))"
  by auto
termination
  by (relation "measure length") (auto dest: rune_len_bounds)

declare valid_utf8.simps [simp del]

lemma valid_utf8_Nil [simp]: "valid_utf8 []"
  by (subst valid_utf8.simps) simp

lemma valid_utf8_ascii [simp]: "code c < 128 \<Longrightarrow> valid_utf8 (c # s) = valid_utf8 s"
  by (subst valid_utf8.simps) (simp add: rune_len_def)

lemma to_valid_id: "valid_utf8 s \<Longrightarrow> to_valid s = s"
proof (induction s rule: valid_utf8.induct)
  case (1 s)
  then show ?case
    by (subst to_valid.simps) (auto simp: valid_utf8.simps [of s] split: option.splits)
qed

subsection \<open>Documents\<close>

datatype json =
    JNull
  | JBool bool
  | JNum string
  | JStr string
  | JArr "json list"
  | JObj "(string \<times> json) list"

text \<open>
  Decoding into a field: \<open>null\<close> leaves it as it is, a value of another kind is an error (the
  decoder goes on and reports it at the end, and the callers drop what was decoded).
\<close>

definition dec_string :: "json \<Rightarrow> string \<Rightarrow> string option" where
  "dec_string v old = (case v of JStr s \<Rightarrow> Some s | JNull \<Rightarrow> Some old | _ \<Rightarrow> None)"

definition dec_bool :: "json \<Rightarrow> bool \<Rightarrow> bool option" where
  "dec_bool v old = (case v of JBool b \<Rightarrow> Some b | JNull \<Rightarrow> Some old | _ \<Rightarrow> None)"

definition dec_int :: "json \<Rightarrow> goint \<Rightarrow> goint option" where
  "dec_int v old =
     (case v of
        JNum t \<Rightarrow> (case Atoi t of (n, None) \<Rightarrow> Some n | (n, Some _) \<Rightarrow> None)
      | JNull \<Rightarrow> Some old
      | _ \<Rightarrow> None)"

fun dec_list :: "(json \<Rightarrow> 'a option) \<Rightarrow> json list \<Rightarrow> 'a list option" where
  "dec_list dec [] = Some []"
| "dec_list dec (v # vs) =
     (case dec v of
        None \<Rightarrow> None
      | Some x \<Rightarrow> (case dec_list dec vs of None \<Rightarrow> None | Some xs \<Rightarrow> Some (x # xs)))"

text \<open>An object into a struct: \<open>set_field\<close> stores one field, unknown names are skipped.\<close>

fun dec_fields ::
  "(string \<Rightarrow> json \<Rightarrow> 'a \<Rightarrow> 'a option) \<Rightarrow> (string \<times> json) list \<Rightarrow> 'a \<Rightarrow> 'a option" where
  "dec_fields set_field [] s = Some s"
| "dec_fields set_field ((name, v) # fs) s =
     (case set_field name v s of None \<Rightarrow> None | Some s' \<Rightarrow> dec_fields set_field fs s')"

definition dec_struct ::
  "(string \<Rightarrow> json \<Rightarrow> 'a \<Rightarrow> 'a option) \<Rightarrow> json \<Rightarrow> 'a \<Rightarrow> 'a option" where
  "dec_struct set_field v old =
     (case v of JObj fs \<Rightarrow> dec_fields set_field fs old | JNull \<Rightarrow> Some old | _ \<Rightarrow> None)"

lemma dec_int_Itoa [simp]: "in_int64 n \<Longrightarrow> dec_int (JNum (Itoa n)) old = Some n"
  by (simp add: dec_int_def Atoi_Itoa)

lemma dec_fields_append:
  "dec_fields f (xs @ ys) s =
     (case dec_fields f xs s of None \<Rightarrow> None | Some s' \<Rightarrow> dec_fields f ys s')"
  by (induction f xs s rule: dec_fields.induct) (auto split: option.splits)

lemma dec_string_JStr [simp]: "dec_string (JStr s) old = Some s"
  by (simp add: dec_string_def)

end
