(* ===== verification/Go_Json_Text.thy ===== *)
theory Go_Json_Text
  imports Go_Json
begin

text \<open>
  The text of a JSON document: what \<open>json.MarshalIndent (v, "", "  ")\<close> writes for a tree, and what
  the scanner of \<open>json.Unmarshal\<close> makes of a text.  The scanner is a lexer and a parser that takes
  one token at a time with the stack of the open containers, at most 10000 of them.  A tree whose
  numbers and strings are well formed comes back from its text (\<open>scan_text\<close>).
\<close>

subsection \<open>Strings\<close>

definition hex_char :: "nat \<Rightarrow> char" where
  "hex_char n = (if n < 10 then char_of (48 + n) else char_of (87 + n))"

definition u_escape :: "nat \<Rightarrow> string" where
  "u_escape n =
     [CHR 0x5C, CHR ''u'', hex_char (n div 4096 mod 16), hex_char (n div 256 mod 16),
      hex_char (n div 16 mod 16), hex_char (n mod 16)]"

text \<open>A byte below 128; the characters that matter to HTML are escaped as well.\<close>

definition escape_ascii :: "char \<Rightarrow> string" where
  "escape_ascii c =
     (if c = CHR 0x22 \<or> c = CHR 0x5C then [CHR 0x5C, c]
      else if c = CHR 0x08 then [CHR 0x5C, CHR ''b'']
      else if c = CHR 0x0C then [CHR 0x5C, CHR ''f'']
      else if c = CHR 0x0A then [CHR 0x5C, CHR ''n'']
      else if c = CHR 0x0D then [CHR 0x5C, CHR ''r'']
      else if c = CHR 0x09 then [CHR 0x5C, CHR ''t'']
      else if code c < 32 \<or> c \<in> {CHR ''<'', CHR ''>'', CHR ''&''} then u_escape (code c)
      else [c])"

definition line_sep :: string where
  "line_sep = [CHR 0xE2, CHR 0x80, CHR 0xA8]"

definition para_sep :: string where
  "para_sep = [CHR 0xE2, CHR 0x80, CHR 0xA9]"

function escape :: "string \<Rightarrow> string" where
  "escape s =
     (case s of
        [] \<Rightarrow> []
      | c # cs \<Rightarrow>
          if code c < 128 then escape_ascii c @ escape cs
          else case rune_len s of
            None \<Rightarrow> u_escape 0xFFFD @ escape cs
          | Some n \<Rightarrow>
              (if take n s = line_sep then u_escape 0x2028
               else if take n s = para_sep then u_escape 0x2029
               else take n s) @ escape (drop n s))"
  by auto
termination
  by (relation "measure length") (auto dest: rune_len_bounds)

declare escape.simps [simp del]

definition json_quote :: "string \<Rightarrow> string" where
  "json_quote s = CHR 0x22 # escape s @ [CHR 0x22]"

text \<open>The UTF-8 bytes of a code point.\<close>

definition utf8 :: "nat \<Rightarrow> string" where
  "utf8 n =
     (if n < 0x80 then [char_of n]
      else if n < 0x800 then [char_of (0xC0 + n div 64), char_of (0x80 + n mod 64)]
      else if n < 0x10000 then
        [char_of (0xE0 + n div 4096), char_of (0x80 + n div 64 mod 64), char_of (0x80 + n mod 64)]
      else
        [char_of (0xF0 + n div 262144), char_of (0x80 + n div 4096 mod 64),
         char_of (0x80 + n div 64 mod 64), char_of (0x80 + n mod 64)])"

definition hex4 :: "string \<Rightarrow> nat option" where
  "hex4 s =
     (case s of
        a # b # c # d # _ \<Rightarrow>
          (case (hex_val a, hex_val b, hex_val c, hex_val d) of
             (Some w, Some x, Some y, Some z) \<Rightarrow> Some (nat (((w * 16 + x) * 16 + y) * 16 + z))
           | _ \<Rightarrow> None)
      | _ \<Rightarrow> None)"

definition simple_escape :: "char \<Rightarrow> char option" where
  "simple_escape e =
     (if e \<in> {CHR 0x22, CHR 0x5C, CHR 0x2F} then Some e
      else if e = CHR ''b'' then Some (CHR 0x08)
      else if e = CHR ''f'' then Some (CHR 0x0C)
      else if e = CHR ''n'' then Some (CHR 0x0A)
      else if e = CHR ''r'' then Some (CHR 0x0D)
      else if e = CHR ''t'' then Some (CHR 0x09)
      else None)"

text \<open>The low half of a surrogate pair, where one follows.\<close>

definition low_surrogate :: "string \<Rightarrow> nat option" where
  "low_surrogate s =
     (case s of
        b # u # rest \<Rightarrow>
          (if b = CHR 0x5C \<and> u = CHR ''u'' then
             (case hex4 rest of
                Some r \<Rightarrow> if 0xDC00 \<le> r \<and> r < 0xE000 then Some r else None
              | None \<Rightarrow> None)
           else None)
      | _ \<Rightarrow> None)"

text \<open>One character of a string: its bytes, and the rest of the text.\<close>

definition unquote_escape :: "string \<Rightarrow> (string \<times> string) option" where
  "unquote_escape s =
     (case s of
        [] \<Rightarrow> None
      | e # es \<Rightarrow>
          if e = CHR ''u'' then
            (case hex4 es of
               None \<Rightarrow> None
             | Some r \<Rightarrow>
                 if 0xD800 \<le> r \<and> r < 0xE000 then
                   (case (if r < 0xDC00 then low_surrogate (drop 4 es) else None) of
                      Some r' \<Rightarrow>
                        Some (utf8 (0x10000 + (r - 0xD800) * 1024 + (r' - 0xDC00)), drop 10 es)
                    | None \<Rightarrow> Some (utf8 0xFFFD, drop 4 es))
                 else Some (utf8 r, drop 4 es))
          else map_option (\<lambda>c. ([c], es)) (simple_escape e))"

definition unquote_char :: "string \<Rightarrow> (string \<times> string) option" where
  "unquote_char s =
     (case s of
        [] \<Rightarrow> None
      | c # cs \<Rightarrow>
          if c = CHR 0x5C then unquote_escape cs
          else if code c < 32 then None
          else if code c < 128 then Some ([c], cs)
          else case rune_len s of
            None \<Rightarrow> Some (utf8 0xFFFD, cs)
          | Some n \<Rightarrow> Some (take n s, drop n s))"

lemma unquote_escape_le: "unquote_escape s = Some (p, rest) \<Longrightarrow> length rest < length s"
  by (auto simp: unquote_escape_def split: list.splits if_splits option.splits)

lemma unquote_char_shorter: "unquote_char s = Some (p, rest) \<Longrightarrow> length rest < length s"
  by (auto simp: unquote_char_def split: list.splits if_splits option.splits
      dest!: unquote_escape_le dest: rune_len_bounds)

text \<open>The string after an opening quote, and what follows the closing one.\<close>

function unquote :: "string \<Rightarrow> (string \<times> string) option" where
  "unquote s =
     (if s \<noteq> [] \<and> hd s = CHR 0x22 then Some ([], tl s)
      else case unquote_char s of
        None \<Rightarrow> None
      | Some (p, rest) \<Rightarrow> map_option (\<lambda>(t, rest). (p @ t, rest)) (unquote rest))"
  by auto
termination
  by (relation "measure length") (auto dest: unquote_char_shorter)

declare unquote.simps [simp del]

lemma unquote_shorter: "unquote s = Some (t, rest) \<Longrightarrow> length rest < length s"
proof (induction s arbitrary: t rest rule: unquote.induct)
  case (1 s)
  show ?case
  proof (cases "s \<noteq> [] \<and> hd s = CHR 0x22")
    case True
    with "1.prems" show ?thesis by (auto simp: unquote.simps [of s])
  next
    case False
    then obtain p mid u where mid: "unquote_char s = Some (p, mid)" "unquote mid = Some (u, rest)"
      using "1.prems" by (subst (asm) unquote.simps) (auto split: option.splits)
    then have "length rest < length mid" using "1.IH" [OF False] by blast
    also have "\<dots> < length s" using mid(1) by (rule unquote_char_shorter)
    finally show ?thesis .
  qed
qed

subsection \<open>A string comes back\<close>

lemma rune_len_cases:
  assumes "rune_len s = Some n"
  obtains (one) c x where "s = c # x" "n = 1" "code c < 128"
  | (two) c c1 x where "s = c # c1 # x" "n = 2" "\<not> code c < 128" "in_range 194 223 c" "cont c1"
  | (three) c c1 c2 x where "s = c # c1 # c2 # x" "n = 3" "\<not> code c < 128" "\<not> in_range 194 223 c"
      "in_range 224 239 c"
      "in_range (if code c = 224 then 160 else 128) (if code c = 237 then 159 else 191) c1" "cont c2"
  | (four) c c1 c2 c3 x where "s = c # c1 # c2 # c3 # x" "n = 4" "\<not> code c < 128"
      "\<not> in_range 194 223 c" "\<not> in_range 224 239 c" "in_range 240 244 c"
      "in_range (if code c = 240 then 144 else 128) (if code c = 244 then 143 else 191) c1"
      "cont c2" "cont c3"
  using assms unfolding rune_len_def
  by (simp split: list.split_asm if_split_asm)

lemma rune_len_take:
  assumes "rune_len s = Some n"
  shows "rune_len (take n s @ x) = Some n"
  using assms by (cases rule: rune_len_cases) (simp_all add: rune_len_def)

lemma hex_val_char: "n < 16 \<Longrightarrow> hex_val (hex_char n) = Some (int n)"
  by (auto simp: hex_val_def hex_char_def is_digit_def digit_val_def code_def lower_char_def is_upper_def is_lower_def)

lemma hex_digits_value:
  fixes n :: nat
  assumes "n < 65536"
  shows "((n div 4096 mod 16 * 16 + n div 256 mod 16) * 16 + n div 16 mod 16) * 16 + n mod 16 = n"
proof -
  define a where "a = n div 16"
  define b where "b = a div 16"
  define c where "c = b div 16"
  have "n div 4096 = c" "n div 256 = b"
    by (simp_all add: a_def b_def c_def flip: div_mult2_eq)
  moreover have "c < 16" using assms by (simp add: a_def b_def c_def flip: div_mult2_eq)
  moreover have "n = a * 16 + n mod 16" "a = b * 16 + a mod 16" "b = c * 16 + b mod 16"
    by (simp_all add: a_def b_def c_def)
  ultimately show ?thesis by (simp add: a_def [symmetric])
qed

lemma u_escape_shape:
  obtains a b c d where "u_escape n = [CHR 0x5C, CHR ''u'', a, b, c, d]"
    "n < 65536 \<Longrightarrow> hex4 (a # b # c # d # rest) = Some n"
proof -
  have "hex4 (hex_char (n div 4096 mod 16) # hex_char (n div 256 mod 16)
      # hex_char (n div 16 mod 16) # hex_char (n mod 16) # rest) = Some n" if "n < 65536"
  proof -
    have "((int (n div 4096 mod 16) * 16 + int (n div 256 mod 16)) * 16
        + int (n div 16 mod 16)) * 16 + int (n mod 16) = int n"
      using arg_cong [OF hex_digits_value [OF that], of int] by (simp only: of_nat_add of_nat_mult of_nat_numeral)
    then have "nat (((int (n div 4096 mod 16) * 16 + int (n div 256 mod 16)) * 16
        + int (n div 16 mod 16)) * 16 + int (n mod 16)) = n"
      by (simp only: nat_int)
    moreover have "n div k mod 16 < 16" "n mod 16 < 16" for k by simp_all
    ultimately show ?thesis
      by (simp only: hex4_def hex_val_char list.case option.case prod.case)
  qed
  then show ?thesis using that by (simp add: u_escape_def)
qed

lemma unquote_u_escape:
  assumes "n < 0xD800 \<or> 0xE000 \<le> n" "n < 65536"
  shows "unquote_char (u_escape n @ rest) = Some (utf8 n, rest)"
proof -
  obtain a b c d where shape: "u_escape n = [CHR 0x5C, CHR ''u'', a, b, c, d]"
    "hex4 (a # b # c # d # rest) = Some n"
    using u_escape_shape [of n rest] assms(2) by metis
  with assms(1) show ?thesis
    by (auto simp: unquote_char_def unquote_escape_def)
qed

lemma char_of_code: "char_of (code c) = c"
  by (simp add: code_def)

lemma unquote_escape_ascii:
  assumes "code c < 128"
  shows "unquote_char (escape_ascii c @ rest) = Some ([c], rest)"
proof -
  have "unquote_char (u_escape (code c) @ rest) = Some ([c], rest)"
    using assms by (subst unquote_u_escape) (simp_all add: utf8_def char_of_code)
  with assms show ?thesis
    by (auto simp: escape_ascii_def unquote_char_def unquote_escape_def simple_escape_def)
qed

lemma escape_ascii_start: "escape_ascii c \<noteq> []" "hd (escape_ascii c) \<noteq> CHR 0x22"
  by (auto simp: escape_ascii_def u_escape_def)

lemma unquote_char_rune:
  assumes "rune_len s = Some n" "128 \<le> code (hd s)"
  shows "unquote_char (take n s @ rest) = Some (take n s, rest)"
proof -
  obtain c cs where s: "s = c # cs" using assms(1) by (cases s) (auto simp: rune_len_def)
  from rune_len_bounds [OF assms(1)] obtain m where n: "n = Suc m" "m \<le> length cs"
    by (cases n) (auto simp: s)
  have len: "rune_len (c # take m cs @ rest) = Some (Suc m)"
    using rune_len_take [OF assms(1), of rest] by (simp add: s n)
  have "c \<noteq> CHR 0x5C" using assms(2) by (auto simp: code_def s)
  with assms(2) n(2) len show ?thesis by (simp add: unquote_char_def n(1) s)
qed

lemma utf8_special:
  "utf8 0x2028 = line_sep" "utf8 0x2029 = para_sep" "utf8 0xFFFD = [CHR 0xEF, CHR 0xBF, CHR 0xBD]"
  by (simp_all add: utf8_def line_sep_def para_sep_def char_of_def bit_0)

lemma unquote_step:
  assumes "unquote_char (p @ rest) = Some (b, rest)" "p \<noteq> []" "hd p \<noteq> CHR 0x22"
    and "unquote rest = Some (t, after)"
  shows "unquote (p @ rest) = Some (b @ t, after)"
  using assms by (subst unquote.simps) simp

lemma unquote_escaped: "unquote (escape s @ CHR 0x22 # rest) = Some (to_valid s, rest)"
proof (induction s rule: escape.induct)
  case (1 s)
  note IH = "1.IH"
  show ?case
  proof (cases s)
    case Nil
    then show ?thesis
      by (subst unquote.simps) (simp add: escape.simps [of "[]"] to_valid.simps [of "[]"])
  next
    case (Cons c cs)
    note s = this
    have *: "escape s @ CHR 0x22 # rest = p @ escape t @ CHR 0x22 # rest \<Longrightarrow>
        to_valid s = b @ to_valid t \<Longrightarrow>
        unquote (escape t @ CHR 0x22 # rest) = Some (to_valid t, rest) \<Longrightarrow>
        unquote_char (p @ escape t @ CHR 0x22 # rest) = Some (b, escape t @ CHR 0x22 # rest) \<Longrightarrow>
        p \<noteq> [] \<Longrightarrow> hd p \<noteq> CHR 0x22 \<Longrightarrow> ?thesis" for p b t
      using unquote_step by metis
    show ?thesis
    proof (cases "code c < 128")
      case True
      show ?thesis
        by (rule * [of "escape_ascii c" cs "[c]"])
          (use IH(1) True in \<open>simp_all add: s escape.simps [of "c # cs"] to_valid.simps [of "c # cs"]
            rune_len_def unquote_escape_ascii escape_ascii_start\<close>)
    next
      case False
      note wide = this
      show ?thesis
      proof (cases "rune_len s")
        case None
        show ?thesis
          by (rule * [of "u_escape 0xFFFD" cs "utf8 0xFFFD"])
            (use IH(2) None wide in \<open>simp_all add: s escape.simps [of "c # cs"] to_valid.simps [of "c # cs"]
              utf8_special unquote_u_escape\<close>, simp_all add: u_escape_def)
      next
        case (Some n)
        let ?p = "if take n s = line_sep then u_escape 0x2028
          else if take n s = para_sep then u_escape 0x2029 else take n s"
        have "n > 0" using rune_len_bounds [OF Some] by simp
        then have "take n s \<noteq> []" "hd (take n s) = c" by (simp_all add: s)
        moreover have "c \<noteq> CHR 0x22" using wide by (auto simp: code_def)
        ultimately have start: "?p \<noteq> []" "hd ?p \<noteq> CHR 0x22" by (auto simp: u_escape_def)
        have char: "unquote_char (?p @ r) = Some (take n s, r)" for r
          using unquote_char_rune [OF Some, of r] wide
          by (auto simp: unquote_u_escape utf8_special s)
        have "escape s = ?p @ escape (drop n s)" "to_valid s = take n s @ to_valid (drop n s)"
          using Some wide by (simp_all only: escape.simps [of s] to_valid.simps [of s])
            (simp_all add: s)
        moreover have "unquote (escape (drop n s) @ CHR 0x22 # rest) = Some (to_valid (drop n s), rest)"
          using IH(3) [OF s wide Some] .
        ultimately show ?thesis
          by (intro * [of ?p "drop n s" "take n s"] start char) simp_all
      qed
    qed
  qed
qed


lemma valid_to_valid: "valid_utf8 (to_valid s)"
proof (induction s rule: to_valid.induct)
  case (1 s)
  show ?case
  proof (cases "rune_len s")
    case None
    have "rune_len ([CHR 0xEF, CHR 0xBF, CHR 0xBD] @ t) = Some 3" for t
      by (simp add: rune_len_def in_range_def code_def)
    then show ?thesis
      using 1 None by (subst to_valid.simps) (auto simp: valid_utf8.simps [of "CHR 0xEF # _"])
  next
    case (Some n)
    then have n: "0 < n" "n \<le> length s" "rune_len (take n s @ t) = Some n" for t
      using rune_len_bounds rune_len_take by auto
    then have "valid_utf8 (take n s @ to_valid (drop n s)) = valid_utf8 (to_valid (drop n s))"
      by (subst valid_utf8.simps) (auto simp: to_valid.simps [of "[]"])
    with 1 Some n show ?thesis by (subst to_valid.simps) auto
  qed
qed

subsection \<open>Numbers\<close>

definition num_char :: "char \<Rightarrow> bool" where
  "num_char c \<longleftrightarrow> is_digit c \<or> c \<in> {CHR ''-'', CHR ''+'', CHR ''.'', CHR ''e'', CHR ''E''}"

definition exponent_ok :: "string \<Rightarrow> bool" where
  "exponent_ok s \<longleftrightarrow>
     (case s of
        [] \<Rightarrow> True
      | c # t \<Rightarrow>
          (c = CHR ''e'' \<or> c = CHR ''E'') \<and>
          (let t = (if t \<noteq> [] \<and> hd t \<in> {CHR ''+'', CHR ''-''} then tl t else t)
           in t \<noteq> [] \<and> list_all is_digit t))"

definition fraction_ok :: "string \<Rightarrow> bool" where
  "fraction_ok s \<longleftrightarrow>
     (if s \<noteq> [] \<and> hd s = CHR ''.''
      then takeWhile is_digit (tl s) \<noteq> [] \<and> exponent_ok (dropWhile is_digit (tl s))
      else exponent_ok s)"

definition json_number :: "string \<Rightarrow> bool" where
  "json_number s \<longleftrightarrow>
     (let t = (if s \<noteq> [] \<and> hd s = CHR ''-'' then tl s else s);
          digits = takeWhile is_digit t
      in digits \<noteq> [] \<and> (hd digits = CHR ''0'' \<longrightarrow> length digits = 1) \<and>
         fraction_ok (dropWhile is_digit t))"

subsection \<open>The lexer\<close>

datatype token =
    BeginObj | EndObj | BeginArr | EndArr | Colon | Comma
  | Str string
  | Scalar json

definition json_space :: "char \<Rightarrow> bool" where
  "json_space c \<longleftrightarrow> c \<in> {CHR 0x20, CHR 0x09, CHR 0x0A, CHR 0x0D}"

definition punctuation :: "char \<Rightarrow> token option" where
  "punctuation c =
     (if c = CHR ''{'' then Some BeginObj else if c = CHR ''}'' then Some EndObj
      else if c = CHR ''['' then Some BeginArr else if c = CHR '']'' then Some EndArr
      else if c = CHR '':'' then Some Colon else if c = CHR '','' then Some Comma else None)"

definition literal :: "string \<Rightarrow> (json \<times> string) option" where
  "literal s =
     (if HasPrefix s ''true'' then Some (JBool True, drop 4 s)
      else if HasPrefix s ''false'' then Some (JBool False, drop 5 s)
      else if HasPrefix s ''null'' then Some (JNull, drop 4 s)
      else None)"

definition lex_token :: "string \<Rightarrow> (token \<times> string) option" where
  "lex_token s =
     (case s of
        [] \<Rightarrow> None
      | c # cs \<Rightarrow>
          (case punctuation c of
             Some t \<Rightarrow> Some (t, cs)
           | None \<Rightarrow>
               if c = CHR 0x22 then map_option (\<lambda>(t, rest). (Str t, rest)) (unquote cs)
               else if num_char c then
                 (if json_number (takeWhile num_char s)
                  then Some (Scalar (JNum (takeWhile num_char s)), dropWhile num_char s) else None)
               else map_option (\<lambda>(v, rest). (Scalar v, rest)) (literal s)))"

lemma lex_token_shorter: "lex_token s = Some (t, rest) \<Longrightarrow> length rest < length s"
  by (auto simp: lex_token_def literal_def less_Suc_eq_le length_dropWhile_le
      split: list.splits option.splits if_splits dest!: unquote_shorter)

function lex_json :: "string \<Rightarrow> token list option" where
  "lex_json s =
     (case s of
        [] \<Rightarrow> Some []
      | c # cs \<Rightarrow>
          if json_space c then lex_json cs
          else case lex_token s of
            None \<Rightarrow> None
          | Some (t, rest) \<Rightarrow> map_option (Cons t) (lex_json rest))"
  by auto
termination
  by (relation "measure length") (auto dest: lex_token_shorter)

declare lex_json.simps [simp del]

subsection \<open>The parser\<close>

text \<open>
  An open array with its values so far, or an open object with its fields so far and the name of
  the one being read, the last value first.
\<close>

datatype frame = InArr "json list" | InObj "(string \<times> json) list" string

datatype parse_state =
    BeginValue "frame list"
  | BeginArray "frame list"
  | BeginObject "frame list"
  | BeginKey "frame list" "(string \<times> json) list"
  | AfterKey "frame list" "(string \<times> json) list" string
  | EndValue "frame list" json

definition begin_value :: "frame list \<Rightarrow> token \<Rightarrow> parse_state option" where
  "begin_value fr t =
     (case t of
        Scalar v \<Rightarrow> Some (EndValue fr v)
      | Str s \<Rightarrow> Some (EndValue fr (JStr s))
      | BeginArr \<Rightarrow> if length fr < 10000 then Some (BeginArray fr) else None
      | BeginObj \<Rightarrow> if length fr < 10000 then Some (BeginObject fr) else None
      | _ \<Rightarrow> None)"

fun parse_step :: "parse_state \<Rightarrow> token \<Rightarrow> parse_state option" where
  "parse_step (BeginValue fr) t = begin_value fr t"
| "parse_step (BeginArray fr) t =
     (if t = EndArr then Some (EndValue fr (JArr [])) else begin_value (InArr [] # fr) t)"
| "parse_step (BeginObject fr) t =
     (case t of
        EndObj \<Rightarrow> Some (EndValue fr (JObj []))
      | Str k \<Rightarrow> Some (AfterKey fr [] k)
      | _ \<Rightarrow> None)"
| "parse_step (BeginKey fr fs) t = (case t of Str k \<Rightarrow> Some (AfterKey fr fs k) | _ \<Rightarrow> None)"
| "parse_step (AfterKey fr fs k) t = (if t = Colon then Some (BeginValue (InObj fs k # fr)) else None)"
| "parse_step (EndValue [] v) t = None"
| "parse_step (EndValue (InArr vs # fr) v) t =
     (if t = Comma then Some (BeginValue (InArr (v # vs) # fr))
      else if t = EndArr then Some (EndValue fr (JArr (rev (v # vs)))) else None)"
| "parse_step (EndValue (InObj fs k # fr) v) t =
     (if t = Comma then Some (BeginKey fr ((k, v) # fs))
      else if t = EndObj then Some (EndValue fr (JObj (rev ((k, v) # fs)))) else None)"

fun parse_tokens :: "parse_state \<Rightarrow> token list \<Rightarrow> json option" where
  "parse_tokens st [] = (case st of EndValue [] v \<Rightarrow> Some v | _ \<Rightarrow> None)"
| "parse_tokens st (t # ts) =
     (case parse_step st t of None \<Rightarrow> None | Some st' \<Rightarrow> parse_tokens st' ts)"

text \<open>The document of a text.\<close>

definition scan_json :: "string \<Rightarrow> json option" where
  "scan_json s =
     (case lex_json s of None \<Rightarrow> None | Some ts \<Rightarrow> parse_tokens (BeginValue []) ts)"

subsection \<open>The indented text\<close>

definition json_newline :: "nat \<Rightarrow> string" where
  "json_newline d = CHR 0x0A # concat (replicate d ''  '')"

fun json_text :: "nat \<Rightarrow> json \<Rightarrow> string"
  and more_values :: "nat \<Rightarrow> json list \<Rightarrow> string"
  and more_fields :: "nat \<Rightarrow> (string \<times> json) list \<Rightarrow> string"
where
  "json_text d JNull = ''null''"
| "json_text d (JBool b) = (if b then ''true'' else ''false'')"
| "json_text d (JNum t) = t"
| "json_text d (JStr s) = json_quote s"
| "json_text d (JArr []) = ''[]''"
| "json_text d (JArr (v # vs)) =
     ''['' @ json_newline (Suc d) @ json_text (Suc d) v @ more_values d vs"
| "json_text d (JObj []) = ''{}''"
| "json_text d (JObj ((k, v) # fs)) =
     ''{'' @ json_newline (Suc d) @ json_quote k @ '': '' @ json_text (Suc d) v @ more_fields d fs"
| "more_values d [] = json_newline d @ '']''"
| "more_values d (v # vs) =
     '','' @ json_newline (Suc d) @ json_text (Suc d) v @ more_values d vs"
| "more_fields d [] = json_newline d @ ''}''"
| "more_fields d ((k, v) # fs) =
     '','' @ json_newline (Suc d) @ json_quote k @ '': '' @ json_text (Suc d) v @ more_fields d fs"

definition MarshalIndent :: "json \<Rightarrow> string" where
  "MarshalIndent = json_text 0"

subsection \<open>The tokens of a document\<close>

fun json_tokens :: "json \<Rightarrow> token list"
  and value_tokens :: "json list \<Rightarrow> token list"
  and field_tokens :: "(string \<times> json) list \<Rightarrow> token list"
where
  "json_tokens (JStr s) = [Str s]"
| "json_tokens (JArr []) = [BeginArr, EndArr]"
| "json_tokens (JArr (v # vs)) = BeginArr # json_tokens v @ value_tokens vs"
| "json_tokens (JObj []) = [BeginObj, EndObj]"
| "json_tokens (JObj ((k, v) # fs)) =
     BeginObj # Str k # Colon # json_tokens v @ field_tokens fs"
| "json_tokens v = [Scalar v]"
| "value_tokens [] = [EndArr]"
| "value_tokens (v # vs) = Comma # json_tokens v @ value_tokens vs"
| "field_tokens [] = [EndObj]"
| "field_tokens ((k, v) # fs) = Comma # Str k # Colon # json_tokens v @ field_tokens fs"

text \<open>Numbers are JSON numbers, strings are UTF-8, and no more than \<open>n\<close> containers are nested.\<close>

fun json_ok :: "nat \<Rightarrow> json \<Rightarrow> bool" where
  "json_ok n (JNum t) = json_number t"
| "json_ok n (JStr s) = valid_utf8 s"
| "json_ok n (JArr vs) = (0 < n \<and> list_all (json_ok (n - 1)) vs)"
| "json_ok n (JObj fs) = (0 < n \<and> list_all (\<lambda>(k, v). valid_utf8 k \<and> json_ok (n - 1) v) fs)"
| "json_ok n v = True"

lemma json_ok_mono: "json_ok n v \<Longrightarrow> n \<le> m \<Longrightarrow> json_ok m v"
  by (induction n v arbitrary: m rule: json_ok.induct) (auto simp: list_all_iff)

lemma valid_digits: "list_all is_digit s \<Longrightarrow> valid_utf8 s"
  by (induction s) (auto simp: is_digit_def)

lemma valid_Itoa [simp]: "valid_utf8 (Itoa n)"
proof -
  have "list_all is_digit (digits_of m)" if "0 \<le> m" for m
    using digits_of_digits [OF that] by (simp add: list_all_iff)
  then show ?thesis by (simp add: Itoa_def code_def valid_digits)
qed

lemma parse_begin_array:
  "parse_tokens (BeginArray fr) (json_tokens v @ ts) =
     parse_tokens (BeginValue (InArr [] # fr)) (json_tokens v @ ts)"
  by (cases v rule: json_tokens.cases) simp_all

lemma parse_tokens_json:
  "json_ok n v \<Longrightarrow> length fr + n \<le> 10000 \<Longrightarrow>
     parse_tokens (BeginValue fr) (json_tokens v @ ts) = parse_tokens (EndValue fr v) ts"
  "list_all (json_ok n) vs \<Longrightarrow> length fr + n < 10000 \<Longrightarrow>
     parse_tokens (EndValue (InArr us # fr) u) (value_tokens vs @ ts) =
       parse_tokens (EndValue fr (JArr (rev us @ u # vs))) ts"
  "list_all (\<lambda>(k, v). valid_utf8 k \<and> json_ok n v) fs \<Longrightarrow> length fr + n < 10000 \<Longrightarrow>
     parse_tokens (EndValue (InObj gs k # fr) u) (field_tokens fs @ ts) =
       parse_tokens (EndValue fr (JObj (rev gs @ (k, u) # fs))) ts"
proof (induction v and vs and fs arbitrary: n fr ts and n fr ts us u and n fr ts gs k u
    rule: json_tokens_value_tokens_field_tokens.induct)
qed (auto simp: begin_value_def parse_begin_array)

lemma digits_of_zero: "hd (digits_of n) = CHR ''0'' \<Longrightarrow> 0 \<le> n \<Longrightarrow> n = 0"
proof (induction n rule: digits_of.induct)
  case (1 n)
  show ?case
  proof (cases "n < 10")
    case True
    then have "digit_char n = digit_char 0" "0 \<le> n"
      using 1 by (simp_all add: digits_of.simps [of n]) (simp add: digit_char_def)
    then have "digit_val (digit_char n) = digit_val (digit_char 0)" by simp
    then show ?thesis using True \<open>0 \<le> n\<close> by simp
  next
    case False
    then have "n div 10 = 0" using 1 by (simp add: digits_of.simps [of n])
    with False show ?thesis by presburger
  qed
qed

lemma digits_of_split [simp]:
  assumes "0 \<le> n"
  shows "takeWhile is_digit (digits_of n) = digits_of n" "dropWhile is_digit (digits_of n) = []"
  using digits_of_digits [OF assms] by (auto simp: takeWhile_eq_all_conv)

lemma fraction_ok_Nil [simp]: "fraction_ok []"
  by (simp add: fraction_ok_def exponent_ok_def)

lemma json_number_digits: "0 \<le> n \<Longrightarrow> json_number (digits_of n)"
proof -
  assume n: "0 \<le> n"
  then have "hd (digits_of n) \<noteq> CHR ''-''" using hd_digits_of [OF n]
    by (auto simp: is_digit_def code_def)
  moreover have "hd (digits_of n) = CHR ''0'' \<longrightarrow> length (digits_of n) = 1"
    using digits_of_zero [of n] n by (auto simp: digits_of.simps [of 0])
  ultimately show ?thesis
    using n by (simp add: json_number_def)
qed

lemma json_number_neg: "json_number (CHR ''-'' # digits_of n)" if "0 \<le> n"
proof -
  have "hd (digits_of n) = CHR ''0'' \<longrightarrow> length (digits_of n) = 1"
    using digits_of_zero [of n] that by (auto simp: digits_of.simps [of 0])
  with that show ?thesis
    by (simp add: json_number_def)
qed

lemma json_number_Itoa [simp]: "json_number (Itoa n)"
  by (simp add: Itoa_def json_number_digits json_number_neg)

lemma exponent_chars: "exponent_ok s \<Longrightarrow> list_all num_char s"
  by (cases s; cases "tl s")
    (auto simp: exponent_ok_def Let_def list_all_iff num_char_def split: if_splits)

lemma digits_chars: "list_all num_char (takeWhile is_digit s)"
  by (auto simp: list_all_iff num_char_def dest: set_takeWhileD)

lemma digits_then_chars:
  "list_all num_char (dropWhile is_digit s) \<Longrightarrow> list_all num_char s"
  using digits_chars [of s] list_all_append [of num_char "takeWhile is_digit s" "dropWhile is_digit s"]
  by simp

lemma fraction_chars: "fraction_ok s \<Longrightarrow> list_all num_char s"
  by (cases s) (auto simp: fraction_ok_def num_char_def intro: digits_then_chars
      dest!: exponent_chars split: if_splits)

lemma json_number_chars: "json_number t \<Longrightarrow> t \<noteq> [] \<and> list_all num_char t"
  by (cases t) (auto simp: json_number_def Let_def num_char_def intro: digits_then_chars
      dest!: fraction_chars split: if_splits)

lemma lex_json_char:
  assumes "lex_token (c # s) = Some (t, rest)" "\<not> json_space c"
  shows "lex_json (c # s) = map_option (Cons t) (lex_json rest)"
  using assms by (subst lex_json.simps) simp

lemma lex_space: "lex_json (json_newline d @ s) = lex_json s"
proof -
  have skip: "lex_json (concat (replicate d ''  '') @ s) = lex_json s"
    by (induction d) (simp_all add: lex_json.simps [of "CHR '' '' # _"] json_space_def)
  then show ?thesis
    by (simp add: json_newline_def lex_json.simps [of "CHR 0x0A # _"] json_space_def)
qed

lemma lex_quoted:
  assumes "valid_utf8 s"
  shows "lex_json (json_quote s @ rest) = map_option (Cons (Str s)) (lex_json rest)"
  using unquote_escaped [of s rest] to_valid_id [OF assms]
  by (simp add: json_quote_def lex_json_char [where t = "Str s" and rest = rest] lex_token_def
      punctuation_def json_space_def)

lemma lex_number:
  assumes "json_number t" "rest = [] \<or> \<not> num_char (hd rest)"
  shows "lex_json (t @ rest) = map_option (Cons (Scalar (JNum t))) (lex_json rest)"
proof -
  have t: "t \<noteq> []" "list_all num_char t" using json_number_chars [OF assms(1)] by simp_all
  then obtain c cs where cs: "t = c # cs" "num_char c" by (cases t) auto
  have "takeWhile num_char (t @ rest) = t" "dropWhile num_char (t @ rest) = rest"
    using t(2) assms(2) by (cases rest; simp add: takeWhile_append dropWhile_append list_all_iff)+
  moreover have "punctuation c = None" "c \<noteq> CHR 0x22" "\<not> json_space c"
    using cs(2) by (auto simp: num_char_def punctuation_def json_space_def is_digit_def code_def)
  ultimately show ?thesis
    using assms(1) cs lex_json_char [of c "cs @ rest" "Scalar (JNum t)" rest] by (simp add: lex_token_def)
qed

lemma lex_literals:
  "lex_json (''true'' @ rest) = map_option (Cons (Scalar (JBool True))) (lex_json rest)"
  "lex_json (''false'' @ rest) = map_option (Cons (Scalar (JBool False))) (lex_json rest)"
  "lex_json (''null'' @ rest) = map_option (Cons (Scalar JNull)) (lex_json rest)"
  by (simp_all add: lex_json_char lex_token_def punctuation_def num_char_def is_digit_def code_def
      literal_def HasPrefix_def json_space_def)

lemma lex_punctuation:
  "lex_json (CHR ''['' # s) = map_option (Cons BeginArr) (lex_json s)"
  "lex_json (CHR '']'' # s) = map_option (Cons EndArr) (lex_json s)"
  "lex_json (CHR ''{'' # s) = map_option (Cons BeginObj) (lex_json s)"
  "lex_json (CHR ''}'' # s) = map_option (Cons EndObj) (lex_json s)"
  "lex_json (CHR '','' # s) = map_option (Cons Comma) (lex_json s)"
  "lex_json (CHR '':'' # CHR '' '' # s) = map_option (Cons Colon) (lex_json s)"
  by (simp_all add: lex_json_char lex_token_def punctuation_def json_space_def
      lex_json.simps [of "CHR '' '' # _"])

definition ends_number :: "string \<Rightarrow> bool" where
  "ends_number rest \<longleftrightarrow> rest = [] \<or> \<not> num_char (hd rest)"

lemma ends_number_simps [simp]:
  "ends_number []" "ends_number (more_values d vs @ rest)" "ends_number (more_fields d fs @ rest)"
  by (cases vs; cases fs; auto simp: ends_number_def json_newline_def num_char_def is_digit_def code_def)+

lemma lex_text:
  "json_ok n v \<Longrightarrow> ends_number rest \<Longrightarrow> lex_json rest = Some ts \<Longrightarrow>
     lex_json (json_text d v @ rest) = Some (json_tokens v @ ts)"
  "list_all (json_ok n) vs \<Longrightarrow> lex_json rest = Some ts \<Longrightarrow>
     lex_json (more_values d vs @ rest) = Some (value_tokens vs @ ts)"
  "list_all (\<lambda>(k, v). valid_utf8 k \<and> json_ok n v) fs \<Longrightarrow> lex_json rest = Some ts \<Longrightarrow>
     lex_json (more_fields d fs @ rest) = Some (field_tokens fs @ ts)"
proof (induction v and vs and fs arbitrary: d n rest ts and d n rest ts and d n rest ts
    rule: json_tokens_value_tokens_field_tokens.induct)
qed (auto simp: lex_punctuation lex_space lex_quoted lex_number [folded ends_number_def]
    lex_literals [simplified])

lemma scan_text:
  assumes "json_ok 10000 v"
  shows "scan_json (MarshalIndent v) = Some v"
  using lex_text(1) [OF assms, of "[]" "[]" 0] parse_tokens_json(1) [OF assms, of "[]" "[]"]
  by (simp add: scan_json_def MarshalIndent_def lex_json.simps [of "[]"])

end
