(* ===== verification/Notify_State.thy ===== *)
theory Notify_State
  imports Notify_Persistence Go_Json_Text "HOL-Library.List_Lexorder"
begin

text \<open>
  The state kept between runs (src/notify/state.go): the record, its JSON document, reading it
  with a cold start on any fault, and the atomic write.  The text of a time (RFC 3339) is the
  pair of arguments \<open>fmt\<close> and \<open>prs\<close>; formatting fails outside the years 0 to 9999.
\<close>

record State =
  st_LastSentAt :: int
  st_LastSignature :: string
  st_LastStatus :: string
  st_Pending :: pending
  st_RecoveryStreak :: goint

definition State_zero :: State where
  "State_zero =
     \<lparr>st_LastSentAt = 0, st_LastSignature = [], st_LastStatus = [], st_Pending = Map.empty,
      st_RecoveryStreak = 0\<rparr>"

subsection \<open>The document\<close>

definition marshal_item :: "(int \<Rightarrow> string option) \<Rightarrow> PendingItem \<Rightarrow> json option" where
  "marshal_item fmt e =
     (case fmt (pi_FirstSeen e) of
        None \<Rightarrow> None
      | Some t \<Rightarrow> Some (JObj [(''count'', JNum (Itoa (pi_Count e))), (''first_seen'', JStr t)]))"

fun marshal_entries ::
  "(int \<Rightarrow> string option) \<Rightarrow> pending \<Rightarrow> string list \<Rightarrow> (string \<times> json) list option" where
  "marshal_entries fmt m [] = Some []"
| "marshal_entries fmt m (k # ks) =
     (case m k of
        None \<Rightarrow> marshal_entries fmt m ks
      | Some e \<Rightarrow>
          (case marshal_item fmt e of
             None \<Rightarrow> None
           | Some j \<Rightarrow>
               (case marshal_entries fmt m ks of
                  None \<Rightarrow> None
                | Some rest \<Rightarrow> Some ((to_valid k, j) # rest))))"

text \<open>\<open>omitempty\<close> leaves out an empty map and a zero streak; the map's keys are sorted.\<close>

definition marshal_state :: "(int \<Rightarrow> string option) \<Rightarrow> State \<Rightarrow> json option" where
  "marshal_state fmt s =
     (case fmt (st_LastSentAt s) of
        None \<Rightarrow> None
      | Some t \<Rightarrow>
          (case marshal_entries fmt (st_Pending s)
                  (sorted_list_of_set (dom (st_Pending s))) of
             None \<Rightarrow> None
           | Some entries \<Rightarrow>
               Some (JObj
                 ([(''last_sent_at'', JStr t),
                   (''last_signature'', JStr (to_valid (st_LastSignature s))),
                   (''last_status'', JStr (to_valid (st_LastStatus s)))]
                  @ (if entries = [] then [] else [(''pending'', JObj entries)])
                  @ (if st_RecoveryStreak s = 0 then []
                     else [(''recovery_streak'', JNum (Itoa (st_RecoveryStreak s)))])))))"

definition dec_time :: "(string \<Rightarrow> int option) \<Rightarrow> json \<Rightarrow> int \<Rightarrow> int option" where
  "dec_time prs v old = (case v of JStr t \<Rightarrow> prs t | JNull \<Rightarrow> Some old | _ \<Rightarrow> None)"

definition set_item_field ::
  "(string \<Rightarrow> int option) \<Rightarrow> string \<Rightarrow> json \<Rightarrow> PendingItem \<Rightarrow> PendingItem option" where
  "set_item_field prs name v e =
     (if EqualFold name ''count'' then
        map_option (\<lambda>n. e\<lparr>pi_Count := n\<rparr>) (dec_int v (pi_Count e))
      else if EqualFold name ''first_seen'' then
        map_option (\<lambda>t. e\<lparr>pi_FirstSeen := t\<rparr>) (dec_time prs v (pi_FirstSeen e))
      else Some e)"

definition PendingItem_zero :: PendingItem where
  "PendingItem_zero = \<lparr>pi_Count = 0, pi_FirstSeen = 0\<rparr>"

fun dec_pending ::
  "(string \<Rightarrow> int option) \<Rightarrow> (string \<times> json) list \<Rightarrow> pending \<Rightarrow> pending option" where
  "dec_pending prs [] m = Some m"
| "dec_pending prs ((k, v) # fs) m =
     (case dec_struct (set_item_field prs) v PendingItem_zero of
        None \<Rightarrow> None
      | Some e \<Rightarrow> dec_pending prs fs (m(k \<mapsto> e)))"

definition set_state_field ::
  "(string \<Rightarrow> int option) \<Rightarrow> string \<Rightarrow> json \<Rightarrow> State \<Rightarrow> State option" where
  "set_state_field prs name v s =
     (if EqualFold name ''last_sent_at'' then
        map_option (\<lambda>t. s\<lparr>st_LastSentAt := t\<rparr>) (dec_time prs v (st_LastSentAt s))
      else if EqualFold name ''last_signature'' then
        map_option (\<lambda>x. s\<lparr>st_LastSignature := x\<rparr>) (dec_string v (st_LastSignature s))
      else if EqualFold name ''last_status'' then
        map_option (\<lambda>x. s\<lparr>st_LastStatus := x\<rparr>) (dec_string v (st_LastStatus s))
      else if EqualFold name ''pending'' then
        (case v of
           JObj fs \<Rightarrow> map_option (\<lambda>m. s\<lparr>st_Pending := m\<rparr>) (dec_pending prs fs (st_Pending s))
         | JNull \<Rightarrow> Some (s\<lparr>st_Pending := Map.empty\<rparr>)
         | _ \<Rightarrow> None)
      else if EqualFold name ''recovery_streak'' then
        map_option (\<lambda>n. s\<lparr>st_RecoveryStreak := n\<rparr>) (dec_int v (st_RecoveryStreak s))
      else Some s)"

definition unmarshal_state :: "(string \<Rightarrow> int option) \<Rightarrow> json \<Rightarrow> State option" where
  "unmarshal_state prs v = dec_struct (set_state_field prs) v State_zero"

subsection \<open>Reading\<close>

text \<open>Reading a file gives its bytes, or fails.\<close>

datatype read_result = NotExist | ReadError | ReadOK string

definition LoadState :: "(string \<Rightarrow> int option) \<Rightarrow> read_result \<Rightarrow> State" where
  "LoadState prs r =
     (case r of
        NotExist \<Rightarrow> State_zero
      | ReadError \<Rightarrow> State_zero
      | ReadOK data \<Rightarrow>
          (case Option.bind (scan_json data) (unmarshal_state prs) of
             None \<Rightarrow> State_zero
           | Some s \<Rightarrow> s))"

subsection \<open>Writing\<close>

type_synonym files = "string \<Rightarrow> string option"

definition read_file :: "files \<Rightarrow> string \<Rightarrow> read_result" where
  "read_file fs path = (case fs path of None \<Rightarrow> NotExist | Some d \<Rightarrow> ReadOK d)"

datatype save_error =
    MkdirFailed | MarshalFailed | CreateFailed | WriteFailed | ChmodFailed | CloseFailed
  | RenameFailed

text \<open>
  What the calls to the operating system answer; a write that fails has written so many bytes.
\<close>

record save_calls =
  sv_Mkdir :: bool
  sv_CreateTemp :: "string option"
  sv_Write :: bool
  sv_Written :: nat
  sv_Chmod :: bool
  sv_Close :: bool
  sv_Rename :: bool
  sv_Remove :: bool

definition remove_temp :: "save_calls \<Rightarrow> string \<Rightarrow> files \<Rightarrow> files" where
  "remove_temp os tmp fs = (if sv_Remove os then fs(tmp := None) else fs)"

definition SaveState ::
  "(int \<Rightarrow> string option) \<Rightarrow> save_calls \<Rightarrow> string \<Rightarrow> State \<Rightarrow> files \<Rightarrow> files \<times> save_error option" where
  "SaveState fmt os path s fs =
     (if \<not> sv_Mkdir os then (fs, Some MkdirFailed)
      else case marshal_state fmt s of
        None \<Rightarrow> (fs, Some MarshalFailed)
      | Some v \<Rightarrow>
          (case sv_CreateTemp os of
             None \<Rightarrow> (fs, Some CreateFailed)
           | Some tmp \<Rightarrow>
               let data = MarshalIndent v;
                   written = (if sv_Write os then data else take (sv_Written os) data);
                   fs = fs(tmp \<mapsto> written)
               in if \<not> sv_Write os then (remove_temp os tmp fs, Some WriteFailed)
                  else
                    if \<not> sv_Chmod os then (remove_temp os tmp fs, Some ChmodFailed)
                    else if \<not> sv_Close os then (remove_temp os tmp fs, Some CloseFailed)
                    else if \<not> sv_Rename os then (remove_temp os tmp fs, Some RenameFailed)
                    else ((fs(path \<mapsto> data))(tmp := None), None)))"

subsection \<open>The round trip\<close>

text \<open>
  A state that can be written: its times have a text, its integers fit, its strings are UTF-8.
\<close>

definition storable :: "(int \<Rightarrow> string option) \<Rightarrow> (string \<Rightarrow> int option) \<Rightarrow> State \<Rightarrow> bool" where
  "storable fmt prs s \<longleftrightarrow>
     (let timed = (\<lambda>t. \<exists>x. fmt t = Some x \<and> prs x = Some t \<and> valid_utf8 x)
      in timed (st_LastSentAt s) \<and> valid_utf8 (st_LastSignature s) \<and>
         valid_utf8 (st_LastStatus s) \<and> in_int64 (st_RecoveryStreak s) \<and>
         finite (dom (st_Pending s)) \<and>
         (\<forall>k e. st_Pending s k = Some e \<longrightarrow>
            valid_utf8 k \<and> in_int64 (pi_Count e) \<and> timed (pi_FirstSeen e)))"

lemma EqualFold_names [simp]:
  "EqualFold ''count'' ''count''" "EqualFold ''first_seen'' ''first_seen''"
  "\<not> EqualFold ''first_seen'' ''count''"
  "EqualFold ''last_sent_at'' ''last_sent_at''" "EqualFold ''last_signature'' ''last_signature''"
  "EqualFold ''last_status'' ''last_status''" "EqualFold ''pending'' ''pending''"
  "EqualFold ''recovery_streak'' ''recovery_streak''"
  "\<not> EqualFold ''last_signature'' ''last_sent_at''" "\<not> EqualFold ''last_status'' ''last_sent_at''"
  "\<not> EqualFold ''last_status'' ''last_signature''" "\<not> EqualFold ''pending'' ''last_sent_at''"
  "\<not> EqualFold ''pending'' ''last_signature''" "\<not> EqualFold ''pending'' ''last_status''"
  "\<not> EqualFold ''recovery_streak'' ''last_sent_at''"
  "\<not> EqualFold ''recovery_streak'' ''last_signature''"
  "\<not> EqualFold ''recovery_streak'' ''last_status''" "\<not> EqualFold ''recovery_streak'' ''pending''"
  by code_simp+

lemma field_names_utf8 [simp]:
  "valid_utf8 ''count''" "valid_utf8 ''first_seen''" "valid_utf8 ''last_sent_at''"
  "valid_utf8 ''last_signature''" "valid_utf8 ''last_status''" "valid_utf8 ''pending''"
  "valid_utf8 ''recovery_streak''"
  by (simp_all add: code_def)

lemma item_roundtrip:
  assumes "fmt (pi_FirstSeen e) = Some t" "prs t = Some (pi_FirstSeen e)" "valid_utf8 t"
    and "in_int64 (pi_Count e)"
  shows "\<exists>j. marshal_item fmt e = Some j \<and> json_ok 1 j \<and>
    dec_struct (set_item_field prs) j PendingItem_zero = Some e"
  using assms
  by (simp add: marshal_item_def dec_struct_def set_item_field_def dec_time_def
      PendingItem_zero_def)

lemma entries_roundtrip:
  assumes "distinct ks" "\<And>k. k \<in> set ks \<Longrightarrow> k \<in> dom m"
    and "\<And>k e. m k = Some e \<Longrightarrow> valid_utf8 k \<and> in_int64 (pi_Count e) \<and>
      (\<exists>t. fmt (pi_FirstSeen e) = Some t \<and> prs t = Some (pi_FirstSeen e) \<and> valid_utf8 t)"
  shows "\<exists>entries. marshal_entries fmt m ks = Some entries \<and> length entries = length ks \<and>
    list_all (\<lambda>(k, v). valid_utf8 k \<and> json_ok 1 v) entries \<and>
    (\<forall>old. dec_pending prs entries old = Some (\<lambda>k. if k \<in> set ks then m k else old k))"
  using assms(1,2)
proof (induction ks)
  case Nil
  then show ?case by simp
next
  case (Cons k ks)
  then obtain e where e: "m k = Some e" by (auto simp: dom_def)
  obtain j where j: "marshal_item fmt e = Some j" "json_ok 1 j"
    "dec_struct (set_item_field prs) j PendingItem_zero = Some e"
    using assms(3) [OF e] item_roundtrip by blast
  obtain entries where rest: "marshal_entries fmt m ks = Some entries"
    "length entries = length ks" "list_all (\<lambda>(k, v). valid_utf8 k \<and> json_ok 1 v) entries"
    "\<And>old. dec_pending prs entries old = Some (\<lambda>k. if k \<in> set ks then m k else old k)"
    using Cons by auto
  have "to_valid k = k" "valid_utf8 k" using assms(3) [OF e] by (simp_all add: to_valid_id)
  with e j rest Cons.prems(1) show ?case by (auto simp: fun_eq_iff)
qed

lemma state_roundtrip:
  assumes "storable fmt prs s"
  shows "\<exists>v. marshal_state fmt s = Some v \<and> json_ok 10000 v \<and> unmarshal_state prs v = Some s"
proof -
  let ?ks = "sorted_list_of_set (dom (st_Pending s))"
  have fin: "finite (dom (st_Pending s))" using assms by (simp add: storable_def Let_def)
  obtain t where t: "fmt (st_LastSentAt s) = Some t" "prs t = Some (st_LastSentAt s)" "valid_utf8 t"
    using assms by (auto simp: storable_def Let_def)
  obtain entries where en: "marshal_entries fmt (st_Pending s) ?ks = Some entries"
    "length entries = length ?ks"
    "list_all (\<lambda>(k, v). valid_utf8 k \<and> json_ok 1 v) entries"
    "\<And>old. dec_pending prs entries old =
      Some (\<lambda>k. if k \<in> set ?ks then st_Pending s k else old k)"
    using entries_roundtrip [of ?ks "st_Pending s" fmt prs] assms fin
    by (auto simp: storable_def Let_def)
  have whole: "(\<lambda>k. if k \<in> dom (st_Pending s) then st_Pending s k else None) = st_Pending s"
    by (auto simp: fun_eq_iff dom_def)
  have pend: "dec_pending prs entries Map.empty = Some (st_Pending s)"
    using en(4) [of Map.empty] fin whole by simp
  have empty: "entries = [] \<Longrightarrow> st_Pending s = Map.empty"
    using en(2) fin by (simp add: card_0_eq dom_eq_empty_conv)
  have facts: "to_valid (st_LastSignature s) = st_LastSignature s"
    "to_valid (st_LastStatus s) = st_LastStatus s" "in_int64 (st_RecoveryStreak s)"
    using assms by (simp_all add: storable_def Let_def to_valid_id)
  have deep: "list_all (\<lambda>(k, v). valid_utf8 k \<and> json_ok 9998 v) entries"
    using en(3) by (rule list.pred_mono_strong) (auto dest: json_ok_mono [of "Suc 0" _ 9998])
  have strings: "valid_utf8 (st_LastSignature s)" "valid_utf8 (st_LastStatus s)"
    using assms by (simp_all add: storable_def Let_def)
  show ?thesis
    by (cases s)
      (use t en(1) pend empty facts deep strings in \<open>auto simp: marshal_state_def unmarshal_state_def
        dec_struct_def set_state_field_def dec_time_def State_zero_def\<close>)
qed

lemma SaveState_success:
  assumes "storable fmt prs s" "SaveState fmt os path s fs = (fs', None)"
    and "\<And>tmp. sv_CreateTemp os = Some tmp \<Longrightarrow> tmp \<noteq> path"
  shows "LoadState prs (read_file fs' path) = s"
proof -
  obtain v where v: "marshal_state fmt s = Some v" "json_ok 10000 v" "unmarshal_state prs v = Some s"
    using state_roundtrip [OF assms(1)] by blast
  with assms(2,3) have "fs' path = Some (MarshalIndent v)"
    by (auto simp: SaveState_def Let_def split: if_splits option.splits)
  with v show ?thesis by (simp add: read_file_def LoadState_def scan_text)
qed

lemma SaveState_fault:
  assumes "SaveState fmt os path s fs = (fs', Some err)"
    and "\<And>tmp. sv_CreateTemp os = Some tmp \<Longrightarrow> tmp \<noteq> path \<and> fs tmp = None"
  shows "fs' path = fs path" "sv_Remove os \<Longrightarrow> fs' = fs"
  using assms
  by (auto simp: SaveState_def remove_temp_def Let_def fun_upd_idem
      split: if_splits option.splits)

end
