(* ===== verification/Notify_Config.thy ===== *)
theory Notify_Config
  imports Notify_State Config_Load
begin

text \<open>
  The notification configuration (src/notify/config.go): where the file is, how it is read and
  defaulted, what makes it valid, and where the state lies.  \<open>Clean\<close>, \<open>path_join\<close> and \<open>path_dir\<close>
  are path/filepath on Unix.
\<close>

subsection \<open>Paths\<close>

text \<open>The path elements kept so far, latest first; \<open>..\<close> takes one back.\<close>

definition clean_step :: "bool \<Rightarrow> string list \<Rightarrow> string \<Rightarrow> string list" where
  "clean_step rooted out e =
     (if e = [] \<or> e = ''.'' then out
      else if e = ''..'' then
        (case out of
           x # xs \<Rightarrow> if x = ''..'' then e # out else xs
         | [] \<Rightarrow> if rooted then [] else [e])
      else e # out)"

definition Clean :: "string \<Rightarrow> string" where
  "Clean path =
     (let rooted = HasPrefix path ''/'';
          out = rev (foldl (clean_step rooted) [] (Split path ''/''))
      in if rooted then ''/'' @ Join out ''/''
         else if out = [] then ''.'' else Join out ''/'')"

definition path_join :: "string list \<Rightarrow> string" where
  "path_join elems =
     (case filter (\<lambda>e. e \<noteq> []) elems of [] \<Rightarrow> [] | es \<Rightarrow> Clean (Join es ''/''))"

definition path_dir :: "string \<Rightarrow> string" where
  "path_dir path =
     Clean (case LastIndexByte path CHR ''/'' of None \<Rightarrow> [] | Some i \<Rightarrow> take (i + 1) path)"

subsection \<open>The configuration\<close>

record EmailConfig =
  em_Enabled :: bool
  em_SMTPHost :: string
  em_SMTPPort :: goint
  em_UseTLS :: bool
  em_Username :: string
  em_Password :: string
  em_From :: string
  em_To :: "string list"

record TriggerConfig =
  tg_MinIntervalMinutes :: goint
  tg_SendRecovery :: bool

record PersistenceConfig =
  ps_ConsecutiveRuns :: goint

record NotifyConfig =
  nc_Email :: EmailConfig
  nc_Trigger :: TriggerConfig
  nc_Persistence :: PersistenceConfig
  nc_path :: string

definition NotifyConfig_zero :: NotifyConfig where
  "NotifyConfig_zero =
     \<lparr>nc_Email = \<lparr>em_Enabled = False, em_SMTPHost = [], em_SMTPPort = 0, em_UseTLS = False,
        em_Username = [], em_Password = [], em_From = [], em_To = []\<rparr>,
      nc_Trigger = \<lparr>tg_MinIntervalMinutes = 0, tg_SendRecovery = False\<rparr>,
      nc_Persistence = \<lparr>ps_ConsecutiveRuns = 0\<rparr>, nc_path = []\<rparr>"

datatype load_error =
    NoHomeDir
  | StatFailed string
  | ReadFailed string
  | ParseFailed string

definition ConfigPath :: "environment \<Rightarrow> load_error + string" where
  "ConfigPath env =
     (let p = Getenv env ''WEOPS_CONFIG''
      in if p \<noteq> [] then Inr p
         else
           let home = Getenv env ''HOME''
           in if home = [] then Inl NoHomeDir
              else Inr (path_join [home, ''.config'', ''weops'', ''config.json'']))"

definition StatePath :: "string \<Rightarrow> string" where
  "StatePath configPath = path_join [path_dir configPath, ''state.json'']"

definition dec_strings :: "json \<Rightarrow> string list \<Rightarrow> string list option" where
  "dec_strings v old =
     (case v of
        JArr vs \<Rightarrow> dec_list (\<lambda>v. dec_string v []) vs
      | JNull \<Rightarrow> Some []
      | _ \<Rightarrow> None)"

definition set_email_field :: "string \<Rightarrow> json \<Rightarrow> EmailConfig \<Rightarrow> EmailConfig option" where
  "set_email_field name v e =
     (if EqualFold name ''enabled'' then
        map_option (\<lambda>x. e\<lparr>em_Enabled := x\<rparr>) (dec_bool v (em_Enabled e))
      else if EqualFold name ''smtp_host'' then
        map_option (\<lambda>x. e\<lparr>em_SMTPHost := x\<rparr>) (dec_string v (em_SMTPHost e))
      else if EqualFold name ''smtp_port'' then
        map_option (\<lambda>x. e\<lparr>em_SMTPPort := x\<rparr>) (dec_int v (em_SMTPPort e))
      else if EqualFold name ''smtp_use_tls'' then
        map_option (\<lambda>x. e\<lparr>em_UseTLS := x\<rparr>) (dec_bool v (em_UseTLS e))
      else if EqualFold name ''username'' then
        map_option (\<lambda>x. e\<lparr>em_Username := x\<rparr>) (dec_string v (em_Username e))
      else if EqualFold name ''password'' then
        map_option (\<lambda>x. e\<lparr>em_Password := x\<rparr>) (dec_string v (em_Password e))
      else if EqualFold name ''from'' then
        map_option (\<lambda>x. e\<lparr>em_From := x\<rparr>) (dec_string v (em_From e))
      else if EqualFold name ''to'' then
        map_option (\<lambda>x. e\<lparr>em_To := x\<rparr>) (dec_strings v (em_To e))
      else Some e)"

definition set_trigger_field :: "string \<Rightarrow> json \<Rightarrow> TriggerConfig \<Rightarrow> TriggerConfig option" where
  "set_trigger_field name v e =
     (if EqualFold name ''min_interval_minutes'' then
        map_option (\<lambda>x. e\<lparr>tg_MinIntervalMinutes := x\<rparr>) (dec_int v (tg_MinIntervalMinutes e))
      else if EqualFold name ''send_recovery'' then
        map_option (\<lambda>x. e\<lparr>tg_SendRecovery := x\<rparr>) (dec_bool v (tg_SendRecovery e))
      else Some e)"

definition set_persistence_field ::
  "string \<Rightarrow> json \<Rightarrow> PersistenceConfig \<Rightarrow> PersistenceConfig option" where
  "set_persistence_field name v e =
     (if EqualFold name ''consecutive_runs'' then
        map_option (\<lambda>x. e\<lparr>ps_ConsecutiveRuns := x\<rparr>) (dec_int v (ps_ConsecutiveRuns e))
      else Some e)"

definition set_config_field :: "string \<Rightarrow> json \<Rightarrow> NotifyConfig \<Rightarrow> NotifyConfig option" where
  "set_config_field name v c =
     (if EqualFold name ''email'' then
        map_option (\<lambda>x. c\<lparr>nc_Email := x\<rparr>) (dec_struct set_email_field v (nc_Email c))
      else if EqualFold name ''trigger'' then
        map_option (\<lambda>x. c\<lparr>nc_Trigger := x\<rparr>) (dec_struct set_trigger_field v (nc_Trigger c))
      else if EqualFold name ''persistence'' then
        map_option (\<lambda>x. c\<lparr>nc_Persistence := x\<rparr>)
          (dec_struct set_persistence_field v (nc_Persistence c))
      else Some c)"

definition apply_defaults :: "NotifyConfig \<Rightarrow> NotifyConfig" where
  "apply_defaults cfg =
     (let cfg = (if tg_MinIntervalMinutes (nc_Trigger cfg) \<le> 0
                 then cfg\<lparr>nc_Trigger := (nc_Trigger cfg)\<lparr>tg_MinIntervalMinutes := 120\<rparr>\<rparr>
                 else cfg)
      in if ps_ConsecutiveRuns (nc_Persistence cfg) \<le> 0
         then cfg\<lparr>nc_Persistence := (nc_Persistence cfg)\<lparr>ps_ConsecutiveRuns := 2\<rparr>\<rparr>
         else cfg)"

text \<open>What \<open>os.Stat\<close> answers; the mode only matters for a warning on stderr.\<close>

datatype stat_result = StatNotExist | StatError | StatMode nat

definition notify_Load ::
  "environment \<Rightarrow> (string \<Rightarrow> stat_result) \<Rightarrow> (string \<Rightarrow> read_result) \<Rightarrow>
     load_error + NotifyConfig option" where
  "notify_Load env stat read =
     bindE (ConfigPath env) (\<lambda>path.
       case stat path of
         StatNotExist \<Rightarrow> Inr None
       | StatError \<Rightarrow> Inl (StatFailed path)
       | StatMode mode \<Rightarrow>
           (case read path of
              NotExist \<Rightarrow> Inl (ReadFailed path)
            | ReadError \<Rightarrow> Inl (ReadFailed path)
            | ReadOK data \<Rightarrow>
                (case Option.bind (scan_json data)
                        (\<lambda>v. dec_struct set_config_field v NotifyConfig_zero) of
                   None \<Rightarrow> Inl (ParseFailed path)
                 | Some cfg \<Rightarrow> Inr (Some (apply_defaults (cfg\<lparr>nc_path := path\<rparr>))))))"

datatype validate_error = MissingHost | MissingPort | MissingFrom | MissingTo

definition notify_Validate :: "NotifyConfig \<Rightarrow> validate_error option" where
  "notify_Validate c =
     (if \<not> em_Enabled (nc_Email c) then None
      else if em_SMTPHost (nc_Email c) = [] then Some MissingHost
      else if em_SMTPPort (nc_Email c) = 0 then Some MissingPort
      else if em_From (nc_Email c) = [] then Some MissingFrom
      else if em_To (nc_Email c) = [] then Some MissingTo
      else None)"

subsection \<open>Loading\<close>

lemma apply_defaults_positive:
  "0 < tg_MinIntervalMinutes (nc_Trigger (apply_defaults cfg))"
  "0 < ps_ConsecutiveRuns (nc_Persistence (apply_defaults cfg))"
  by (auto simp: apply_defaults_def Let_def)

lemma apply_defaults_rest:
  "nc_Email (apply_defaults cfg) = nc_Email cfg" "nc_path (apply_defaults cfg) = nc_path cfg"
  "tg_SendRecovery (nc_Trigger (apply_defaults cfg)) = tg_SendRecovery (nc_Trigger cfg)"
  by (auto simp: apply_defaults_def Let_def)

lemma notify_Load_Some:
  "notify_Load env stat read = Inr (Some cfg) \<Longrightarrow>
     \<exists>path c. ConfigPath env = Inr path \<and> cfg = apply_defaults (c\<lparr>nc_path := path\<rparr>)"
proof -
  assume load: "notify_Load env stat read = Inr (Some cfg)"
  then obtain path where path: "ConfigPath env = Inr path"
    by (auto simp: notify_Load_def bindE_Inr_iff)
  with load show ?thesis
    by (cases "stat path"; cases "read path")
      (auto simp: notify_Load_def split: option.splits)
qed

subsection \<open>The state lies beside the configuration\<close>

definition plain_name :: "string \<Rightarrow> bool" where
  "plain_name e \<longleftrightarrow> e \<noteq> [] \<and> e \<noteq> ''.'' \<and> e \<noteq> ''..'' \<and> CHR ''/'' \<notin> set e"

lemma plain_nameD: "plain_name e \<Longrightarrow> CHR ''/'' \<notin> set e" "plain_name e \<Longrightarrow> e \<noteq> []"
  by (simp_all add: plain_name_def)

lemma clean_step_simps [simp]:
  "clean_step r out [] = out" "plain_name e \<Longrightarrow> clean_step r out e = e # out"
  by (simp_all add: clean_step_def plain_name_def)

lemma Split_Join:
  "es \<noteq> [] \<Longrightarrow> \<forall>e \<in> set es. CHR ''/'' \<notin> set e \<Longrightarrow> Split (Join es ''/'') ''/'' = es"
proof (induction es)
  case Nil
  then show ?case by simp
next
  case (Cons e es)
  then show ?case
    by (cases "es = []") (simp_all add: Join_Cons Split_byte_Cons Split_byte_no_sep)
qed

lemma Join_snoc: "es \<noteq> [] \<Longrightarrow> Join (es @ [e]) sep = Join es sep @ sep @ e"
  by (induction es rule: list_nonempty_induct) (simp_all add: Join_Cons)

lemma LastIndexByte_last: "c \<notin> set b \<Longrightarrow> LastIndexByte (a @ c # b) c = Some (length a)"
proof (induction a)
  case Nil
  have "c \<notin> set b \<Longrightarrow> LastIndexByte b c = None" by (induction b) auto
  with Nil show ?case by simp
next
  case (Cons x a)
  then show ?case by simp
qed

lemma Split_rooted:
  assumes "\<forall>e \<in> set es. CHR ''/'' \<notin> set e" "es \<noteq> []"
  shows "Split (CHR ''/'' # Join es ''/'') ''/'' = [] # es"
  using Split_byte_Cons [of "CHR ''/''" "[]" "Join es ''/''"] Split_Join [OF assms(2,1)] by simp

lemma Clean_rooted:
  assumes "\<forall>e \<in> set es. e = [] \<or> plain_name e" "es \<noteq> []"
  shows "Clean (CHR ''/'' # Join es ''/'') = CHR ''/'' # Join (filter (\<lambda>e. e \<noteq> []) es) ''/''"
proof -
  have "foldl (clean_step True) out es = rev (filter (\<lambda>e. e \<noteq> []) es) @ out" for out
    using assms(1)
  proof (induction es arbitrary: out)
    case (Cons e es)
    then show ?case by (cases "e = []") (simp_all add: plain_name_def [of "[]"])
  qed simp
  moreover have "Split (CHR ''/'' # Join es ''/'') ''/'' = [] # es"
    using assms by (intro Split_rooted) (auto dest: plain_nameD)
  ultimately show ?thesis
    by (simp add: Clean_def HasPrefix_def Let_def del: Split_byte_simps)
qed

lemma path_dir_rooted:
  assumes "\<forall>e \<in> set es. plain_name e" "plain_name f"
  shows "path_dir (CHR ''/'' # Join (es @ [f]) ''/'') = CHR ''/'' # Join es ''/''"
proof -
  define dir where "dir = (if es = [] then [] else CHR ''/'' # Join es ''/'')"
  have path: "CHR ''/'' # Join (es @ [f]) ''/'' = dir @ CHR ''/'' # f"
    by (simp add: dir_def Join_snoc)
  have "LastIndexByte (dir @ CHR ''/'' # f) CHR ''/'' = Some (length dir)"
    using assms(2) by (intro LastIndexByte_last) (simp add: plain_name_def)
  then have "path_dir (CHR ''/'' # Join (es @ [f]) ''/'') = Clean (dir @ ''/'')"
    by (simp add: path_dir_def path)
  also have "dir @ ''/'' = CHR ''/'' # Join (es @ [[]]) ''/''"
    by (simp add: dir_def Join_snoc)
  also have "Clean \<dots> = CHR ''/'' # Join (filter (\<lambda>e. e \<noteq> []) (es @ [[]])) ''/''"
    using assms by (intro Clean_rooted) auto
  also have "filter (\<lambda>e. e \<noteq> []) (es @ [[]]) = es"
    using assms(1) by (auto simp: filter_id_conv dest: plain_nameD)
  finally show ?thesis .
qed

lemma state_sibling:
  assumes "\<forall>e \<in> set es. plain_name e" "plain_name f"
  shows "StatePath (CHR ''/'' # Join (es @ [f]) ''/'') =
    CHR ''/'' # Join (es @ [''state.json'']) ''/''"
proof -
  have keep: "filter (\<lambda>e. e \<noteq> []) es = es"
    using assms(1) by (auto simp: filter_id_conv dest: plain_nameD)
  have "StatePath (CHR ''/'' # Join (es @ [f]) ''/'') =
    Clean (CHR ''/'' # Join es ''/'' @ ''/'' @ ''state.json'')"
    by (simp add: StatePath_def path_join_def path_dir_rooted [OF assms])
  also have "CHR ''/'' # Join es ''/'' @ ''/'' @ ''state.json'' =
    CHR ''/'' # Join ((if es = [] then [[]] else es) @ [''state.json'']) ''/''"
    by (simp add: Join_snoc)
  also have "Clean \<dots> = CHR ''/'' #
    Join (filter (\<lambda>e. e \<noteq> []) ((if es = [] then [[]] else es) @ [''state.json''])) ''/''"
    using assms by (intro Clean_rooted) (auto simp: plain_name_def)
  also have "filter (\<lambda>e. e \<noteq> []) ((if es = [] then [[]] else es) @ [''state.json'']) =
    es @ [''state.json'']"
    using keep by simp
  finally show ?thesis .
qed

end
