(* ===== verification/Notify_Html.thy ===== *)
theory Notify_Html
  imports Go_Strings
begin

text \<open>
  Cutting the style block and the body out of the HTML report (src/notify/htmlfrag.go).
\<close>

text \<open>
  Both functions: find the opening tag, the end of the tag, and the closing tag after it.
\<close>

definition extractStyle :: "string \<Rightarrow> string" where
  "extractStyle html =
     (case Index html ''<style'' of
        None \<Rightarrow> []
      | Some open \<Rightarrow>
          (case Index (drop open html) ''>'' of
             None \<Rightarrow> []
           | Some gt \<Rightarrow>
               let contentStart = open + gt + 1
               in (case Index (drop contentStart html) ''</style>'' of
                     None \<Rightarrow> []
                   | Some close \<Rightarrow> take close (drop contentStart html))))"

definition extractBody :: "string \<Rightarrow> string \<times> bool" where
  "extractBody html =
     (case Index html ''<body'' of
        None \<Rightarrow> ([], False)
      | Some open \<Rightarrow>
          (case Index (drop open html) ''>'' of
             None \<Rightarrow> ([], False)
           | Some gt \<Rightarrow>
               let contentStart = open + gt + 1
               in (case Index (drop contentStart html) ''</body>'' of
                     None \<Rightarrow> ([], False)
                   | Some close \<Rightarrow> (take close (drop contentStart html), True))))"

definition extractBodyFragment :: "string \<Rightarrow> string \<times> string \<times> bool" where
  "extractBodyFragment html =
     (let style = extractStyle html; (body, ok) = extractBody html in (body, style, ok))"

text \<open>\<open>loadHTMLBody\<close> (src/notify/notify.go): the file may be unreadable.\<close>

definition loadHTMLBody :: "(string \<Rightarrow> string option) \<Rightarrow> string \<Rightarrow> string" where
  "loadHTMLBody read htmlPath =
     (if htmlPath = [] then []
      else case read htmlPath of
        None \<Rightarrow> []
      | Some raw \<Rightarrow>
          (let (body, style, ok) = extractBodyFragment raw
           in if \<not> ok then []
              else if style = [] then body
              else ''<style>'' @ style @ ''</style>'' @ [CHR 0x0A] @ body))"

subsection \<open>What is cut out\<close>

text \<open>The one algorithm behind both, with the tag as an argument.\<close>

definition cut :: "string \<Rightarrow> string \<Rightarrow> string \<Rightarrow> string option" where
  "cut opening closing html =
     (case Index html opening of
        None \<Rightarrow> None
      | Some i \<Rightarrow>
          (case Index (drop i html) ''>'' of
             None \<Rightarrow> None
           | Some gt \<Rightarrow>
               (case Index (drop (i + gt + 1) html) closing of
                  None \<Rightarrow> None
                | Some n \<Rightarrow> Some (take n (drop (i + gt + 1) html)))))"

lemma extractStyle_cut:
  "extractStyle html = (case cut ''<style'' ''</style>'' html of None \<Rightarrow> [] | Some x \<Rightarrow> x)"
  by (simp add: extractStyle_def cut_def Let_def split: option.splits)

lemma extractBody_cut:
  "extractBody html =
     (case cut ''<body'' ''</body>'' html of None \<Rightarrow> ([], False) | Some x \<Rightarrow> (x, True))"
  by (simp add: extractBody_def cut_def Let_def split: option.splits)

text \<open>\<open>sub\<close> occurs first right after \<open>a\<close>.\<close>

definition first_after :: "string \<Rightarrow> string \<Rightarrow> string \<Rightarrow> bool" where
  "first_after a sub b \<longleftrightarrow> (\<forall>j < length a. \<not> prefix sub (drop j (a @ sub @ b)))"

lemma Index_first_after: "Index s sub = Some i \<longleftrightarrow> (\<exists>a b. s = a @ sub @ b \<and> length a = i \<and> first_after a sub b)"
proof
  assume i: "Index s sub = Some i"
  have "s = take i s @ sub @ drop (i + length sub) s" by (rule Index_Some_split [OF i])
  moreover have "length (take i s) = i" using Index_Some [OF i] by simp
  moreover from calculation have "first_after (take i s) sub (drop (i + length sub) s)"
    using Index_first [OF i] by (metis first_after_def)
  ultimately show "\<exists>a b. s = a @ sub @ b \<and> length a = i \<and> first_after a sub b" by metis
next
  assume "\<exists>a b. s = a @ sub @ b \<and> length a = i \<and> first_after a sub b"
  then show "Index s sub = Some i" by (auto simp: first_after_def intro: Index_append_first)
qed

lemma cut_complete:
  assumes "html = pre @ opening @ attrs @ ''>'' @ content @ closing @ post"
    and "first_after pre opening (attrs @ ''>'' @ content @ closing @ post)"
    and "CHR ''>'' \<notin> set (opening @ attrs)"
    and "first_after content closing post"
  shows "cut opening closing html = Some content"
proof -
  have 1: "Index html opening = Some (length pre)"
    using assms(1,2) by (auto simp: Index_first_after)
  have d1: "drop (length pre) html = (opening @ attrs) @ CHR ''>'' # content @ closing @ post"
    by (simp add: assms(1))
  have 2: "Index (drop (length pre) html) ''>'' = Some (length (opening @ attrs))"
    unfolding d1 by (rule Index_byte_append [OF assms(3)])
  have d2: "drop (length pre + length (opening @ attrs) + 1) html = content @ closing @ post"
    by (simp add: assms(1))
  have 3: "Index (content @ closing @ post) closing = Some (length content)"
    using assms(4) by (auto simp: Index_first_after)
  show ?thesis
    unfolding cut_def by (simp only: 1 2 d2 3 option.case) simp
qed

lemma cut_sound:
  assumes "cut opening closing html = Some content" "CHR ''>'' \<notin> set opening"
  shows "\<exists>pre attrs post. html = pre @ opening @ attrs @ ''>'' @ content @ closing @ post \<and>
    first_after pre opening (attrs @ ''>'' @ content @ closing @ post) \<and>
    CHR ''>'' \<notin> set attrs \<and> first_after content closing post"
proof -
  obtain i gt n where i: "Index html opening = Some i"
    and gt: "Index (drop i html) ''>'' = Some gt"
    and n: "Index (drop (i + gt + 1) html) closing = Some n"
    and content: "content = take n (drop (i + gt + 1) html)"
    using assms(1) by (auto simp: cut_def split: option.splits)
  obtain pre rest where pre: "html = pre @ opening @ rest" "length pre = i"
    "first_after pre opening rest"
    using i by (auto simp: Index_first_after)
  define tail where "tail = drop (Suc gt) (opening @ rest)"
  have whole: "drop i html = opening @ rest" using pre(1,2) by simp
  note at = Index_byte_Some [OF gt, unfolded whole]
  have split: "opening @ rest = take gt (opening @ rest) @ CHR ''>'' # tail"
    using at(1) by (simp only: tail_def)
  have no: "CHR ''>'' \<notin> set (take gt (opening @ rest))" by (rule at(2))
  have "gt < length (opening @ rest)" using Index_Some [OF gt] unfolding whole by simp
  then have "(opening @ rest) ! gt = CHR ''>''"
    by (subst split) (simp only: nth_append length_take min_absorb2 less_imp_le_nat
        less_irrefl if_False diff_self_eq_0 nth_Cons_0)
  then have "length opening \<le> gt"
    using assms(2) by (metis leI nth_append nth_mem)
  then obtain attrs where attrs: "take gt (opening @ rest) = opening @ attrs"
    by (auto simp: take_append)
  have "opening @ rest = opening @ attrs @ CHR ''>'' # tail"
    using split unfolding attrs by simp
  then have rest: "rest = attrs @ CHR ''>'' # tail" by simp
  have "drop (i + gt + 1) html = tail"
    using pre(1,2) by (simp add: tail_def)
  then obtain post where post: "tail = content @ closing @ post"
    "first_after content closing post"
    using n content by (auto simp: Index_first_after)
  have "rest = attrs @ ''>'' @ content @ closing @ post"
    using rest unfolding post(1) by simp
  moreover have "CHR ''>'' \<notin> set attrs" using no unfolding attrs by simp
  ultimately show ?thesis using pre(1,3) post(2) by blast
qed

end
