(* ===== verification/Notify_Email.thy ===== *)
theory Notify_Email
  imports Notify_Alerts Notify_Config Notify_Html "HOL-Library.List_Lexorder"
begin

text \<open>
  The texts of a mail and its delivery (src/notify/email.go).  The mail library go-mail is the
  argument \<open>mailer\<close>: whether it takes the sender, the recipients and the client's options, and
  whether it delivers a message.  \<open>sort.Slice\<close> is not stable: the order of two alerts of the same
  host and field is left open, and the sorting function is an argument of which only
  \<open>sort_slice\<close> is known.
\<close>

definition BuildAlertSubject :: "CheckSummary \<Rightarrow> string" where
  "BuildAlertSubject s =
     txt_alert_title @ Itoa (cs_Warn s) @ ''/'' @ Itoa (cs_Total s) @ txt_items_abnormal"

definition BuildRecoverySubject :: "CheckSummary \<Rightarrow> string" where
  "BuildRecoverySubject s =
     txt_recovery_title @ txt_all_ok_open @ Itoa (cs_Total s) @ txt_checks_close"

text \<open>\<open>%-16s\<close>: padded on the right to that many runes.\<close>

definition pad_right :: "nat \<Rightarrow> string \<Rightarrow> string" where
  "pad_right n s = s @ replicate (n - rune_count s) CHR 0x20"

definition item_less :: "AlertItem \<Rightarrow> AlertItem \<Rightarrow> bool" where
  "item_less a b =
     (if ai_Host a \<noteq> ai_Host b then ai_Host a < ai_Host b else ai_Field a < ai_Field b)"

definition alert_line :: "AlertItem \<Rightarrow> string" where
  "alert_line it =
     (let host = (if ai_Host it = [] then ''-'' else ai_Host it);
          front = ''  '' @ pad_right 16 host @ '' '' @ pad_right 40 (ai_Field it) @ '' = ''
                  @ ai_Value it
      in if ai_Threshold it \<noteq> []
         then front @ txt_threshold_open @ ai_Threshold it @ '')'' @ newline
         else front @ newline)"

definition BuildAlertBody ::
  "(AlertItem list \<Rightarrow> AlertItem list) \<Rightarrow> InspectReport \<Rightarrow> AlertItem list \<Rightarrow> string" where
  "BuildAlertBody sorter report items =
     txt_alert_title @ ir_Timestamp report @ newline
     @ txt_total @ Itoa (cs_Total (ir_Summary report)) @ txt_checks_comma
     @ Itoa (cs_OK (ir_Summary report)) @ txt_ok_comma
     @ Itoa (cs_Warn (ir_Summary report)) @ txt_warn_comma
     @ Itoa (cs_Unknown (ir_Summary report)) @ txt_unknown @ newline @ newline
     @ txt_details @ newline
     @ concat (map alert_line (sorter items))
     @ newline @ txt_see_attachment @ newline"

definition BuildRecoveryBody :: "InspectReport \<Rightarrow> string" where
  "BuildRecoveryBody report =
     txt_recovery_title @ ir_Timestamp report @ newline @ newline
     @ txt_all_recovered @ Itoa (cs_Total (ir_Summary report)) @ txt_items_see @ newline"

subsection \<open>Sending\<close>

datatype mail_option =
    WithPort goint
  | WithTimeout goint
  | WithSSL
  | WithTLSOpportunistic
  | WithSMTPAuthPlain
  | WithUsername string
  | WithPassword string

record message =
  msg_From :: string
  msg_To :: "string list"
  msg_Subject :: string
  msg_Text :: string
  msg_HTML :: "string option"
  msg_Attachment :: "string option"

record mailer =
  ml_From :: "string \<Rightarrow> bool"
  ml_To :: "string list \<Rightarrow> bool"
  ml_NewClient :: "string \<Rightarrow> mail_option list \<Rightarrow> bool"
  ml_Deliver :: "string \<Rightarrow> mail_option list \<Rightarrow> message \<Rightarrow> bool"

datatype send_error = SetFrom | SetTo | SmtpClient | SmtpSend

definition sendTimeout :: goint where
  "sendTimeout = 30 * 1000000000"

definition mail_options :: "EmailConfig \<Rightarrow> mail_option list" where
  "mail_options e =
     [WithPort (em_SMTPPort e), WithTimeout sendTimeout]
     @ (if em_UseTLS e then [WithSSL] else [WithTLSOpportunistic])
     @ (if em_Username e \<noteq> [] then
          [WithSMTPAuthPlain, WithUsername (em_Username e), WithPassword (em_Password e)]
        else [])"

definition compose :: "EmailConfig \<Rightarrow> string \<Rightarrow> string \<Rightarrow> string \<Rightarrow> string \<Rightarrow> message" where
  "compose e subject body htmlBody attachmentPath =
     \<lparr>msg_From = em_From e, msg_To = em_To e, msg_Subject = subject, msg_Text = body,
      msg_HTML = (if htmlBody \<noteq> [] then Some htmlBody else None),
      msg_Attachment = (if attachmentPath \<noteq> [] then Some attachmentPath else None)\<rparr>"

text \<open>The message that was delivered, or the error.\<close>

definition Send ::
  "mailer \<Rightarrow> NotifyConfig \<Rightarrow> string \<Rightarrow> string \<Rightarrow> string \<Rightarrow> string \<Rightarrow> send_error + message" where
  "Send mailer cfg subject body htmlBody attachmentPath =
     (let e = nc_Email cfg;
          msg = compose e subject body htmlBody attachmentPath;
          opts = mail_options e
      in if \<not> ml_From mailer (em_From e) then Inl SetFrom
         else if \<not> ml_To mailer (em_To e) then Inl SetTo
         else if \<not> ml_NewClient mailer (em_SMTPHost e) opts then Inl SmtpClient
         else if \<not> ml_Deliver mailer (em_SMTPHost e) opts msg then Inl SmtpSend
         else Inr msg)"

subsection \<open>The alert list of a mail\<close>

text \<open>What is documented of \<open>sort.Slice\<close>: the same elements, none before a smaller one.\<close>

definition sort_slice :: "(AlertItem list \<Rightarrow> AlertItem list) \<Rightarrow> bool" where
  "sort_slice sorter \<longleftrightarrow>
     (\<forall>xs. mset (sorter xs) = mset xs \<and> sorted_wrt (\<lambda>a b. \<not> item_less b a) (sorter xs))"

text \<open>The order of the alerts as one of the library's linear orders, so that its sorting applies.\<close>

datatype alert_key = AlertKey (ak_host: string) (ak_field: string)

instantiation alert_key :: linorder
begin

definition less_alert_key :: "alert_key \<Rightarrow> alert_key \<Rightarrow> bool" where
  "less_alert_key a b \<longleftrightarrow>
     (if ak_host a \<noteq> ak_host b then ak_host a < ak_host b else ak_field a < ak_field b)"

definition less_eq_alert_key :: "alert_key \<Rightarrow> alert_key \<Rightarrow> bool" where
  "less_eq_alert_key a b \<longleftrightarrow> a = b \<or> a < b"

instance
proof
  fix a b c :: alert_key
  show "a < b \<longleftrightarrow> a \<le> b \<and> \<not> b \<le> a"
    by (auto simp: less_eq_alert_key_def less_alert_key_def split: if_splits)
  show "a \<le> a" by (simp add: less_eq_alert_key_def)
  show "a \<le> b \<Longrightarrow> b \<le> c \<Longrightarrow> a \<le> c"
    by (auto simp: less_eq_alert_key_def less_alert_key_def split: if_splits)
  show "a \<le> b \<Longrightarrow> b \<le> a \<Longrightarrow> a = b"
    by (auto simp: less_eq_alert_key_def less_alert_key_def split: if_splits)
  show "a \<le> b \<or> b \<le> a"
    by (cases a; cases b) (auto simp: less_eq_alert_key_def less_alert_key_def)
qed

end

definition alert_key :: "AlertItem \<Rightarrow> alert_key" where
  "alert_key it = AlertKey (ai_Host it) (ai_Field it)"

lemma item_less_key: "item_less a b \<longleftrightarrow> alert_key a < alert_key b"
  by (simp add: item_less_def alert_key_def less_alert_key_def)

lemma sort_slice_sorted:
  assumes "sort_slice sorter"
  shows "mset (sorter xs) = mset xs" "sorted (map alert_key (sorter xs))"
  using assms by (auto simp: sort_slice_def item_less_key sorted_map not_less)

text \<open>Without two alerts of one host and field the order is settled.\<close>

lemma sort_slice_unique:
  assumes "sort_slice sorter" "distinct (map alert_key xs)"
  shows "sorter xs = sort_key alert_key xs"
proof -
  have elems: "set (sorter xs) = set xs"
    by (rule mset_eq_setD) (rule sort_slice_sorted [OF assms(1)])
  have "distinct (map alert_key (sorter xs))"
    using assms(2) sort_slice_sorted(1) [OF assms(1), of xs]
    by (metis mset_eq_imp_distinct_iff mset_map)
  then show ?thesis
    using assms(2) sort_slice_sorted(2) [OF assms(1)] elems
    by (intro map_sorted_distinct_set_unique [of alert_key]) (simp_all add: distinct_map)
qed

text \<open>A sorting function of that kind.\<close>

fun insert_item :: "AlertItem \<Rightarrow> AlertItem list \<Rightarrow> AlertItem list" where
  "insert_item a [] = [a]"
| "insert_item a (b # bs) = (if item_less b a then b # insert_item a bs else a # b # bs)"

definition insertion_sort :: "AlertItem list \<Rightarrow> AlertItem list" where
  "insertion_sort xs = foldr insert_item xs []"

lemma item_less_irrefl: "\<not> item_less a a"
  by (simp add: item_less_def)

lemma item_less_total:
  "\<not> item_less b a \<Longrightarrow> \<not> item_less c b \<Longrightarrow> \<not> item_less c a"
  by (auto simp: item_less_def split: if_splits)

lemma item_less_asym: "item_less a b \<Longrightarrow> \<not> item_less b a"
  by (auto simp: item_less_def split: if_splits)

lemma mset_insert_item [simp]: "mset (insert_item a xs) = add_mset a (mset xs)"
  by (induction xs) auto

lemma set_insert_item [simp]: "set (insert_item a xs) = insert a (set xs)"
  by (induction xs) auto

lemma sorted_insert_item:
  "sorted_wrt (\<lambda>a b. \<not> item_less b a) xs \<Longrightarrow>
     sorted_wrt (\<lambda>a b. \<not> item_less b a) (insert_item a xs)"
  by (induction xs) (auto dest: item_less_asym, metis item_less_total)

lemma sort_slice_insertion: "sort_slice insertion_sort"
proof -
  have "mset (foldr insert_item xs []) = mset xs \<and>
    sorted_wrt (\<lambda>a b. \<not> item_less b a) (foldr insert_item xs [])" for xs
    by (induction xs) (auto intro: sorted_insert_item)
  then show ?thesis by (simp add: sort_slice_def insertion_sort_def)
qed

lemma rune_count_pad: "n \<le> rune_count s \<Longrightarrow> pad_right n s = s"
  by (simp add: pad_right_def)

end
