(* ===== verification/Sha256.thy ===== *)
theory Sha256
  imports Go_Strings "HOL-Library.Word"
begin

text \<open>
  SHA-256 (crypto/sha256) and lower-case hexadecimal (encoding/hex) on byte strings, as FIPS 180-4
  gives them, on 32-bit words whose addition wraps.
\<close>

unbundle bit_operations_syntax

type_synonym word32 = "32 word"

text \<open>
  The constants are the first 32 bits behind the point of the cube roots of the first 64 primes and
  of the square roots of the first 8.  \<open>root_from m k x 0\<close> is the largest \<open>r < 2 ^ k\<close> with
  \<open>r ^ m \<le> x\<close>, found bit by bit from the top.
\<close>

fun root_from :: "nat \<Rightarrow> nat \<Rightarrow> int \<Rightarrow> int \<Rightarrow> int" where
  "root_from m 0 x r = r"
| "root_from m (Suc k) x r = root_from m k x (if (r + 2 ^ k) ^ m \<le> x then r + 2 ^ k else r)"

definition prime_test :: "int \<Rightarrow> bool" where
  "prime_test p = list_all (\<lambda>d. p mod d \<noteq> 0) [2..p - 1]"

definition first_primes :: "int list" where
  "first_primes = filter prime_test [2..311]"

definition round_constants :: "word32 list" where
  "round_constants = map (\<lambda>p. of_int (root_from 3 36 (p * 2 ^ 96) 0 mod 2 ^ 32)) first_primes"

definition initial_hash :: "word32 list" where
  "initial_hash =
     map (\<lambda>p. of_int (root_from 2 36 (p * 2 ^ 64) 0 mod 2 ^ 32)) [2, 3, 5, 7, 11, 13, 17, 19]"

definition rotr :: "nat \<Rightarrow> word32 \<Rightarrow> word32" where
  "rotr n x = drop_bit n x OR push_bit (32 - n) x"

definition big0 :: "word32 \<Rightarrow> word32" where
  "big0 x = rotr 2 x XOR rotr 13 x XOR rotr 22 x"

definition big1 :: "word32 \<Rightarrow> word32" where
  "big1 x = rotr 6 x XOR rotr 11 x XOR rotr 25 x"

definition small0 :: "word32 \<Rightarrow> word32" where
  "small0 x = rotr 7 x XOR rotr 18 x XOR drop_bit 3 x"

definition small1 :: "word32 \<Rightarrow> word32" where
  "small1 x = rotr 17 x XOR rotr 19 x XOR drop_bit 10 x"

definition sha_choose :: "word32 \<Rightarrow> word32 \<Rightarrow> word32 \<Rightarrow> word32" where
  "sha_choose x y z = (x AND y) XOR (NOT x AND z)"

definition sha_majority :: "word32 \<Rightarrow> word32 \<Rightarrow> word32 \<Rightarrow> word32" where
  "sha_majority x y z = (x AND y) XOR (x AND z) XOR (y AND z)"

text \<open>The message schedule, extended a word at a time; \<open>rw\<close> holds the words so far, latest first.\<close>

fun extend :: "nat \<Rightarrow> word32 list \<Rightarrow> word32 list" where
  "extend 0 rw = rw"
| "extend (Suc n) rw =
     extend n ((small1 (rw ! 1) + rw ! 6 + small0 (rw ! 14) + rw ! 15) # rw)"

definition schedule :: "word32 list \<Rightarrow> word32 list" where
  "schedule block = rev (extend 48 (rev block))"

fun sha_round :: "word32 list \<Rightarrow> word32 \<times> word32 \<Rightarrow> word32 list" where
  "sha_round [a, b, c, d, e, f, g, h] (k, w) =
     (let t1 = h + big1 e + sha_choose e f g + k + w;
          t2 = big0 a + sha_majority a b c
      in [t1 + t2, a, b, c, d + t1, e, f, g])"
| "sha_round v _ = v"

definition compress :: "word32 list \<Rightarrow> word32 list \<Rightarrow> word32 list" where
  "compress hs block =
     map2 (+) hs (foldl sha_round hs (zip round_constants (schedule block)))"

text \<open>Padding: a one bit, zeros, and the length in bits as 64-bit big endian.\<close>

definition byte_of :: "char \<Rightarrow> 8 word" where
  "byte_of c = of_int (of_char c)"

fun big_endian :: "nat \<Rightarrow> int \<Rightarrow> 8 word list" where
  "big_endian 0 n = []"
| "big_endian (Suc k) n = big_endian k (n div 256) @ [of_int (n mod 256)]"

definition pad_message :: "8 word list \<Rightarrow> 8 word list" where
  "pad_message m =
     m @ [0x80] @ replicate ((119 - length m mod 64) mod 64) 0
       @ big_endian 8 (8 * int (length m) mod 2 ^ 64)"

fun to_words :: "8 word list \<Rightarrow> word32 list" where
  "to_words (a # b # c # d # bs) =
     (push_bit 24 (ucast a) OR push_bit 16 (ucast b) OR push_bit 8 (ucast c) OR ucast d)
     # to_words bs"
| "to_words _ = []"

function blocks :: "word32 list \<Rightarrow> word32 list list" where
  "blocks ws = (if ws = [] then [] else take 16 ws # blocks (drop 16 ws))"
  by auto
termination by (relation "measure length") auto

declare blocks.simps [simp del]

definition sha256_words :: "8 word list \<Rightarrow> word32 list" where
  "sha256_words m = foldl compress initial_hash (blocks (to_words (pad_message m)))"

definition hex_digit :: "int \<Rightarrow> char" where
  "hex_digit n = (if n < 10 then char_of (48 + n) else char_of (87 + n))"

fun hex_int :: "nat \<Rightarrow> int \<Rightarrow> string" where
  "hex_int 0 n = []"
| "hex_int (Suc k) n = hex_int k (n div 16) @ [hex_digit (n mod 16)]"

text \<open>\<open>hex.EncodeToString (sha256.Sum256 (...))\<close>\<close>

definition sha256_hex :: "string \<Rightarrow> string" where
  "sha256_hex s = concat (map (\<lambda>w. hex_int 8 (uint w)) (sha256_words (map byte_of s)))"

lemma length_hex_int [simp]: "length (hex_int k n) = k"
  by (induction k n rule: hex_int.induct) simp_all

lemma length_sha_round [simp]: "length (sha_round v kw) = length v"
  by (induction v kw rule: sha_round.induct) (simp_all add: Let_def)

lemma length_rounds [simp]: "length (foldl sha_round v kws) = length v"
  by (induction kws arbitrary: v) simp_all

lemma length_compress: "length (compress hs block) = length hs"
  by (simp add: compress_def)

lemma length_sha256_hex: "length (sha256_hex s) = 64"
proof -
  have "length (foldl compress hs bs) = length hs" for hs bs
    by (induction bs arbitrary: hs) (simp_all add: length_compress)
  then have "length (sha256_words m) = 8" for m
    by (simp add: sha256_words_def initial_hash_def)
  moreover have "length (concat (map (\<lambda>w. hex_int 8 (uint w)) ws)) = 8 * length ws"
    for ws :: "word32 list"
    by (induction ws) simp_all
  ultimately show ?thesis by (simp add: sha256_hex_def)
qed

lemma sha256_hex_not_Nil [simp]: "sha256_hex s \<noteq> []"
  using length_sha256_hex [of s] by auto

end
