(* ===== verification/Notify_Signature.thy ===== *)
theory Notify_Signature
  imports Notify_Persistence Sha256 "HOL-Library.List_Lexorder"
begin

text \<open>
  The signature of an alert set (src/notify/signature.go).  A match of the regular expression
  \<open>^rabbitmq\.([^.]+)\.(.+)\.(no_consumer|backlog)$\<close> splits the field at the first dot after
  the prefix and at the suffix.
\<close>

definition queue_suffix :: "string \<Rightarrow> string \<Rightarrow> (string \<times> string) option" where
  "queue_suffix tail s =
     (let q = take (length tail - length s - 1) tail
      in if HasSuffix tail (CHR ''.'' # s) \<and> q \<noteq> [] \<and> CHR 0x0A \<notin> set q then Some (q, s)
         else None)"

definition rabbitmqQueueFieldPattern :: "string \<Rightarrow> (string \<times> string \<times> string) option" where
  "rabbitmqQueueFieldPattern field =
     (let rest = drop 9 field;
          v = takeWhile (\<lambda>c. c \<noteq> CHR ''.'') rest;
          tail = drop (length v + 1) rest
      in if HasPrefix field ''rabbitmq.'' \<and> v \<noteq> [] \<and> length v < length rest then
           (case queue_suffix tail ''no_consumer'' of
              Some (q, s) \<Rightarrow> Some (v, q, s)
            | None \<Rightarrow>
                (case queue_suffix tail ''backlog'' of
                   Some (q, s) \<Rightarrow> Some (v, q, s)
                 | None \<Rightarrow> None))
         else None)"

definition normalizeFieldForSignature :: "string \<Rightarrow> string" where
  "normalizeFieldForSignature field =
     (case rabbitmqQueueFieldPattern field of
        Some (m1, m2, m3) \<Rightarrow> ''rabbitmq.'' @ m1 @ ''.'' @ m3
      | None \<Rightarrow> field)"

definition signature_key :: "AlertItem \<Rightarrow> string" where
  "signature_key a = ai_Host a @ ''|'' @ normalizeFieldForSignature (ai_Field a)"

text \<open>The keys of the map, sorted.\<close>

definition signature_keys :: "AlertItem list \<Rightarrow> string list" where
  "signature_keys items = sorted_list_of_set (set (map signature_key items))"

text \<open>What is written to the hash.\<close>

definition signature_input :: "string list \<Rightarrow> string" where
  "signature_input keys = concat (map (\<lambda>k. k @ [CHR 0x00]) keys)"

definition Signature :: "AlertItem list \<Rightarrow> string" where
  "Signature items =
     (if items = [] then [] else sha256_hex (signature_input (signature_keys items)))"

subsection \<open>The regular expression\<close>

definition queue_field :: "string \<Rightarrow> string \<Rightarrow> string \<Rightarrow> string \<Rightarrow> bool" where
  "queue_field field v q s \<longleftrightarrow>
     field = ''rabbitmq.'' @ v @ ''.'' @ q @ ''.'' @ s \<and> v \<noteq> [] \<and> CHR ''.'' \<notin> set v \<and>
     q \<noteq> [] \<and> CHR 0x0A \<notin> set q \<and> s \<in> {''no_consumer'', ''backlog''}"

lemma takeWhile_dot: "CHR ''.'' \<notin> set v \<Longrightarrow> takeWhile (\<lambda>c. c \<noteq> CHR ''.'') (v @ CHR ''.'' # t) = v"
  by (induction v) auto

lemma queue_suffix_Some:
  "queue_suffix tail s = Some (q, s') \<longleftrightarrow>
     s' = s \<and> tail = q @ CHR ''.'' # s \<and> q \<noteq> [] \<and> CHR 0x0A \<notin> set q"
  by (auto simp: queue_suffix_def HasSuffix_def suffix_def Let_def split: if_splits)

lemma queue_suffix_exclusive:
  "queue_suffix (q @ CHR ''.'' # ''backlog'') ''no_consumer'' = None"
  by (simp add: queue_suffix_def HasSuffix_def suffix_def append_eq_append_conv2 Let_def
      append_eq_Cons_conv)

lemma first_dot:
  assumes "length (takeWhile (\<lambda>c. c \<noteq> CHR ''.'') rest) < length rest"
  shows "rest = takeWhile (\<lambda>c. c \<noteq> CHR ''.'') rest @ CHR ''.''
    # drop (length (takeWhile (\<lambda>c. c \<noteq> CHR ''.'') rest) + 1) rest"
  using assms by (induction rest) (auto split: if_splits)

lemma pattern_complete:
  assumes "queue_field field v q s"
  shows "rabbitmqQueueFieldPattern field = Some (v, q, s)"
proof -
  have drop: "drop 9 field = v @ CHR ''.'' # q @ CHR ''.'' # s"
    and pre: "HasPrefix field ''rabbitmq.''"
    using assms by (auto simp: queue_field_def HasPrefix_def)
  have suf: "queue_suffix (q @ CHR ''.'' # s) s = Some (q, s)"
    using assms by (simp add: queue_suffix_Some queue_field_def)
  from assms consider "s = ''no_consumer''" | "s = ''backlog''" by (auto simp: queue_field_def)
  then show ?thesis
    using assms pre suf queue_suffix_exclusive [of q]
    by cases (simp_all add: rabbitmqQueueFieldPattern_def drop queue_field_def takeWhile_dot
        Let_def)
qed

lemma pattern_sound:
  assumes "rabbitmqQueueFieldPattern field = Some (v, q, s)"
  shows "queue_field field v q s"
proof -
  define rest where "rest = drop 9 field"
  define w where "w = takeWhile (\<lambda>c. c \<noteq> CHR ''.'') rest"
  define tail where "tail = drop (length w + 1) rest"
  have m: "HasPrefix field ''rabbitmq.''" "w \<noteq> []" "length w < length rest" "v = w"
    "queue_suffix tail ''no_consumer'' = Some (q, s) \<or> queue_suffix tail ''backlog'' = Some (q, s)"
    using assms
    unfolding rabbitmqQueueFieldPattern_def Let_def rest_def [symmetric] w_def [symmetric]
      tail_def [symmetric]
    by (auto split: if_splits option.splits)
  have "field = ''rabbitmq.'' @ rest"
    using m(1) by (auto simp: HasPrefix_def prefix_def rest_def)
  moreover have "rest = w @ CHR ''.'' # tail"
    using m(3) first_dot [of rest] by (simp add: w_def tail_def)
  moreover have "CHR ''.'' \<notin> set w"
    unfolding w_def by (auto dest: set_takeWhileD)
  ultimately show ?thesis
    using m by (auto simp: queue_field_def queue_suffix_Some)
qed

lemma pattern_iff: "rabbitmqQueueFieldPattern field = Some (v, q, s) \<longleftrightarrow> queue_field field v q s"
  using pattern_complete pattern_sound by blast

lemma normalize_queue:
  "queue_field field v q s \<Longrightarrow> normalizeFieldForSignature field = ''rabbitmq.'' @ v @ ''.'' @ s"
  by (simp add: normalizeFieldForSignature_def pattern_complete)

lemma normalize_other:
  "(\<And>v q s. \<not> queue_field field v q s) \<Longrightarrow> normalizeFieldForSignature field = field"
  by (auto simp: normalizeFieldForSignature_def pattern_iff [symmetric] split: option.splits)

subsection \<open>The interface of a signature\<close>

text \<open>
  What the dispatcher relies on: the signature is a function of the set of keys, and only the
  empty alert list has the empty one.
\<close>

locale fingerprint =
  fixes sig :: "AlertItem list \<Rightarrow> string"
    and key :: "AlertItem \<Rightarrow> string"
  assumes same_keys: "key ` set xs = key ` set ys \<Longrightarrow> sig xs = sig ys"
    and empty_iff: "sig xs = [] \<longleftrightarrow> xs = []"
begin

lemma order_irrelevant: "mset xs = mset ys \<Longrightarrow> sig xs = sig ys"
  by (intro same_keys) (metis set_mset_mset)

lemma duplicates_irrelevant: "sig (remdups xs) = sig xs"
  by (intro same_keys) simp

lemma payload_irrelevant: "(\<And>a. key (f a) = key a) \<Longrightarrow> sig (map f xs) = sig xs"
  by (intro same_keys) (simp add: image_image)

end

interpretation alert_signature: fingerprint Signature signature_key
proof
  fix xs ys :: "AlertItem list"
  assume eq: "signature_key ` set xs = signature_key ` set ys"
  then have "xs = [] \<longleftrightarrow> ys = []" by auto
  with eq show "Signature xs = Signature ys" by (simp add: Signature_def signature_keys_def)
next
  fix xs :: "AlertItem list"
  show "Signature xs = [] \<longleftrightarrow> xs = []" by (simp add: Signature_def)
qed

subsection \<open>The hash input\<close>

lemma signature_input_inj:
  assumes "signature_input ks = signature_input ls"
    and "\<And>k. k \<in> set ks \<union> set ls \<Longrightarrow> CHR 0x00 \<notin> set k"
  shows "ks = ls"
  using assms
proof (induction ks arbitrary: ls)
  case Nil
  then show ?case by (cases ls) (simp_all add: signature_input_def)
next
  case (Cons k ks)
  then obtain l ls' where ls: "ls = l # ls'"
    by (cases ls) (simp_all add: signature_input_def)
  have clean: "CHR 0x00 \<notin> set k" "CHR 0x00 \<notin> set l" using Cons.prems(2) by (auto simp: ls)
  have eq: "k @ CHR 0x00 # signature_input ks = l @ CHR 0x00 # signature_input ls'"
    using Cons.prems(1) by (simp add: ls signature_input_def)
  have "takeWhile (\<lambda>c. c \<noteq> CHR 0x00) (k @ CHR 0x00 # signature_input ks) = k"
    "takeWhile (\<lambda>c. c \<noteq> CHR 0x00) (l @ CHR 0x00 # signature_input ls') = l"
    using clean by (auto simp: takeWhile_append takeWhile_eq_all_conv [THEN iffD2])
  with eq have "k = l" by metis
  with eq have "signature_input ks = signature_input ls'" by simp
  then have "ks = ls'" using Cons.prems(2) by (intro Cons.IH) (auto simp: ls)
  with \<open>k = l\<close> show ?case by (simp add: ls)
qed

lemma signature_keys_set [simp]: "set (signature_keys items) = signature_key ` set items"
  by (simp add: signature_keys_def)

end
