(* ===== verification/Notify_Trigger.thy ===== *)
theory Notify_Trigger
  imports Notify_State
begin

text \<open>
  The decision matrix (src/notify/trigger.go).  A missing previous state is the zero state.
\<close>

datatype Action = ActionNone | ActionSendAlert | ActionSendRecovery

definition Decide :: "int \<Rightarrow> State option \<Rightarrow> goint \<Rightarrow> string \<Rightarrow> goint \<Rightarrow> Action" where
  "Decide now prev warnCount sigNow cooldown =
     (let prev = (case prev of None \<Rightarrow> State_zero | Some p \<Rightarrow> p);
          hasAlerts = (warnCount > 0);
          wasAlert = (st_LastStatus prev = ''alert'')
      in if \<not> hasAlerts \<and> \<not> wasAlert then ActionNone
         else if \<not> hasAlerts \<and> wasAlert then ActionSendRecovery
         else if hasAlerts \<and> \<not> wasAlert then ActionSendAlert
         else if sigNow \<noteq> st_LastSignature prev then ActionSendAlert
         else if time_sub now (st_LastSentAt prev) \<ge> cooldown then ActionSendAlert
         else ActionNone)"

lemma Decide_alert:
  "0 < warnCount \<Longrightarrow> Decide now (Some prev) warnCount sig cooldown =
     (if st_LastStatus prev = ''alert'' \<and> sig = st_LastSignature prev
         \<and> time_sub now (st_LastSentAt prev) < cooldown
      then ActionNone else ActionSendAlert)"
  by (auto simp: Decide_def)

lemma Decide_no_alert:
  "warnCount \<le> 0 \<Longrightarrow> Decide now (Some prev) warnCount sig cooldown =
     (if st_LastStatus prev = ''alert'' then ActionSendRecovery else ActionNone)"
  by (auto simp: Decide_def)

end
