(* ===== verification/Notify.thy ===== *)
theory Notify
  imports Notify_Email Notify_Signature Notify_Trigger
begin

text \<open>
  One notification pass (src/notify/notify.go): \<open>Prepare\<close> before the report is written,
  \<open>Dispatch\<close> after.  The clock is the argument \<open>now\<close>, the disk \<open>files\<close>; messages go to stderr
  only in the code and are left out.
\<close>

record PrepContext =
  pc_StatePath :: string
  pc_Prev :: State
  pc_Filtered :: "AlertItem list"
  pc_NextPending :: pending
  pc_NewStreak :: goint
  pc_RawWarnsEmpty :: bool
  pc_Now :: int

definition Prepare ::
  "(string \<Rightarrow> int option) \<Rightarrow> files \<Rightarrow> int \<Rightarrow> NotifyConfig option \<Rightarrow> InspectReport \<Rightarrow>
     PrepContext option \<times> InspectReport" where
  "Prepare prs fs now cfg report =
     (case cfg of
        None \<Rightarrow> (None, report)
      | Some cfg \<Rightarrow>
          if \<not> em_Enabled (nc_Email cfg) then (None, report)
          else if notify_Validate cfg \<noteq> None then (None, report)
          else
            let statePath = StatePath (nc_path cfg);
                prev = LoadState prs (read_file fs statePath);
                rawItems = ExtractAlerts (Some report);
                rawWarnsEmpty = (length rawItems = 0);
                persRes = ApplyPersistence rawItems (st_Pending prev)
                  (ps_ConsecutiveRuns (nc_Persistence cfg)) now;
                streak = UpdateRecoveryStreak (st_RecoveryStreak prev) (st_LastStatus prev)
                  rawWarnsEmpty;
                report = demotePending report (pr_PendingKeys persRes)
            in (Some \<lparr>pc_StatePath = statePath, pc_Prev = prev,
                      pc_Filtered = pr_Filtered persRes, pc_NextPending = pr_NextPending persRes,
                      pc_NewStreak = streak, pc_RawWarnsEmpty = rawWarnsEmpty, pc_Now = now\<rparr>,
                report))"

text \<open>The switch that chooses the action.\<close>

definition choose_action :: "PrepContext \<Rightarrow> NotifyConfig \<Rightarrow> Action" where
  "choose_action ctx cfg =
     (let cooldown = wrap64 (tg_MinIntervalMinutes (nc_Trigger cfg) * 60000000000);
          sigNow = Signature (pc_Filtered ctx);
          n = ps_ConsecutiveRuns (nc_Persistence cfg);
          action =
            (if st_LastStatus (pc_Prev ctx) = ''alert'' \<and> length (pc_Filtered ctx) = 0 then
               (if pc_RawWarnsEmpty ctx \<and> pc_NewStreak ctx \<ge> n then ActionSendRecovery
                else ActionNone)
             else Decide (pc_Now ctx) (Some (pc_Prev ctx)) (int (length (pc_Filtered ctx))) sigNow
                    cooldown)
      in if action = ActionSendRecovery \<and> \<not> tg_SendRecovery (nc_Trigger cfg) then ActionNone
         else action)"

text \<open>
  The world of a dispatch: how files are read and written, the mailer, the sorting function.
  The result is the message that was delivered, if any, and the disk.  A failed save is ignored
  by the code.
\<close>

record dispatch_world =
  dw_ReadHTML :: "string \<Rightarrow> string option"
  dw_FormatTime :: "int \<Rightarrow> string option"
  dw_Save :: save_calls
  dw_Mailer :: mailer
  dw_Sort :: "AlertItem list \<Rightarrow> AlertItem list"

definition Dispatch ::
  "dispatch_world \<Rightarrow> PrepContext option \<Rightarrow> NotifyConfig \<Rightarrow> InspectReport \<Rightarrow> string \<Rightarrow> files \<Rightarrow>
     message option \<times> files" where
  "Dispatch w ctx cfg report htmlPath fs =
     (case ctx of
        None \<Rightarrow> (None, fs)
      | Some ctx \<Rightarrow>
          let sigNow = Signature (pc_Filtered ctx);
              htmlBody = loadHTMLBody (dw_ReadHTML w) htmlPath;
              save = (\<lambda>s. fst (SaveState (dw_FormatTime w) (dw_Save w) (pc_StatePath ctx) s fs))
          in (case choose_action ctx cfg of
                ActionNone \<Rightarrow>
                  (None, save ((pc_Prev ctx)\<lparr>st_Pending := pc_NextPending ctx,
                                 st_RecoveryStreak := pc_NewStreak ctx\<rparr>))
              | ActionSendAlert \<Rightarrow>
                  (case Send (dw_Mailer w) cfg (BuildAlertSubject (ir_Summary report))
                          (BuildAlertBody (dw_Sort w) report (pc_Filtered ctx)) htmlBody htmlPath of
                     Inl err \<Rightarrow> (None, fs)
                   | Inr msg \<Rightarrow>
                       (Some msg,
                        save \<lparr>st_LastSentAt = pc_Now ctx, st_LastSignature = sigNow,
                              st_LastStatus = ''alert'', st_Pending = pc_NextPending ctx,
                              st_RecoveryStreak = 0\<rparr>))
              | ActionSendRecovery \<Rightarrow>
                  (case Send (dw_Mailer w) cfg (BuildRecoverySubject (ir_Summary report))
                          (BuildRecoveryBody report) htmlBody htmlPath of
                     Inl err \<Rightarrow> (None, fs)
                   | Inr msg \<Rightarrow>
                       (Some msg,
                        save \<lparr>st_LastSentAt = pc_Now ctx, st_LastSignature = [],
                              st_LastStatus = ''ok'', st_Pending = pc_NextPending ctx,
                              st_RecoveryStreak = 0\<rparr>))))"

definition Process ::
  "(string \<Rightarrow> int option) \<Rightarrow> dispatch_world \<Rightarrow> int \<Rightarrow> NotifyConfig \<Rightarrow> InspectReport \<Rightarrow> string \<Rightarrow>
     files \<Rightarrow> message option \<times> files" where
  "Process prs w now cfg report htmlPath fs =
     (let (ctx, report) = Prepare prs fs now (Some cfg) report
      in Dispatch w ctx cfg report htmlPath fs)"

subsection \<open>The specification: a machine over states\<close>

text \<open>
  What a pass does to the state, without files and mail: the alerts of the run, its time and
  whether a mail would be delivered.  The parameters are N, the cooldown and whether recovery
  mails are wanted.
\<close>

record notify_params =
  np_Runs :: goint
  np_Cooldown :: goint
  np_Recovery :: bool

definition params_of :: "NotifyConfig \<Rightarrow> notify_params" where
  "params_of cfg =
     \<lparr>np_Runs = ps_ConsecutiveRuns (nc_Persistence cfg),
      np_Cooldown = wrap64 (tg_MinIntervalMinutes (nc_Trigger cfg) * 60000000000),
      np_Recovery = tg_SendRecovery (nc_Trigger cfg)\<rparr>"

definition firing :: "notify_params \<Rightarrow> State \<Rightarrow> AlertItem list \<Rightarrow> int \<Rightarrow> AlertItem list" where
  "firing p s items now = pr_Filtered (ApplyPersistence items (st_Pending s) (np_Runs p) now)"

definition new_streak :: "State \<Rightarrow> AlertItem list \<Rightarrow> goint" where
  "new_streak s items = UpdateRecoveryStreak (st_RecoveryStreak s) (st_LastStatus s) (items = [])"

definition notify_action :: "notify_params \<Rightarrow> State \<Rightarrow> AlertItem list \<Rightarrow> int \<Rightarrow> Action" where
  "notify_action p s items now =
     (if firing p s items now = [] then
        (if st_LastStatus s = ''alert'' \<and> items = [] \<and> np_Runs p \<le> new_streak s items
            \<and> np_Recovery p
         then ActionSendRecovery else ActionNone)
      else if st_LastStatus s = ''alert'' \<and> Signature (firing p s items now) = st_LastSignature s
              \<and> time_sub now (st_LastSentAt s) < np_Cooldown p
        then ActionNone
      else ActionSendAlert)"

definition notify_next :: "notify_params \<Rightarrow> State \<Rightarrow> AlertItem list \<Rightarrow> int \<Rightarrow> State" where
  "notify_next p s items now =
     (let pending = pr_NextPending (ApplyPersistence items (st_Pending s) (np_Runs p) now)
      in case notify_action p s items now of
           ActionNone \<Rightarrow> s\<lparr>st_Pending := pending, st_RecoveryStreak := new_streak s items\<rparr>
         | ActionSendAlert \<Rightarrow>
             \<lparr>st_LastSentAt = now, st_LastSignature = Signature (firing p s items now),
              st_LastStatus = ''alert'', st_Pending = pending, st_RecoveryStreak = 0\<rparr>
         | ActionSendRecovery \<Rightarrow>
             \<lparr>st_LastSentAt = now, st_LastSignature = [], st_LastStatus = ''ok'',
              st_Pending = pending, st_RecoveryStreak = 0\<rparr>)"

text \<open>
  The states a program can be in, with the history of the runs whose state was kept.  A run whose
  mail failed, or whose state could not be saved, leaves no trace.
\<close>

inductive reached :: "notify_params \<Rightarrow> State \<Rightarrow> history \<Rightarrow> bool" for p where
  cold: "reached p State_zero []"
| run: "reached p s h \<Longrightarrow> reached p (notify_next p s items now) ((items, now) # h)"

inductive_cases reached_ConsE: "reached p s (run # h)"

lemma notify_next_sel:
  "st_Pending (notify_next p s items now) =
     pr_NextPending (ApplyPersistence items (st_Pending s) (np_Runs p) now)"
  "st_RecoveryStreak (notify_next p s items now) =
     (if notify_action p s items now = ActionNone then new_streak s items else 0)"
  "notify_action p s items now = ActionNone \<Longrightarrow>
     st_LastStatus (notify_next p s items now) = st_LastStatus s"
  by (auto simp: notify_next_def Let_def split: Action.splits)

lemma reached_pending: "reached p s h \<Longrightarrow> st_Pending s = pending_after (np_Runs p) h"
  by (induction rule: reached.induct) (simp_all add: State_zero_def notify_next_sel)

lemma reached_firing:
  "reached p s h \<Longrightarrow> firing p s items now = fired (np_Runs p) ((items, now) # h)"
  by (simp add: firing_def reached_pending)

text \<open>The streak counts runs without any alert, all after an alert mail.\<close>

definition quiet :: "history \<Rightarrow> goint \<Rightarrow> bool" where
  "quiet h c \<longleftrightarrow> nat c \<le> length h \<and> (\<forall>i < nat c. fst (h ! i) = [])"

lemma quiet_Cons:
  assumes "0 \<le> c"
  shows "quiet ((items, now) # h) (c + 1) \<longleftrightarrow> items = [] \<and> quiet h c"
proof -
  have "nat (c + 1) = Suc (nat c)" using assms by simp
  then show ?thesis by (auto simp: quiet_def All_less_Suc2)
qed

lemma reached_streak:
  assumes "reached p s h" "int (length h) < int64_max"
  shows "0 \<le> st_RecoveryStreak s \<and> quiet h (st_RecoveryStreak s)"
  using assms
proof (induction rule: reached.induct)
  case cold
  then show ?case by (simp add: State_zero_def quiet_def)
next
  case (run s h items now)
  have IH: "0 \<le> st_RecoveryStreak s" "quiet h (st_RecoveryStreak s)"
    using run.IH run.prems by simp_all
  then have le: "st_RecoveryStreak s \<le> int (length h)" by (simp add: quiet_def nat_le_iff)
  have "new_streak s items = 0 \<or> items = [] \<and> new_streak s items = st_RecoveryStreak s + 1"
  proof -
    have "wrap64 (st_RecoveryStreak s + 1) = st_RecoveryStreak s + 1"
      using IH(1) le run.prems
      by (intro wrap64_id) (simp add: in_int64_def int64_min_def int64_max_def)
    then show ?thesis by (simp add: new_streak_def UpdateRecoveryStreak_def)
  qed
  then have "0 \<le> new_streak s items \<and> quiet ((items, now) # h) (new_streak s items)"
    using IH by (auto simp: quiet_Cons) (simp add: quiet_def)
  moreover have "quiet ((items, now) # h) 0" by (simp add: quiet_def)
  ultimately show ?case by (simp add: notify_next_sel)
qed

subsection \<open>The code implements the machine\<close>

lemma Prepare_Some:
  assumes "em_Enabled (nc_Email cfg)" "notify_Validate cfg = None"
  defines "s \<equiv> \<lambda>prs fs. LoadState prs (read_file fs (StatePath (nc_path cfg)))"
  shows "fst (Prepare prs fs now (Some cfg) report) =
    Some \<lparr>pc_StatePath = StatePath (nc_path cfg), pc_Prev = s prs fs,
          pc_Filtered = firing (params_of cfg) (s prs fs) (ExtractAlerts (Some report)) now,
          pc_NextPending = pr_NextPending (ApplyPersistence (ExtractAlerts (Some report))
            (st_Pending (s prs fs)) (np_Runs (params_of cfg)) now),
          pc_NewStreak = new_streak (s prs fs) (ExtractAlerts (Some report)),
          pc_RawWarnsEmpty = (ExtractAlerts (Some report) = []), pc_Now = now\<rparr>"
  using assms(1,2)
  by (simp add: Prepare_def Let_def s_def firing_def new_streak_def params_of_def)

lemma choose_action_eq:
  assumes "pc_Filtered ctx = firing (params_of cfg) (pc_Prev ctx) items (pc_Now ctx)"
    and "pc_NewStreak ctx = new_streak (pc_Prev ctx) items"
    and "pc_RawWarnsEmpty ctx = (items = [])"
  shows "choose_action ctx cfg = notify_action (params_of cfg) (pc_Prev ctx) items (pc_Now ctx)"
  using assms
  by (cases "pc_Filtered ctx = []")
    (auto simp: choose_action_def notify_action_def Let_def Decide_def params_of_def)

lemma Prepare_consistent:
  assumes "Prepare prs fs now (Some cfg) report = (Some ctx, report')"
    and "ir_Summary report = Summarize (ir_AllChecks report)"
  shows "ExtractAlerts (Some report') = pc_Filtered ctx \<and>
    cs_Warn (ir_Summary report') = int (length (pc_Filtered ctx))"
proof -
  define res where "res = ApplyPersistence (ExtractAlerts (Some report))
    (st_Pending (LoadState prs (read_file fs (StatePath (nc_path cfg)))))
    (ps_ConsecutiveRuns (nc_Persistence cfg)) now"
  have report': "report' = demotePending report (pr_PendingKeys res)"
    and filtered: "pc_Filtered ctx = pr_Filtered res"
    using assms(1) by (auto simp: Prepare_def Let_def res_def split: if_splits)
  have split: "pr_Filtered res =
      filter (\<lambda>it. item_key it \<notin> pr_PendingKeys res) (ExtractAlerts (Some report))"
    unfolding res_def by (rule Filtered_eq)
  show ?thesis
  proof (cases "pr_PendingKeys res = {}")
    case True
    then have "report' = report" by (simp add: report' demotePending_def)
    with True assms(2) show ?thesis
      by (simp add: filtered split ExtractAlerts_def Summarize_counts count_status_def)
  next
    case False
    then have "ExtractAlerts (Some report') = pc_Filtered ctx"
      by (simp add: report' extract_demoted filtered split)
    with summary_demoted [OF False, of report] show ?thesis by (simp add: report')
  qed
qed

text \<open>The mail a pass would send, with the report as it was prepared.\<close>

definition notify_send ::
  "dispatch_world \<Rightarrow> NotifyConfig \<Rightarrow> InspectReport \<Rightarrow> string \<Rightarrow> Action \<Rightarrow> AlertItem list \<Rightarrow>
     send_error + message" where
  "notify_send w cfg report htmlPath act items =
     (let html = loadHTMLBody (dw_ReadHTML w) htmlPath
      in if act = ActionSendAlert then
           Send (dw_Mailer w) cfg (BuildAlertSubject (ir_Summary report))
             (BuildAlertBody (dw_Sort w) report items) html htmlPath
         else Send (dw_Mailer w) cfg (BuildRecoverySubject (ir_Summary report))
             (BuildRecoveryBody report) html htmlPath)"

lemma Process_eq:
  assumes "em_Enabled (nc_Email cfg)" "notify_Validate cfg = None"
    and s: "s = LoadState prs (read_file fs (StatePath (nc_path cfg)))"
    and items: "items = ExtractAlerts (Some report)"
    and p: "p = params_of cfg"
  shows "Process prs w now cfg report htmlPath fs =
    (let saved = fst (SaveState (dw_FormatTime w) (dw_Save w) (StatePath (nc_path cfg))
                   (notify_next p s items now) fs)
     in if notify_action p s items now = ActionNone then (None, saved)
        else case notify_send w cfg (snd (Prepare prs fs now (Some cfg) report)) htmlPath
                    (notify_action p s items now) (firing p s items now) of
               Inl err \<Rightarrow> (None, fs)
             | Inr msg \<Rightarrow> (Some msg, saved))"
proof -
  define ctx where "ctx = the (fst (Prepare prs fs now (Some cfg) report))"
  note made = Prepare_Some [OF assms(1,2), of prs fs now report]
  have ctx: "fst (Prepare prs fs now (Some cfg) report) = Some ctx"
    by (simp add: ctx_def made)
  have sel: "pc_StatePath ctx = StatePath (nc_path cfg)" "pc_Prev ctx = s"
      "pc_Filtered ctx = firing p s items now"
      "pc_NextPending ctx =
        pr_NextPending (ApplyPersistence items (st_Pending s) (np_Runs p) now)"
      "pc_NewStreak ctx = new_streak s items" "pc_RawWarnsEmpty ctx = (items = [])"
      "pc_Now ctx = now"
    by (simp_all add: ctx_def made s items p)
  have act: "choose_action ctx cfg = notify_action p s items now"
    using choose_action_eq [of ctx cfg items] by (simp add: sel p)
  have rep: "Prepare prs fs now (Some cfg) report =
    (Some ctx, snd (Prepare prs fs now (Some cfg) report))"
    by (simp add: prod_eq_iff ctx)
  show ?thesis
    unfolding Process_def Let_def
    by (subst rep, cases "notify_action p s items now")
      (simp_all add: Dispatch_def act sel Let_def notify_next_def notify_send_def split: sum.splits)
qed

text \<open>The state on disk after a pass.\<close>

definition disk_state :: "(string \<Rightarrow> int option) \<Rightarrow> NotifyConfig \<Rightarrow> files \<Rightarrow> State" where
  "disk_state prs cfg fs = LoadState prs (read_file fs (StatePath (nc_path cfg)))"

definition fresh_temp :: "save_calls \<Rightarrow> string \<Rightarrow> files \<Rightarrow> bool" where
  "fresh_temp os path fs \<longleftrightarrow>
     (\<forall>tmp. sv_CreateTemp os = Some tmp \<longrightarrow> tmp \<noteq> path \<and> fs tmp = None)"

lemma Process_state:
  assumes "em_Enabled (nc_Email cfg)" "notify_Validate cfg = None"
    and s: "s = disk_state prs cfg fs"
    and items: "items = ExtractAlerts (Some report)"
    and store: "storable (dw_FormatTime w) prs (notify_next (params_of cfg) s items now)"
    and "fresh_temp (dw_Save w) (StatePath (nc_path cfg)) fs"
    and run: "Process prs w now cfg report htmlPath fs = (sent, fs')"
  shows "disk_state prs cfg fs' \<in> {s, notify_next (params_of cfg) s items now}"
    and "sent = None \<and> notify_action (params_of cfg) s items now \<noteq> ActionNone \<Longrightarrow> fs' = fs"
    and "sent \<noteq> None \<Longrightarrow> notify_action (params_of cfg) s items now \<noteq> ActionNone"
proof -
  let ?p = "params_of cfg" and ?path = "StatePath (nc_path cfg)"
  let ?save = "SaveState (dw_FormatTime w) (dw_Save w) ?path (notify_next ?p s items now) fs"
  note eq = Process_eq [OF assms(1,2) s [unfolded disk_state_def] items refl, of w now htmlPath]
  have saved: "disk_state prs cfg (fst ?save) \<in> {s, notify_next ?p s items now}"
  proof (cases "snd ?save")
    case None
    then show ?thesis
      using SaveState_success [OF store, of "dw_Save w" ?path fs "fst ?save"] assms(6)
      by (simp add: disk_state_def fresh_temp_def prod_eq_iff)
  next
    case (Some err)
    then have "fst ?save ?path = fs ?path"
      using SaveState_fault(1) [of "dw_FormatTime w" "dw_Save w" ?path _ fs "fst ?save" err]
        assms(6) by (simp add: fresh_temp_def prod_eq_iff)
    then show ?thesis by (simp add: disk_state_def read_file_def s)
  qed
  show "disk_state prs cfg fs' \<in> {s, notify_next ?p s items now}"
    using eq run saved s by (auto simp: Let_def split: if_splits sum.splits)
  show "sent = None \<and> notify_action ?p s items now \<noteq> ActionNone \<Longrightarrow> fs' = fs"
    using eq run by (auto simp: Let_def split: if_splits sum.splits)
  show "sent \<noteq> None \<Longrightarrow> notify_action ?p s items now \<noteq> ActionNone"
    using eq run by (auto simp: Let_def split: if_splits)
qed

end
