(* ===== verification/Notify_Properties.thy ===== *)
theory Notify_Properties
  imports Notify
begin

text \<open>
  The properties of the notification subsystem: when an alert is confirmed, when mails are sent,
  what the report says of the alerts, what survives on disk.
\<close>

definition sample_item :: "string \<Rightarrow> string \<Rightarrow> AlertItem" where
  "sample_item host field =
     \<lparr>ai_Host = host, ai_Field = field, ai_Value = ''99'', ai_Threshold = []\<rparr>"

definition two_runs :: notify_params where
  "two_runs = \<lparr>np_Runs = 2, np_Cooldown = 7200000000000, np_Recovery = True\<rparr>"

lemmas run_simps =
  firing_def two_runs_def sample_item_def notify_next_sel State_zero_def persistence_simps
  fires_def item_key_def PendingKey_def keys_of_def

subsection \<open>An example\<close>

text \<open>An example: one host check that warns, N = 1, a mailer that takes everything.\<close>

definition sample_config :: NotifyConfig where
  "sample_config =
     \<lparr>nc_Email = \<lparr>em_Enabled = True, em_SMTPHost = ''mail'', em_SMTPPort = 25, em_UseTLS = False,
        em_Username = [], em_Password = [], em_From = ''a'', em_To = [''b'']\<rparr>,
      nc_Trigger = \<lparr>tg_MinIntervalMinutes = 120, tg_SendRecovery = True\<rparr>,
      nc_Persistence = \<lparr>ps_ConsecutiveRuns = 1\<rparr>, nc_path = ''/etc/weops/config.json''\<rparr>"

definition sample_report :: InspectReport where
  "sample_report = InspectReport_zero
     \<lparr>ir_AllChecks := [mk_check ''cpu_usage'' ''99'' StatusWarn [],
        mk_check ''mem_usage'' ''10'' StatusOK []],
      ir_Summary := \<lparr>cs_Total = 2, cs_OK = 1, cs_Warn = 1, cs_Unknown = 0\<rparr>\<rparr>"

definition sample_world :: "bool \<Rightarrow> dispatch_world" where
  "sample_world up =
     \<lparr>dw_ReadHTML = (\<lambda>_. None), dw_FormatTime = (\<lambda>t. Some (Itoa t)),
      dw_Save = \<lparr>sv_Mkdir = True, sv_CreateTemp = Some ''/etc/weops/state-1.json'',
        sv_Write = True, sv_Written = 0, sv_Chmod = True, sv_Close = True, sv_Rename = True, sv_Remove = True\<rparr>,
      dw_Mailer = \<lparr>ml_From = (\<lambda>_. True), ml_To = (\<lambda>_. True), ml_NewClient = (\<lambda>_ _. True),
        ml_Deliver = (\<lambda>_ _ _. up)\<rparr>,
      dw_Sort = insertion_sort\<rparr>"

definition sample_parse :: "string \<Rightarrow> int option" where
  "sample_parse s = Some (Atoi0 s)"

lemma sample_alerts: "ExtractAlerts (Some sample_report) = [sample_item [] ''cpu_usage''\<lparr>ai_Value := ''99''\<rparr>]"
  by (simp add: ExtractAlerts_def sample_report_def InspectReport_zero_def alert_item_def
      attributed_host_def hostByField_def sample_item_def)

lemma sample_disk: "disk_state sample_parse sample_config Map.empty = State_zero"
  by (simp add: disk_state_def read_file_def LoadState_def)

lemma valid_utf8_ascii_all: "\<forall>c \<in> set s. code c < 128 \<Longrightarrow> valid_utf8 s"
  by (induction s) simp_all

lemma valid_signature: "valid_utf8 (Signature items)"
proof -
  have "code (hex_digit d) < 128" if "0 \<le> d" "d < 16" for d
  proof -
    from that have "d \<in> set [0..15]" by simp
    moreover have "\<forall>d \<in> set [0..15]. code (hex_digit d) < 128"
      by code_simp
    ultimately show ?thesis by blast
  qed
  then have "\<forall>c \<in> set (hex_int k n). code c < 128" for k n
    by (induction k n rule: hex_int.induct) auto
  then have "valid_utf8 (sha256_hex x)" for x
    by (auto simp: sha256_hex_def intro!: valid_utf8_ascii_all)
  then show ?thesis by (simp add: Signature_def)
qed

subsection \<open>Confirmation\<close>

text \<open>What \<open>Prepare\<close> hands to \<open>Dispatch\<close>, in terms of the machine.\<close>

lemma prepared:
  assumes "Prepare prs fs now (Some cfg) report = (Some ctx, report')"
    and "items = ExtractAlerts (Some report)"
  shows "pc_Prev ctx = disk_state prs cfg fs" "pc_Now ctx = now"
    "pc_Filtered ctx = firing (params_of cfg) (disk_state prs cfg fs) items now"
    "choose_action ctx cfg = notify_action (params_of cfg) (disk_state prs cfg fs) items now"
proof -
  have on: "em_Enabled (nc_Email cfg)" "notify_Validate cfg = None"
    using assms(1) by (auto simp: Prepare_def split: if_splits)
  note made = Prepare_Some [OF on, of prs fs now report]
  have ctx: "ctx = the (fst (Prepare prs fs now (Some cfg) report))" by (simp add: assms(1))
  show sel: "pc_Prev ctx = disk_state prs cfg fs" "pc_Now ctx = now"
    "pc_Filtered ctx = firing (params_of cfg) (disk_state prs cfg fs) items now"
    unfolding ctx made by (simp_all add: disk_state_def assms(2))
  have "pc_NewStreak ctx = new_streak (disk_state prs cfg fs) items"
    "pc_RawWarnsEmpty ctx = (items = [])"
    unfolding ctx made by (simp_all add: disk_state_def assms(2))
  then show "choose_action ctx cfg = notify_action (params_of cfg) (disk_state prs cfg fs) items now"
    using choose_action_eq [of ctx cfg items] sel by simp
qed

text \<open>
  C1. No alert is confirmed too early: whenever the state on disk is one the program can reach,
  an alert that \<open>Prepare\<close> confirms was found by this run and by each of the N - 1 runs before it
  whose state was kept.
\<close>

theorem confirmed_alert_seen_in_last_runs:
  assumes "Prepare prs fs now (Some cfg) report = (Some ctx, report')"
    and "reached (params_of cfg) (disk_state prs cfg fs) h"
    and "in_int64 (ps_ConsecutiveRuns (nc_Persistence cfg))"
    and "it \<in> set (pc_Filtered ctx)"
  shows "it \<in> set (ExtractAlerts (Some report)) \<and>
    seen_last ((ExtractAlerts (Some report), now) # h) (ps_ConsecutiveRuns (nc_Persistence cfg))
      (item_key it)"
proof -
  have n: "np_Runs (params_of cfg) = ps_ConsecutiveRuns (nc_Persistence cfg)"
    by (simp add: params_of_def)
  have f: "it \<in> set (fired (np_Runs (params_of cfg)) ((ExtractAlerts (Some report), now) # h))"
    using assms(4) unfolding prepared(3) [OF assms(1) refl] reached_firing [OF assms(2)] .
  then have "it \<in> set (ExtractAlerts (Some report))" by (simp add: persistence_simps)
  with fired_seen [OF _ f] assms(3) show ?thesis by (simp add: n)
qed

definition two_runs_config :: NotifyConfig where
  "two_runs_config = sample_config\<lparr>nc_Persistence := \<lparr>ps_ConsecutiveRuns = 2\<rparr>\<rparr>"

definition sample_files :: "State \<Rightarrow> files" where
  "sample_files s =
     (case marshal_state (\<lambda>t. Some (Itoa t)) s of
        None \<Rightarrow> Map.empty
      | Some v \<Rightarrow> [''/etc/weops/state.json'' \<mapsto> MarshalIndent v])"

lemma sample_path [simp]:
  "StatePath (nc_path sample_config) = ''/etc/weops/state.json''"
  "StatePath (nc_path two_runs_config) = ''/etc/weops/state.json''"
proof -
  have "StatePath ''/etc/weops/config.json'' = ''/etc/weops/state.json''" by code_simp
  then show "StatePath (nc_path sample_config) = ''/etc/weops/state.json''"
    "StatePath (nc_path two_runs_config) = ''/etc/weops/state.json''"
    by (simp_all add: sample_config_def two_runs_config_def)
qed

lemma sample_files_state:
  assumes "storable (\<lambda>t. Some (Itoa t)) sample_parse s"
  shows "disk_state sample_parse two_runs_config (sample_files s) = s"
  using state_roundtrip [OF assms]
  by (auto simp: disk_state_def sample_files_def read_file_def LoadState_def scan_text)

lemma sample_prepared:
  assumes "storable (\<lambda>t. Some (Itoa t)) sample_parse s"
  shows "\<exists>ctx r. Prepare sample_parse (sample_files s) now (Some two_runs_config) report = (Some ctx, r)"
proof -
  have "em_Enabled (nc_Email two_runs_config)" "notify_Validate two_runs_config = None"
    by (simp_all add: two_runs_config_def sample_config_def notify_Validate_def)
  from Prepare_Some [OF this, of sample_parse "sample_files s" now report] show ?thesis
    by (metis prod.collapse)
qed

lemma sample_runs [simp]: "ps_ConsecutiveRuns (nc_Persistence two_runs_config) = 2"
  by (simp add: two_runs_config_def)

lemma sample_params: "params_of two_runs_config = two_runs"
  by (simp add: params_of_def two_runs_config_def sample_config_def two_runs_def wrap64_def)

lemmas step_eval = run_simps next_entry_def time_sub_def clamp64_def int64_max_def int64_min_def
  pendingTTL_def wrap64_def notify_next_def notify_action_def new_streak_def
  UpdateRecoveryStreak_def Let_def

definition sample_alert :: AlertItem where
  "sample_alert = sample_item [] ''cpu_usage''"

text \<open>Three states the program can reach with N = 2: after one, two and three runs.\<close>

definition state1 :: State where
  "state1 = \<lparr>st_LastSentAt = 0, st_LastSignature = [], st_LastStatus = [],
     st_Pending = [''|cpu_usage'' \<mapsto> \<lparr>pi_Count = 1, pi_FirstSeen = 0\<rparr>], st_RecoveryStreak = 0\<rparr>"

definition state2 :: State where
  "state2 = \<lparr>st_LastSentAt = 300, st_LastSignature = Signature [sample_alert],
     st_LastStatus = ''alert'', st_Pending = Map.empty, st_RecoveryStreak = 0\<rparr>"

definition state3 :: State where
  "state3 = state2\<lparr>st_RecoveryStreak := 1\<rparr>"

lemma state1_step: "notify_next two_runs State_zero [sample_alert] 0 = state1"
  by (simp add: state1_def sample_alert_def step_eval fun_eq_iff)

lemma state2_step: "notify_next two_runs state1 [sample_alert] 300 = state2"
  by (simp add: state1_def state2_def sample_alert_def step_eval)
    (auto simp: step_eval fun_eq_iff split: option.splits if_splits)

lemma state3_step: "notify_next two_runs state2 [] 600 = state3"
  by (simp add: state3_def state2_def step_eval)

lemma states_reached:
  "reached two_runs state1 [([sample_alert], 0)]"
  "reached two_runs state2 [([sample_alert], 300), ([sample_alert], 0)]"
  "reached two_runs state3 [([], 600), ([sample_alert], 300), ([sample_alert], 0)]"
proof -
  show 1: "reached two_runs state1 [([sample_alert], 0)]"
    unfolding state1_step [symmetric] by (intro reached.intros)
  show 2: "reached two_runs state2 [([sample_alert], 300), ([sample_alert], 0)]"
    unfolding state2_step [symmetric] by (rule reached.run) (rule 1)
  show "reached two_runs state3 [([], 600), ([sample_alert], 300), ([sample_alert], 0)]"
    unfolding state3_step [symmetric] by (rule reached.run) (rule 2)
qed

lemma states_storable:
  "storable (\<lambda>t. Some (Itoa t)) sample_parse state1"
  "storable (\<lambda>t. Some (Itoa t)) sample_parse state2"
  "storable (\<lambda>t. Some (Itoa t)) sample_parse state3"
  by (simp_all add: storable_def state1_def state2_def state3_def sample_parse_def Atoi_Itoa
      in_int64_def int64_min_def int64_max_def code_def Let_def valid_signature)

theorem confirmed_alert_seen_in_last_runs_witness:
  "seen_last [(ExtractAlerts (Some sample_report), 300), ([sample_alert], 0)] 2 ''|cpu_usage''"
proof -
  obtain ctx r where prep: "Prepare sample_parse (sample_files state1) 300 (Some two_runs_config)
      sample_report = (Some ctx, r)"
    using sample_prepared [OF states_storable(1)] by blast
  have disk: "disk_state sample_parse two_runs_config (sample_files state1) = state1"
    by (rule sample_files_state) (rule states_storable)
  have "pc_Filtered ctx = ExtractAlerts (Some sample_report)"
    unfolding prepared(3) [OF prep refl] disk sample_params
    by (simp add: sample_alerts state1_def step_eval)
  then have "sample_item [] ''cpu_usage''\<lparr>ai_Value := ''99''\<rparr> \<in> set (pc_Filtered ctx)"
    by (simp add: sample_alerts)
  with confirmed_alert_seen_in_last_runs [OF prep, of "[([sample_alert], 0)]"] states_reached(1)
  have "seen_last [(ExtractAlerts (Some sample_report), 300), ([sample_alert], 0)] 2
      (item_key (sample_item [] ''cpu_usage''\<lparr>ai_Value := ''99''\<rparr>))"
    by (simp add: disk sample_params in_int64_def int64_min_def int64_max_def)
  then show ?thesis by (simp add: item_key_def PendingKey_def sample_item_def)
qed

text \<open>
  C13. An alert that stays is confirmed: N runs in a row that find it, the last less than
  24 hours after the first, starting without a pending entry of it, make it fire in the N-th.
\<close>

theorem staying_alert_fires:
  assumes "in_int64 n" "int (length runs) = n" "runs \<noteq> []"
    and "pending_after n past k = None"
    and "\<And>run. run \<in> set runs \<Longrightarrow> k \<in> keys_of (fst run)"
    and "\<And>run. run \<in> set runs \<Longrightarrow> time_sub (snd run) (snd (last runs)) < pendingTTL"
  shows "k \<in> keys_of (fired n (runs @ past))"
  by (rule streak_fires) (use assms in blast)+

theorem staying_alert_fires_witness:
  "let a = sample_item ''10.0.0.1'' ''cpu_usage'' in
   item_key a \<in> keys_of (fired 2 ([([a], 300), ([a], 0)] @ []))"
proof -
  let ?a = "sample_item ''10.0.0.1'' ''cpu_usage''"
  have "item_key ?a \<in> keys_of (fired 2 ([([?a], 300), ([?a], 0)] @ []))"
    by (rule staying_alert_fires)
      (auto simp: in_int64_def int64_min_def int64_max_def time_sub_def clamp64_def pendingTTL_def)
  then show ?thesis by simp
qed

text \<open>
  C38. Runs that are 24 hours or more apart never confirm anything when N is at least 2: each
  finds the entry of the run before stale and starts to count again.
\<close>

theorem daily_runs_never_fire:
  assumes "1 < n" "day_apart h"
  shows "fired n h = []"
  by (rule day_apart_silent) (use assms in blast)+

theorem daily_runs_never_fire_witness:
  "let a = sample_item ''10.0.0.1'' ''cpu_usage'' in
   fired 2 [([a], 172800000000000), ([a], 86400000000000), ([a], 0)] = []"
proof -
  let ?a = "sample_item ''10.0.0.1'' ''cpu_usage''"
  have "fired 2 [([?a], 172800000000000), ([?a], 86400000000000), ([?a], 0)] = []"
    by (rule daily_runs_never_fire)
      (simp_all add: day_apart_def less_Suc_eq time_sub_def clamp64_def pendingTTL_def
        int64_min_def int64_max_def)
  then show ?thesis by simp
qed

text \<open>
  C39. A confirmed alert leaves the pending map, so that with N at least 2 the run right after
  does not fire it again even if it is still there.
\<close>

theorem fired_alert_starts_over:
  assumes "1 < n" "k \<in> keys_of (fired n h)"
  shows "k \<notin> keys_of (fired n ((items, now) # h))"
proof (cases h)
  case Nil
  with assms show ?thesis by simp
next
  case (Cons run past)
  obtain items0 now0 where h: "h = (items0, now0) # past" using Cons by (cases run) simp
  have "pending_after n h k = None"
    using assms(2) by (auto simp: h persistence_simps keys_of_def)
  with assms(1) show ?thesis
    by (auto simp: persistence_simps fires_def keys_of_def next_entry_def)
qed

theorem fired_alert_starts_over_witness:
  "let a = sample_item ''10.0.0.1'' ''cpu_usage'' in
   item_key a \<notin> keys_of (fired 2 [([a], 600), ([a], 300), ([a], 0)])"
proof -
  let ?a = "sample_item ''10.0.0.1'' ''cpu_usage''"
  have "item_key ?a \<in> keys_of (fired 2 [([?a], 300), ([?a], 0)])"
    by (simp add: persistence_simps fires_def next_entry_def time_sub_def clamp64_def
        int64_max_def int64_min_def pendingTTL_def wrap64_def keys_of_def)
  from fired_alert_starts_over [OF _ this, of "[?a]" 600] show ?thesis by simp
qed

subsection \<open>Mails\<close>

text \<open>
  C11. A recovery mail is never premature: when the state on disk is one the program can reach,
  the dispatcher chooses a recovery mail only after an alert mail, if recovery mails are on, and
  if this run and the N - 1 kept runs before it found no alert at all (not even an unconfirmed
  one).
\<close>

theorem recovery_after_quiet_runs:
  assumes "Prepare prs fs now (Some cfg) report = (Some ctx, report')"
    and "reached (params_of cfg) (disk_state prs cfg fs) h" "int (length h) + 1 < int64_max"
    and "choose_action ctx cfg = ActionSendRecovery"
  shows "st_LastStatus (pc_Prev ctx) = ''alert'' \<and> tg_SendRecovery (nc_Trigger cfg) \<and>
    quiet ((ExtractAlerts (Some report), now) # h) (ps_ConsecutiveRuns (nc_Persistence cfg))"
proof -
  let ?s = "disk_state prs cfg fs" and ?items = "ExtractAlerts (Some report)"
  have "notify_action (params_of cfg) ?s ?items now = ActionSendRecovery"
    using assms(4) prepared(4) [OF assms(1) refl] by simp
  then have act: "st_LastStatus ?s = ''alert''" "tg_SendRecovery (nc_Trigger cfg)" "?items = []"
    "ps_ConsecutiveRuns (nc_Persistence cfg) \<le> new_streak ?s ?items"
    by (auto simp: notify_action_def params_of_def split: if_splits)
  have st: "0 \<le> st_RecoveryStreak ?s" "quiet h (st_RecoveryStreak ?s)"
    using reached_streak [OF assms(2)] assms(3) by simp_all
  then have "st_RecoveryStreak ?s \<le> int (length h)" by (simp add: quiet_def nat_le_iff)
  then have "new_streak ?s ?items = st_RecoveryStreak ?s + 1"
    using act(1,3) st(1) assms(3)
    by (simp add: new_streak_def UpdateRecoveryStreak_def wrap64_id in_int64_def int64_min_def)
  with act(4) have "ps_ConsecutiveRuns (nc_Persistence cfg) \<le> st_RecoveryStreak ?s + 1" by simp
  moreover have "quiet ((?items, now) # h) (st_RecoveryStreak ?s + 1)"
    using st act(3) by (simp add: quiet_Cons)
  ultimately show ?thesis
    using act(1,2) prepared(1) [OF assms(1) refl] by (auto simp: quiet_def)
qed

theorem recovery_after_quiet_runs_witness:
  "quiet [([], 900), ([], 600), ([sample_alert], 300), ([sample_alert], 0)] 2"
proof -
  obtain ctx r where prep: "Prepare sample_parse (sample_files state3) 900 (Some two_runs_config)
      InspectReport_zero = (Some ctx, r)"
    using sample_prepared [OF states_storable(3)] by blast
  have disk: "disk_state sample_parse two_runs_config (sample_files state3) = state3"
    by (rule sample_files_state) (rule states_storable)
  have none: "ExtractAlerts (Some InspectReport_zero) = []"
    by (simp add: ExtractAlerts_def InspectReport_zero_def)
  have "choose_action ctx two_runs_config = ActionSendRecovery"
    unfolding prepared(4) [OF prep refl] disk sample_params none
    by (simp add: state3_def state2_def step_eval)
  with recovery_after_quiet_runs
    [OF prep, of "[([], 600), ([sample_alert], 300), ([sample_alert], 0)]"] states_reached(3)
  show ?thesis by (simp add: disk sample_params none int64_max_def)
qed

text \<open>
  C12. The cooldown holds: from the state \<open>Dispatch\<close> saves with an alert mail, a pass that
  confirms the same set of alert keys (whatever their values, order and repetitions) before the
  cooldown is over chooses no mail.
\<close>

definition saved_alert :: "PrepContext \<Rightarrow> State" where
  "saved_alert ctx =
     \<lparr>st_LastSentAt = pc_Now ctx, st_LastSignature = Signature (pc_Filtered ctx),
      st_LastStatus = ''alert'', st_Pending = pc_NextPending ctx, st_RecoveryStreak = 0\<rparr>"

theorem no_repeat_within_cooldown:
  assumes "pc_Prev ctx' = saved_alert ctx" "pc_Filtered ctx \<noteq> []"
    and "signature_key ` set (pc_Filtered ctx') = signature_key ` set (pc_Filtered ctx)"
    and "time_sub (pc_Now ctx') (pc_Now ctx) <
      wrap64 (tg_MinIntervalMinutes (nc_Trigger cfg) * 60000000000)"
  shows "choose_action ctx' cfg = ActionNone"
proof -
  have "Signature (pc_Filtered ctx') = Signature (pc_Filtered ctx)"
    using assms(3) by (rule alert_signature.same_keys)
  moreover have "pc_Filtered ctx' \<noteq> []" using assms(2,3) by auto
  ultimately show ?thesis
    using assms(1,4) by (simp add: choose_action_def saved_alert_def Let_def Decide_alert)
qed

theorem no_repeat_within_cooldown_witness:
  "let ctx = \<lparr>pc_StatePath = [], pc_Prev = state1, pc_Filtered = [sample_alert],
              pc_NextPending = Map.empty, pc_NewStreak = 0, pc_RawWarnsEmpty = False,
              pc_Now = 300\<rparr>
   in choose_action (ctx\<lparr>pc_Prev := saved_alert ctx, pc_Now := 600,
        pc_Filtered := [sample_alert\<lparr>ai_Value := ''98''\<rparr>]\<rparr>) two_runs_config = ActionNone"
proof -
  let ?ctx = "\<lparr>pc_StatePath = [], pc_Prev = state1, pc_Filtered = [sample_alert],
    pc_NextPending = Map.empty, pc_NewStreak = 0, pc_RawWarnsEmpty = False, pc_Now = 300\<rparr>"
  have "choose_action (?ctx\<lparr>pc_Prev := saved_alert ?ctx, pc_Now := 600,
    pc_Filtered := [sample_alert\<lparr>ai_Value := ''98''\<rparr>]\<rparr>) two_runs_config = ActionNone"
    by (rule no_repeat_within_cooldown [where ctx = ?ctx])
      (simp_all add: signature_key_def sample_alert_def time_sub_def clamp64_def int64_max_def
        int64_min_def wrap64_def two_runs_config_def sample_config_def)
  then show ?thesis by (simp only: Let_def)
qed

subsection \<open>The pass on disk\<close>

text \<open>
  C6. A pass implements the machine: with notifications enabled and valid, the state found on
  disk after \<open>Process\<close> is the machine's next state or the one before the pass; a mail is
  delivered only when the machine chose one; and a mail that could not be delivered leaves the
  disk as it was.
\<close>

theorem process_refines_machine:
  assumes "em_Enabled (nc_Email cfg)" "notify_Validate cfg = None"
    and "storable (dw_FormatTime w) prs
      (notify_next (params_of cfg) (disk_state prs cfg fs) (ExtractAlerts (Some report)) now)"
    and "fresh_temp (dw_Save w) (StatePath (nc_path cfg)) fs"
    and "Process prs w now cfg report htmlPath fs = (sent, fs')"
  shows "let s = disk_state prs cfg fs; items = ExtractAlerts (Some report);
             act = notify_action (params_of cfg) s items now
         in disk_state prs cfg fs' \<in> {s, notify_next (params_of cfg) s items now} \<and>
            (sent \<noteq> None \<longrightarrow> act \<noteq> ActionNone) \<and>
            (sent = None \<and> act \<noteq> ActionNone \<longrightarrow> fs' = fs)"
  using Process_state [OF assms(1,2) refl refl assms(3,4,5)] by (simp add: Let_def)

theorem process_refines_machine_witness:
  "snd (Process sample_parse (sample_world False) 0 sample_config sample_report [] Map.empty) =
     Map.empty"
proof -
  let ?cfg = sample_config and ?w = "sample_world False"
  let ?next = "notify_next (params_of ?cfg) State_zero (ExtractAlerts (Some sample_report)) 0"
  have act: "notify_action (params_of ?cfg) State_zero (ExtractAlerts (Some sample_report)) 0 =
    ActionSendAlert"
    by (simp add: notify_action_def params_of_def sample_config_def sample_alerts run_simps)
  have path: "StatePath (nc_path ?cfg) = ''/etc/weops/state.json''"
    by (simp add: sample_config_def) code_simp
  obtain sent fs' where run:
    "Process sample_parse ?w 0 ?cfg sample_report [] Map.empty = (sent, fs')"
    by fastforce
  have sent: "sent = None"
  proof -
    have "em_Enabled (nc_Email ?cfg)" "notify_Validate ?cfg = None"
      by (simp_all add: sample_config_def notify_Validate_def)
    from Process_eq [OF this refl refl refl, of sample_parse ?w 0 sample_report "[]" Map.empty]
    show ?thesis
      using run act sample_disk
      by (simp add: disk_state_def Let_def notify_send_def Send_def sample_world_def)
  qed
  have runs: "np_Runs (params_of ?cfg) = 1" by (simp add: params_of_def sample_config_def)
  have "?next = \<lparr>st_LastSentAt = 0,
      st_LastSignature = Signature (firing (params_of ?cfg) State_zero
        (ExtractAlerts (Some sample_report)) 0),
      st_LastStatus = ''alert'', st_Pending = Map.empty, st_RecoveryStreak = 0\<rparr>"
    unfolding notify_next_def act by (simp add: runs persistence_simps fires_def)
  then have "storable (dw_FormatTime ?w) sample_parse ?next"
    by (simp add: storable_def valid_signature sample_world_def sample_parse_def Let_def Atoi_Itoa
        in_int64_def int64_min_def int64_max_def code_def)
  then have "storable (dw_FormatTime ?w) sample_parse
    (notify_next (params_of ?cfg) (disk_state sample_parse ?cfg Map.empty)
      (ExtractAlerts (Some sample_report)) 0)"
    by (simp add: sample_disk)
  moreover have "fresh_temp (dw_Save ?w) (StatePath (nc_path ?cfg)) Map.empty"
    unfolding path by (simp add: fresh_temp_def sample_world_def)
  moreover have "em_Enabled (nc_Email ?cfg)" "notify_Validate ?cfg = None"
    by (simp_all add: sample_config_def notify_Validate_def)
  ultimately have "fs' = Map.empty"
    using process_refines_machine [of ?cfg ?w sample_parse Map.empty sample_report 0 "[]" sent fs']
      run sent act by (simp add: sample_disk Let_def)
  then show ?thesis by (simp add: run)
qed

text \<open>
  C14. Writing the state is atomic: afterwards the file is the new state, read back unchanged,
  or what it was before; and on a fault no temporary file is left if it can be removed.
\<close>

theorem state_write_atomic:
  assumes "storable fmt prs s" "fresh_temp os path fs" "SaveState fmt os path s fs = (fs', err)"
  shows "if err = None then LoadState prs (read_file fs' path) = s
         else read_file fs' path = read_file fs path \<and> (sv_Remove os \<longrightarrow> fs' = fs)"
proof (cases err)
  case None
  with assms SaveState_success [OF assms(1), of os path fs fs'] show ?thesis
    by (simp add: fresh_temp_def)
next
  case (Some e)
  with assms SaveState_fault [of fmt os path s fs fs' e] show ?thesis
    by (simp add: fresh_temp_def read_file_def)
qed

theorem state_write_atomic_witness:
  "let os = (dw_Save (sample_world True)); fmt = (\<lambda>t. Some (Itoa t));
       s = \<lparr>st_LastSentAt = 7, st_LastSignature = ''ab'', st_LastStatus = ''alert'',
            st_Pending = [''h|f'' \<mapsto> \<lparr>pi_Count = 1, pi_FirstSeen = 5\<rparr>], st_RecoveryStreak = 1\<rparr>;
       (fs', err) = SaveState fmt os ''/s'' s Map.empty
   in if err = None then LoadState sample_parse (read_file fs' ''/s'') = s
      else read_file fs' ''/s'' = read_file Map.empty ''/s'' \<and> (sv_Remove os \<longrightarrow> fs' = Map.empty)"
proof -
  let ?os = "dw_Save (sample_world True)" and ?fmt = "\<lambda>t. Some (Itoa t)"
  let ?s = "\<lparr>st_LastSentAt = 7, st_LastSignature = ''ab'', st_LastStatus = ''alert'',
    st_Pending = [''h|f'' \<mapsto> \<lparr>pi_Count = 1, pi_FirstSeen = 5\<rparr>], st_RecoveryStreak = 1\<rparr>"
  obtain fs' err where save: "SaveState ?fmt ?os ''/s'' ?s Map.empty = (fs', err)"
    by fastforce
  have "storable ?fmt sample_parse ?s"
    by (simp add: storable_def sample_parse_def Atoi_Itoa in_int64_def int64_min_def
        int64_max_def code_def Let_def)
  moreover have "fresh_temp ?os ''/s'' Map.empty"
    by (simp add: fresh_temp_def sample_world_def)
  ultimately have "if err = None then LoadState sample_parse (read_file fs' ''/s'') = ?s
      else read_file fs' ''/s'' = read_file Map.empty ''/s'' \<and> (sv_Remove ?os \<longrightarrow> fs' = Map.empty)"
    using save by (rule state_write_atomic)
  then show ?thesis by (simp only: Let_def save prod.case)
qed

subsection \<open>Signatures and the body of a mail\<close>

text \<open>
  C23. The signature stands for the set of alert keys: two alert lists feed the hash the same
  bytes exactly when they have the same set of normalised keys, as long as no key has a zero
  byte; the signature itself is then the same.
\<close>

theorem signature_input_identifies:
  assumes "\<And>a. a \<in> set xs \<union> set ys \<Longrightarrow> CHR 0x00 \<notin> set (signature_key a)"
  shows "(signature_input (signature_keys xs) = signature_input (signature_keys ys)
           \<longleftrightarrow> signature_key ` set xs = signature_key ` set ys) \<and>
         (signature_key ` set xs = signature_key ` set ys \<longrightarrow> Signature xs = Signature ys)"
proof (intro conjI iffI impI)
  assume eq: "signature_input (signature_keys xs) = signature_input (signature_keys ys)"
  have "signature_keys xs = signature_keys ys"
    by (rule signature_input_inj [OF eq]) (use assms in auto)
  then show "signature_key ` set xs = signature_key ` set ys" by (metis signature_keys_set)
next
  assume "signature_key ` set xs = signature_key ` set ys"
  then show "signature_input (signature_keys xs) = signature_input (signature_keys ys)"
    by (simp add: signature_keys_def)
qed (rule alert_signature.same_keys)

theorem signature_input_identifies_witness:
  "let a = sample_item ''10.0.0.1'' ''cpu_usage''; b = sample_item ''10.0.0.2'' ''mem_usage''
   in Signature [a, b\<lparr>ai_Value := ''1''\<rparr>, a] = Signature [b, a]"
proof -
  let ?a = "sample_item ''10.0.0.1'' ''cpu_usage''" and ?b = "sample_item ''10.0.0.2'' ''mem_usage''"
  have key: "signature_key ?a = ''10.0.0.1|cpu_usage''" "signature_key ?b = ''10.0.0.2|mem_usage''"
    "signature_key (?b\<lparr>ai_Value := ''1''\<rparr>) = ''10.0.0.2|mem_usage''"
    by (simp_all add: sample_item_def) code_simp+
  have "CHR 0x00 \<notin> set (signature_key a)"
    if "a \<in> set [?a, ?b\<lparr>ai_Value := ''1''\<rparr>, ?a] \<union> set [?b, ?a]" for a
    using that by (auto simp: key)
  then have "signature_key ` set [?a, ?b\<lparr>ai_Value := ''1''\<rparr>, ?a] = signature_key ` set [?b, ?a]
    \<longrightarrow> Signature [?a, ?b\<lparr>ai_Value := ''1''\<rparr>, ?a] = Signature [?b, ?a]"
    by (rule signature_input_identifies [THEN conjunct2])
  then show ?thesis by (simp add: Let_def key insert_commute)
qed

text \<open>
  C36. Normalisation is the regular expression: a field \<open>rabbitmq.v.q.s\<close> with a virtual host
  \<open>v\<close> without dots, a non-empty queue \<open>q\<close> on one line and \<open>s\<close> one of the two suffixes becomes
  \<open>rabbitmq.v.s\<close>; every other field is kept.
\<close>

theorem normalize_spec:
  "(\<forall>v q s. queue_field field v q s \<longrightarrow>
      normalizeFieldForSignature field = ''rabbitmq.'' @ v @ ''.'' @ s) \<and>
   ((\<forall>v q s. \<not> queue_field field v q s) \<longrightarrow> normalizeFieldForSignature field = field)"
  using normalize_queue normalize_other by blast

theorem normalize_spec_witness:
  "normalizeFieldForSignature ''rabbitmq.bk.celery.cron.no_consumer'' = ''rabbitmq.bk.no_consumer''"
proof -
  have "queue_field ''rabbitmq.bk.celery.cron.no_consumer'' ''bk'' ''celery.cron'' ''no_consumer''"
    by (simp add: queue_field_def)
  with normalize_spec [of "''rabbitmq.bk.celery.cron.no_consumer''"] show ?thesis by fastforce
qed

text \<open>
  The body cut out of the report is what stands between the end of the first \<open><body\<close> tag and
  the first \<open></body>\<close> after it, and it is missing exactly when there is no such place.
\<close>

theorem extract_body_spec:
  "extractBody html = (content, True) \<longleftrightarrow>
     (\<exists>pre attrs post.
        html = pre @ ''<body'' @ attrs @ ''>'' @ content @ ''</body>'' @ post \<and>
        first_after pre ''<body'' (attrs @ ''>'' @ content @ ''</body>'' @ post) \<and>
        CHR ''>'' \<notin> set attrs \<and> first_after content ''</body>'' post)"
  (is "?l \<longleftrightarrow> ?r")
proof
  assume ?l
  then have "cut ''<body'' ''</body>'' html = Some content"
    by (simp add: extractBody_cut split: option.splits)
  from cut_sound [OF this] show ?r by simp
next
  assume ?r
  then obtain pre attrs post where
    "html = pre @ ''<body'' @ attrs @ ''>'' @ content @ ''</body>'' @ post"
    "first_after pre ''<body'' (attrs @ ''>'' @ content @ ''</body>'' @ post)"
    "CHR ''>'' \<notin> set attrs" "first_after content ''</body>'' post" by blast
  then have "cut ''<body'' ''</body>'' html = Some content"
    by (intro cut_complete) auto
  then show ?l by (simp add: extractBody_cut)
qed

text \<open>
  The state file lies beside the configuration: for an absolute path of plain names it has
  the same directory and the name \<open>state.json\<close>.
\<close>

lemma state_beside_config:
  assumes "\<forall>e \<in> set dirs. plain_name e" "plain_name file"
  shows "StatePath (CHR ''/'' # Join (dirs @ [file]) ''/'') =
    CHR ''/'' # Join (dirs @ [''state.json'']) ''/''"
  by (rule state_sibling) (use assms in blast)+

end
