(* ===== verification/Collect_Host.thy ===== *)
theory Collect_Host
  imports Inspect_Model
begin

text \<open>
  The host collector (src/collector/host.go): the parsers of the collected command output and the
  two concurrent phases of \<open>CollectAllHosts\<close>.  \<open>oob\<close> is the target's value for a conversion of a
  float outside the 64-bit range; \<open>run\<close> is the SSH client: phase and host to the output and the
  error text, if any.
\<close>

subsection \<open>Sections\<close>

record section_state =
  xs_sections :: "string \<Rightarrow> string option"
  xs_tag :: string
  xs_buf :: string

definition is_marker :: "string \<Rightarrow> bool" where
  "is_marker line = (HasPrefix line ''==='' \<and> HasSuffix line ''==='')"

definition store_section :: "section_state \<Rightarrow> section_state" where
  "store_section st =
     st\<lparr>xs_sections := (xs_sections st)(xs_tag st \<mapsto> TrimSpace (xs_buf st)), xs_buf := []\<rparr>"

definition section_line :: "section_state \<Rightarrow> string \<Rightarrow> section_state" where
  "section_line st line =
     (if is_marker line then
        (let st = (if xs_tag st \<noteq> [] then store_section st else st)
         in st\<lparr>xs_tag := TrimByte line CHR ''=''\<rparr>)
      else if xs_tag st \<noteq> [] then st\<lparr>xs_buf := xs_buf st @ line @ [CHR 0x0A]\<rparr>
      else st)"

definition parseSections :: "string \<Rightarrow> string \<Rightarrow> string option" where
  "parseSections output =
     (let st = foldl section_line \<lparr>xs_sections = Map.empty, xs_tag = [], xs_buf = []\<rparr>
                 (Split output [CHR 0x0A]);
          st = (if xs_tag st \<noteq> [] then store_section st else st)
      in xs_sections st)"

subsection \<open>CPU and memory\<close>

text \<open>One \<open>/proc/stat\<close> line: the idle time and the sum of all times.\<close>

definition cpu_times :: "string \<Rightarrow> float64 \<times> float64" where
  "cpu_times line =
     (let fs = Fields line
      in if length fs < 5 then (fzero, fzero)
         else
           let vals = map ParseFloat0 (tl fs);
               total = foldl fadd fzero vals;
               idle = (if length vals \<ge> 4 then vals ! 3 else fzero)
           in (idle, total))"

definition hundred :: float64 where
  "hundred = of_goint 100"

text \<open>\<open>float64 (int (x * 100)) / 100\<close>\<close>

definition trunc2 :: "(float64 \<Rightarrow> goint) \<Rightarrow> float64 \<Rightarrow> float64" where
  "trunc2 oob x = fdiv (of_goint (goint_of oob x)) hundred"

definition cpu_usage :: "(float64 \<Rightarrow> goint) \<Rightarrow> float64 \<Rightarrow> float64 \<Rightarrow> float64" where
  "cpu_usage oob deltaIdle deltaTotal =
     (if feq deltaTotal fzero then fzero
      else
        let usage = fmul (fsub (of_goint 1) (fdiv deltaIdle deltaTotal)) hundred
        in trunc2 oob (fmul usage hundred))"

definition parseCPUUsage :: "(float64 \<Rightarrow> goint) \<Rightarrow> string \<Rightarrow> string \<Rightarrow> float64" where
  "parseCPUUsage oob stat1 stat2 =
     (let (idle1, total1) = cpu_times stat1; (idle2, total2) = cpu_times stat2
      in cpu_usage oob (fsub idle2 idle1) (fsub total2 total1))"

definition usage_percent :: "(float64 \<Rightarrow> goint) \<Rightarrow> string list \<Rightarrow> float64 \<Rightarrow> float64" where
  "usage_percent oob fs old =
     (let total = ParseFloat0 (fs ! 1); used = ParseFloat0 (fs ! 2)
      in if flt fzero total then trunc2 oob (fmul (fdiv used total) (of_goint 10000)) else old)"

definition free_line ::
  "(float64 \<Rightarrow> goint) \<Rightarrow> float64 \<times> float64 \<Rightarrow> string \<Rightarrow> float64 \<times> float64" where
  "free_line oob acc line =
     (let (mem, swap) = acc; fs = Fields line
      in if length fs < 3 then acc
         else
           let mem = (if HasPrefix line ''Mem:'' then usage_percent oob fs mem else mem);
               swap = (if HasPrefix line ''Swap:'' then usage_percent oob fs swap else swap)
           in (mem, swap))"

definition parseFree :: "(float64 \<Rightarrow> goint) \<Rightarrow> string \<Rightarrow> float64 \<times> float64" where
  "parseFree oob output = foldl (free_line oob) (fzero, fzero) (Split output [CHR 0x0A])"

subsection \<open>Disks\<close>

definition diskFsBlocklist :: "string list" where
  "diskFsBlocklist =
     [''tmpfs'', ''devtmpfs'', ''overlay'', ''overlayfs'', ''squashfs'', ''shm'', ''proc'',
      ''sysfs'', ''cgroup'', ''cgroup2'', ''autofs'', ''binfmt_misc'', ''mqueue'', ''pstore'',
      ''debugfs'', ''tracefs'', ''ramfs'', ''rpc_pipefs'', ''fusectl'', ''configfs'',
      ''securityfs'', ''hugetlbfs'', ''fuse.lxcfs'', ''fuse.gvfsd-fuse'', ''devpts'', ''nsfs'']"

definition diskFsAllowlist :: "string list" where
  "diskFsAllowlist =
     [''xfs'', ''ext2'', ''ext3'', ''ext4'', ''btrfs'', ''zfs'', ''f2fs'', ''ufs'', ''jfs'',
      ''reiserfs'', ''vfat'']"

definition diskFsNFS :: "string list" where
  "diskFsNFS = [''nfs'', ''nfs4'', ''cifs'', ''smbfs'', ''smb3'']"

definition shouldCollectFs :: "string \<Rightarrow> bool \<Rightarrow> bool" where
  "shouldCollectFs fsType includeNFS =
     (if fsType \<in> set diskFsBlocklist then False
      else if fsType \<in> set diskFsNFS then includeNFS
      else fsType \<in> set diskFsAllowlist)"

definition explicit_paths :: "string \<Rightarrow> string list" where
  "explicit_paths mountPaths =
     filter (\<lambda>p. p \<noteq> []) (map TrimSpace (Split mountPaths '':''))"

text \<open>One row of \<open>df\<close>: the mount point it shows, and the entry if it is kept.\<close>

definition df_row ::
  "string list \<Rightarrow> bool \<Rightarrow> string \<Rightarrow> DiskUsage list \<times> string list \<Rightarrow> DiskUsage list \<times> string list" where
  "df_row explicit includeNFS line acc =
     (let (results, seen) = acc; fs = Fields line
      in if length fs < 7 then acc
         else
           let fsType = fs ! 1; usage = fs ! 5;
               mountPoint = Join (drop 6 fs) '' '';
               seen = seen @ [mountPoint]
           in if fsType \<in> set diskFsBlocklist then (results, seen)
              else if explicit \<noteq> [] \<and> mountPoint \<notin> set explicit then (results, seen)
              else if explicit = [] \<and> \<not> shouldCollectFs fsType includeNFS then (results, seen)
              else (results @ [\<lparr>du_MountPoint = mountPoint, du_FsType = fsType, du_Usage = usage,
                                du_UsageFloat = ParseFloat0 (TrimSuffix usage ''%'')\<rparr>], seen))"

definition parseDiskUsage ::
  "string \<Rightarrow> string \<Rightarrow> bool \<Rightarrow> DiskUsage list \<times> string list" where
  "parseDiskUsage output mountPaths includeNFS =
     (let explicit = explicit_paths mountPaths;
          lines = Split output [CHR 0x0A];
          rows = (if HasPrefix (TrimSpace (hd lines)) ''Filesystem'' then tl lines else lines)
      in foldl (\<lambda>acc line. df_row explicit includeNFS line acc) ([], []) rows)"

definition appendDiskWarning :: "string \<Rightarrow> string \<Rightarrow> string list \<Rightarrow> string" where
  "appendDiskWarning existing mountPaths seenMounts =
     (let msg =
        (if TrimSpace mountPaths \<noteq> [] then
           ''disk: configured mount paths ['' @ mountPaths @ ''] did not match any of [''
             @ Join seenMounts '' '' @ '']''
         else ''disk: no real filesystem matched (try INSPECT_DISK_INCLUDE_NFS=true if this host ''
             @ ''only has NFS mounts)'')
      in if existing = [] then msg else existing @ ''; '' @ msg)"

subsection \<open>Sockets\<close>

definition extractNumber :: "string \<Rightarrow> goint" where
  "extractNumber s = Atoi0 (takeWhile is_digit s)"

definition ss_line :: "NetworkStats \<Rightarrow> string \<Rightarrow> NetworkStats" where
  "ss_line stats line =
     (let line = TrimSpace line
      in if HasPrefix line ''TCP:'' then
           let stats = (case Index line ''estab '' of
                          None \<Rightarrow> stats
                        | Some i \<Rightarrow> stats\<lparr>ns_Established := extractNumber (drop (i + 6) line)\<rparr>)
           in (case Index line ''timewait '' of
                 None \<Rightarrow> stats
               | Some i \<Rightarrow> stats\<lparr>ns_TimeWait := extractNumber (drop (i + 9) line)\<rparr>)
         else stats)"

definition parseSSOutput :: "string \<Rightarrow> NetworkStats" where
  "parseSSOutput output = foldl ss_line NetworkStats_zero (Split output [CHR 0x0A])"

subsection \<open>One host\<close>

definition with_section ::
  "(string \<Rightarrow> string option) \<Rightarrow> string \<Rightarrow> (string \<Rightarrow> HostMetrics \<Rightarrow> HostMetrics) \<Rightarrow>
     HostMetrics \<Rightarrow> HostMetrics" where
  "with_section sections tag f m = (case sections tag of None \<Rightarrow> m | Some s \<Rightarrow> f s m)"

definition set_load :: "string \<Rightarrow> HostMetrics \<Rightarrow> HostMetrics" where
  "set_load s m =
     (let parts = Fields s
      in if length parts \<ge> 3 then
           m\<lparr>hm_LoadAvg1 := ParseFloat0 (parts ! 0), hm_LoadAvg5 := ParseFloat0 (parts ! 1),
             hm_LoadAvg15 := ParseFloat0 (parts ! 2)\<rparr>
         else m)"

definition set_free :: "(float64 \<Rightarrow> goint) \<Rightarrow> string \<Rightarrow> HostMetrics \<Rightarrow> HostMetrics" where
  "set_free oob s m =
     (let (mem, swap) = parseFree oob s in m\<lparr>hm_MemUsage := mem, hm_SwapUsage := swap\<rparr>)"

definition set_disks :: "string \<Rightarrow> bool \<Rightarrow> string \<Rightarrow> HostMetrics \<Rightarrow> HostMetrics" where
  "set_disks mountPaths includeNFS s m =
     (if TrimSpace s = [] then m
      else
        let (disks, dfMounts) = parseDiskUsage s mountPaths includeNFS;
            m = m\<lparr>hm_DiskUsage := disks\<rparr>
        in if disks = [] then m\<lparr>hm_Error := appendDiskWarning (hm_Error m) mountPaths dfMounts\<rparr>
           else m)"

definition set_inodes :: "string \<Rightarrow> bool \<Rightarrow> string \<Rightarrow> HostMetrics \<Rightarrow> HostMetrics" where
  "set_inodes mountPaths includeNFS s m =
     (if TrimSpace s = [] then m
      else m\<lparr>hm_InodeUsage := fst (parseDiskUsage s mountPaths includeNFS)\<rparr>)"

definition set_uptime :: "(float64 \<Rightarrow> goint) \<Rightarrow> string \<Rightarrow> HostMetrics \<Rightarrow> HostMetrics" where
  "set_uptime oob s m =
     (case Fields s of
        [] \<Rightarrow> m
      | p # _ \<Rightarrow> m\<lparr>hm_RunDays := goint_of oob (fdiv (ParseFloat0 p) (of_goint 86400))\<rparr>)"

definition meminfo_line :: "HostMetrics \<Rightarrow> string \<Rightarrow> HostMetrics" where
  "meminfo_line m line =
     (let fs = Fields line
      in if length fs \<ge> 2 then
           let val = ParseFloat0 (fs ! 1)
           in if HasPrefix line ''MemTotal:'' then m\<lparr>hm_Memory := fdiv val (of_goint 1024)\<rparr>
              else if HasPrefix line ''SwapTotal:'' then m\<lparr>hm_Swap := fdiv val (of_goint 1024)\<rparr>
              else m
         else m)"

definition set_meminfo :: "string \<Rightarrow> HostMetrics \<Rightarrow> HostMetrics" where
  "set_meminfo s m = foldl meminfo_line m (Split s [CHR 0x0A])"

definition set_hardware :: "string \<Rightarrow> HostMetrics \<Rightarrow> HostMetrics" where
  "set_hardware s m =
     (case SplitN s ''---'' 3 of
        [a, b, c] \<Rightarrow> m\<lparr>hm_Manufacturer := TrimSpace a, hm_Product := TrimSpace b,
                       hm_Serial := TrimSpace c\<rparr>
      | _ \<Rightarrow> m)"

definition parse_batch ::
  "(float64 \<Rightarrow> goint) \<Rightarrow> string \<Rightarrow> bool \<Rightarrow> (string \<Rightarrow> string option) \<Rightarrow> HostMetrics \<Rightarrow> HostMetrics" where
  "parse_batch oob mountPaths includeNFS sections m =
     (let m = with_section sections ''LOADAVG'' set_load m;
          m = with_section sections ''FREE'' (set_free oob) m;
          m = with_section sections ''DF'' (set_disks mountPaths includeNFS) m;
          m = with_section sections ''DFI'' (set_inodes mountPaths includeNFS) m;
          m = with_section sections ''ULIMIT'' (\<lambda>s m. m\<lparr>hm_MaxOpenFiles := Atoi0 (TrimSpace s)\<rparr>) m;
          m = with_section sections ''PROCS'' (\<lambda>s m. m\<lparr>hm_ProcessTotal := Atoi0 (TrimSpace s)\<rparr>) m;
          m = with_section sections ''NTPD'' (\<lambda>s m. m\<lparr>hm_Ntpd := TrimSpace s\<rparr>) m;
          m = with_section sections ''CHRONYD'' (\<lambda>s m. m\<lparr>hm_Chronyd := TrimSpace s\<rparr>) m;
          m = with_section sections ''SELINUX'' (\<lambda>s m. m\<lparr>hm_SELinux := TrimSpace s\<rparr>) m;
          m = with_section sections ''FIREWALLD'' (\<lambda>s m. m\<lparr>hm_Firewalld := TrimSpace s\<rparr>) m;
          m = with_section sections ''IPTABLES'' (\<lambda>s m. m\<lparr>hm_Iptables := TrimSpace s\<rparr>) m;
          m = with_section sections ''SS'' (\<lambda>s m. m\<lparr>hm_Network := parseSSOutput s\<rparr>) m;
          m = with_section sections ''UPTIME'' (set_uptime oob) m;
          m = with_section sections ''VERSION'' (\<lambda>s m. m\<lparr>hm_Version := TrimSpace s\<rparr>) m;
          m = with_section sections ''KERNEL'' (\<lambda>s m. m\<lparr>hm_Kernel := TrimSpace s\<rparr>) m;
          m = with_section sections ''MEMINFO'' set_meminfo m;
          m = with_section sections ''CPUCOUNT'' (\<lambda>s m. m\<lparr>hm_Core := Atoi0 (TrimSpace s)\<rparr>) m
      in with_section sections ''DMIDECODE'' set_hardware m)"

definition parseHostOutput ::
  "(float64 \<Rightarrow> goint) \<Rightarrow> string \<Rightarrow> string \<Rightarrow> string \<Rightarrow> string \<Rightarrow> bool \<Rightarrow> HostMetrics" where
  "parseHostOutput oob ip cpuStat1 rawOutput mountPaths includeNFS =
     (let m = HostMetrics_zero\<lparr>hm_IP := ip\<rparr>
      in case SplitN rawOutput [CHR 0x0A] 2 of
           [stat2, batch] \<Rightarrow>
             parse_batch oob mountPaths includeNFS (parseSections batch)
               (m\<lparr>hm_CPUUsage := parseCPUUsage oob cpuStat1 (TrimSpace stat2)\<rparr>)
         | _ \<Rightarrow> m\<lparr>hm_Error := ''incomplete output''\<rparr>)"

subsection \<open>All hosts\<close>

text \<open>
  Every goroutine writes only its own index of \<open>results\<close> and \<open>cpuStat1\<close> (here one list of pairs),
  so a schedule of a phase is the order in which the goroutines finish: a permutation of the
  indices.  \<open>run\<close> answers the first (\<open>False\<close>) and the second command of a host.
\<close>

type_synonym host_slot = "HostMetrics \<times> string"

definition phase1_task ::
  "(bool \<Rightarrow> string \<Rightarrow> string \<times> string option) \<Rightarrow> string list \<Rightarrow> host_slot list \<Rightarrow> nat \<Rightarrow>
     host_slot list" where
  "phase1_task run hosts slots i =
     (let (m, cpu) = slots ! i
      in case run False (hosts ! i) of
           (out, Some err) \<Rightarrow>
             slots[i := (m\<lparr>hm_IP := hosts ! i, hm_Error := ''SSH error: '' @ err\<rparr>, cpu)]
         | (out, None) \<Rightarrow> slots[i := (m, TrimSpace out)])"

definition phase2_task ::
  "(float64 \<Rightarrow> goint) \<Rightarrow> (bool \<Rightarrow> string \<Rightarrow> string \<times> string option) \<Rightarrow> string \<Rightarrow> bool \<Rightarrow>
     string list \<Rightarrow> host_slot list \<Rightarrow> nat \<Rightarrow> host_slot list" where
  "phase2_task oob run mountPaths includeNFS hosts slots i =
     (let (m, cpu) = slots ! i
      in if hm_Error m \<noteq> [] then slots
         else slots[i := (parseHostOutput oob (hosts ! i) cpu (fst (run True (hosts ! i)))
                            mountPaths includeNFS, cpu)])"

definition CollectAllHosts ::
  "(float64 \<Rightarrow> goint) \<Rightarrow> (bool \<Rightarrow> string \<Rightarrow> string \<times> string option) \<Rightarrow> nat list \<Rightarrow> nat list \<Rightarrow>
     string list \<Rightarrow> string \<Rightarrow> bool \<Rightarrow> HostMetrics list" where
  "CollectAllHosts oob run sched1 sched2 hosts mountPaths includeNFS =
     (let slots = replicate (length hosts) (HostMetrics_zero, []);
          slots = foldl (phase1_task run hosts) slots sched1;
          slots = foldl (phase2_task oob run mountPaths includeNFS hosts) slots sched2
      in map fst slots)"

text \<open>The specification: every host on its own.\<close>

definition collect_host ::
  "(float64 \<Rightarrow> goint) \<Rightarrow> (bool \<Rightarrow> string \<Rightarrow> string \<times> string option) \<Rightarrow> string \<Rightarrow> bool \<Rightarrow> string \<Rightarrow>
     HostMetrics" where
  "collect_host oob run mountPaths includeNFS ip =
     (case run False ip of
        (out, Some err) \<Rightarrow> HostMetrics_zero\<lparr>hm_IP := ip, hm_Error := ''SSH error: '' @ err\<rparr>
      | (out, None) \<Rightarrow>
          parseHostOutput oob ip (TrimSpace out) (fst (run True ip)) mountPaths includeNFS)"

subsection \<open>Concurrent tasks with a slot each\<close>

text \<open>
  A task that reads and writes only its own slot.  Any schedule that runs every task once has the
  effect of running each task on its slot.
\<close>

locale slot_task =
  fixes task :: "'a list \<Rightarrow> nat \<Rightarrow> 'a list"
    and effect :: "nat \<Rightarrow> 'a \<Rightarrow> 'a"
  assumes own_slot: "i < length slots \<Longrightarrow> task slots i = slots[i := effect i (slots ! i)]"
begin

lemma foldl_slots:
  assumes "distinct sched" "set sched \<subseteq> {..<length slots}"
  shows "foldl task slots sched =
    map (\<lambda>i. if i \<in> set sched then effect i (slots ! i) else slots ! i) [0..<length slots]"
  using assms
proof (induction sched rule: rev_induct)
  case Nil
  then show ?case by (simp add: map_nth)
next
  case (snoc i sched)
  then have i: "i < length slots" "i \<notin> set sched" by auto
  let ?m = "map (\<lambda>i. if i \<in> set sched then effect i (slots ! i) else slots ! i) [0..<length slots]"
  have "foldl task slots (sched @ [i]) = ?m[i := effect i (?m ! i)]"
    using snoc i by (simp add: own_slot)
  then show ?case
    using i by (auto intro!: nth_equalityI simp: nth_list_update)
qed

lemma any_schedule:
  assumes "mset sched = mset [0..<length slots]"
  shows "foldl task slots sched = map (\<lambda>i. effect i (slots ! i)) [0..<length slots]"
proof -
  have "set sched = {..<length slots}" "distinct sched"
    using assms by (metis atLeast0LessThan atLeastLessThan_upt mset_eq_setD,
        metis distinct_upt mset_eq_imp_distinct_iff)
  then show ?thesis by (subst foldl_slots) (auto intro: map_cong)
qed

end

definition phase1_effect ::
  "(bool \<Rightarrow> string \<Rightarrow> string \<times> string option) \<Rightarrow> string list \<Rightarrow> nat \<Rightarrow> host_slot \<Rightarrow> host_slot" where
  "phase1_effect run hosts i slot =
     (case run False (hosts ! i) of
        (out, Some err) \<Rightarrow>
          ((fst slot)\<lparr>hm_IP := hosts ! i, hm_Error := ''SSH error: '' @ err\<rparr>, snd slot)
      | (out, None) \<Rightarrow> (fst slot, TrimSpace out))"

definition phase2_effect ::
  "(float64 \<Rightarrow> goint) \<Rightarrow> (bool \<Rightarrow> string \<Rightarrow> string \<times> string option) \<Rightarrow> string \<Rightarrow> bool \<Rightarrow>
     string list \<Rightarrow> nat \<Rightarrow> host_slot \<Rightarrow> host_slot" where
  "phase2_effect oob run mountPaths includeNFS hosts i slot =
     (if hm_Error (fst slot) \<noteq> [] then slot
      else (parseHostOutput oob (hosts ! i) (snd slot) (fst (run True (hosts ! i))) mountPaths
              includeNFS, snd slot))"

interpretation phase1: slot_task "phase1_task run hosts" "phase1_effect run hosts"
  for run hosts
  by unfold_locales
    (simp add: phase1_task_def phase1_effect_def case_prod_beta Let_def split: option.splits)

interpretation phase2: slot_task "phase2_task oob run mountPaths includeNFS hosts"
  "phase2_effect oob run mountPaths includeNFS hosts"
  for oob run mountPaths includeNFS hosts
  by unfold_locales (simp add: phase2_task_def phase2_effect_def case_prod_beta Let_def)

lemma CollectAllHosts_eq:
  assumes "mset sched1 = mset [0..<length hosts]" "mset sched2 = mset [0..<length hosts]"
  shows "CollectAllHosts oob run sched1 sched2 hosts mountPaths includeNFS =
    map (collect_host oob run mountPaths includeNFS) hosts"
proof -
  let ?start = "replicate (length hosts) (HostMetrics_zero, [])"
  let ?one = "map (\<lambda>i. phase1_effect run hosts i (HostMetrics_zero, [])) [0..<length hosts]"
  have 1: "foldl (phase1_task run hosts) ?start sched1 = ?one"
    using phase1.any_schedule [of sched1 ?start run hosts] assms(1) by simp
  have 2: "foldl (phase2_task oob run mountPaths includeNFS hosts) ?one sched2 =
    map (\<lambda>i. phase2_effect oob run mountPaths includeNFS hosts i (?one ! i)) [0..<length hosts]"
    using phase2.any_schedule [of sched2 ?one] assms(2) by simp
  have "fst (phase2_effect oob run mountPaths includeNFS hosts i
      (phase1_effect run hosts i (HostMetrics_zero, []))) =
    collect_host oob run mountPaths includeNFS (hosts ! i)" for i
    by (simp add: phase1_effect_def phase2_effect_def collect_host_def case_prod_beta
        HostMetrics_zero_def split: option.splits)
  then have "map fst (map (\<lambda>i. phase2_effect oob run mountPaths includeNFS hosts i (?one ! i))
      [0..<length hosts]) = map (\<lambda>i. collect_host oob run mountPaths includeNFS (hosts ! i))
      [0..<length hosts]"
    by simp
  also have "\<dots> = map (collect_host oob run mountPaths includeNFS) hosts"
    by (metis map_map map_nth comp_def list.map_cong0)
  finally show ?thesis
    unfolding CollectAllHosts_def Let_def 1 2 .
qed

end
