(* ===== verification/Collect_Properties.thy ===== *)
theory Collect_Properties
  imports Collect_Host Config_Load
begin

text \<open>
  The properties of the collectors.
\<close>

subsection \<open>Hosts\<close>

text \<open>
  C32. CPU usage is a percentage: when between the samples the total grew, and the idle time by no
  less than zero and no more than the total, the usage is a number of hundredths between 0 and
  100.
\<close>

lemma of_exact_between:
  assumes "0 \<le> v" "v \<le> of_int n" "n < 2 ^ 53"
  obtains r where "of_exact False v = FNum False r" "0 \<le> r" "r \<le> of_int n"
proof (cases "v = 0")
  case True
  with assms that [of 0] show ?thesis by (simp add: of_exact_def)
next
  case False
  obtain r where "mk_float False v = FNum False r" "0 \<le> r" "r \<le> of_int n"
    using mk_float_between [OF assms] .
  with False assms(1) that [of r] show ?thesis by (simp add: of_exact_def)
qed

lemma trunc2_between:
  assumes "x = FNum False q" "0 \<le> q" "q \<le> 10000"
  shows "\<exists>n. 0 \<le> n \<and> n \<le> 10000 \<and> trunc2 oob x = fdiv (of_goint n) hundred"
proof -
  have b: "0 \<le> \<lfloor>q\<rfloor>" "\<lfloor>q\<rfloor> \<le> 10000" using assms(2,3) by (simp_all add: floor_le_iff)
  then have "goint_of oob x = \<lfloor>q\<rfloor>"
    by (simp add: assms(1) goint_of_def in_int64_def int64_min_def int64_max_def)
  with b show ?thesis by (intro exI [of _ "\<lfloor>q\<rfloor>"]) (simp add: trunc2_def)
qed

lemma hundredths_between:
  assumes "0 \<le> n" "n \<le> 10000"
  shows "\<exists>r. fdiv (of_goint n) hundred = FNum False r \<and> 0 \<le> r \<and> r \<le> 100"
proof -
  have "(of_int n :: rat) / 100 \<le> of_int 100" using assms(2) by (simp add: field_simps)
  moreover have "0 \<le> (of_int n :: rat) / 100" using assms(1) by simp
  ultimately obtain r where "mk_float False (of_int n / 100) = FNum False r" "0 \<le> r" "r \<le> of_int 100"
    using mk_float_between [of "of_int n / 100" 100 False] by auto
  with assms show ?thesis by (simp add: hundred_def of_goint_small)
qed

lemma cpu_usage_between:
  assumes "0 \<le> p" "p \<le> q" "0 < q"
  shows "\<exists>n. 0 \<le> n \<and> n \<le> 10000 \<and>
    cpu_usage oob (FNum False p) (FNum False q) = fdiv (of_goint n) hundred"
proof -
  have "0 \<le> p / q" "p / q \<le> of_int 1" using assms by (simp_all add: field_simps)
  then obtain r where r: "mk_float False (p / q) = FNum False r" "0 \<le> r" "r \<le> of_int 1"
    using mk_float_between [of "p / q" 1 False] by auto
  then have "0 \<le> 1 - r" "1 - r \<le> of_int 1" by simp_all
  then obtain s where s: "of_exact False (1 - r) = FNum False s" "0 \<le> s" "s \<le> of_int 1"
    using of_exact_between [of "1 - r" 1] by auto
  then have "0 \<le> s * 100" "s * 100 \<le> of_int 100" by simp_all
  then obtain t where t: "mk_float False (s * 100) = FNum False t" "0 \<le> t" "t \<le> of_int 100"
    using mk_float_between [of "s * 100" 100 False] by auto
  then have "0 \<le> t * 100" "t * 100 \<le> of_int 10000" by simp_all
  then obtain u where u: "mk_float False (t * 100) = FNum False u" "0 \<le> u" "u \<le> of_int 10000"
    using mk_float_between [of "t * 100" 10000 False] by auto
  have "cpu_usage oob (FNum False p) (FNum False q) = trunc2 oob (FNum False u)"
    using assms r s t u by (simp add: cpu_usage_def hundred_def of_goint_small fsub_def
        signed_def fzero_def Let_def)
  with trunc2_between [of "FNum False u" u oob] u show ?thesis by simp
qed

theorem cpu_usage_is_percentage:
  assumes "cpu_times stat1 = (idle1, total1)" "cpu_times stat2 = (idle2, total2)"
    and "fsub idle2 idle1 = FNum False p" "fsub total2 total1 = FNum False q"
    and "0 \<le> p" "p \<le> q" "0 < q"
  shows "\<exists>n. 0 \<le> n \<and> n \<le> 10000 \<and> parseCPUUsage oob stat1 stat2 = fdiv (of_goint n) hundred \<and>
    fle fzero (parseCPUUsage oob stat1 stat2) \<and> fle (parseCPUUsage oob stat1 stat2) hundred"
proof -
  obtain n where n: "0 \<le> n" "n \<le> 10000" "parseCPUUsage oob stat1 stat2 = fdiv (of_goint n) hundred"
    using cpu_usage_between [OF assms(5-7), of oob] by (auto simp: parseCPUUsage_def assms)
  obtain r where r: "fdiv (of_goint n) hundred = FNum False r" "0 \<le> r" "r \<le> 100"
    using hundredths_between [OF n(1,2)] by blast
  have "fle fzero (FNum False r)" "fle (FNum False r) hundred"
    using r by (auto simp: fle_def fzero_def hundred_def of_goint_small signed_def)
  with n r show ?thesis by auto
qed

lemma parse_small:
  assumes "parse_special s = None" "read_float s = Some (False, of_int n)" "0 \<le> n" "n < 2 ^ 53"
  shows "ParseFloat0 s = FNum False (of_int n)"
  using mk_float_of_int [OF assms(3,4), of False] by (simp add: ParseFloat_def assms(1,2))

theorem cpu_usage_is_percentage_witness:
  "\<exists>n. 0 \<le> n \<and> n \<le> 10000 \<and>
     parseCPUUsage (\<lambda>_. 0) ''cpu 1 0 1 2'' ''cpu 2 0 1 3'' = fdiv (of_goint n) hundred"
proof -
  have f: "Fields ''cpu 1 0 1 2'' = [''cpu'', ''1'', ''0'', ''1'', ''2'']"
    "Fields ''cpu 2 0 1 3'' = [''cpu'', ''2'', ''0'', ''1'', ''3'']"
    by code_simp+
  have n: "ParseFloat0 ''0'' = FNum False 0" "ParseFloat0 ''1'' = FNum False 1"
    "ParseFloat0 ''2'' = FNum False 2" "ParseFloat0 ''3'' = FNum False 3"
    by (rule parse_small [where n = 0, simplified] parse_small [where n = 1, simplified]
        parse_small [where n = 2, simplified] parse_small [where n = 3, simplified], code_simp,
        code_simp)+
  have e: "of_exact False (rat_of_int k) = FNum False (rat_of_int k)"
    if "0 \<le> k" "k < 2 ^ 53" for k
    using that mk_float_of_int [of k False] by (simp add: of_exact_def)
  note e' = e [of 0, simplified] e [of 1, simplified] e [of 2, simplified] e [of 3, simplified]
    e [of 4, simplified] e [of 6, simplified]
  have t: "cpu_times ''cpu 1 0 1 2'' = (FNum False 2, FNum False 4)"
    "cpu_times ''cpu 2 0 1 3'' = (FNum False 3, FNum False 6)"
    by (simp_all add: cpu_times_def f n fzero_def signed_def e')
  have d: "fsub (FNum False 3) (FNum False 2) = FNum False 1"
    "fsub (FNum False 6) (FNum False 4) = FNum False 2"
    by (simp_all add: fsub_def signed_def e')
  from cpu_usage_is_percentage [OF t d] show ?thesis by fastforce
qed

text \<open>
  C33. What is read from \<open>df\<close>: the entries are exactly the complete rows, in order, whose file
  system is not blocked and which are chosen by the configured paths or, without any, by the
  kind of file system; the mount points seen are those of all complete rows.
\<close>

definition df_rows :: "string \<Rightarrow> string list list" where
  "df_rows output =
     (let lines = Split output [CHR 0x0A]
      in filter (\<lambda>fs. 7 \<le> length fs)
           (map Fields (if HasPrefix (TrimSpace (hd lines)) ''Filesystem'' then tl lines else lines)))"

definition df_keep :: "string list \<Rightarrow> bool \<Rightarrow> string list \<Rightarrow> bool" where
  "df_keep explicit includeNFS fs \<longleftrightarrow>
     fs ! 1 \<notin> set diskFsBlocklist \<and>
     (if explicit = [] then shouldCollectFs (fs ! 1) includeNFS
      else Join (drop 6 fs) '' '' \<in> set explicit)"

definition df_entry :: "string list \<Rightarrow> DiskUsage" where
  "df_entry fs =
     \<lparr>du_MountPoint = Join (drop 6 fs) '' '', du_FsType = fs ! 1, du_Usage = fs ! 5,
      du_UsageFloat = ParseFloat0 (TrimSuffix (fs ! 5) ''%'')\<rparr>"

lemma foldl_df_row:
  "foldl (\<lambda>acc line. df_row explicit nfs line acc) (results, seen) lines =
     (results @ map df_entry (filter (df_keep explicit nfs)
        (filter (\<lambda>fs. 7 \<le> length fs) (map Fields lines))),
      seen @ map (\<lambda>fs. Join (drop 6 fs) '' '') (filter (\<lambda>fs. 7 \<le> length fs) (map Fields lines)))"
  by (induction lines arbitrary: results seen)
    (simp_all add: df_row_def df_keep_def df_entry_def Let_def)

theorem disk_entries:
  "parseDiskUsage output mountPaths includeNFS =
     (map df_entry (filter (df_keep (explicit_paths mountPaths) includeNFS) (df_rows output)),
      map (\<lambda>fs. Join (drop 6 fs) '' '') (df_rows output))"
  by (simp add: parseDiskUsage_def df_rows_def foldl_df_row Let_def del: Split_byte_simps)

text \<open>
  Blocked file systems never get through: whatever the configuration, no disk or inode entry
  of a parsed host is of a blocked type, and without configured paths every entry is of an allowed
  type or, where network file systems are wanted, of a network type.
\<close>

lemma disk_types_safe:
  assumes "d \<in> set (fst (parseDiskUsage output mountPaths includeNFS))"
  shows "du_FsType d \<notin> set diskFsBlocklist \<and>
    (explicit_paths mountPaths = [] \<longrightarrow> du_FsType d \<in> set diskFsAllowlist \<or>
       includeNFS \<and> du_FsType d \<in> set diskFsNFS)"
proof -
  have "parseDiskUsage output mountPaths includeNFS =
     (map df_entry (filter (df_keep (explicit_paths mountPaths) includeNFS) (df_rows output)),
      map (\<lambda>fs. Join (drop 6 fs) '' '') (df_rows output))"
    by (simp add: parseDiskUsage_def df_rows_def foldl_df_row Let_def del: Split_byte_simps)
  with assms show ?thesis
    by (auto simp: df_entry_def df_keep_def shouldCollectFs_def split: if_splits)
qed

text \<open>
  C34. The batch output is taken apart as it was put together: for sections with distinct, plain
  names and lines that are no markers, every section's text is found under its name, trimmed, and
  no other name is.
\<close>

definition marker :: "string \<Rightarrow> string" where
  "marker t = ''==='' @ t @ ''===''"

definition batch_lines :: "(string \<times> string list) list \<Rightarrow> string list" where
  "batch_lines secs = concat (map (\<lambda>(t, ls). marker t # ls) secs)"

definition section_text :: "string list \<Rightarrow> string" where
  "section_text ls = TrimSpace (concat (map (\<lambda>l. l @ [CHR 0x0A]) ls))"

definition plain_section :: "string \<times> string list \<Rightarrow> bool" where
  "plain_section sec \<longleftrightarrow>
     fst sec \<noteq> [] \<and> CHR ''='' \<notin> set (fst sec) \<and> CHR 0x0A \<notin> set (fst sec) \<and>
     (\<forall>l \<in> set (snd sec). CHR 0x0A \<notin> set l \<and> \<not> is_marker l)"

definition stored :: "section_state \<Rightarrow> string \<Rightarrow> string option" where
  "stored st = xs_sections (if xs_tag st \<noteq> [] then store_section st else st)"

lemma trim_marker: "t \<noteq> [] \<Longrightarrow> CHR ''='' \<notin> set t \<Longrightarrow> TrimByte (marker t) CHR ''='' = t"
proof -
  assume t: "t \<noteq> []" "CHR ''='' \<notin> set t"
  have front: "dropWhile (\<lambda>x. x = CHR ''='') (u @ v) = u @ v"
    if "u \<noteq> []" "CHR ''='' \<notin> set u" for u v
    using that by (cases u) auto
  show ?thesis
    using front [of t] front [of "rev t" "[]"] t by (simp add: TrimByte_def marker_def)
qed

lemma section_line_marker:
  assumes "t \<noteq> []" "CHR ''='' \<notin> set t" "xs_tag st = [] \<longrightarrow> xs_buf st = []"
  shows "section_line st (marker t) = \<lparr>xs_sections = stored st, xs_tag = t, xs_buf = []\<rparr>"
proof -
  have "is_marker (marker t)"
    by (simp add: is_marker_def marker_def HasPrefix_def HasSuffix_def suffix_def)
  then show ?thesis
    using assms by (simp add: section_line_def trim_marker stored_def store_section_def Let_def)
qed

lemma section_lines:
  assumes "xs_tag st \<noteq> []" "\<forall>l \<in> set ls. \<not> is_marker l"
  shows "foldl section_line st ls = st\<lparr>xs_buf := xs_buf st @ concat (map (\<lambda>l. l @ [CHR 0x0A]) ls)\<rparr>"
  using assms by (induction ls arbitrary: st) (simp_all add: section_line_def)

lemma batch_sections:
  assumes "\<forall>sec \<in> set secs. plain_section sec" "distinct (map fst secs)"
    and "xs_tag st = [] \<longrightarrow> xs_buf st = []"
  shows "stored (foldl section_line st (batch_lines secs)) k =
    (case map_of secs k of Some ls \<Rightarrow> Some (section_text ls) | None \<Rightarrow> stored st k)"
  using assms
proof (induction secs arbitrary: st)
  case Nil
  then show ?case by (simp add: batch_lines_def)
next
  case (Cons sec secs)
  obtain t ls where sec: "sec = (t, ls)" by (cases sec)
  have plain: "t \<noteq> []" "CHR ''='' \<notin> set t" "\<forall>l \<in> set ls. \<not> is_marker l"
    using Cons.prems(1) by (auto simp: plain_section_def sec)
  let ?st = "\<lparr>xs_sections = stored st, xs_tag = t, xs_buf = concat (map (\<lambda>l. l @ [CHR 0x0A]) ls)\<rparr>"
  have step: "foldl section_line st (marker t # ls) = ?st"
    using plain section_lines [of "\<lparr>xs_sections = stored st, xs_tag = t, xs_buf = []\<rparr>" ls]
    by (simp add: section_line_marker [OF plain(1,2) Cons.prems(3)])
  have lines: "batch_lines (sec # secs) = (marker t # ls) @ batch_lines secs"
    by (simp add: batch_lines_def sec)
  have "stored (foldl section_line st (batch_lines (sec # secs))) k =
      stored (foldl section_line ?st (batch_lines secs)) k"
    unfolding lines foldl_append step ..
  also have "\<dots> = (case map_of secs k of Some ls \<Rightarrow> Some (section_text ls) | None \<Rightarrow> stored ?st k)"
    using Cons.prems plain(1) by (intro Cons.IH) auto
  finally have "stored (foldl section_line st (batch_lines (sec # secs))) k =
      (case map_of secs k of Some ls \<Rightarrow> Some (section_text ls) | None \<Rightarrow> stored ?st k)" .
  moreover have "stored ?st = (stored st)(t \<mapsto> section_text ls)"
    using plain(1) by (simp add: stored_def store_section_def section_text_def)
  moreover have "map_of secs t = None"
    using Cons.prems(2) by (simp add: sec map_of_eq_None_iff)
  ultimately show ?case
    by (cases "k = t") (auto simp: sec split: option.splits)
qed

theorem sections_roundtrip:
  assumes "\<forall>sec \<in> set secs. plain_section sec" "distinct (map fst secs)" "secs \<noteq> []"
  shows "parseSections (Join (batch_lines secs) [CHR 0x0A]) =
    (\<lambda>k. map_option section_text (map_of secs k))"
proof
  fix k
  let ?st = "\<lparr>xs_sections = Map.empty, xs_tag = [], xs_buf = []\<rparr>"
  have no_newline: "\<forall>l \<in> set (batch_lines secs). CHR 0x0A \<notin> set l"
    using assms(1) by (fastforce simp: batch_lines_def plain_section_def marker_def)
  have "batch_lines secs \<noteq> []" using assms(3) by (cases secs) (auto simp: batch_lines_def)
  then have "Split (Join (batch_lines secs) [CHR 0x0A]) [CHR 0x0A] = batch_lines secs"
    using no_newline by (intro Split_Join_comma) auto
  then have "parseSections (Join (batch_lines secs) [CHR 0x0A]) k =
      stored (foldl section_line ?st (batch_lines secs)) k"
    by (simp add: parseSections_def stored_def Let_def)
  then show "parseSections (Join (batch_lines secs) [CHR 0x0A]) k =
      map_option section_text (map_of secs k)"
    using batch_sections [OF assms(1,2), of ?st k]
    by (simp add: stored_def split: option.splits)
qed

theorem sections_roundtrip_witness:
  "parseSections (Join [''===FREE==='', ''Mem: 1 2'', ''===ULIMIT==='', ''1024''] [CHR 0x0A]) ''ULIMIT''
     = Some ''1024''"
proof -
  let ?secs = "[(''FREE'', [''Mem: 1 2'']), (''ULIMIT'', [''1024''])]"
  have "batch_lines ?secs = [''===FREE==='', ''Mem: 1 2'', ''===ULIMIT==='', ''1024'']"
    by (simp add: batch_lines_def marker_def)
  moreover have "parseSections (Join (batch_lines ?secs) [CHR 0x0A]) =
      (\<lambda>k. map_option section_text (map_of ?secs k))"
    by (rule sections_roundtrip)
      (simp_all add: plain_section_def is_marker_def HasPrefix_def)
  moreover have "section_text [''1024''] = ''1024''" by code_simp
  ultimately show ?thesis by simp
qed

end
