(* ===== verification/Collect_Probe.thy ===== *)
theory Collect_Probe
  imports Config_Load
begin

text \<open>
  The probe framework (src/collector/probe.go): error classes, the redaction of passwords in
  error texts, and running a probe.  A Go error is its text and the chain of errors it wraps, of
  which the classifiers look at the kinds listed; the Boolean of a network error is its
  \<open>Timeout ()\<close>.
\<close>

datatype ErrorClass = ErrNone | ErrNetwork | ErrAuth | ErrProtocol | ErrTimeout | ErrUnknown

definition class_text :: "ErrorClass \<Rightarrow> string" where
  "class_text c =
     (case c of
        ErrNone \<Rightarrow> []
      | ErrNetwork \<Rightarrow> ''network''
      | ErrAuth \<Rightarrow> ''auth''
      | ErrProtocol \<Rightarrow> ''protocol''
      | ErrTimeout \<Rightarrow> ''timeout''
      | ErrUnknown \<Rightarrow> ''unknown'')"

datatype error_kind =
    DeadlineExceeded
  | Canceled
  | NetError bool
  | OpError bool
  | DNSError bool
  | SyntaxError
  | RangeError
  | MySQLError goint
  | MongoCommandError goint
  | ExitError goint string
  | OtherError

record go_error =
  ge_Text :: string
  ge_Chain :: "error_kind list"

subsection \<open>Classes\<close>

text \<open>
  \<open>errors.As (err, &netErr)\<close>: the first error of the chain that implements \<open>net.Error\<close>, which
  the deadline error does, too.
\<close>

fun as_net_error :: "error_kind list \<Rightarrow> bool option" where
  "as_net_error [] = None"
| "as_net_error (k # ks) =
     (case k of
        DeadlineExceeded \<Rightarrow> Some True
      | NetError t \<Rightarrow> Some t
      | OpError t \<Rightarrow> Some t
      | DNSError t \<Rightarrow> Some t
      | _ \<Rightarrow> as_net_error ks)"

definition contains_any :: "string \<Rightarrow> string list \<Rightarrow> bool" where
  "contains_any s subs = list_ex (Contains s) subs"

definition Classify :: "go_error option \<Rightarrow> ErrorClass" where
  "Classify err =
     (case err of
        None \<Rightarrow> ErrNone
      | Some e \<Rightarrow>
          if DeadlineExceeded \<in> set (ge_Chain e) \<or> Canceled \<in> set (ge_Chain e) then ErrTimeout
          else if as_net_error (ge_Chain e) = Some True then ErrTimeout
          else if list_ex (\<lambda>k. k = OpError True \<or> k = OpError False) (ge_Chain e) then ErrNetwork
          else if list_ex (\<lambda>k. k = DNSError True \<or> k = DNSError False) (ge_Chain e) then ErrNetwork
          else
            let msg = ToLower (ge_Text e)
            in if contains_any msg [''i/o timeout'', ''deadline exceeded''] then ErrTimeout
               else if contains_any msg [''connection refused'', ''no route to host'',
                      ''network is unreachable'', ''no such host''] then ErrNetwork
               else if contains_any msg [''access denied'', ''authentication failed'', ''noauth'',
                      ''wrongpass''] then ErrAuth
               else ErrUnknown)"

subsection \<open>Redaction\<close>

text \<open>
  A match of \<open>(://)?([^:/\s@]+):([^@/\s]+)@\<close> at the start of a text.  The classes make the match
  unique: the user ends at the first byte outside its class, which must be the colon, and the
  password at the first outside its, which must be the at sign.
\<close>

definition re_space :: "char \<Rightarrow> bool" where
  "re_space c \<longleftrightarrow> c \<in> {CHR 0x09, CHR 0x0A, CHR 0x0C, CHR 0x0D, CHR 0x20}"

definition user_char :: "char \<Rightarrow> bool" where
  "user_char c \<longleftrightarrow> c \<noteq> CHR '':'' \<and> c \<noteq> CHR ''/'' \<and> c \<noteq> CHR ''@'' \<and> \<not> re_space c"

definition pass_char :: "char \<Rightarrow> bool" where
  "pass_char c \<longleftrightarrow> c \<noteq> CHR ''/'' \<and> c \<noteq> CHR ''@'' \<and> \<not> re_space c"

definition match_user :: "string \<Rightarrow> (string \<times> string \<times> string) option" where
  "match_user s =
     (let u = takeWhile user_char s; t = dropWhile user_char s
      in if u = [] \<or> t = [] \<or> hd t \<noteq> CHR '':'' then None
         else
           let p = takeWhile pass_char (tl t); r = dropWhile pass_char (tl t)
           in if p = [] \<or> r = [] \<or> hd r \<noteq> CHR ''@'' then None
              else Some (u, p, tl r))"

definition match_dsn :: "string \<Rightarrow> (string \<times> string \<times> string) option" where
  "match_dsn s =
     (if prefix ''://'' s then
        (case match_user (drop 3 s) of
           Some (u, p, r) \<Rightarrow> Some (''://'' @ u, p, r)
         | None \<Rightarrow> match_user s)
      else match_user s)"

lemma match_user_length: "match_user s = Some (u, p, r) \<Longrightarrow> length r < length s"
proof -
  assume m: "match_user s = Some (u, p, r)"
  let ?t = "dropWhile user_char s"
  let ?r = "dropWhile pass_char (tl ?t)"
  have r: "r = tl ?r" and ne: "?t \<noteq> []" "?r \<noteq> []"
    using m by (auto simp: match_user_def Let_def split: if_splits)
  have "length r < length ?r" using ne by (simp add: r)
  also have "length ?r \<le> length (tl ?t)" by (rule length_dropWhile_le)
  also have "\<dots> \<le> length s" using length_dropWhile_le [of user_char s] by simp
  finally show ?thesis .
qed

lemma match_dsn_length: "match_dsn s = Some (u, p, r) \<Longrightarrow> length r < length s"
  by (auto simp: match_dsn_def split: if_splits option.splits dest!: match_user_length)

function RedactDSN :: "string \<Rightarrow> string" where
  "RedactDSN [] = []"
| "RedactDSN (c # cs) =
     (case match_dsn (c # cs) of
        None \<Rightarrow> c # RedactDSN cs
      | Some (u, p, r) \<Rightarrow> u @ '':***@'' @ RedactDSN r)"
  by pat_completeness auto
termination
  by (relation "measure length") (auto dest: match_dsn_length)

definition WrapErr :: "go_error option \<Rightarrow> go_error option" where
  "WrapErr err =
     (case err of
        None \<Rightarrow> None
      | Some e \<Rightarrow>
          let redacted = RedactDSN (ge_Text e)
          in if redacted = ge_Text e then Some e
             else Some \<lparr>ge_Text = redacted, ge_Chain = [OtherError]\<rparr>)"

subsection \<open>Probes\<close>

record ProbeResult =
  pb_Target :: string
  pb_Latency :: goint
  pb_Err :: "go_error option"
  pb_ErrClass :: ErrorClass

text \<open>The loggers of the package; \<open>SetProbeLogger\<close> takes \<open>nil\<close> for the one that does nothing.\<close>

datatype probe_logger = NopLogger | StdLogger

definition SetProbeLogger :: "probe_logger option \<Rightarrow> probe_logger" where
  "SetProbeLogger l = (case l of None \<Rightarrow> NopLogger | Some l \<Rightarrow> l)"

text \<open>The line that is logged, if any; durations are in nanoseconds.\<close>

definition logger_Probe ::
  "probe_logger \<Rightarrow> string \<Rightarrow> string \<Rightarrow> goint \<Rightarrow> ErrorClass \<Rightarrow> go_error option \<Rightarrow> string option" where
  "logger_Probe logger name target latency errClass err =
     (case logger of
        NopLogger \<Rightarrow> None
      | StdLogger \<Rightarrow>
          (case err of
             None \<Rightarrow> None
           | Some e \<Rightarrow>
               Some (''probe name='' @ name @ '' target='' @ target @ '' latency_ms='' @
                 Itoa (quot latency 1000000) @ '' err_class='' @ class_text errClass @ '' err='' @
                 ge_Text e)))"

text \<open>
  What the probe returned, completed, and the log line; \<open>elapsed\<close> is the time the call took.  The
  deadline of the context is left out.
\<close>

definition RunProbe ::
  "probe_logger \<Rightarrow> string \<Rightarrow> goint \<Rightarrow> ProbeResult \<Rightarrow> ProbeResult \<times> string option" where
  "RunProbe logger name elapsed r =
     (let r = (if pb_Latency r = 0 then r\<lparr>pb_Latency := elapsed\<rparr> else r);
          r = (if pb_Err r \<noteq> None \<and> pb_ErrClass r = ErrNone
               then r\<lparr>pb_ErrClass := Classify (pb_Err r)\<rparr> else r)
      in (r, logger_Probe logger name (pb_Target r) (pb_Latency r) (pb_ErrClass r) (pb_Err r)))"

subsection \<open>The contract of a classifier\<close>

text \<open>
  Every component classifies its own errors first and leaves the rest to \<open>Classify\<close>: no error has
  no class, every error has one, and a time-out of the context is a time-out unless the error is
  one of the component's own.
\<close>

lemma class_text_Nil: "class_text c = [] \<longleftrightarrow> c = ErrNone"
  by (cases c) (simp_all add: class_text_def)

locale classifier =
  fixes classify :: "go_error option \<Rightarrow> ErrorClass"
    and own :: "go_error \<Rightarrow> bool"
  assumes classify_None: "classify None = ErrNone"
    and classify_other: "\<not> own e \<Longrightarrow> classify (Some e) = Classify (Some e)"
    and classify_own: "own e \<Longrightarrow> classify (Some e) \<noteq> ErrNone"
begin

lemma classify_Some: "classify (Some e) \<noteq> ErrNone"
proof (cases "own e")
  case True
  then show ?thesis by (rule classify_own)
next
  case False
  then show ?thesis by (simp add: classify_other Classify_def Let_def)
qed

lemma class_recorded: "class_text (classify (Some e)) \<noteq> []"
  using classify_Some by (simp add: class_text_Nil)

lemma classify_none_iff: "classify err = ErrNone \<longleftrightarrow> err = None"
  using classify_None classify_Some by (cases err) auto

lemma deadline_is_timeout:
  "\<not> own e \<Longrightarrow> DeadlineExceeded \<in> set (ge_Chain e) \<Longrightarrow> classify (Some e) = ErrTimeout"
  by (simp add: classify_other Classify_def)

lemma probe_keeps_class:
  "pb_ErrClass (fst (RunProbe logger name t \<lparr>pb_Target = x, pb_Latency = l, pb_Err = err', pb_ErrClass = classify (Some e)\<rparr>))
     = classify (Some e)"
  using classify_Some [of e] by (simp add: RunProbe_def Let_def)

end

interpretation plain: classifier Classify "\<lambda>e. False"
  by unfold_locales (simp_all add: Classify_def)

lemma RunProbe_log:
  "snd (RunProbe StdLogger name t r) = None \<longleftrightarrow> pb_Err r = None"
  "snd (RunProbe (SetProbeLogger None) name t r) = None"
  by (auto simp: RunProbe_def logger_Probe_def SetProbeLogger_def Let_def split: option.splits)

subsection \<open>What is redacted\<close>

lemma takeWhile_stop: "\<forall>c \<in> set u. P c \<Longrightarrow> \<not> P x \<Longrightarrow> takeWhile P (u @ x # t) = u"
  by (simp add: takeWhile_append2)

lemma dropWhile_stop: "\<forall>c \<in> set u. P c \<Longrightarrow> \<not> P x \<Longrightarrow> dropWhile P (u @ x # t) = x # t"
  by (simp add: dropWhile_append2)

lemma stop_chars [simp]:
  "\<not> user_char CHR '':''" "\<not> pass_char CHR ''@''" "\<not> pass_char CHR ''/''" "\<not> user_char CHR ''/''"
  "pass_char CHR '':''"
  by (simp_all add: user_char_def pass_char_def re_space_def)

lemma match_user_pair:
  assumes "u \<noteq> []" "\<forall>c \<in> set u. user_char c" "p \<noteq> []" "\<forall>c \<in> set p. pass_char c"
  shows "match_user (u @ CHR '':'' # p @ CHR ''@'' # r) = Some (u, p, r)"
  using assms by (simp add: match_user_def takeWhile_stop dropWhile_stop)

lemma match_user_scheme:
  assumes "\<forall>c \<in> set u. user_char c"
  shows "match_user (u @ '':'' @ ''//'' @ r) = None"
  using assms by (simp add: match_user_def takeWhile_stop dropWhile_stop Let_def)

lemma redact_uri:
  assumes "\<forall>c \<in> set scheme. user_char c" "u \<noteq> []" "\<forall>c \<in> set u. user_char c"
    and "p \<noteq> []" "\<forall>c \<in> set p. pass_char c"
  shows "RedactDSN (scheme @ ''://'' @ u @ '':'' @ p @ ''@'' @ r) =
    scheme @ ''://'' @ u @ '':***@'' @ RedactDSN r"
  using assms(1)
proof (induction scheme)
  case Nil
  have "match_user (u @ CHR '':'' # p @ CHR ''@'' # r) = Some (u, p, r)"
    by (rule match_user_pair) (use assms in auto)
  then show ?case by (simp add: match_dsn_def)
next
  case (Cons c scheme)
  have "c \<noteq> CHR '':''" using Cons.prems by (simp add: user_char_def)
  moreover have "match_user ((c # scheme) @ '':'' @ ''//'' @ u @ '':'' @ p @ ''@'' @ r) = None"
    by (rule match_user_scheme) (use Cons.prems in simp)
  ultimately have "match_dsn (c # scheme @ ''://'' @ u @ '':'' @ p @ ''@'' @ r) = None"
    by (simp add: match_dsn_def)
  with Cons show ?case by simp
qed

lemma redact_dsn:
  assumes "u \<noteq> []" "\<forall>c \<in> set u. user_char c" "p \<noteq> []" "\<forall>c \<in> set p. pass_char c"
  shows "RedactDSN (u @ '':'' @ p @ ''@'' @ r) = u @ '':***@'' @ RedactDSN r"
proof -
  obtain c cs where u: "u = c # cs" using assms(1) by (cases u) auto
  have "c \<noteq> CHR '':''" using assms(2) by (simp add: u user_char_def)
  moreover have "match_user (u @ CHR '':'' # p @ CHR ''@'' # r) = Some (u, p, r)"
    by (rule match_user_pair) (use assms in auto)
  ultimately show ?thesis by (simp add: u match_dsn_def)
qed

subsection \<open>Redaction is complete\<close>

text \<open>
  A text that after redaction runs into a colon after user bytes, or into an at sign after password
  bytes, did so before; so a position that does not match before does not match after.
\<close>

lemma user_pass_char: "user_char c \<Longrightarrow> pass_char c"
  by (simp add: user_char_def pass_char_def)

lemma match_user_SomeD:
  assumes "match_user s = Some (u, p, r)"
  shows "s = u @ CHR '':'' # p @ CHR ''@'' # r" "u \<noteq> []" "\<forall>c \<in> set u. user_char c"
    "p \<noteq> []" "\<forall>c \<in> set p. pass_char c"
proof -
  let ?t = "dropWhile user_char s"
  let ?r = "dropWhile pass_char (tl ?t)"
  have m: "u = takeWhile user_char s" "u \<noteq> []" "?t \<noteq> []" "hd ?t = CHR '':''"
    "p = takeWhile pass_char (tl ?t)" "p \<noteq> []" "?r \<noteq> []" "hd ?r = CHR ''@''" "r = tl ?r"
    using assms by (auto simp: match_user_def Let_def split: if_splits)
  have "s = u @ ?t" by (simp add: m(1))
  also have "?t = CHR '':'' # tl ?t" using m(3,4) by (metis list.collapse)
  also have "tl ?t = p @ ?r" by (simp add: m(5))
  also have "?r = CHR ''@'' # r" using m(7,8,9) by (metis list.collapse)
  finally show "s = u @ CHR '':'' # p @ CHR ''@'' # r" .
  show "u \<noteq> []" "p \<noteq> []" by fact+
  show "\<forall>c \<in> set u. user_char c" "\<forall>c \<in> set p. pass_char c"
    by (auto simp: m(1,5) dest: set_takeWhileD)
qed

lemma match_dsn_cases:
  assumes "match_dsn s = Some (u, p, r)"
  obtains "match_user s = Some (u, p, r)"
  | v where "u = ''://'' @ v" "match_user (drop 3 s) = Some (v, p, r)" "s = ''://'' @ drop 3 s"
proof (cases "match_user s = Some (u, p, r)")
  case True
  then show ?thesis by (rule that(1))
next
  case False
  with assms have s: "prefix ''://'' s" and "\<exists>v. u = ''://'' @ v \<and> match_user (drop 3 s) = Some (v, p, r)"
    by (auto simp: match_dsn_def split: if_splits option.splits)
  moreover have "s = ''://'' @ drop 3 s" using s by (auto simp: prefix_def)
  ultimately show ?thesis using that(2) by blast
qed

lemma match_dsn_user: "s \<noteq> [] \<Longrightarrow> user_char (hd s) \<Longrightarrow> match_dsn s = match_user s"
  by (cases s) (auto simp: match_dsn_def)

lemma match_dsn_hd:
  assumes "match_dsn s = Some (u, p, r)"
  obtains x xs where "u = x # xs" "user_char x"
  | xs where "u = CHR '':'' # CHR ''/'' # xs"
  using assms
proof (cases rule: match_dsn_cases)
  case 1
  from match_user_SomeD(2,3) [OF 1] that(1) show ?thesis by (cases u) auto
next
  case (2 v)
  then show ?thesis using that(2) by simp
qed

lemma redact_Cons:
  "match_dsn s = None \<Longrightarrow> s \<noteq> [] \<Longrightarrow> RedactDSN s = hd s # RedactDSN (tl s)"
  "match_dsn s = Some (u, p, r) \<Longrightarrow> RedactDSN s = u @ '':***@'' @ RedactDSN r"
proof -
  show "match_dsn s = None \<Longrightarrow> s \<noteq> [] \<Longrightarrow> RedactDSN s = hd s # RedactDSN (tl s)"
    by (cases s) simp_all
  show "RedactDSN s = u @ '':***@'' @ RedactDSN r" if m: "match_dsn s = Some (u, p, r)"
  proof -
    have "s \<noteq> []" using match_dsn_length [OF m] by auto
    with m show ?thesis by (cases s) simp_all
  qed
qed

lemma redact_hd_at: "RedactDSN s = CHR ''@'' # t \<Longrightarrow> \<exists>t'. s = CHR ''@'' # t'"
proof (cases s)
  case (Cons c cs)
  assume r: "RedactDSN s = CHR ''@'' # t"
  show ?thesis
  proof (cases "match_dsn s")
    case None
    with r Cons show ?thesis by (simp add: redact_Cons)
  next
    case (Some m)
    obtain u p r' where m: "match_dsn s = Some (u, p, r')" using Some by (cases m) auto
    from m show ?thesis
      by (cases rule: match_dsn_hd) (use r in \<open>auto simp: redact_Cons(2) [OF m] user_char_def\<close>)
  qed
qed simp

lemma redact_at:
  "RedactDSN s = q @ CHR ''@'' # t \<Longrightarrow> q \<noteq> [] \<Longrightarrow> \<forall>c \<in> set q. pass_char c \<Longrightarrow>
   \<exists>q' t'. s = q' @ CHR ''@'' # t' \<and> q' \<noteq> [] \<and> (\<forall>c \<in> set q'. pass_char c)"
proof (induction q arbitrary: s)
  case Nil
  then show ?case by simp
next
  case (Cons x q)
  then obtain c cs where s: "s = c # cs" by (cases s) auto
  show ?case
  proof (cases "match_dsn s")
    case None
    with Cons.prems s have c: "c = x" and r: "RedactDSN cs = q @ CHR ''@'' # t"
      by (auto simp: redact_Cons)
    show ?thesis
    proof (cases "q = []")
      case True
      with r redact_hd_at [of cs t] obtain t' where "cs = CHR ''@'' # t'" by auto
      with Cons.prems(3) s c show ?thesis by (intro exI [of _ "[x]"] exI [of _ t']) simp
    next
      case False
      with Cons.IH [OF r] Cons.prems(3) obtain q' t' where
        "cs = q' @ CHR ''@'' # t'" "\<forall>c \<in> set q'. pass_char c" by auto
      with Cons.prems(3) s c show ?thesis by (intro exI [of _ "x # q'"] exI [of _ t']) auto
    qed
  next
    case (Some m)
    obtain u p r where m: "match_dsn s = Some (u, p, r)" using Some by (cases m) auto
    from m show ?thesis
    proof (cases rule: match_dsn_cases)
      case 1
      note d = match_user_SomeD [OF 1]
      have "\<forall>c \<in> set (u @ CHR '':'' # p). pass_char c"
        using d(3,5) by (auto simp: user_pass_char)
      with d(1,2) show ?thesis
        by (intro exI [of _ "u @ CHR '':'' # p"] exI [of _ r]) auto
    next
      case (2 v)
      with redact_Cons(2) [OF m] Cons.prems(1,3) show ?thesis by (cases q) auto
    qed
  qed
qed

lemma redact_pair_match:
  assumes m: "match_dsn s = Some (u, q, t)"
    and red: "RedactDSN s = (a # w) @ CHR '':'' # p @ CHR ''@'' # r" "\<forall>c \<in> set (a # w). user_char c"
  shows "\<exists>p' r'. s = (a # w) @ CHR '':'' # p' @ CHR ''@'' # r' \<and> p' \<noteq> [] \<and> (\<forall>c \<in> set p'. pass_char c)"
  using m
proof (cases rule: match_dsn_cases)
  case 1
  note d = match_user_SomeD [OF 1]
  have "u @ CHR '':'' # ''***@'' @ RedactDSN t = (a # w) @ CHR '':'' # p @ CHR ''@'' # r"
    using redact_Cons(2) [OF m] red(1) by simp
  then have "takeWhile user_char (u @ CHR '':'' # ''***@'' @ RedactDSN t) =
      takeWhile user_char ((a # w) @ CHR '':'' # p @ CHR ''@'' # r)" by (rule arg_cong)
  then have "u = a # w"
    using d(3) red(2) by (simp only: takeWhile_stop stop_chars not_False_eq_True)
  with d show ?thesis by auto
next
  case (2 v)
  with redact_Cons(2) [OF m] red show ?thesis by simp
qed

lemma redact_pair:
  "RedactDSN s = w @ CHR '':'' # p @ CHR ''@'' # r \<Longrightarrow> \<forall>c \<in> set w. user_char c \<Longrightarrow>
   p \<noteq> [] \<Longrightarrow> \<forall>c \<in> set p. pass_char c \<Longrightarrow>
   \<exists>p' r'. s = w @ CHR '':'' # p' @ CHR ''@'' # r' \<and> p' \<noteq> [] \<and> (\<forall>c \<in> set p'. pass_char c)"
proof (induction w arbitrary: s)
  case Nil
  then obtain c cs where s: "s = c # cs" by (cases s) auto
  show ?case
  proof (cases "match_dsn s")
    case None
    with Nil s have c: "c = CHR '':''" and r: "RedactDSN cs = p @ CHR ''@'' # r"
      by (auto simp: redact_Cons)
    from redact_at [OF r Nil(3,4)] s c show ?thesis by auto
  next
    case (Some m)
    obtain u q t where m: "match_dsn s = Some (u, q, t)" using Some by (cases m) auto
    from m show ?thesis
      by (cases rule: match_dsn_hd; cases p)
        (use Nil in \<open>auto simp: redact_Cons(2) [OF m] user_char_def\<close>)
  qed
next
  case (Cons a w)
  then obtain c cs where s: "s = c # cs" by (cases s) auto
  show ?case
  proof (cases "match_dsn s")
    case None
    with Cons.prems s have c: "c = a" and r: "RedactDSN cs = w @ CHR '':'' # p @ CHR ''@'' # r"
      by (auto simp: redact_Cons)
    from Cons.IH [OF r] Cons.prems s c show ?thesis by auto
  next
    case (Some m)
    then obtain u q t where "match_dsn s = Some (u, q, t)" by (cases m) auto
    from redact_pair_match [OF this Cons.prems(1,2)] Cons.prems show ?thesis by blast
  qed
qed

text \<open>No suffix matches with a password other than the stars.\<close>

fun starred :: "string \<Rightarrow> bool" where
  "starred [] = True"
| "starred (c # cs) =
     ((case match_user (c # cs) of None \<Rightarrow> True | Some (u, p, r) \<Rightarrow> p = ''***'') \<and> starred cs)"

lemma match_user_no_user: "\<not> user_char c \<Longrightarrow> match_user (c # s) = None"
  by (simp add: match_user_def)

lemma starred_pair:
  assumes "starred r" "\<forall>c \<in> set u. user_char c"
  shows "starred (u @ '':***@'' @ r)"
  using assms(2)
proof (induction u)
  case Nil
  have star: "user_char CHR ''*''" by (simp add: user_char_def re_space_def)
  have at: "\<not> user_char CHR ''@''" by (simp add: user_char_def)
  have "match_user (w @ CHR ''@'' # r) = None" if "\<forall>c \<in> set w. user_char c" for w
    using that at by (simp add: match_user_def takeWhile_stop dropWhile_stop Let_def)
  from this [of "''*''"] this [of "''**''"] this [of "''***''"] assms(1) star at
  show ?case by (simp add: match_user_no_user)
next
  case (Cons c u)
  have "pass_char CHR ''*''" by (simp add: pass_char_def re_space_def)
  then have "match_user ((c # u) @ CHR '':'' # ''***'' @ CHR ''@'' # r) = Some (c # u, ''***'', r)"
    using Cons.prems by (intro match_user_pair) auto
  with Cons show ?case by simp
qed

lemma redact_no_match:
  assumes "match_dsn (c # cs) = None"
  shows "match_user (c # RedactDSN cs) = None"
proof (rule ccontr)
  assume "match_user (c # RedactDSN cs) \<noteq> None"
  then obtain u p r where m: "match_user (c # RedactDSN cs) = Some (u, p, r)" by auto
  note d = match_user_SomeD [OF m]
  then obtain w where w: "u = c # w" by (cases u) auto
  with d obtain p' r' where "cs = w @ CHR '':'' # p' @ CHR ''@'' # r'" "p' \<noteq> []"
    "\<forall>c \<in> set p'. pass_char c"
    using redact_pair [of cs w p r] by auto
  then have "match_user (c # cs) = Some (u, p', r')"
    using match_user_pair [of u p' r'] d w by simp
  moreover have "match_dsn (c # cs) = match_user (c # cs)"
    using d(3) w by (intro match_dsn_user) auto
  ultimately show False using assms by simp
qed

lemma starred_redact: "starred (RedactDSN s)"
proof (induction s rule: RedactDSN.induct)
  case 1
  then show ?case by simp
next
  case (2 c cs)
  show ?case
  proof (cases "match_dsn (c # cs)")
    case None
    with redact_no_match [OF None] "2.IH"(1) [OF None] show ?thesis by simp
  next
    case (Some m)
    obtain u p r where m: "match_dsn (c # cs) = Some (u, p, r)" using Some by (cases m) auto
    then have ih: "starred (RedactDSN r)" using "2.IH"(2) [OF m] by auto
    from m show ?thesis
    proof (cases rule: match_dsn_cases)
      case 1
      show ?thesis
        unfolding redact_Cons(2) [OF m] by (rule starred_pair [OF ih match_user_SomeD(3) [OF 1]])
    next
      case (2 v)
      show ?thesis
        unfolding redact_Cons(2) [OF m] 2(1)
        using starred_pair [OF ih match_user_SomeD(3) [OF 2(2)]]
        by (simp add: match_user_no_user)
    qed
  qed
qed

lemma starred_append: "starred (a @ s) \<Longrightarrow> starred s"
  by (induction a) auto

end
