(* ===== verification/Collect_MySQL.thy ===== *)
theory Collect_MySQL
  imports Collect_Probe
begin

text \<open>
  The MySQL collector (src/collector/mysql.go) and the MySQL half of the replication report
  (src/collector/replication.go).  The driver is the argument \<open>dial\<close>: for a configuration, what
  opening, pinging and the queries answer.  A NULL integer is \<open>None\<close>.
\<close>

record mysql_vars =
  mv_Version :: string
  mv_MaxConn :: "goint option"
  mv_ExpireLogs :: "goint option"
  mv_MaxPacket :: "goint option"
  mv_SlowLog :: "goint option"
  mv_Charset :: string
  mv_BufPool :: "goint option"
  mv_BufInst :: "goint option"
  mv_IOCap :: "goint option"
  mv_ReadThr :: "goint option"
  mv_WriteThr :: "goint option"
  mv_InterTO :: "goint option"
  mv_TabCache :: "goint option"
  mv_WaitTO :: "goint option"

text \<open>
  A status query: the columns and the first row, if there is one.  A query for rows: the rows and
  the error that ended them, if any.
\<close>

record mysql_db =
  db_Open :: "go_error option"
  db_Ping :: "go_error option"
  db_Vars :: "go_error + mysql_vars"
  db_ReadOnly :: "go_error + goint"
  db_Status :: "string \<Rightarrow> go_error + (string list \<times> string list option)"
  db_Rows :: "string \<Rightarrow> go_error + (string list list \<times> go_error option)"

text \<open>The configuration \<open>openMySQL\<close> makes for the driver; times in seconds.\<close>

record mysql_config =
  my_User :: string
  my_Passwd :: string
  my_Net :: string
  my_Addr :: string
  my_Timeout :: goint
  my_ReadTimeout :: goint
  my_WriteTimeout :: goint
  my_InterpolateParams :: bool
  my_AllowNativePasswords :: bool
  my_MaxOpenConns :: goint
  my_MaxIdleConns :: goint
  my_ConnMaxLifetime :: goint

type_synonym mysql_dial = "mysql_config \<Rightarrow> mysql_db"

definition openMySQL :: "mysql_dial \<Rightarrow> string \<Rightarrow> string \<Rightarrow> Credentials \<Rightarrow> mysql_db" where
  "openMySQL dial ip port creds =
     dial \<lparr>my_User = cd_MySQLUser creds, my_Passwd = cd_MySQLPassword creds, my_Net = ''tcp'',
           my_Addr = ip @ '':'' @ port, my_Timeout = 3, my_ReadTimeout = 5, my_WriteTimeout = 5,
           my_InterpolateParams = True, my_AllowNativePasswords = True, my_MaxOpenConns = 1,
           my_MaxIdleConns = 0, my_ConnMaxLifetime = 10\<rparr>"

text \<open>\<open>errors.As (err, &mErr)\<close>: the first server error of the chain.\<close>

fun as_mysql_error :: "error_kind list \<Rightarrow> goint option" where
  "as_mysql_error [] = None"
| "as_mysql_error (k # ks) = (case k of MySQLError n \<Rightarrow> Some n | _ \<Rightarrow> as_mysql_error ks)"

definition classifyMySQL :: "go_error option \<Rightarrow> ErrorClass" where
  "classifyMySQL err =
     (case err of
        None \<Rightarrow> ErrNone
      | Some e \<Rightarrow>
          (case as_mysql_error (ge_Chain e) of
             Some n \<Rightarrow> if n = 1045 \<or> n = 1044 \<or> n = 1698 then ErrAuth else ErrProtocol
           | None \<Rightarrow> Classify err))"

definition nullInt :: "goint option \<Rightarrow> goint" where
  "nullInt v = (case v of None \<Rightarrow> 0 | Some n \<Rightarrow> n)"

definition queryStatusVertical ::
  "mysql_db \<Rightarrow> string \<Rightarrow> (string list \<times> string list) \<times> go_error option" where
  "queryStatusVertical db q =
     (case db_Status db q of
        Inl e \<Rightarrow> (([], []), Some e)
      | Inr (cols, None) \<Rightarrow> (([], []), None)
      | Inr (cols, Some row) \<Rightarrow> ((cols, row), None))"

text \<open>The first column with one of the names, in the order of the names.\<close>

fun column :: "string list \<Rightarrow> string list \<Rightarrow> string \<Rightarrow> string option" where
  "column (c # cs) (v # vs) name = (if EqualFold c name then Some v else column cs vs name)"
| "column _ _ name = None"

fun pickFirst :: "string list \<Rightarrow> string list \<Rightarrow> string list \<Rightarrow> string" where
  "pickFirst cols row [] = []"
| "pickFirst cols row (name # names) =
     (case column cols row name of Some v \<Rightarrow> v | None \<Rightarrow> pickFirst cols row names)"

definition set_vars :: "mysql_vars \<Rightarrow> MySQLNode \<Rightarrow> MySQLNode" where
  "set_vars v n =
     n\<lparr>mn_Version := mv_Version v,
       mn_MaxConnections := nullInt (mv_MaxConn v),
       mn_ExpireLogsDays := nullInt (mv_ExpireLogs v),
       mn_MaxAllowedPacket := nullInt (mv_MaxPacket v),
       mn_SlowQueryLog := (if nullInt (mv_SlowLog v) = 1 then ''ON'' else ''OFF''),
       mn_CharacterSet := mv_Charset v,
       mn_BufferPoolSize := nullInt (mv_BufPool v),
       mn_BufferPoolInstances := nullInt (mv_BufInst v),
       mn_InnodbIOCapacity := nullInt (mv_IOCap v),
       mn_InnodbReadIOThreads := nullInt (mv_ReadThr v),
       mn_InnodbWriteIOThreads := nullInt (mv_WriteThr v),
       mn_InteractiveTimeout := nullInt (mv_InterTO v),
       mn_TableOpenCache := nullInt (mv_TabCache v),
       mn_WaitTimeout := nullInt (mv_WaitTO v)\<rparr>"

definition set_role :: "mysql_db \<Rightarrow> MySQLNode \<Rightarrow> MySQLNode" where
  "set_role db n =
     (let ((cols, row), err) = queryStatusVertical db ''SHOW SLAVE STATUS'';
          (cols, row) =
            (if err \<noteq> None \<or> cols = [] then fst (queryStatusVertical db ''SHOW REPLICA STATUS'')
             else (cols, row))
      in if cols \<noteq> [] then
           n\<lparr>mn_Role := ''slave'',
             mn_SlaveIOState := pickFirst cols row [''Slave_IO_Running'', ''Replica_IO_Running''],
             mn_SlaveSQLState := pickFirst cols row [''Slave_SQL_Running'', ''Replica_SQL_Running'']\<rparr>
         else n\<lparr>mn_Role := ''master''\<rparr>)"

definition countRows :: "mysql_db \<Rightarrow> string \<Rightarrow> goint \<times> go_error option" where
  "countRows db q =
     (case db_Rows db q of
        Inl e \<Rightarrow> (0, Some e)
      | Inr (rows, err) \<Rightarrow> (int (length rows), err))"

definition set_binlogs :: "mysql_db \<Rightarrow> MySQLNode \<Rightarrow> MySQLNode" where
  "set_binlogs db n =
     (case countRows db ''SHOW BINARY LOGS'' of
        (c, None) \<Rightarrow> n\<lparr>mn_BinlogCount := c\<rparr>
      | (c, Some e) \<Rightarrow>
          (case countRows db ''SHOW MASTER LOGS'' of
             (c, None) \<Rightarrow> n\<lparr>mn_BinlogCount := c\<rparr>
           | (c, Some e) \<Rightarrow> n))"

definition failed_probe :: "string \<Rightarrow> (go_error option \<Rightarrow> ErrorClass) \<Rightarrow> go_error \<Rightarrow> ProbeResult" where
  "failed_probe target classify e =
     \<lparr>pb_Target = target, pb_Latency = 0, pb_Err = WrapErr (Some e), pb_ErrClass = classify (Some e)\<rparr>"

definition ok_probe :: "string \<Rightarrow> ProbeResult" where
  "ok_probe target = \<lparr>pb_Target = target, pb_Latency = 0, pb_Err = None, pb_ErrClass = ErrNone\<rparr>"

definition mysql_node_error :: "string \<Rightarrow> go_error \<Rightarrow> MySQLNode \<Rightarrow> MySQLNode" where
  "mysql_node_error text e n =
     n\<lparr>mn_Error := text @ RedactDSN (ge_Text e),
       mn_ErrorClass := class_text (classifyMySQL (Some e))\<rparr>"

definition mysqlNodeProbe_Run ::
  "mysql_dial \<Rightarrow> string \<Rightarrow> string \<Rightarrow> Credentials \<Rightarrow> MySQLNode \<times> ProbeResult" where
  "mysqlNodeProbe_Run dial ip port creds =
     (let target = ip @ '':'' @ port;
          node = MySQLNode_zero\<lparr>mn_IP := ip\<rparr>;
          db = openMySQL dial ip port creds
      in case db_Open db of
           Some e \<Rightarrow> (mysql_node_error [] e node, failed_probe target classifyMySQL e)
         | None \<Rightarrow>
             (case db_Ping db of
                Some e \<Rightarrow>
                  (mysql_node_error ''connect/query failed: '' e node,
                   failed_probe target classifyMySQL e)
              | None \<Rightarrow>
                  (case db_Vars db of
                     Inl e \<Rightarrow>
                       (mysql_node_error ''variables query failed: '' e node,
                        failed_probe target classifyMySQL e)
                   | Inr v \<Rightarrow>
                       (set_binlogs db (set_role db (set_vars v node)), ok_probe target))))"

definition CollectMySQL :: "mysql_dial \<Rightarrow> Config \<Rightarrow> MySQLCluster list" where
  "CollectMySQL dial cfg =
     (if cf_MySQLIPs cfg = [] then []
      else
        [\<lparr>mc_Instance = ''mysql:'' @ cf_MySQLPort cfg,
          mc_Nodes = map (\<lambda>ip. fst (mysqlNodeProbe_Run dial ip (cf_MySQLPort cfg) (cf_Creds cfg)))
            (cf_MySQLIPs cfg),
          mc_Error = []\<rparr>])"

subsection \<open>Replication\<close>

definition collectMySQLMaster ::
  "mysql_dial \<Rightarrow> string \<Rightarrow> string \<Rightarrow> Credentials \<Rightarrow> MySQLMasterStatus" where
  "collectMySQLMaster dial ip port creds =
     (let st = MySQLMasterStatus_zero\<lparr>mm_IP := ip\<rparr>;
          db = openMySQL dial ip port creds;
          failed = (\<lambda>text e. st\<lparr>mm_Status := ''warn'', mm_Error := text @ RedactDSN (ge_Text e),
                                mm_ErrorClass := class_text (classifyMySQL (Some e))\<rparr>)
      in case db_Open db of
           Some e \<Rightarrow> failed ''connect failed: '' e
         | None \<Rightarrow>
             (case db_ReadOnly db of
                Inl e \<Rightarrow> failed ''query failed: '' e
              | Inr v \<Rightarrow>
                  st\<lparr>mm_ReadOnly := (v = 1), mm_Status := (if v = 1 then ''warn'' else ''ok'')\<rparr>))"

definition slave_replication ::
  "string list \<Rightarrow> string list \<Rightarrow> goint \<Rightarrow> MySQLReplicationStatus" where
  "slave_replication cols row lagThreshold =
     (let pick = pickFirst cols row;
          io = pick [''Slave_IO_Running'', ''Replica_IO_Running''];
          sql = pick [''Slave_SQL_Running'', ''Replica_SQL_Running''];
          v = pick [''Seconds_Behind_Master'', ''Seconds_Behind_Source''];
          lag = (if v \<noteq> [] \<and> v \<noteq> ''NULL'' then Atoi0 v else 0)
      in \<lparr>mr_IORunning = io, mr_SQLRunning = sql, mr_SecondsBehindMaster = lag,
          mr_LastIOError = pick [''Last_IO_Error''], mr_LastSQLError = pick [''Last_SQL_Error''],
          mr_MasterHost = pick [''Master_Host'', ''Source_Host''],
          mr_Status =
            (if io \<noteq> ''Yes'' \<or> sql \<noteq> ''Yes'' then ''critical''
             else if lag > lagThreshold then ''warn''
             else ''ok'')\<rparr>)"

definition collectMySQLSlave ::
  "mysql_dial \<Rightarrow> string \<Rightarrow> string \<Rightarrow> Credentials \<Rightarrow> goint \<Rightarrow> MySQLSlaveStatus" where
  "collectMySQLSlave dial ip port creds lagThreshold =
     (let res = MySQLSlaveStatus_zero\<lparr>ms_IP := ip\<rparr>;
          db = openMySQL dial ip port creds;
          failed = (\<lambda>text e. res\<lparr>ms_Error := text @ RedactDSN (ge_Text e),
                                 ms_ErrorClass := class_text (classifyMySQL (Some e))\<rparr>)
      in case db_Open db of
           Some e \<Rightarrow> failed ''connect failed: '' e
         | None \<Rightarrow>
             let ((cols, row), err) = queryStatusVertical db ''SHOW SLAVE STATUS'';
                 ((cols, row), err) =
                   (if err \<noteq> None \<or> cols = [] then queryStatusVertical db ''SHOW REPLICA STATUS''
                    else ((cols, row), err))
             in (case err of
                   Some e \<Rightarrow> failed ''query failed: '' e
                 | None \<Rightarrow>
                     if cols = [] then
                       res\<lparr>ms_Replication := Some (MySQLReplicationStatus_zero
                             \<lparr>mr_Status := ''not-configured-as-slave''\<rparr>)\<rparr>
                     else res\<lparr>ms_Replication := Some (slave_replication cols row lagThreshold)\<rparr>))"

interpretation mysql: classifier classifyMySQL "\<lambda>e. as_mysql_error (ge_Chain e) \<noteq> None"
  by unfold_locales (auto simp: classifyMySQL_def split: if_splits option.splits)

end
