(* ===== verification/Collect_Redis.thy ===== *)
theory Collect_Redis
  imports Collect_MySQL
begin

text \<open>
  The Redis collectors (src/collector/redis.go) and the replication report
  (src/collector/replication.go).  The client library is the argument \<open>dial\<close>: for the options of
  a client, what the data node or the sentinel answers to each command it is sent.
\<close>

text \<open>\<open>net.JoinHostPort\<close>.\<close>

definition JoinHostPort :: "string \<Rightarrow> string \<Rightarrow> string" where
  "JoinHostPort host port =
     (if CHR '':'' \<in> set host then ''['' @ host @ '']:'' @ port else host @ '':'' @ port)"

text \<open>\<open>INFO\<close> of a section, \<open>LLEN\<close> of a key, and \<open>PING\<close>.\<close>

record redis_server =
  rd_Info :: "string \<Rightarrow> go_error + string"
  rd_LLen :: "string \<Rightarrow> go_error + goint"
  rd_Ping :: "go_error + string"

record sentinel_server =
  sd_Ping :: "go_error + string"
  sd_Master :: "string \<Rightarrow> go_error + string list"

text \<open>The options of a client; times in seconds.\<close>

record redis_options =
  ro_Addr :: string
  ro_Password :: string
  ro_DB :: goint
  ro_DialTimeout :: goint
  ro_ReadTimeout :: goint
  ro_WriteTimeout :: goint
  ro_MaxRetries :: goint

type_synonym redis_dial = "redis_options \<Rightarrow> redis_server"
type_synonym sentinel_dial = "redis_options \<Rightarrow> sentinel_server"

definition newRedisClient :: "redis_dial \<Rightarrow> string \<Rightarrow> string \<Rightarrow> goint \<Rightarrow> redis_server" where
  "newRedisClient dial addr password db =
     dial \<lparr>ro_Addr = addr, ro_Password = password, ro_DB = db, ro_DialTimeout = 3,
           ro_ReadTimeout = 5, ro_WriteTimeout = 5, ro_MaxRetries = -1\<rparr>"

definition sentinel_client :: "sentinel_dial \<Rightarrow> string \<Rightarrow> sentinel_server" where
  "sentinel_client dial addr =
     dial \<lparr>ro_Addr = addr, ro_Password = [], ro_DB = 0, ro_DialTimeout = 3,
           ro_ReadTimeout = 3, ro_WriteTimeout = 3, ro_MaxRetries = -1\<rparr>"

definition redis_auth_text :: "string \<Rightarrow> bool" where
  "redis_auth_text msg =
     contains_any (ToUpper msg) [''NOAUTH'', ''WRONGPASS'', ''INVALID PASSWORD'']"

definition classifyRedis :: "go_error option \<Rightarrow> ErrorClass" where
  "classifyRedis err =
     (case err of
        None \<Rightarrow> ErrNone
      | Some e \<Rightarrow>
          if redis_auth_text (ge_Text e) then ErrAuth
          else if SyntaxError \<in> set (ge_Chain e) \<or> RangeError \<in> set (ge_Chain e) then ErrProtocol
          else Classify err)"

interpretation redis: classifier classifyRedis
  "\<lambda>e. redis_auth_text (ge_Text e) \<or> SyntaxError \<in> set (ge_Chain e) \<or> RangeError \<in> set (ge_Chain e)"
  by unfold_locales (auto simp: classifyRedis_def)

subsection \<open>The INFO text\<close>

text \<open>The map is a list of pairs, the newest first.\<close>

type_synonym info = "(string \<times> string) list"

definition info_get :: "info \<Rightarrow> string \<Rightarrow> string" where
  "info_get info k = (case map_of info k of None \<Rightarrow> [] | Some v \<Rightarrow> v)"

definition info_line :: "info \<Rightarrow> string \<Rightarrow> info" where
  "info_line info line0 =
     (let line = TrimSpace line0
      in if line = [] \<or> HasPrefix line ''#'' then info
         else case Index line '':'' of
                None \<Rightarrow> info
              | Some i \<Rightarrow> if i > 0 then (take i line, drop (i + 1) line) # info else info)"

definition parseRedisInfo :: "string \<Rightarrow> info" where
  "parseRedisInfo output =
     (let info = foldl info_line [] (Split output [CHR 0x0D, CHR 0x0A])
      in if length info = 0 then foldl info_line info (Split output [CHR 0x0A]) else info)"

subsection \<open>Data nodes\<close>

definition queue_len :: "redis_server \<Rightarrow> string \<Rightarrow> goint" where
  "queue_len srv key = (case rd_LLen srv key of Inr v \<Rightarrow> v | Inl e \<Rightarrow> 0)"

definition redisNodeProbe_Run ::
  "redis_dial \<Rightarrow> string \<Rightarrow> string \<Rightarrow> string \<Rightarrow> RedisNode \<times> ProbeResult" where
  "redisNodeProbe_Run dial ip port password =
     (let target = JoinHostPort ip port;
          node = RedisNode_zero\<lparr>rn_IP := ip\<rparr>;
          rdb = newRedisClient dial target password 0
      in case rd_Info rdb [] of
           Inl e \<Rightarrow>
             (node\<lparr>rn_Error := ''redis info error: '' @ ge_Text e,
                   rn_ErrorClass := class_text (classifyRedis (Some e))\<rparr>,
              \<lparr>pb_Target = target, pb_Latency = 0, pb_Err = Some e,
               pb_ErrClass = classifyRedis (Some e)\<rparr>)
         | Inr infoOut \<Rightarrow>
             let info = parseRedisInfo infoOut;
                 rdb11 = newRedisClient dial target password 11
             in (node\<lparr>rn_Version := info_get info ''redis_version'',
                      rn_Role := info_get info ''role'',
                      rn_ClusterEnabled := info_get info ''cluster_enabled'',
                      rn_UsedMemory := info_get info ''used_memory'',
                      rn_MaxMemory := info_get info ''maxmemory'',
                      rn_UptimeDays := info_get info ''uptime_in_days'',
                      rn_ConnectedClients := info_get info ''connected_clients'',
                      rn_BlockedClients := info_get info ''blocked_clients'',
                      rn_CeleryQueue := queue_len rdb11 ''celery'',
                      rn_MonitorQueue := queue_len rdb11 ''monitor''\<rparr>,
                 ok_probe target))"

definition CollectRedisStandalone :: "redis_dial \<Rightarrow> Config \<Rightarrow> RedisNode list" where
  "CollectRedisStandalone dial cfg =
     map (\<lambda>ip. fst (redisNodeProbe_Run dial ip (cf_RedisPort cfg) (cd_RedisPassword (cf_Creds cfg))))
       (cf_RedisIPs cfg)"

subsection \<open>Sentinels\<close>

definition pingSentinel :: "sentinel_dial \<Rightarrow> string \<Rightarrow> string \<Rightarrow> SentinelNodeStatus" where
  "pingSentinel dial ip port =
     (let s = SentinelNodeStatus_zero\<lparr>sn_IP := ip, sn_Port := port\<rparr>
      in case sd_Ping (sentinel_client dial (JoinHostPort ip port)) of
           Inl e \<Rightarrow> s\<lparr>sn_Error := ''ping error: '' @ ge_Text e,
                      sn_ErrorClass := class_text (classifyRedis (Some e))\<rparr>
         | Inr pong \<Rightarrow>
             if pong = ''PONG'' then s\<lparr>sn_Reachable := True\<rparr>
             else s\<lparr>sn_Error := ''unexpected response: '' @ pong,
                    sn_ErrorClass := class_text ErrProtocol\<rparr>)"

text \<open>The pair of host and port, \<open>None\<close> for an error, which the caller does not look at.\<close>

definition sentinelGetMaster ::
  "sentinel_dial \<Rightarrow> string \<Rightarrow> string \<Rightarrow> string \<Rightarrow> (string \<times> string) option" where
  "sentinelGetMaster dial ip port masterName =
     (case sd_Master (sentinel_client dial (JoinHostPort ip port)) masterName of
        Inl e \<Rightarrow> None
      | Inr pair \<Rightarrow> if length pair < 2 then None else Some (pair ! 0, pair ! 1))"

definition redisPing :: "redis_dial \<Rightarrow> string \<Rightarrow> string \<Rightarrow> string \<Rightarrow> bool" where
  "redisPing dial ip port password =
     (case rd_Ping (newRedisClient dial (JoinHostPort ip port) password 0) of
        Inl e \<Rightarrow> False
      | Inr pong \<Rightarrow> pong = ''PONG'')"

text \<open>The first reachable sentinel that knows the master.\<close>

fun discover ::
  "sentinel_dial \<Rightarrow> string \<Rightarrow> SentinelNodeStatus list \<Rightarrow> (string \<times> string) option" where
  "discover sentinels masterName [] = None"
| "discover sentinels masterName (s # ss) =
     (if \<not> sn_Reachable s then discover sentinels masterName ss
      else case sentinelGetMaster sentinels (sn_IP s) (sn_Port s) masterName of
             None \<Rightarrow> discover sentinels masterName ss
           | Some (ip, port) \<Rightarrow>
               if ip \<noteq> [] then Some (ip, port) else discover sentinels masterName ss)"

definition CollectRedisSentinel ::
  "environment \<Rightarrow> sentinel_dial \<Rightarrow> redis_dial \<Rightarrow> Config \<Rightarrow> SentinelClusterStatus option" where
  "CollectRedisSentinel env sentinels dial cfg =
     (if length (cf_RedisSentinelIPs cfg) = 0 then None
      else
        let masterName = envOrDefault env ''BK_APIGW_REDIS_SENTINEL_MASTER_NAME'' ''mymaster'';
            port = envOrDefault env ''INSPECT_REDIS_SENTINEL_PORT'' ''26379'';
            nodes = map (\<lambda>ip. pingSentinel sentinels ip port) (cf_RedisSentinelIPs cfg);
            reachableCount = length (filter sn_Reachable nodes);
            st = SentinelClusterStatus_zero\<lparr>sc_MasterName := masterName, sc_Sentinels := nodes\<rparr>
        in if reachableCount = 0 then
             Some (st\<lparr>sc_Status := ''critical'', sc_Error := ''no sentinel reachable'',
                      sc_ErrorClass := class_text ErrNetwork\<rparr>)
           else
             let st = (case discover sentinels masterName nodes of
                         None \<Rightarrow> st
                       | Some (ip, port) \<Rightarrow>
                           st\<lparr>sc_DiscoveredMaster := JoinHostPort ip port,
                              sc_MasterReachable := redisPing dial ip port (cd_RedisPassword (cf_Creds cfg))\<rparr>)
             in Some (st\<lparr>sc_Status :=
                  (if sc_DiscoveredMaster st = [] \<or> \<not> sc_MasterReachable st then ''critical''
                   else if reachableCount < length (cf_RedisSentinelIPs cfg) then ''warn''
                   else ''ok'')\<rparr>))"

text \<open>\<open>nil\<close> is left alone.\<close>

definition CrossCheckSentinelMaster ::
  "SentinelClusterStatus option \<Rightarrow> string list \<Rightarrow> SentinelClusterStatus option" where
  "CrossCheckSentinelMaster sp masterIPs =
     (case sp of
        None \<Rightarrow> None
      | Some s \<Rightarrow>
          Some (s\<lparr>sc_MasterEnvMatch :=
            (if length masterIPs = 0 then ''N/A''
             else if sc_DiscoveredMaster s = [] then ''warn''
             else let ip = sc_DiscoveredMaster s;
                      ip = (case LastIndexByte ip CHR '':'' of
                              None \<Rightarrow> ip
                            | Some i \<Rightarrow> if i > 0 then take i ip else ip)
                  in if ip \<in> set masterIPs then ''ok'' else ''warn'')\<rparr>))"

subsection \<open>Replication\<close>

definition grade_redis ::
  "info \<Rightarrow> string \<Rightarrow> goint \<Rightarrow> RedisReplicationStatus \<Rightarrow> RedisReplicationStatus" where
  "grade_redis info declaredRole ioThreshold r0 =
     (let r = r0\<lparr>rr_Role := info_get info ''role''\<rparr>;
          r = (if rr_Role r \<noteq> declaredRole then r\<lparr>rr_RoleConsistencyStatus := ''warn''\<rparr> else r)
      in if rr_Role r = ''master'' then
           r\<lparr>rr_ConnectedSlaves := Atoi0 (info_get info ''connected_slaves''),
             rr_LinkStatus := ''N/A''\<rparr>
         else if rr_Role r = ''slave'' then
           let r = r\<lparr>rr_MasterHost := info_get info ''master_host'',
                     rr_MasterPort := Atoi0 (info_get info ''master_port''),
                     rr_MasterLinkStatus := info_get info ''master_link_status'',
                     rr_MasterLastIOSeconds := Atoi0 (info_get info ''master_last_io_seconds_ago''),
                     rr_MasterSyncInProgress := (info_get info ''master_sync_in_progress'' = ''1'')\<rparr>
           in r\<lparr>rr_LinkStatus :=
                 (if rr_MasterLinkStatus r \<noteq> ''up'' then ''critical''
                  else if rr_MasterLastIOSeconds r > ioThreshold then ''warn''
                  else ''ok'')\<rparr>
         else r\<lparr>rr_LinkStatus := ''N/A''\<rparr>)"

definition collectRedisReplication ::
  "redis_dial \<Rightarrow> string \<Rightarrow> string \<Rightarrow> string \<Rightarrow> string \<Rightarrow> goint \<Rightarrow> RedisReplicationStatus" where
  "collectRedisReplication dial ip port password declaredRole ioThreshold =
     (let r = RedisReplicationStatus_zero\<lparr>rr_IP := ip, rr_RoleConsistencyStatus := ''ok''\<rparr>
      in case rd_Info (newRedisClient dial (JoinHostPort ip port) password 0) ''replication'' of
           Inl e \<Rightarrow>
             r\<lparr>rr_Error := ''redis info error: '' @ ge_Text e,
               rr_ErrorClass := class_text (classifyRedis (Some e)),
               rr_RoleConsistencyStatus := ''N/A''\<rparr>
         | Inr out \<Rightarrow> grade_redis (parseRedisInfo out) declaredRole ioThreshold r)"

definition CollectReplication ::
  "mysql_dial \<Rightarrow> redis_dial \<Rightarrow> Config \<Rightarrow> ReplicationReport option" where
  "CollectReplication mysqls dial cfg =
     (let th = cf_Thresholds cfg;
          redis = (\<lambda>role ip. collectRedisReplication dial ip (cf_RedisPort cfg)
                               (cd_RedisPassword (cf_Creds cfg)) role (th_RedisReplIOSec th));
          rep = \<lparr>rp_MySQLMasters =
                   map (\<lambda>ip. collectMySQLMaster mysqls ip (cf_MySQLPort cfg) (cf_Creds cfg))
                     (cf_MySQLMasterIPs cfg),
                 rp_MySQLSlaves =
                   map (\<lambda>ip. collectMySQLSlave mysqls ip (cf_MySQLPort cfg) (cf_Creds cfg)
                     (th_MySQLReplLagSec th))
                     (cf_MySQLSlaveIPs cfg),
                 rp_RedisNodes =
                   map (redis ''master'') (cf_RedisMasterIPs cfg) @
                   map (redis ''slave'') (cf_RedisSlaveIPs cfg)\<rparr>
      in if rp_MySQLMasters rep = [] \<and> rp_MySQLSlaves rep = [] \<and> rp_RedisNodes rep = [] then None
         else Some rep)"

subsection \<open>Reading INFO back\<close>

lemma Index_crlf_append:
  assumes "CHR 0x0D \<notin> set a"
  shows "Index (a @ [CHR 0x0D, CHR 0x0A] @ b) [CHR 0x0D, CHR 0x0A] = Some (length a)"
proof (rule Index_append_first)
  fix j assume "j < length a"
  then have "drop j (a @ [CHR 0x0D, CHR 0x0A] @ b) = a ! j # drop (Suc j) (a @ [CHR 0x0D, CHR 0x0A] @ b)"
    by (simp add: Cons_nth_drop_Suc [symmetric] nth_append)
  moreover have "a ! j \<noteq> CHR 0x0D" using assms \<open>j < length a\<close> nth_mem by fastforce
  ultimately show "\<not> prefix [CHR 0x0D, CHR 0x0A] (drop j (a @ [CHR 0x0D, CHR 0x0A] @ b))" by simp
qed

lemma Index_crlf_None: "CHR 0x0D \<notin> set a \<Longrightarrow> Index a [CHR 0x0D, CHR 0x0A] = None"
  by (auto simp: Index_None_iff sublist_def)

lemma splitn_crlf_Join:
  assumes "\<forall>l \<in> set ls. CHR 0x0D \<notin> set l" "ls \<noteq> []" "length ls \<le> Suc k"
  shows "splitn k (Join ls [CHR 0x0D, CHR 0x0A]) [CHR 0x0D, CHR 0x0A] = ls"
  using assms
proof (induction ls arbitrary: k)
  case Nil
  then show ?case by simp
next
  case (Cons l ls)
  show ?case
  proof (cases "ls = []")
    case True
    with Cons.prems show ?thesis by (cases k) (simp_all add: Index_crlf_None)
  next
    case False
    with Cons.prems obtain j where k: "k = Suc j" by (cases k) auto
    have "splitn j (Join ls [CHR 0x0D, CHR 0x0A]) [CHR 0x0D, CHR 0x0A] = ls"
      using Cons.prems False k by (intro Cons.IH) auto
    with False Cons.prems show ?thesis
      using Index_crlf_append [of l "Join ls [CHR 0x0D, CHR 0x0A]"] by (simp add: k Join_Cons)
  qed
qed

lemma length_Join_crlf: "length ls \<le> Suc (length (Join ls [CHR 0x0D, CHR 0x0A]))"
proof (induction ls)
  case Nil
  then show ?case by simp
next
  case (Cons l ls)
  then show ?case by (cases ls) auto
qed

lemma Split_Join_crlf:
  "\<forall>l \<in> set ls. CHR 0x0D \<notin> set l \<Longrightarrow> ls \<noteq> [] \<Longrightarrow>
   Split (Join ls [CHR 0x0D, CHR 0x0A]) [CHR 0x0D, CHR 0x0A] = ls"
  unfolding Split_def by (rule splitn_crlf_Join) (simp_all add: length_Join_crlf)

text \<open>A line that reads back as its pair: trimmed, with a plain key.\<close>

definition info_pair :: "string \<times> string \<Rightarrow> bool" where
  "info_pair kv \<longleftrightarrow>
     fst kv \<noteq> [] \<and> CHR '':'' \<notin> set (fst kv) \<and> hd (fst kv) \<noteq> CHR ''#'' \<and>
     TrimSpace (fst kv @ '':'' @ snd kv) = fst kv @ '':'' @ snd kv"

lemma info_line_pair: "info_pair (k, v) \<Longrightarrow> info_line info (k @ '':'' @ v) = (k, v) # info"
  using Index_byte_append [of "CHR '':''" k v]
  by (cases k) (auto simp: info_pair_def info_line_def HasPrefix_def Let_def)

lemma info_line_skip: "TrimSpace l = [] \<or> HasPrefix (TrimSpace l) ''#'' \<Longrightarrow> info_line info l = info"
  by (auto simp: info_line_def Let_def)

lemma info_lines:
  assumes "\<forall>kv \<in> set kvs. info_pair kv"
  shows "foldl info_line info (map (\<lambda>(k, v). k @ '':'' @ v) kvs) = rev kvs @ info"
  using assms by (induction kvs arbitrary: info) (auto simp: info_line_pair [simplified])

end
