(* ===== verification/Collect_Curl.thy ===== *)
theory Collect_Curl
  imports Collect_Redis Go_Json_Text
begin

text \<open>
  What the collectors that call the \<open>curl\<close> binary share (src/collector/es.go and
  src/collector/rabbitmq.go): error classes from exit codes, and reading values out of the decoded
  JSON document.  \<open>oob\<close> is the target's conversion of a float outside the 64-bit range.
\<close>

subsection \<open>Errors\<close>

text \<open>\<open>errors.As (err, &ee)\<close>\<close>

fun as_exit_error :: "error_kind list \<Rightarrow> (goint \<times> string) option" where
  "as_exit_error [] = None"
| "as_exit_error (k # ks) =
     (case k of ExitError c stderr \<Rightarrow> Some (c, stderr) | _ \<Rightarrow> as_exit_error ks)"

definition curlErrClass :: "go_error option \<Rightarrow> ErrorClass" where
  "curlErrClass err =
     (case err of
        None \<Rightarrow> ErrNone
      | Some e \<Rightarrow>
          (case as_exit_error (ge_Chain e) of
             None \<Rightarrow> Classify err
           | Some (c, stderr) \<Rightarrow>
               if c = 6 \<or> c = 7 then ErrNetwork
               else if c = 22 then ErrProtocol
               else if c = 28 then ErrTimeout
               else if c = 67 then ErrAuth
               else ErrUnknown))"

definition curlErrDetail :: "go_error \<Rightarrow> string" where
  "curlErrDetail err =
     (case as_exit_error (ge_Chain err) of
        None \<Rightarrow> ge_Text err
      | Some (c, stderr) \<Rightarrow>
          if length stderr > 0 then TrimSpace stderr else ''curl exit '' @ Itoa c)"

interpretation curl: classifier curlErrClass "\<lambda>e. as_exit_error (ge_Chain e) \<noteq> None"
  by unfold_locales (auto simp: curlErrClass_def split: if_splits option.splits)

subsection \<open>Documents\<close>

text \<open>A number that is no \<open>float64\<close> makes the whole decoding fail.\<close>

function numbers_ok :: "json \<Rightarrow> bool" where
  "numbers_ok JNull = True"
| "numbers_ok (JBool b) = True"
| "numbers_ok (JNum t) = (snd (ParseFloat t) = None)"
| "numbers_ok (JStr s) = True"
| "numbers_ok (JArr vs) = list_all numbers_ok vs"
| "numbers_ok (JObj fs) = list_all (\<lambda>f. numbers_ok (snd f)) fs"
  by pat_completeness auto
termination
  by (relation "measure size")
    (auto simp: less_Suc_eq_le elim!: size_list_estimation' intro: size_list_estimation')

text \<open>Decoding into \<open>map[string]interface{}\<close>, \<open>[]map[string]interface{}\<close>, \<open>[]interface{}\<close>.\<close>

type_synonym json_map = "(string \<times> json) list"

definition as_map :: "json \<Rightarrow> json_map option" where
  "as_map v = (case v of JObj fs \<Rightarrow> Some fs | JNull \<Rightarrow> Some [] | _ \<Rightarrow> None)"

definition decode_map :: "json option \<Rightarrow> json_map option" where
  "decode_map doc =
     (case doc of
        None \<Rightarrow> None
      | Some v \<Rightarrow> if numbers_ok v then as_map v else None)"

definition decode_maps :: "json option \<Rightarrow> json_map list option" where
  "decode_maps doc =
     (case doc of
        None \<Rightarrow> None
      | Some v \<Rightarrow>
          if \<not> numbers_ok v then None
          else case v of JArr vs \<Rightarrow> dec_list as_map vs | JNull \<Rightarrow> Some [] | _ \<Rightarrow> None)"

definition decode_list :: "json option \<Rightarrow> json list option" where
  "decode_list doc =
     (case doc of
        None \<Rightarrow> None
      | Some v \<Rightarrow>
          if \<not> numbers_ok v then None
          else case v of JArr vs \<Rightarrow> Some vs | JNull \<Rightarrow> Some [] | _ \<Rightarrow> None)"

text \<open>\<open>m[k]\<close>: the last of equal names; a missing one is \<open>nil\<close>, like \<open>null\<close>.\<close>

definition json_at :: "json_map \<Rightarrow> string \<Rightarrow> json" where
  "json_at m k = (case map_of (rev m) k of None \<Rightarrow> JNull | Some v \<Rightarrow> v)"

definition jsonStr :: "json \<Rightarrow> string" where
  "jsonStr v = (case v of JStr s \<Rightarrow> s | _ \<Rightarrow> [])"

definition jsonInt :: "(float64 \<Rightarrow> goint) \<Rightarrow> json \<Rightarrow> goint" where
  "jsonInt oob v = (case v of JNum t \<Rightarrow> goint_of oob (ParseFloat0 t) | _ \<Rightarrow> 0)"

definition jsonIntFromStr :: "string \<Rightarrow> goint" where
  "jsonIntFromStr s = Atoi0 s"

definition jsonBool :: "json \<Rightarrow> bool \<Rightarrow> bool" where
  "jsonBool v old = (case v of JBool b \<Rightarrow> b | _ \<Rightarrow> old)"

end
