(* ===== verification/Collect_ES.thy ===== *)
theory Collect_ES
  imports Collect_Curl Collect_Host
begin

text \<open>
  The Elasticsearch collector (src/collector/es.go).  \<open>curl url\<close> is the outcome of the curl process
  for an address: its error, or what it wrote.
\<close>

type_synonym curl_get = "string \<Rightarrow> go_error + string"

text \<open>The text of the request to a node, and of the two requests to the leader.\<close>

definition node_url :: "string \<Rightarrow> string \<Rightarrow> string" where
  "node_url ip port = ''http://'' @ ip @ '':'' @ port @ ''/''"

definition health_url :: "string \<Rightarrow> string \<Rightarrow> string \<Rightarrow> string" where
  "health_url auth host port = ''http://'' @ auth @ host @ '':'' @ port @ ''/_cluster/health''"

definition nodes_url :: "string \<Rightarrow> string \<Rightarrow> string \<Rightarrow> string" where
  "nodes_url auth host port =
     ''http://'' @ auth @ host @ '':'' @ port @
     ''/_cat/nodes?format=json&h=ip,heap.percent,ram.percent,cpu,load_1m,load_5m,load_15m,node.role''"

subsection \<open>Reachability\<close>

definition probe_node :: "curl_get \<Rightarrow> string \<Rightarrow> string \<Rightarrow> ESNodeReach" where
  "probe_node curl port ip =
     (case curl (node_url ip port) of
        Inl err \<Rightarrow> ESNodeReach_zero\<lparr>er_IP := ip, er_Status := ''unreachable'',
                                   er_Detail := curlErrDetail err\<rparr>
      | Inr out \<Rightarrow> ESNodeReach_zero\<lparr>er_IP := ip, er_Status := ''ok''\<rparr>)"

text \<open>
  Each goroutine writes its own index of \<open>out\<close>; \<open>sched\<close> is the order in which they finish.
\<close>

definition reach_task ::
  "curl_get \<Rightarrow> string \<Rightarrow> string list \<Rightarrow> ESNodeReach list \<Rightarrow> nat \<Rightarrow> ESNodeReach list" where
  "reach_task curl port ips out i = out[i := probe_node curl port (ips ! i)]"

definition probeES7Nodes ::
  "curl_get \<Rightarrow> nat list \<Rightarrow> string list \<Rightarrow> string \<Rightarrow> ESNodeReach list" where
  "probeES7Nodes curl sched ips port =
     foldl (reach_task curl port ips) (replicate (length ips) ESNodeReach_zero) sched"

interpretation reach: slot_task "reach_task curl port ips" "\<lambda>i s. probe_node curl port (ips ! i)"
  for curl port ips
  by unfold_locales (simp add: reach_task_def)

lemma probeES7Nodes_eq:
  assumes "mset sched = mset [0..<length ips]"
  shows "probeES7Nodes curl sched ips port = map (probe_node curl port) ips"
proof -
  have "probeES7Nodes curl sched ips port =
      map (\<lambda>i. probe_node curl port (ips ! i)) [0..<length ips]"
    using reach.any_schedule [of sched "replicate (length ips) ESNodeReach_zero"] assms
    by (simp add: probeES7Nodes_def)
  also have "\<dots> = map (probe_node curl port) ips"
    by (metis map_map map_nth comp_def list.map_cong0)
  finally show ?thesis .
qed

subsection \<open>The leader's answers\<close>

definition set_health :: "(float64 \<Rightarrow> goint) \<Rightarrow> json_map \<Rightarrow> ESCluster \<Rightarrow> ESCluster" where
  "set_health oob h c =
     c\<lparr>ec_ClusterName := jsonStr (json_at h ''cluster_name''),
       ec_Status := jsonStr (json_at h ''status''),
       ec_NumberOfNodes := jsonInt oob (json_at h ''number_of_nodes''),
       ec_NumberOfDataNodes := jsonInt oob (json_at h ''number_of_data_nodes''),
       ec_ActivePrimaryShards := jsonInt oob (json_at h ''active_primary_shards''),
       ec_ActiveShards := jsonInt oob (json_at h ''active_shards''),
       ec_UnassignedShards := jsonInt oob (json_at h ''unassigned_shards''),
       ec_PendingTasks := jsonInt oob (json_at h ''number_of_pending_tasks''),
       ec_ActiveShardsPercent :=
         (case json_at h ''active_shards_percent_as_number'' of
            JNum t \<Rightarrow> ParseFloat0 t
          | _ \<Rightarrow> ec_ActiveShardsPercent c)\<rparr>"

definition es_node :: "json_map \<Rightarrow> ESNode" where
  "es_node n =
     ESNode_zero\<lparr>en_IP := jsonStr (json_at n ''ip''),
       en_HeapPercent := jsonIntFromStr (jsonStr (json_at n ''heap.percent'')),
       en_RAMPercent := jsonIntFromStr (jsonStr (json_at n ''ram.percent'')),
       en_CPU := jsonIntFromStr (jsonStr (json_at n ''cpu'')),
       en_Load1m := ParseFloat0 (jsonStr (json_at n ''load_1m'')),
       en_Load5m := ParseFloat0 (jsonStr (json_at n ''load_5m'')),
       en_Load15m := ParseFloat0 (jsonStr (json_at n ''load_15m'')),
       en_Role :=
         (if Contains (jsonStr (json_at n ''node.role'')) ''m'' then ''master'' else ''data'')\<rparr>"

definition esProbe_Run ::
  "(float64 \<Rightarrow> goint) \<Rightarrow> curl_get \<Rightarrow> string \<Rightarrow> string \<Rightarrow> string \<Rightarrow>
     string \<Rightarrow> ESCluster \<Rightarrow> ESCluster \<times> ProbeResult" where
  "esProbe_Run oob curl host port auth target cluster =
     (case curl (health_url auth host port) of
        Inl e \<Rightarrow>
          (cluster\<lparr>ec_Error := ''curl error: '' @ ge_Text e,
                   ec_ErrorClass := class_text (curlErrClass (Some e))\<rparr>,
           \<lparr>pb_Target = target, pb_Latency = 0, pb_Err = Some e,
            pb_ErrClass = curlErrClass (Some e)\<rparr>)
      | Inr out \<Rightarrow>
          let cluster = (case decode_map (scan_json out) of
                           None \<Rightarrow> cluster
                         | Some h \<Rightarrow> set_health oob h cluster);
              cluster = (case curl (nodes_url auth host port) of
                           Inl e \<Rightarrow> cluster
                         | Inr out \<Rightarrow>
                             (case decode_maps (scan_json out) of
                                None \<Rightarrow> cluster
                              | Some ns \<Rightarrow>
                                  cluster\<lparr>ec_Nodes := ec_Nodes cluster @ map es_node ns\<rparr>))
          in (cluster, ok_probe target))"

subsection \<open>The cluster\<close>

fun first_ok :: "ESNodeReach list \<Rightarrow> string" where
  "first_ok [] = []"
| "first_ok (r # rs) = (if er_Status r = ''ok'' then er_IP r else first_ok rs)"

text \<open>\<open>have_curl\<close> says whether the binary is installed.\<close>

definition CollectES ::
  "(float64 \<Rightarrow> goint) \<Rightarrow> bool \<Rightarrow> curl_get \<Rightarrow> nat list \<Rightarrow> Config \<Rightarrow>
     ESCluster list" where
  "CollectES oob have_curl curl sched cfg =
     (if length (cf_ES7IPs cfg) = 0 then []
      else if \<not> have_curl then
        [ESCluster_zero\<lparr>ec_Error := ''curl CLI not available'', ec_ErrorClass := class_text ErrUnknown\<rparr>]
      else
        let port = ''9200'';
            auth = (if cd_ES7Password (cf_Creds cfg) \<noteq> []
                    then ''elastic:'' @ cd_ES7Password (cf_Creds cfg) @ ''@'' else []);
            reach = probeES7Nodes curl sched (cf_ES7IPs cfg) port;
            leader = first_ok reach;
            cluster = ESCluster_zero\<lparr>ec_NodeReachability := reach\<rparr>
        in if leader = [] then
             [cluster\<lparr>ec_Instance := JoinHostPort (cf_ES7IPs cfg ! 0) port,
                      ec_Error := ''all nodes unreachable'',
                      ec_ErrorClass := class_text ErrNetwork\<rparr>]
           else
             let target = JoinHostPort leader port
             in [fst (esProbe_Run oob curl leader port auth target
                        (cluster\<lparr>ec_Instance := target\<rparr>))])"

end
