(* ===== verification/Collect_RabbitMQ.thy ===== *)
theory Collect_RabbitMQ
  imports Collect_Curl "HOL-Library.List_Lexorder" "HOL-Library.Char_ord"
begin

text \<open>
  The RabbitMQ collector (src/collector/rabbitmq.go).  \<open>curl args\<close> is the outcome of the curl
  process for its arguments.
\<close>

type_synonym curl_run = "string list \<Rightarrow> go_error + string"

subsection \<open>The management API\<close>

definition rmq_args :: "string \<Rightarrow> string \<Rightarrow> string \<Rightarrow> string \<Rightarrow> string \<Rightarrow> goint \<Rightarrow> string list" where
  "rmq_args host port user pass endpoint timeoutSec =
     [''-s'', ''-S'', ''--max-time'', Itoa timeoutSec, ''-u'', user @ '':'' @ pass,
      ''-H'', ''Accept: application/json'', ''http://'' @ host @ '':'' @ port @ ''/api/'' @ endpoint]"

text \<open>The error of curl is replaced by a plain text where curl said something on stderr.\<close>

definition rmq_error :: "go_error \<Rightarrow> go_error" where
  "rmq_error err =
     (case ge_Chain err of
        ExitError c stderr # _ \<Rightarrow>
          if length stderr > 0
          then \<lparr>ge_Text = ge_Text err @ '': '' @ TrimSpace stderr, ge_Chain = [OtherError]\<rparr>
          else err
      | _ \<Rightarrow> err)"

definition rmqAPI ::
  "curl_run \<Rightarrow> string \<Rightarrow> string \<Rightarrow> string \<Rightarrow> string \<Rightarrow> string \<Rightarrow> goint \<Rightarrow> go_error + string" where
  "rmqAPI curl host port user pass endpoint timeoutSec0 =
     (let timeoutSec = (if timeoutSec0 \<le> 0 then 60 else timeoutSec0)
      in case curl (rmq_args host port user pass endpoint timeoutSec) of
           Inl err \<Rightarrow> Inl (rmq_error err)
         | Inr out \<Rightarrow>
             (case TrimSpace out of
                [] \<Rightarrow> Inl \<lparr>ge_Text = ''rabbitmq api '' @ endpoint @ '': non-JSON response'',
                          ge_Chain = [OtherError]\<rparr>
              | c # _ \<Rightarrow>
                  if c \<noteq> CHR ''['' \<and> c \<noteq> CHR ''{'' then
                    Inl \<lparr>ge_Text = ''rabbitmq api '' @ endpoint @ '': non-JSON response'',
                         ge_Chain = [OtherError]\<rparr>
                  else Inr out))"

subsection \<open>Nodes\<close>

definition uptime_text :: "goint \<Rightarrow> string" where
  "uptime_text secs =
     Itoa (quot secs 86400) @ ''d '' @ Itoa (quot (remdr secs 86400) 3600) @ ''h ''
       @ Itoa (quot (remdr secs 3600) 60) @ ''m''"

definition rmq_node ::
  "(float64 \<Rightarrow> goint) \<Rightarrow> RabbitMQStatus \<Rightarrow> json_map \<Rightarrow> RabbitMQStatus" where
  "rmq_node oob st n =
     (let alarm = RabbitMQAlarm_zero\<lparr>ra_Node := jsonStr (json_at n ''name'')\<rparr>;
          alarm = alarm\<lparr>ra_MemAlarm := jsonBool (json_at n ''mem_alarm'') (ra_MemAlarm alarm)\<rparr>;
          alarm = alarm\<lparr>ra_DiskFreeAlarm :=
                     jsonBool (json_at n ''disk_free_alarm'') (ra_DiskFreeAlarm alarm)\<rparr>;
          st = (if ra_MemAlarm alarm \<or> ra_DiskFreeAlarm alarm
                then st\<lparr>rs_NodeAlarms := rs_NodeAlarms st @ [alarm]\<rparr> else st);
          st = (case json_at n ''partitions'' of
                  JArr parts \<Rightarrow> if length parts > 0 then st\<lparr>rs_ClusterPartition := True\<rparr> else st
                | _ \<Rightarrow> st)
      in if rs_Uptime st = [] then
           (case json_at n ''uptime'' of
              JNum t \<Rightarrow>
                st\<lparr>rs_Uptime :=
                  uptime_text (goint_of oob (fdiv (ParseFloat0 t) (of_goint 1000)))\<rparr>
            | _ \<Rightarrow> st)
         else st)"

subsection \<open>Connections and queues\<close>

definition abnormal_connection :: "json_map \<Rightarrow> bool" where
  "abnormal_connection c =
     (let state = jsonStr (json_at c ''state'') in state \<noteq> ''running'' \<and> state \<noteq> [])"

definition rmq_connections :: "json_map list \<Rightarrow> RabbitMQStatus \<Rightarrow> RabbitMQStatus" where
  "rmq_connections conns st =
     st\<lparr>rs_TotalConnections := int (length conns),
        rs_AbnormalConnections :=
          rs_AbnormalConnections st + int (length (filter abnormal_connection conns))\<rparr>"

text \<open>The totals per vhost: one entry per vhost, updated in place.\<close>

type_synonym vhost_totals = "(string \<times> RabbitMQVHostSummary) list"

fun add_vhost :: "string \<Rightarrow> goint \<Rightarrow> goint \<Rightarrow> vhost_totals \<Rightarrow> vhost_totals" where
  "add_vhost vhost msgs consumers [] =
     [(vhost, RabbitMQVHostSummary_zero\<lparr>rv_VHost := vhost, rv_Queues := 1,
                rv_Messages := wrap64 msgs, rv_Consumers := wrap64 consumers\<rparr>)]"
| "add_vhost vhost msgs consumers ((v, agg) # totals) =
     (if v = vhost then
        (v, agg\<lparr>rv_Queues := wrap64 (rv_Queues agg + 1),
                rv_Messages := wrap64 (rv_Messages agg + msgs),
                rv_Consumers := wrap64 (rv_Consumers agg + consumers)\<rparr>) # totals
      else (v, agg) # add_vhost vhost msgs consumers totals)"

definition queue_info :: "(float64 \<Rightarrow> goint) \<Rightarrow> json_map \<Rightarrow> RabbitMQQueue" where
  "queue_info oob q =
     RabbitMQQueue_zero\<lparr>rq_VHost := jsonStr (json_at q ''vhost''),
       rq_Queue := jsonStr (json_at q ''name''),
       rq_MessageCount := jsonInt oob (json_at q ''messages''),
       rq_Consumers := jsonInt oob (json_at q ''consumers''),
       rq_Durable := jsonBool (json_at q ''durable'') False\<rparr>"

definition ignored_queue :: "RabbitMQQueue \<Rightarrow> bool" where
  "ignored_queue qi = (rq_VHost qi = ''bk_usermgr'' \<or> HasPrefix (rq_Queue qi) ''celeryev'')"

definition rmq_queue ::
  "(float64 \<Rightarrow> goint) \<Rightarrow> goint \<Rightarrow> string list \<Rightarrow> vhost_totals \<times> RabbitMQStatus \<Rightarrow> json_map \<Rightarrow>
     vhost_totals \<times> RabbitMQStatus" where
  "rmq_queue oob backlogThreshold blacklist acc q =
     (let (totals, st) = acc; qi = queue_info oob q
      in if ignored_queue qi then (totals, st)
         else
           let totals = add_vhost (rq_VHost qi) (rq_MessageCount qi) (rq_Consumers qi) totals;
               st = (if rq_MessageCount qi \<ge> backlogThreshold
                     then st\<lparr>rs_ExceedingQueues := rs_ExceedingQueues st @ [qi]\<rparr> else st);
               st = (if rq_Consumers qi = 0 \<and> rq_MessageCount qi > 0 \<and> rq_VHost qi \<notin> set blacklist
                     then st\<lparr>rs_NoConsumerQueues := rs_NoConsumerQueues st @ [qi]\<rparr> else st)
           in (totals, st))"

definition rmq_queues ::
  "(float64 \<Rightarrow> goint) \<Rightarrow> goint \<Rightarrow> string list \<Rightarrow> json_map list \<Rightarrow> RabbitMQStatus \<Rightarrow>
     RabbitMQStatus" where
  "rmq_queues oob backlogThreshold blacklist queues st =
     (let (totals, st) = foldl (rmq_queue oob backlogThreshold blacklist) ([], st) queues;
          vhosts = sort (map fst totals)
      in st\<lparr>rs_VHostSummary := rs_VHostSummary st @ map (\<lambda>v. the (map_of totals v)) vhosts\<rparr>)"

subsection \<open>The probe\<close>

record rmq_probe =
  rp_host :: string
  rp_port :: string
  rp_user :: string
  rp_pass :: string
  rp_backlog :: goint
  rp_blacklist :: "string list"
  rp_timeout :: goint

definition rmq_call :: "curl_run \<Rightarrow> rmq_probe \<Rightarrow> string \<Rightarrow> go_error + string" where
  "rmq_call curl p endpoint =
     rmqAPI curl (rp_host p) (rp_port p) (rp_user p) (rp_pass p) endpoint (rp_timeout p)"

definition rmqProbe_Run ::
  "(float64 \<Rightarrow> goint) \<Rightarrow> curl_run \<Rightarrow> rmq_probe \<Rightarrow> string \<Rightarrow>
     RabbitMQStatus \<Rightarrow> RabbitMQStatus \<times> ProbeResult" where
  "rmqProbe_Run oob curl p target st =
     (case rmq_call curl p ''nodes?columns=name,mem_alarm,disk_free_alarm,partitions,uptime'' of
        Inl e \<Rightarrow>
          (st\<lparr>rs_Error := ge_Text e, rs_ErrorClass := class_text (curlErrClass (Some e))\<rparr>,
           \<lparr>pb_Target = target, pb_Latency = 0, pb_Err = Some e,
            pb_ErrClass = curlErrClass (Some e)\<rparr>)
      | Inr nodesJSON \<Rightarrow>
          let st = (case decode_maps (scan_json nodesJSON) of
                      None \<Rightarrow> st | Some nodes \<Rightarrow> foldl (rmq_node oob) st nodes);
              st = (case rmq_call curl p ''connections?columns=state'' of
                      Inl e \<Rightarrow> st
                    | Inr connsJSON \<Rightarrow>
                        (case decode_maps (scan_json connsJSON) of
                           None \<Rightarrow> st | Some conns \<Rightarrow> rmq_connections conns st));
              st = (case rmq_call curl p ''channels?columns=name'' of
                      Inl e \<Rightarrow> st
                    | Inr chansJSON \<Rightarrow>
                        (case decode_list (scan_json chansJSON) of
                           None \<Rightarrow> st
                         | Some chans \<Rightarrow> st\<lparr>rs_TotalChannels := int (length chans)\<rparr>));
              st = (case rmq_call curl p
                        (''queues?disable_stats=true&enable_queue_totals=true&''
                          @ ''columns=name,vhost,messages,consumers,durable'') of
                      Inl e \<Rightarrow> st\<lparr>rs_QueuesError := ge_Text e\<rparr>
                    | Inr queuesJSON \<Rightarrow>
                        (case decode_maps (scan_json queuesJSON) of
                           None \<Rightarrow> st
                         | Some queues \<Rightarrow> rmq_queues oob (rp_backlog p) (rp_blacklist p) queues st))
          in (st, ok_probe target))"

definition CollectRabbitMQ ::
  "(float64 \<Rightarrow> goint) \<Rightarrow> bool \<Rightarrow> curl_run \<Rightarrow> Config \<Rightarrow>
     RabbitMQStatus option" where
  "CollectRabbitMQ oob have_curl curl cfg =
     (if length (cf_RabbitMQIPs cfg) = 0 then None
      else if \<not> have_curl then
        Some (RabbitMQStatus_zero\<lparr>rs_Error := ''curl CLI not available'',
                                  rs_ErrorClass := class_text ErrUnknown\<rparr>)
      else
        let host = cf_RabbitMQIPs cfg ! 0;
            port = ''15672'';
            probe =
              \<lparr>rp_host = host, rp_port = port,
               rp_user = cd_RabbitMQUser (cf_Creds cfg), rp_pass = cd_RabbitMQPassword (cf_Creds cfg),
               rp_backlog = th_RabbitMQQueueBacklog (cf_Thresholds cfg),
               rp_blacklist = th_RabbitMQNoConsumerVHostBlacklist (cf_Thresholds cfg),
               rp_timeout =
                 (if cf_RabbitMQAPITimeoutSec cfg \<le> 0 then 60 else cf_RabbitMQAPITimeoutSec cfg)\<rparr>
        in Some (fst (rmqProbe_Run oob curl probe (JoinHostPort host port)
                        RabbitMQStatus_zero)))"

end
