(* ===== verification/Collect_Mongo.thy ===== *)
theory Collect_Mongo
  imports Collect_MySQL
begin

text \<open>
  The MongoDB collector (src/collector/mongo.go).  The driver is an argument: what connecting to a
  URI and the command \<open>replSetGetStatus\<close> answer.
\<close>

text \<open>\<open>url.QueryEscape\<close>\<close>

definition unreserved :: "char \<Rightarrow> bool" where
  "unreserved c = (is_digit c \<or> is_upper c \<or> is_lower c \<or> c \<in> set ''-_.~'')"

definition hex_digit :: "nat \<Rightarrow> char" where
  "hex_digit n = ''0123456789ABCDEF'' ! n"

definition escape_char :: "char \<Rightarrow> string" where
  "escape_char c =
     (if unreserved c then [c]
      else if c = CHR '' '' then ''+''
      else [CHR ''%'', hex_digit (code c div 16), hex_digit (code c mod 16)])"

definition QueryEscape :: "string \<Rightarrow> string" where
  "QueryEscape s = concat (map escape_char s)"

subsection \<open>Errors\<close>

fun as_command_error :: "error_kind list \<Rightarrow> goint option" where
  "as_command_error [] = None"
| "as_command_error (k # ks) =
     (case k of MongoCommandError n \<Rightarrow> Some n | _ \<Rightarrow> as_command_error ks)"

definition classifyMongo :: "go_error option \<Rightarrow> ErrorClass" where
  "classifyMongo err =
     (case err of
        None \<Rightarrow> ErrNone
      | Some e \<Rightarrow>
          (case as_command_error (ge_Chain e) of
             Some n \<Rightarrow> if n = 13 \<or> n = 18 then ErrAuth else ErrProtocol
           | None \<Rightarrow> Classify err))"

interpretation mongo: classifier classifyMongo "\<lambda>e. as_command_error (ge_Chain e) \<noteq> None"
  by unfold_locales (auto simp: classifyMongo_def split: if_splits option.splits)

subsection \<open>The probe\<close>

record rs_member =
  rm_Name :: string
  rm_Health :: goint
  rm_StateStr :: string
  rm_Uptime :: goint
  rm_SyncingTo :: string
  rm_SyncSourceHost :: string

record mongo_driver =
  md_Connect :: "string \<Rightarrow> go_error option"
  md_Status :: "string \<Rightarrow> go_error + rs_member list"

definition mongo_member :: "rs_member \<Rightarrow> MongoMember" where
  "mongo_member m =
     MongoMember_zero\<lparr>gm_Name := rm_Name m, gm_Health := rm_Health m, gm_StateStr := rm_StateStr m,
       gm_Uptime := rm_Uptime m, gm_SyncingTo := rm_SyncingTo m,
       gm_SyncSourceHost := rm_SyncSourceHost m\<rparr>"

definition mongoProbe_Run ::
  "mongo_driver \<Rightarrow> string \<Rightarrow> MongoCluster \<Rightarrow> MongoCluster \<times> ProbeResult" where
  "mongoProbe_Run driver uri cluster =
     (let target = RedactDSN uri;
          failed = (\<lambda>text e. (cluster\<lparr>gc_Error := text @ RedactDSN (ge_Text e),
                                      gc_ErrorClass := class_text (classifyMongo (Some e))\<rparr>,
                              failed_probe target classifyMongo e))
      in case md_Connect driver uri of
           Some e \<Rightarrow> failed ''mongo connect error: '' e
         | None \<Rightarrow>
             (case md_Status driver uri of
                Inl e \<Rightarrow> failed ''replSetGetStatus error: '' e
              | Inr members \<Rightarrow>
                  (cluster\<lparr>gc_Members := gc_Members cluster @ map mongo_member members\<rparr>,
                   ok_probe target)))"

definition mongo_hosts :: "Config \<Rightarrow> string" where
  "mongo_hosts cfg =
     Join (map (\<lambda>ip. ip @ '':'' @ cf_MongoDBPort cfg) (cf_MongoDBIPs cfg)) '',''"

definition mongo_uri :: "Config \<Rightarrow> string" where
  "mongo_uri cfg =
     ''mongodb://'' @ QueryEscape (cd_MongoDBUser (cf_Creds cfg)) @ '':''
       @ QueryEscape (cd_MongoDBPassword (cf_Creds cfg)) @ ''@'' @ mongo_hosts cfg
       @ ''/?replicaSet='' @ QueryEscape (cf_MongoRSName cfg) @ ''&authSource=admin''"

definition CollectMongo :: "mongo_driver \<Rightarrow> Config \<Rightarrow> MongoCluster list" where
  "CollectMongo driver cfg =
     (if length (cf_MongoDBIPs cfg) = 0 then []
      else
        let cluster = MongoCluster_zero\<lparr>gc_Instance :=
                        mongo_hosts cfg @ ''/?replicaSet='' @ cf_MongoRSName cfg\<rparr>
        in [fst (mongoProbe_Run driver (mongo_uri cfg) cluster)])"

subsection \<open>Escaped texts\<close>

lemma special_reserved:
  "\<not> unreserved CHR '':''" "\<not> unreserved CHR ''/''" "\<not> unreserved CHR ''@''"
  "\<not> unreserved CHR 0x09" "\<not> unreserved CHR 0x0A" "\<not> unreserved CHR 0x0C"
  "\<not> unreserved CHR 0x0D" "\<not> unreserved CHR 0x20"
  by code_simp+

lemma hex_digit_unreserved: "n < 16 \<Longrightarrow> unreserved (hex_digit n)"
proof -
  have "list_all (\<lambda>n. unreserved (hex_digit n)) [0..<16]" by code_simp
  then show "n < 16 \<Longrightarrow> unreserved (hex_digit n)" by (simp only: list_all_iff set_upt) auto
qed

lemma plain_chars:
  assumes "unreserved c \<or> c = CHR ''+'' \<or> c = CHR ''%''"
  shows "user_char c \<and> pass_char c"
proof -
  have "c \<noteq> CHR '':'' \<and> c \<noteq> CHR ''/'' \<and> c \<noteq> CHR ''@'' \<and> c \<noteq> CHR 0x09 \<and> c \<noteq> CHR 0x0A \<and>
      c \<noteq> CHR 0x0C \<and> c \<noteq> CHR 0x0D \<and> c \<noteq> CHR 0x20"
    using assms special_reserved by (elim disjE) (metis, simp_all)
  then show ?thesis by (simp add: user_char_def pass_char_def re_space_def)
qed

lemma escape_char_pass: "x \<in> set (escape_char c) \<Longrightarrow> user_char x \<and> pass_char x"
proof -
  assume x: "x \<in> set (escape_char c)"
  have "code c div 16 < 16" "code c mod 16 < 16"
    by (simp_all add: code_def less_mult_imp_div_less)
  then have h: "unreserved (hex_digit (code c div 16))" "unreserved (hex_digit (code c mod 16))"
    by (simp_all add: hex_digit_unreserved)
  have "x = c \<and> unreserved c \<or> x = CHR ''+'' \<or> x = CHR ''%'' \<or> x = hex_digit (code c div 16) \<or>
      x = hex_digit (code c mod 16)"
    using x unfolding escape_char_def by (simp only: set_simps split: if_splits; blast)
  with h have "unreserved x \<or> x = CHR ''+'' \<or> x = CHR ''%''" by metis
  then show ?thesis by (rule plain_chars)
qed

lemma QueryEscape_chars: "x \<in> set (QueryEscape s) \<Longrightarrow> user_char x \<and> pass_char x"
  by (auto simp: QueryEscape_def dest: escape_char_pass)

lemma QueryEscape_Nil: "QueryEscape s = [] \<longleftrightarrow> s = []"
  by (cases s) (simp_all add: QueryEscape_def escape_char_def)

end
