(* ===== verification/Collect_BKDeps.thy ===== *)
theory Collect_BKDeps
  imports Collect_Redis
begin

text \<open>
  The dependency probes of bkmonitorv3 (src/collector/bkmonitor_dep.go).  The machine is an
  argument: which commands it has, what running one gives, and what TCP connections answer.
\<close>

text \<open>A process ends with its output and the text of its error, or is killed at the time-out.\<close>

datatype process = Finished string "string option" | Hangs

record machine =
  mk_Has :: "string \<Rightarrow> bool"
  mk_Run :: "string list \<Rightarrow> process"
  mk_Dial :: "string \<Rightarrow> string option"
  mk_Write :: "string \<Rightarrow> string \<Rightarrow> string option"
  mk_Read :: "string \<Rightarrow> goint \<times> bool"

definition runWithTimeout :: "machine \<Rightarrow> goint \<Rightarrow> string list \<Rightarrow> string \<times> string option" where
  "runWithTimeout mc timeout args =
     (case mk_Run mc args of
        Finished out err \<Rightarrow> (out, err)
      | Hangs \<Rightarrow> ([], Some (''timeout after '' @ Itoa timeout @ ''s'')))"

definition firstLine :: "string \<Rightarrow> string option \<Rightarrow> string" where
  "firstLine out err =
     (let s = TrimSpace out
      in if s = [] then (case err of Some e \<Rightarrow> e | None \<Rightarrow> [])
         else case Index s [CHR 0x0A] of Some i \<Rightarrow> take i s | None \<Rightarrow> s)"

definition dep_result :: "string \<Rightarrow> string \<Rightarrow> string \<Rightarrow> string \<Rightarrow> DependencyResult" where
  "dep_result item endpoint status detail =
     DependencyResult_zero\<lparr>dr_Item := item, dr_Endpoint := endpoint, dr_Status := status,
                           dr_Detail := detail\<rparr>"

definition skipIfMissing :: "string \<Rightarrow> string \<Rightarrow> bool \<Rightarrow> DependencyResult \<times> bool" where
  "skipIfMissing item endpoint missing =
     (if missing then (dep_result item endpoint ''skip'' ''missing config'', True)
      else (DependencyResult_zero, False))"

definition endpoint_of :: "string \<Rightarrow> string \<Rightarrow> string" where
  "endpoint_of host port = host @ '':'' @ port"

subsection \<open>Logins\<close>

definition probeRedisLogin ::
  "machine \<Rightarrow> string \<Rightarrow> string \<Rightarrow> string \<Rightarrow> string \<Rightarrow> DependencyResult" where
  "probeRedisLogin mc item host port password =
     (let endpoint = endpoint_of host port;
          (r, ok) = skipIfMissing item endpoint (host = [] \<or> port = [])
      in if ok then r
         else if \<not> mk_Has mc ''redis-cli'' then
           dep_result item endpoint ''unreachable'' ''redis-cli not available''
         else
           let args = [''-h'', host, ''-p'', port];
               args = (if password \<noteq> [] then args @ [''-a'', password, ''--no-auth-warning'']
                       else args);
               args = args @ [''PING''];
               (out, err) = runWithTimeout mc 5 (''redis-cli'' # args);
               out = TrimSpace out
           in (case err of
                 Some e \<Rightarrow> dep_result item endpoint ''unreachable'' e
               | None \<Rightarrow>
                   if out = ''PONG'' then dep_result item endpoint ''ok'' []
                   else dep_result item endpoint ''fail'' out))"

definition probeMySQLLogin ::
  "machine \<Rightarrow> string \<Rightarrow> string \<Rightarrow> string \<Rightarrow> string \<Rightarrow> string \<Rightarrow> DependencyResult" where
  "probeMySQLLogin mc item host port user password =
     (let endpoint = endpoint_of host port;
          (r, ok) = skipIfMissing item endpoint (host = [] \<or> port = [] \<or> user = [])
      in if ok then r
         else if \<not> mk_Has mc ''mysql'' then
           dep_result item endpoint ''unreachable'' ''mysql CLI not available''
         else
           let args = [''-u'' @ user, ''-p'' @ password, ''-h'' @ host, ''-P'' @ port, ''-N'', ''-s'',
                       ''-e'', ''SELECT 1''];
               (out, err) = runWithTimeout mc 8 (''mysql'' # args)
           in (case err of
                 Some e \<Rightarrow> dep_result item endpoint ''fail'' (firstLine out err)
               | None \<Rightarrow>
                   if TrimSpace out = ''1'' then dep_result item endpoint ''ok'' []
                   else dep_result item endpoint ''fail'' (TrimSpace out)))"

subsection \<open>Connections\<close>

definition amqp_header :: string where
  "amqp_header = ''AMQP'' @ [CHR 0x00, CHR 0x00, CHR 0x09, CHR 0x01]"

definition probeRabbitMQ ::
  "machine \<Rightarrow> string \<Rightarrow> string \<Rightarrow> string \<Rightarrow> string \<Rightarrow> string \<Rightarrow> DependencyResult" where
  "probeRabbitMQ mc item host port user vhost =
     (let endpoint = endpoint_of host port;
          (r, ok) = skipIfMissing item endpoint (host = [] \<or> port = [] \<or> user = []);
          addr = JoinHostPort host port
      in if ok then r
         else case mk_Dial mc addr of
           Some e \<Rightarrow> dep_result item endpoint ''unreachable'' e
         | None \<Rightarrow>
             (case mk_Write mc addr amqp_header of
                Some e \<Rightarrow> dep_result item endpoint ''fail'' e
              | None \<Rightarrow>
                  let (n, failed) = mk_Read mc addr
                  in if failed \<or> n = 0 then dep_result item endpoint ''fail'' ''no AMQP response''
                     else dep_result item endpoint ''ok''
                            (''vhost='' @ vhost @ '' (auth not validated)'')))"

definition probeZookeeper :: "machine \<Rightarrow> string \<Rightarrow> string \<Rightarrow> string \<Rightarrow> DependencyResult" where
  "probeZookeeper mc item host port =
     (let endpoint = endpoint_of host port;
          (r, ok) = skipIfMissing item endpoint (host = [] \<or> port = [])
      in if ok then r
         else case mk_Dial mc (JoinHostPort host port) of
           Some e \<Rightarrow> dep_result item endpoint ''unreachable'' e
         | None \<Rightarrow>
             dep_result item endpoint ''ok'' ''TCP-only probe; 4lw whitelist may exclude ruok'')"

subsection \<open>HTTP\<close>

definition probeES7 ::
  "machine \<Rightarrow> string \<Rightarrow> string \<Rightarrow> string \<Rightarrow> string \<Rightarrow> string \<Rightarrow> DependencyResult" where
  "probeES7 mc item host port user password =
     (let endpoint = endpoint_of host port;
          (r, ok) = skipIfMissing item endpoint (host = [] \<or> port = [])
      in if ok then r
         else if \<not> mk_Has mc ''curl'' then
           dep_result item endpoint ''unreachable'' ''curl not available''
         else
           let url = ''http://'' @ host @ '':'' @ port @ ''/_cluster/health'';
               args = [''-s'', ''--connect-timeout'', ''5'', ''-o'', ''/dev/null'', ''-w'',
                       ''%{http_code}''];
               args = (if user \<noteq> [] then args @ [''-u'', user @ '':'' @ password] else args);
               args = args @ [url];
               (out, err) = runWithTimeout mc 8 (''curl'' # args)
           in (case err of
                 Some e \<Rightarrow> dep_result item endpoint ''unreachable'' e
               | None \<Rightarrow>
                   let status = TrimSpace out
                   in if status = ''200'' then dep_result item endpoint ''ok'' []
                      else if status = ''401'' \<or> status = ''403'' then
                        dep_result item endpoint ''fail'' (''auth failed (HTTP '' @ status @ '')'')
                      else if status = [] \<or> status = ''000'' then
                        dep_result item endpoint ''unreachable'' ''no HTTP response''
                      else dep_result item endpoint ''fail'' (''HTTP '' @ status)))"

definition probeInfluxDB :: "machine \<Rightarrow> string \<Rightarrow> string \<Rightarrow> string \<Rightarrow> DependencyResult" where
  "probeInfluxDB mc item host port =
     (let endpoint = endpoint_of host port;
          (r, ok) = skipIfMissing item endpoint (host = [] \<or> port = [])
      in if ok then r
         else if \<not> mk_Has mc ''curl'' then
           dep_result item endpoint ''unreachable'' ''curl not available''
         else
           let url = ''http://'' @ host @ '':'' @ port @ ''/ping'';
               args = [''-s'', ''--connect-timeout'', ''5'', ''-o'', ''/dev/null'', ''-w'',
                       ''%{http_code}'', url];
               (out, err) = runWithTimeout mc 8 (''curl'' # args)
           in (case err of
                 Some e \<Rightarrow> dep_result item endpoint ''unreachable'' e
               | None \<Rightarrow>
                   let status = TrimSpace out
                   in if status = ''204'' \<or> status = ''200'' then dep_result item endpoint ''ok'' []
                      else if status = [] \<or> status = ''000'' then
                        dep_result item endpoint ''unreachable'' ''no HTTP response''
                      else dep_result item endpoint ''fail'' (''HTTP '' @ status)))"

text \<open>\<open>None\<close> where bkmonitorv3 is not deployed.\<close>

definition CollectBKMonitorV3Deps :: "machine \<Rightarrow> Config \<Rightarrow> DependencyResult list option" where
  "CollectBKMonitorV3Deps mc cfg =
     (if length (cf_MonitorV3IPs cfg) = 0 \<and> length (cf_MonitorV3MonitorIPs cfg) = 0 \<and>
         length (cf_MonitorV3InfluxDBProxyIPs cfg) = 0 \<and>
         length (cf_MonitorV3TransferIPs cfg) = 0 \<and> length (cf_MonitorV3UnifyQueryIPs cfg) = 0
      then None
      else
        let dep = cf_BKMonitorV3 cfg
        in Some
          [probeRedisLogin mc ''redis'' (bd_RedisHost dep) (bd_RedisPort dep) (bd_RedisPassword dep),
           probeMySQLLogin mc ''mysql'' (bd_MySQLHost dep) (bd_MySQLPort dep) (bd_MySQLUser dep)
             (bd_MySQLPassword dep),
           probeRabbitMQ mc ''rabbitmq'' (bd_RabbitMQHost dep) (bd_RabbitMQPort dep)
             (bd_RabbitMQUser dep) (bd_RabbitMQVHost dep),
           probeZookeeper mc ''zookeeper'' (bd_ZKHost dep) (bd_ZKPort dep),
           probeES7 mc ''es7'' (bd_ES7Host dep) (bd_ES7RestPort dep) (bd_ES7User dep)
             (bd_ES7Password dep),
           probeInfluxDB mc ''influxdb'' (bd_InfluxDBHost dep) (bd_InfluxDBPort dep)])"

end
