(* ===== verification/Collect_Registry.thy ===== *)
theory Collect_Registry
  imports Config_Load
begin

text \<open>
  The sub-modules of every BlueKing module (src/collector/service_registry.go).
\<close>

record SubModule =
  sb_Name :: string
  sb_ServiceUnit :: string
  sb_ProcessName :: string
  sb_Port :: goint
  sb_HealthzPath :: string
  sb_HealthzType :: string
  sb_HealthzPort :: goint
  sb_SkipStatusCheck :: bool
  sb_SkipHealthzCheck :: bool

text \<open>An entry without the optional fields.\<close>

definition sub_module ::
  "string \<Rightarrow> string \<Rightarrow> string \<Rightarrow> goint \<Rightarrow> string \<Rightarrow> string \<Rightarrow> SubModule" where
  "sub_module name unit process port path htype =
     \<lparr>sb_Name = name, sb_ServiceUnit = unit, sb_ProcessName = process, sb_Port = port,
      sb_HealthzPath = path, sb_HealthzType = htype, sb_HealthzPort = 0,
      sb_SkipStatusCheck = False, sb_SkipHealthzCheck = False\<rparr>"

definition reg_paas :: "SubModule list" where
  "reg_paas =
     [sub_module ''appengine'' ''bk-paas-appengine''
         ''uwsgi-open_paas-appengine.ini'' 8000 ''/v1/healthz/'' ''http_status'',
      sub_module ''console'' ''bk-paas-console'' ''uwsgi-open_paas-console.ini'' 8004
         ''/console/healthz/'' ''http_status'',
      sub_module ''esb'' ''bk-paas-esb'' ''uwsgi-open_paas-esb.ini'' 8002
         ''/healthz/'' ''http_status'',
      sub_module ''login'' ''bk-paas-login'' ''uwsgi-open_paas-login.ini'' 8003
         ''/healthz/'' ''http_status'',
      sub_module ''paas'' ''bk-paas-paas'' ''uwsgi-open_paas-paas.ini'' 8001
         ''/healthz/'' ''http_status'']"

definition reg_cmdb :: "SubModule list" where
  "reg_cmdb =
     [sub_module ''cmdb-admin'' ''bk-cmdb-admin'' ''cmdb_admin'' 9000 ''/healthz'' ''json_ok'',
      sub_module ''cmdb-api'' ''bk-cmdb-api'' ''cmdb_api'' 9001 ''/healthz'' ''json_ok'',
      sub_module ''cmdb-auth'' ''bk-cmdb-auth'' ''cmdb_auth'' 9002 ''/healthz'' ''json_ok'',
      sub_module ''cmdb-cloud'' ''bk-cmdb-cloud'' ''cmdb_cloud'' 9003 ''/healthz'' ''json_ok'',
      sub_module ''cmdb-core'' ''bk-cmdb-core'' ''cmdb_core'' 9004 ''/healthz'' ''json_ok'',
      sub_module ''cmdb-datacollection'' ''bk-cmdb-datacollection''
         ''cmdb_datacollection'' 9005 ''/healthz'' ''json_ok'',
      sub_module ''cmdb-event'' ''bk-cmdb-event'' ''cmdb_event'' 9006 ''/healthz'' ''json_ok'',
      sub_module ''cmdb-host'' ''bk-cmdb-host'' ''cmdb_host'' 9007 ''/healthz'' ''json_ok'',
      sub_module ''cmdb-operation'' ''bk-cmdb-operation'' ''cmdb_operation'' 9008
         ''/healthz'' ''json_ok'',
      sub_module ''cmdb-proc'' ''bk-cmdb-proc'' ''cmdb_proc'' 9009 ''/healthz'' ''json_ok'',
      sub_module ''cmdb-task'' ''bk-cmdb-task'' ''cmdb_task'' 9011 ''/healthz'' ''json_ok'',
      sub_module ''cmdb-topo'' ''bk-cmdb-topo'' ''cmdb_topo'' 9012 ''/healthz'' ''json_ok'',
      sub_module ''cmdb-web'' ''bk-cmdb-web'' ''cmdb_web'' 9013 ''/healthz'' ''json_ok'',
      sub_module ''cmdb-cache'' ''bk-cmdb-cache'' ''cmdb_cache'' 9014 ''/healthz'' ''json_ok'']"

definition reg_job :: "SubModule list" where
  "reg_job =
     [sub_module ''job-backup'' ''bk-job-backup'' ''job-backup'' 10507
         ''/actuator/health'' ''json_up'',
      sub_module ''job-config'' ''bk-job-config'' ''job-config'' 10500
         ''/actuator/health'' ''json_up'',
      sub_module ''job-crontab'' ''bk-job-crontab'' ''job-crontab'' 10501
         ''/actuator/health'' ''json_up'',
      sub_module ''job-execute'' ''bk-job-execute'' ''job-execute'' 10502
         ''/actuator/health'' ''json_up'',
      sub_module ''job-logsvr'' ''bk-job-logsvr'' ''job-logsvr'' 10504
         ''/actuator/health'' ''json_up'',
      sub_module ''job-manage'' ''bk-job-manage'' ''job-manage'' 10505
         ''/actuator/health'' ''json_up'',
      (sub_module ''job-analysis'' ''bk-job-analysis'' ''job-analysis'' 10508
         ''/actuator/health'' ''json_up'')\<lparr>sb_SkipStatusCheck := True, sb_SkipHealthzCheck := True\<rparr>,
      (sub_module ''job-gateway'' ''bk-job-gateway'' ''job-gateway'' 10503
         ''/actuator/health'' ''json_up'')\<lparr>sb_HealthzPort := 19876\<rparr>]"

definition reg_gse :: "SubModule list" where
  "reg_gse =
     [sub_module ''gse-alarm'' ''bk-gse-alarm'' ''gse_alarm'' 0 [] ''none'',
      sub_module ''gse-api'' ''bk-gse-api'' ''gse_api'' 0 [] ''none'',
      sub_module ''gse-btsvr'' ''bk-gse-btsvr'' ''gse_btsvr'' 0 [] ''none'',
      sub_module ''gse-data'' ''bk-gse-data'' ''gse_data'' 0 [] ''none'',
      sub_module ''gse-dba'' ''bk-gse-dba'' ''gse_dba'' 0 [] ''none'',
      sub_module ''gse-procmgr'' ''bk-gse-procmgr'' ''gse_procmgr'' 0 [] ''none'',
      sub_module ''gse-config'' ''bk-gse-config'' ''gse_config'' 0 [] ''none'',
      sub_module ''gse-task'' ''bk-gse-task'' ''gse_task'' 0 [] ''none'']"

definition reg_appo :: "SubModule list" where
  "reg_appo =
     [sub_module ''bk-paasagent'' ''bk-paasagent'' ''paasagent'' 0 [] ''none'']"

definition reg_appt :: "SubModule list" where
  "reg_appt =
     [sub_module ''bk-paasagent'' ''bk-paasagent'' ''paasagent'' 0 [] ''none'']"

definition reg_iam :: "SubModule list" where
  "reg_iam =
     [sub_module ''bkiam'' ''bk-iam'' ''bkiam'' 5001 ''/healthz'' ''http_status'']"

definition reg_usermgr :: "SubModule list" where
  "reg_usermgr =
     [sub_module ''usermgr'' ''bk-usermgr'' ''usermgr'' 8009 ''/healthz/'' ''http_status'']"

definition reg_nodeman :: "SubModule list" where
  "reg_nodeman =
     [sub_module ''nodeman'' ''bk-nodeman'' ''nodeman'' 10300 ''/'' ''http_alive'']"

definition reg_bkmonitorv3_monitor :: "SubModule list" where
  "reg_bkmonitorv3_monitor =
     [sub_module ''monitor'' ''bk-monitor'' ''supervisord'' 10204 ''/'' ''http_alive'']"

definition reg_bkmonitorv3_influxdb_proxy :: "SubModule list" where
  "reg_bkmonitorv3_influxdb_proxy =
     [sub_module ''influxdb-proxy'' ''bk-influxdb-proxy'' ''influxdb-proxy'' 10203
         ''/'' ''http_alive'']"

definition reg_bkmonitorv3_transfer :: "SubModule list" where
  "reg_bkmonitorv3_transfer =
     [sub_module ''transfer'' ''bk-transfer'' ''transfer'' 10202 ''/'' ''http_alive'']"

definition reg_bkmonitorv3_unify_query :: "SubModule list" where
  "reg_bkmonitorv3_unify_query =
     [sub_module ''unify-query'' ''bk-unify-query'' ''unify-query'' 10206 ''/'' ''http_alive'']"

definition ModuleRegistry :: "(string \<times> SubModule list) list" where
  "ModuleRegistry =
     [(''paas'', reg_paas),
      (''cmdb'', reg_cmdb),
      (''job'', reg_job),
      (''gse'', reg_gse),
      (''appo'', reg_appo),
      (''appt'', reg_appt),
      (''iam'', reg_iam),
      (''usermgr'', reg_usermgr),
      (''nodeman'', reg_nodeman),
      (''bkmonitorv3-monitor'', reg_bkmonitorv3_monitor),
      (''bkmonitorv3-influxdb-proxy'', reg_bkmonitorv3_influxdb_proxy),
      (''bkmonitorv3-transfer'', reg_bkmonitorv3_transfer),
      (''bkmonitorv3-unify-query'', reg_bkmonitorv3_unify_query)]"

text \<open>What the collector relies on: within a module the names are distinct and plain.\<close>

definition plain_sub :: "SubModule \<Rightarrow> bool" where
  "plain_sub sub \<longleftrightarrow>
     sb_Name sub \<noteq> [] \<and> CHR ''='' \<notin> set (sb_Name sub) \<and> CHR 0x0A \<notin> set (sb_Name sub)"

definition plain_subs :: "SubModule list \<Rightarrow> bool" where
  "plain_subs subs \<longleftrightarrow> distinct (map sb_Name subs) \<and> list_all plain_sub subs"

lemma registry_plain: "list_all (\<lambda>(m, subs). plain_subs subs) ModuleRegistry"
  by code_simp

lemma registry_modules: "distinct (map fst ModuleRegistry)"
  by code_simp

end
