(* ===== verification/Collect_Service.thy ===== *)
theory Collect_Service
  imports Collect_Registry Collect_Redis Collect_Host
begin

text \<open>
  The service collector (src/collector/service.go): the batch command for a module on a host, the
  interpretation of its output, and the concurrent collection.  \<open>run host command\<close> is the SSH
  client: the output and the text of the error, if any.
\<close>

type_synonym ssh_run = "string \<Rightarrow> string \<Rightarrow> string \<times> string option"

subsection \<open>The command\<close>

definition quot_mark :: string where
  "quot_mark = [CHR 0x22]"

definition apostrophe :: string where
  "apostrophe = [CHR 0x27]"

definition quoted :: "string \<Rightarrow> string" where
  "quoted s = quot_mark @ s @ quot_mark"

definition echo_marker :: "string \<Rightarrow> string \<Rightarrow> string" where
  "echo_marker kind name = ''echo '' @ quoted (''==='' @ kind @ name @ ''==='') @ ''; ''"

definition hz_http_def :: string where
  "hz_http_def =
     ''hz_http(){ c=$(curl -s --connect-timeout '' @ quoted ''$2'' @ '' -o /dev/null -w ''
       @ quoted ''%{http_code}'' @ '' '' @ quoted ''$1'' @ '' 2>/dev/null); [ -n '' @ quoted ''$c''
       @ '' ] && [ '' @ quoted ''$c'' @ '' != '' @ quoted ''000'' @ '' ] && echo '' @ quoted ''$c''
       @ ''; }''"

definition hz_body_def :: string where
  "hz_body_def =
     ''hz_body(){ b=$(curl -s --connect-timeout '' @ quoted ''$2'' @ '' '' @ quoted ''$1''
       @ '' 2>/dev/null); [ -n '' @ quoted ''$b'' @ '' ] && echo '' @ quoted ''$b'' @ ''; }''"

definition status_cmd :: "SubModule \<Rightarrow> string" where
  "status_cmd sub =
     echo_marker ''SVC_'' (sb_Name sub) @ ''systemctl show '' @ sb_ServiceUnit sub
       @ ''.service --property=ActiveState,MainPID,ExecMainStartTimestamp 2>/dev/null || echo ''
       @ quoted ''ActiveState=not-found''"

definition healthz_probe :: "string \<Rightarrow> string \<Rightarrow> string \<Rightarrow> SubModule \<Rightarrow> string" where
  "healthz_probe func timeout host sub =
     (let hzPort = (if sb_HealthzPort sub = 0 then sb_Port sub else sb_HealthzPort sub);
          one = (\<lambda>addr. func @ '' http://'' @ addr @ '':'' @ Itoa hzPort @ sb_HealthzPath sub @ '' ''
                          @ timeout)
      in echo_marker ''HZ_'' (sb_Name sub) @ one ''127.0.0.1'' @ '' || '' @ one host
           @ '' || echo unreachable'')"

definition healthz_cmd :: "string \<Rightarrow> SubModule \<Rightarrow> string" where
  "healthz_cmd host sub =
     (if sb_HealthzType sub = ''http_status'' \<or> sb_HealthzType sub = ''http_alive''
      then healthz_probe ''hz_http'' ''2'' host sub
      else if sb_HealthzType sub = ''json_ok'' then healthz_probe ''hz_body'' ''2'' host sub
      else if sb_HealthzType sub = ''json_up'' then healthz_probe ''hz_body'' ''5'' host sub
      else echo_marker ''HZ_'' (sb_Name sub) @ ''echo '' @ quoted ''N/A'')"

definition worker_cmd :: "SubModule \<Rightarrow> string" where
  "worker_cmd sub =
     echo_marker ''WK_'' (sb_Name sub) @ ''ps -ef | grep '' @ apostrophe @ sb_ProcessName sub
       @ apostrophe @ '' | grep -v grep | wc -l''"

definition sub_cmds :: "string \<Rightarrow> SubModule \<Rightarrow> string list" where
  "sub_cmds host sub =
     (if \<not> sb_SkipStatusCheck sub then [status_cmd sub] else []) @
     (if sb_SkipHealthzCheck sub then [] else [healthz_cmd host sub]) @
     [worker_cmd sub]"

definition docker_cmd :: string where
  "docker_cmd =
     ''echo '' @ quoted ''===DOCKER==='' @ ''; docker ps -a --format '' @ apostrophe
       @ ''{{.Status}}'' @ apostrophe @ '' 2>/dev/null || echo '' @ quoted ''docker_unavailable''"

definition has_docker :: "string \<Rightarrow> bool" where
  "has_docker mname = (mname = ''appo'' \<or> mname = ''appt'')"

definition service_cmd :: "string \<Rightarrow> string \<Rightarrow> SubModule list \<Rightarrow> string" where
  "service_cmd mname host subs =
     Join ([hz_http_def, hz_body_def] @ concat (map (sub_cmds host) subs) @
           (if has_docker mname then [docker_cmd] else [])) ''; ''"

subsection \<open>Reading the output\<close>

text \<open>The map is a list of pairs, the newest first.\<close>

definition property_line :: "info \<Rightarrow> string \<Rightarrow> info" where
  "property_line props line0 =
     (let line = TrimSpace line0
      in case Index line ''='' of
           None \<Rightarrow> props
         | Some i \<Rightarrow> if i > 0 then (take i line, drop (i + 1) line) # props else props)"

definition parseProperties :: "string \<Rightarrow> info" where
  "parseProperties output = foldl property_line [] (Split output [CHR 0x0A])"

definition set_status :: "string \<Rightarrow> ServiceModule \<Rightarrow> ServiceModule" where
  "set_status svc sm =
     (let props = parseProperties svc;
          active = info_get props ''ActiveState''
      in sm\<lparr>sm_Status := (if active = [] then ''unknown'' else active),
            sm_MainPID := Atoi0 (info_get props ''MainPID''),
            sm_StartTime := info_get props ''ExecMainStartTimestamp''\<rparr>)"

definition healthz_verdict :: "string \<Rightarrow> string \<Rightarrow> string" where
  "healthz_verdict htype hz0 =
     (let hz = TrimSpace hz0
      in if htype = ''http_status'' then (if hz = ''200'' then ''ok'' else hz)
         else if htype = ''http_alive'' then
           (if hz = ''unreachable'' \<or> hz = [] then ''unreachable'' else ''ok'')
         else if htype = ''json_ok'' then
           (if Contains hz (quoted ''ok'') \<and> (Contains hz ''true'' \<or> Contains hz ''True'') then ''ok''
            else if hz = ''unreachable'' then ''unreachable'' else ''fail'')
         else if htype = ''json_up'' then
           (if Contains (ToUpper hz) (quoted ''UP'') then ''ok''
            else if hz = ''unreachable'' then ''unreachable'' else ''fail'')
         else ''N/A'')"

definition service_module :: "(string \<Rightarrow> string option) \<Rightarrow> SubModule \<Rightarrow> ServiceModule" where
  "service_module sections sub =
     (let sm = ServiceModule_zero\<lparr>sm_Module := sb_Name sub\<rparr>;
          sm = (if sb_SkipStatusCheck sub then sm
                else case sections (''SVC_'' @ sb_Name sub) of
                       None \<Rightarrow> sm | Some svc \<Rightarrow> set_status svc sm);
          sm = (if sb_SkipHealthzCheck sub then sm\<lparr>sm_HealthzAPI := ''N/A''\<rparr>
                else case sections (''HZ_'' @ sb_Name sub) of
                       None \<Rightarrow> sm
                     | Some hz \<Rightarrow> sm\<lparr>sm_HealthzAPI := healthz_verdict (sb_HealthzType sub) hz\<rparr>);
          sm = (case sections (''WK_'' @ sb_Name sub) of
                  None \<Rightarrow> sm | Some wk \<Rightarrow> sm\<lparr>sm_Workers := Atoi0 (TrimSpace wk)\<rparr>)
      in sm\<lparr>sm_Resolved := ''N/A''\<rparr>)"

definition container_line :: "ServiceStatus \<Rightarrow> string \<Rightarrow> ServiceStatus" where
  "container_line st line0 =
     (let line = TrimSpace line0
      in if HasPrefix line ''Up'' then st\<lparr>ss_ContainersUp := ss_ContainersUp st + 1\<rparr>
         else if HasPrefix line ''Exited'' then
           st\<lparr>ss_ContainersExited := ss_ContainersExited st + 1\<rparr>
         else st)"

definition read_services ::
  "(string \<Rightarrow> string option) \<Rightarrow> SubModule list \<Rightarrow> ServiceStatus \<Rightarrow> ServiceStatus" where
  "read_services sections subs st =
     (let st = st\<lparr>ss_Services := ss_Services st @ map (service_module sections) subs\<rparr>
      in case sections ''DOCKER'' of
           None \<Rightarrow> st
         | Some docker \<Rightarrow> foldl container_line st (Split docker [CHR 0x0A]))"

definition collectServiceOnHost ::
  "ssh_run \<Rightarrow> string \<Rightarrow> string \<Rightarrow> SubModule list \<Rightarrow> ServiceStatus" where
  "collectServiceOnHost run mname host subs =
     (let status = ServiceStatus_zero\<lparr>ss_HostIP := host, ss_Module := mname\<rparr>
      in case run host (service_cmd mname host subs) of
           (out, err) \<Rightarrow>
             if err \<noteq> None \<and> out = [] then
               status\<lparr>ss_Error := ''SSH error: '' @ the err\<rparr>
             else read_services (parseSections out) subs status)"

subsection \<open>All modules\<close>

type_synonym service_job = "string \<times> string \<times> SubModule list"

definition service_jobs :: "Config \<Rightarrow> service_job list" where
  "service_jobs cfg =
     concat (map (\<lambda>mh. case map_of ModuleRegistry (mh_Module mh) of
                         None \<Rightarrow> []
                       | Some subs \<Rightarrow> map (\<lambda>ip. (mh_Module mh, ip, subs)) (mh_IPs mh))
               (filter (\<lambda>mh. length (mh_IPs mh) \<noteq> 0) (GetModuleHosts cfg)))"

text \<open>\<open>results[module] = append (results[module], status)\<close>, under the mutex.\<close>

type_synonym service_results = "(string \<times> ServiceStatus list) list"

fun append_result :: "string \<Rightarrow> ServiceStatus \<Rightarrow> service_results \<Rightarrow> service_results" where
  "append_result mname status [] = [(mname, [status])]"
| "append_result mname status ((m, sts) # results) =
     (if m = mname then (m, sts @ [status]) # results
      else (m, sts) # append_result mname status results)"

definition service_task :: "ssh_run \<Rightarrow> service_results \<Rightarrow> service_job \<Rightarrow> service_results" where
  "service_task run results job =
     (case job of (mname, host, subs) \<Rightarrow>
        append_result mname (collectServiceOnHost run mname host subs) results)"

text \<open>\<open>sched\<close> is the order in which the goroutines take the mutex.\<close>

definition CollectAllServices :: "ssh_run \<Rightarrow> nat list \<Rightarrow> Config \<Rightarrow> service_results" where
  "CollectAllServices run sched cfg =
     foldl (service_task run) [] (map (\<lambda>i. service_jobs cfg ! i) sched)"

subsection \<open>The results by module\<close>

lemma append_result_lookup:
  "map_of (append_result mname status results) m =
     (if m = mname then Some ((case map_of results m of None \<Rightarrow> [] | Some sts \<Rightarrow> sts) @ [status])
      else map_of results m)"
  by (induction results) auto

lemma append_result_keys:
  "fst ` set (append_result mname status results) = insert mname (fst ` set results)"
proof (induction results)
  case (Cons r results)
  then show ?case by (cases r; cases "fst r = mname") auto
qed simp

lemma append_result_distinct:
  "distinct (map fst results) \<Longrightarrow> distinct (map fst (append_result mname status results))"
proof (induction results)
  case (Cons r results)
  have "fst r \<notin> fst ` set (append_result mname status results)" if "fst r \<noteq> mname"
    using that Cons.prems by (simp add: append_result_keys)
  with Cons show ?case by (cases r) auto
qed simp

definition job_status :: "ssh_run \<Rightarrow> service_job \<Rightarrow> ServiceStatus" where
  "job_status run job = (case job of (mname, host, subs) \<Rightarrow> collectServiceOnHost run mname host subs)"

lemma service_tasks_lookup:
  "(case map_of (foldl (service_task run) results jobs) m of None \<Rightarrow> [] | Some sts \<Rightarrow> sts) =
     (case map_of results m of None \<Rightarrow> [] | Some sts \<Rightarrow> sts) @
       map (job_status run) (filter (\<lambda>job. fst job = m) jobs)"
  by (induction jobs arbitrary: results)
    (auto simp: service_task_def job_status_def append_result_lookup split: prod.splits)

lemma service_tasks_keys:
  "fst ` set (foldl (service_task run) results jobs) = fst ` set results \<union> fst ` set jobs"
proof (induction jobs arbitrary: results)
  case (Cons job jobs)
  have "fst ` set (service_task run results job) = insert (fst job) (fst ` set results)"
    by (cases job) (simp add: service_task_def append_result_keys)
  with Cons show ?case by simp
qed simp

lemma service_tasks_distinct:
  "distinct (map fst results) \<Longrightarrow> distinct (map fst (foldl (service_task run) results jobs))"
  by (induction jobs arbitrary: results)
    (auto simp: service_task_def append_result_distinct split: prod.splits)

lemma scheduled_jobs:
  "mset sched = mset [0..<length jobs] \<Longrightarrow> mset (map (\<lambda>i. jobs ! i) sched) = mset jobs"
  by (metis map_nth mset_map)

end
