(* ===== verification/Ssh_Client.thy ===== *)
theory Ssh_Client
  imports Notify_Config
begin

text \<open>
  The SSH client (src/ssh/client.go): choosing the authentication methods, the address, wrapping a
  command for sudo, and what a run returns.  The SSH library, the agent and the key files are
  arguments.
\<close>

subsection \<open>Authentication\<close>

text \<open>A key file that cannot be read, or is no key, and the agent's socket.\<close>

datatype key_file = Unreadable | NotAKey | Key string

datatype auth_method = PublicKeys string | AgentKeys

datatype auth_error = ReadKeyFailed string | ParseKeyFailed string | NoMethods

record auth_world =
  aw_File :: "string \<Rightarrow> key_file"
  aw_AgentDial :: "string \<Rightarrow> bool"

definition default_key_files :: "string list" where
  "default_key_files = [''id_rsa'', ''id_ecdsa'', ''id_ed25519'']"

definition explicit_key :: "auth_world \<Rightarrow> string \<Rightarrow> auth_error + auth_method list" where
  "explicit_key w keyPath =
     (if keyPath = [] then Inr []
      else case aw_File w keyPath of
             Unreadable \<Rightarrow> Inl (ReadKeyFailed keyPath)
           | NotAKey \<Rightarrow> Inl (ParseKeyFailed keyPath)
           | Key k \<Rightarrow> Inr [PublicKeys k])"

definition default_key :: "auth_world \<Rightarrow> string \<Rightarrow> string \<Rightarrow> auth_method list" where
  "default_key w home name =
     (case aw_File w (path_join [home, ''.ssh'', name]) of Key k \<Rightarrow> [PublicKeys k] | _ \<Rightarrow> [])"

definition buildAuthMethods ::
  "environment \<Rightarrow> auth_world \<Rightarrow> string \<Rightarrow> auth_error + auth_method list" where
  "buildAuthMethods env w keyPath =
     bindE (explicit_key w keyPath) (\<lambda>methods.
       let sock = Getenv env ''SSH_AUTH_SOCK'';
           methods = (if sock \<noteq> [] \<and> aw_AgentDial w sock then methods @ [AgentKeys] else methods);
           home = Getenv env ''HOME'';
           methods = (if home = [] then methods
                      else methods @ concat (map (default_key w home) default_key_files))
       in if length methods = 0 then Inl NoMethods else Inr methods)"

subsection \<open>The client\<close>

record ssh_client =
  sl_User :: string
  sl_Port :: goint
  sl_UseSudo :: bool
  sl_Auth :: "auth_method list"

definition New ::
  "environment \<Rightarrow> auth_world \<Rightarrow> string \<Rightarrow> goint \<Rightarrow> string \<Rightarrow> bool \<Rightarrow> auth_error + ssh_client" where
  "New env w user port keyPath useSudo =
     bindE (buildAuthMethods env w keyPath) (\<lambda>authMethods.
       Inr \<lparr>sl_User = user, sl_Port = (if port = 0 then 22 else port), sl_UseSudo = useSudo,
            sl_Auth = authMethods\<rparr>)"

definition ssh_addr :: "ssh_client \<Rightarrow> string \<Rightarrow> string" where
  "ssh_addr c host = (if \<not> Contains host '':'' then host @ '':'' @ Itoa (sl_Port c) else host)"

text \<open>Every apostrophe becomes: end of the quote, an escaped apostrophe, start of a quote.\<close>

definition escape_quotes :: "string \<Rightarrow> string" where
  "escape_quotes command =
     ReplaceByte command CHR 0x27 [CHR 0x27, CHR 0x5C, CHR 0x27, CHR 0x27]"

definition sudo_command :: "string \<Rightarrow> string" where
  "sudo_command command =
     ''sudo bash -c '' @ [CHR 0x27] @ escape_quotes command @ [CHR 0x27]"

text \<open>How a session ends: in time with its output and error, or not in time.\<close>

datatype session_end = Ended string "string option" | TimedOut string

record ssh_net =
  sw_Dial :: "string \<Rightarrow> string option"
  sw_Session :: "string \<Rightarrow> string option"
  sw_Exec :: "string \<Rightarrow> string \<Rightarrow> session_end"

definition RunContext :: "ssh_net \<Rightarrow> ssh_client \<Rightarrow> string \<Rightarrow> string \<Rightarrow> string \<times> string option" where
  "RunContext net c host command =
     (let addr = ssh_addr c host
      in case sw_Dial net addr of
           Some e \<Rightarrow> ([], Some (''ssh dial '' @ host @ '': '' @ e))
         | None \<Rightarrow>
             (case sw_Session net addr of
                Some e \<Rightarrow> ([], Some (''ssh session '' @ host @ '': '' @ e))
              | None \<Rightarrow>
                  let command = (if sl_UseSudo c then sudo_command command else command)
                  in (case sw_Exec net addr command of
                        TimedOut e \<Rightarrow> ([], Some (''ssh exec timeout on '' @ host @ '': '' @ e))
                      | Ended out err \<Rightarrow> (out, err))))"

subsection \<open>How a shell reads the words of a command\<close>

text \<open>
  POSIX word splitting for the characters that occur: blanks separate words, an apostrophe quotes
  up to the next one, a backslash quotes one character.  Any other special character is rejected.
\<close>

definition word_char :: "char \<Rightarrow> bool" where
  "word_char c = (is_digit c \<or> is_lower c \<or> is_upper c \<or> c \<in> set ''-_./:'')"

fun shell_words :: "string option \<Rightarrow> string \<Rightarrow> string list option"
  and shell_quoted :: "string \<Rightarrow> string \<Rightarrow> string list option" where
  "shell_words cur [] = Some (case cur of None \<Rightarrow> [] | Some w \<Rightarrow> [w])"
| "shell_words cur (c # cs) =
     (let w = (case cur of None \<Rightarrow> [] | Some w \<Rightarrow> w)
      in if c = CHR 0x20 then
           (case cur of
              None \<Rightarrow> shell_words None cs
            | Some w \<Rightarrow> map_option (Cons w) (shell_words None cs))
         else if c = CHR 0x27 then shell_quoted w cs
         else if c = CHR 0x5C then
           (case cs of [] \<Rightarrow> None | d # ds \<Rightarrow> shell_words (Some (w @ [d])) ds)
         else if word_char c then shell_words (Some (w @ [c])) cs
         else None)"
| "shell_quoted w [] = None"
| "shell_quoted w (c # cs) =
     (if c = CHR 0x27 then shell_words (Some w) cs else shell_quoted (w @ [c]) cs)"

lemma shell_quoted_escape:
  "shell_quoted w (escape_quotes s @ CHR 0x27 # rest) = shell_words (Some (w @ s)) rest"
proof (induction s arbitrary: w)
  case Nil
  then show ?case by (simp add: escape_quotes_def ReplaceByte_def)
next
  case (Cons c s)
  then show ?case
    by (cases "c = CHR 0x27") (simp_all add: escape_quotes_def ReplaceByte_def)
qed

lemma shell_prefix:
  "shell_words None (''sudo bash -c '' @ CHR 0x27 # s) =
     map_option (\<lambda>ws. ''sudo'' # ''bash'' # ''-c'' # ws) (shell_quoted [] s)"
  by (simp add: word_char_def is_digit_def is_lower_def is_upper_def code_def option.map_comp comp_def)

text \<open>
  C21. Quoting for sudo is exact: a shell reads the wrapped command as four words, the last of
  which is the original command, whatever it contains.
\<close>

theorem sudo_command_roundtrip:
  "shell_words None (sudo_command cmd) = Some [''sudo'', ''bash'', ''-c'', cmd]"
proof -
  have "sudo_command cmd = ''sudo bash -c '' @ CHR 0x27 # (escape_quotes cmd @ CHR 0x27 # [])"
    by (simp add: sudo_command_def)
  then show ?thesis
    by (simp only: shell_prefix shell_quoted_escape) simp
qed

end
