(* ===== verification/Instance_Lock.thy ===== *)
theory Instance_Lock
  imports Prelude
begin

text \<open>
  The single-instance lock (src/lock/lock.go) and how the command line uses it (src/main.go):
  processes that start, try the lock, run and end in any order.
\<close>

subsection \<open>Acquiring\<close>

datatype flock_result = FlockOK | WouldBlock | FlockError

datatype acquire_error = EnsureDirFailed | OpenLockFailed | ErrBusy | FlockFailed

record lock_calls =
  lk_Mkdir :: bool
  lk_Open :: bool
  lk_Flock :: flock_result

definition Acquire :: "lock_calls \<Rightarrow> acquire_error + unit" where
  "Acquire os =
     (if \<not> lk_Mkdir os then Inl EnsureDirFailed
      else if \<not> lk_Open os then Inl OpenLockFailed
      else case lk_Flock os of
             FlockOK \<Rightarrow> Inr ()
           | WouldBlock \<Rightarrow> Inl ErrBusy
           | FlockError \<Rightarrow> Inl FlockFailed)"

text \<open>What the caller makes of it: go on with the lock, leave, or go on without it.\<close>

datatype lock_answer = WithLock | LeaveBusy | WithoutLock

definition lock_verdict :: "acquire_error + unit \<Rightarrow> lock_answer" where
  "lock_verdict r =
     (case r of
        Inr u \<Rightarrow> WithLock
      | Inl e \<Rightarrow> if e = ErrBusy then LeaveBusy else WithoutLock)"

subsection \<open>Processes\<close>

text \<open>
  The kernel gives the lock to one open file at a time, answers \<open>EWOULDBLOCK\<close> exactly while another
  one has it, and releases it when its owner releases it or dies.  Other faults may happen at any
  time.
\<close>

datatype phase = Running bool | Ended

record 'p system =
  sy_Owner :: "'p option"
  sy_Phase :: "'p \<Rightarrow> phase option"

definition kernel_flock :: "'p system \<Rightarrow> flock_result \<Rightarrow> bool" where
  "kernel_flock s r \<longleftrightarrow>
     (case r of
        FlockOK \<Rightarrow> sy_Owner s = None
      | WouldBlock \<Rightarrow> sy_Owner s \<noteq> None
      | FlockError \<Rightarrow> True)"

definition enter :: "'p \<Rightarrow> lock_calls \<Rightarrow> 'p system \<Rightarrow> 'p system" where
  "enter p os s =
     (case lock_verdict (Acquire os) of
        WithLock \<Rightarrow> s\<lparr>sy_Owner := Some p, sy_Phase := (sy_Phase s)(p \<mapsto> Running True)\<rparr>
      | LeaveBusy \<Rightarrow> s\<lparr>sy_Phase := (sy_Phase s)(p \<mapsto> Ended)\<rparr>
      | WithoutLock \<Rightarrow> s\<lparr>sy_Phase := (sy_Phase s)(p \<mapsto> Running False)\<rparr>)"

definition leave :: "'p \<Rightarrow> 'p system \<Rightarrow> 'p system" where
  "leave p s =
     s\<lparr>sy_Owner := (if sy_Owner s = Some p then None else sy_Owner s),
       sy_Phase := (sy_Phase s)(p \<mapsto> Ended)\<rparr>"

inductive lock_step :: "'p system \<Rightarrow> 'p system \<Rightarrow> bool" where
  start: "sy_Phase s p = None \<Longrightarrow> kernel_flock s (lk_Flock os) \<Longrightarrow> lock_step s (enter p os s)"
| finish: "sy_Phase s p = Some (Running locked) \<Longrightarrow> lock_step s (leave p s)"

inductive_cases lock_stepE: "lock_step s s'"

inductive lock_reached :: "'p system \<Rightarrow> bool" where
  boot: "lock_reached \<lparr>sy_Owner = None, sy_Phase = Map.empty\<rparr>"
| step: "lock_reached s \<Longrightarrow> lock_step s s' \<Longrightarrow> lock_reached s'"

subsection \<open>The invariant\<close>

definition lock_inv :: "'p system \<Rightarrow> bool" where
  "lock_inv s \<longleftrightarrow> (\<forall>p. sy_Owner s = Some p \<longleftrightarrow> sy_Phase s p = Some (Running True))"

lemma Acquire_cases:
  "lock_verdict (Acquire os) = WithLock \<longleftrightarrow> lk_Mkdir os \<and> lk_Open os \<and> lk_Flock os = FlockOK"
  "lock_verdict (Acquire os) = LeaveBusy \<longleftrightarrow> lk_Mkdir os \<and> lk_Open os \<and> lk_Flock os = WouldBlock"
  by (auto simp: Acquire_def lock_verdict_def split: flock_result.splits)

lemma enter_inv:
  assumes "lock_inv s" "sy_Phase s p = None" "kernel_flock s (lk_Flock os)"
  shows "lock_inv (enter p os s)"
proof (cases "lock_verdict (Acquire os)")
  case WithLock
  then have "sy_Owner s = None"
    using assms(3) by (simp add: Acquire_cases kernel_flock_def)
  with assms WithLock show ?thesis by (auto simp: lock_inv_def enter_def)
qed (use assms in \<open>auto simp: lock_inv_def enter_def\<close>)

lemma leave_inv: "lock_inv s \<Longrightarrow> lock_inv (leave p s)"
  by (auto simp: lock_inv_def leave_def) (metis option.inject)

lemma lock_reached_inv: "lock_reached s \<Longrightarrow> lock_inv s"
proof (induction rule: lock_reached.induct)
  case boot
  then show ?case by (simp add: lock_inv_def)
next
  case (step s s')
  from step(2) show ?case
    by (cases rule: lock_stepE) (use step(3) enter_inv leave_inv in auto)
qed

text \<open>
  C16. One instance at a time: in every reachable state at most one process runs with the lock,
  and it is the owner; a process that starts while another has the lock either leaves at once or
  runs without the lock, the latter only when a call other than the flock contention failed; and
  after the owner has ended, however it ended, a process whose calls succeed gets the lock.
\<close>

theorem single_instance:
  assumes "lock_reached s"
  shows "(sy_Phase s p = Some (Running True) \<longrightarrow> sy_Phase s q = Some (Running True) \<longrightarrow> p = q) \<and>
    (sy_Phase s p = Some (Running True) \<longrightarrow> kernel_flock s (lk_Flock os) \<longrightarrow>
       sy_Phase (enter q os s) q = Some Ended \<or>
       sy_Phase (enter q os s) q = Some (Running False) \<and>
         (\<not> lk_Mkdir os \<or> \<not> lk_Open os \<or> lk_Flock os = FlockError)) \<and>
    (sy_Phase s p = Some (Running True) \<longrightarrow> lk_Mkdir os \<longrightarrow> lk_Open os \<longrightarrow>
       kernel_flock (leave p s) (lk_Flock os) \<longrightarrow> lk_Flock os \<noteq> FlockError \<longrightarrow>
       sy_Phase (enter q os (leave p s)) q = Some (Running True))"
proof -
  have inv: "lock_inv s" by (rule lock_reached_inv) (rule assms)
  have owner: "sy_Phase s p = Some (Running True) \<Longrightarrow> sy_Owner s = Some p" for p
    using inv by (simp add: lock_inv_def)
  have free: "sy_Owner (leave p s) = None" if "sy_Phase s p = Some (Running True)"
    using owner [OF that] by (simp add: leave_def)
  have busy: "lock_verdict (Acquire os) \<noteq> WithLock"
    if "sy_Phase s p = Some (Running True)" "kernel_flock s (lk_Flock os)"
    using owner [OF that(1)] that(2) by (auto simp: Acquire_cases kernel_flock_def)
  show ?thesis
  proof (intro conjI impI)
    show "p = q" if "sy_Phase s p = Some (Running True)" "sy_Phase s q = Some (Running True)"
      using owner [OF that(1)] owner [OF that(2)] by simp
    show "sy_Phase (enter q os s) q = Some Ended \<or>
       sy_Phase (enter q os s) q = Some (Running False) \<and>
         (\<not> lk_Mkdir os \<or> \<not> lk_Open os \<or> lk_Flock os = FlockError)"
      if h: "sy_Phase s p = Some (Running True)" "kernel_flock s (lk_Flock os)"
      using busy [OF h]
      by (cases "lock_verdict (Acquire os)"; cases "lk_Flock os")
        (auto simp: enter_def Acquire_cases, auto simp: Acquire_def lock_verdict_def split: if_splits)
    show "sy_Phase (enter q os (leave p s)) q = Some (Running True)"
      if h: "sy_Phase s p = Some (Running True)" "lk_Mkdir os" "lk_Open os"
        "kernel_flock (leave p s) (lk_Flock os)" "lk_Flock os \<noteq> FlockError"
    proof -
      have "lk_Flock os = FlockOK"
        using free [OF h(1)] h(4,5) by (cases "lk_Flock os") (auto simp: kernel_flock_def)
      with h(2,3) have "lock_verdict (Acquire os) = WithLock" by (simp add: Acquire_cases)
      then show ?thesis by (simp add: enter_def)
    qed
  qed
qed

definition good_calls :: lock_calls where
  "good_calls = \<lparr>lk_Mkdir = True, lk_Open = True, lk_Flock = FlockOK\<rparr>"

theorem single_instance_witness:
  "let s = enter (1 :: nat) good_calls \<lparr>sy_Owner = None, sy_Phase = Map.empty\<rparr> in
   sy_Phase s 1 = Some (Running True) \<and>
   sy_Phase (enter 2 (good_calls\<lparr>lk_Flock := WouldBlock\<rparr>) s) 2 = Some Ended \<and>
   sy_Phase (enter 2 good_calls (leave 1 s)) 2 = Some (Running True)"
proof -
  let ?boot = "\<lparr>sy_Owner = None, sy_Phase = Map.empty\<rparr> :: nat system"
  let ?s = "enter 1 good_calls ?boot"
  have "lock_step ?boot ?s"
    by (rule lock_step.start) (simp_all add: kernel_flock_def good_calls_def)
  then have r: "lock_reached ?s" by (rule lock_reached.step [OF lock_reached.boot])
  have own: "sy_Owner ?s = Some 1" "sy_Phase ?s 1 = Some (Running True)"
    by (simp_all add: enter_def good_calls_def Acquire_def lock_verdict_def)
  from single_instance [OF r, of 1 2 "good_calls\<lparr>lk_Flock := WouldBlock\<rparr>"]
    single_instance [OF r, of 1 2 good_calls] own
  show ?thesis by (simp add: kernel_flock_def good_calls_def leave_def)
qed

end
