(* ===== verification/Render_Funcs.thy ===== *)
theory Render_Funcs
  imports Check_Base
begin

text \<open>
  The functions the templates call (src/render/templates.go) and the rendering itself
  (src/render/html.go), in which parsing and executing the templates are arguments.
\<close>

definition statusColor :: "string \<Rightarrow> string" where
  "statusColor status = (if status = ''ok'' then ''green'' else ''red'')"

definition checkColor :: "string \<Rightarrow> string" where
  "checkColor status = (if status = ''ok'' then ''#27ae60'' else ''#e74c3c'')"

definition esStatusColor :: "string \<Rightarrow> string" where
  "esStatusColor status =
     (if status = ''green'' then ''#27ae60''
      else if status = ''yellow'' then ''#f39c12'' else ''#e74c3c'')"

text \<open>A negative length panics.\<close>

definition seq :: "goint \<Rightarrow> goint list option" where
  "seq n = (if n < 0 then None else Some (map int [0..<nat n]))"

definition add_ints :: "goint \<Rightarrow> goint \<Rightarrow> goint" where
  "add_ints a b = wrap64 (a + b)"

fun findCheck :: "CheckResult list \<Rightarrow> string \<Rightarrow> CheckResult" where
  "findCheck [] field = mk_check field ''N/A'' StatusOK []"
| "findCheck (c # cs) field = (if cr_Field c = field then c else findCheck cs field)"

definition list_args :: "string list \<Rightarrow> string list" where
  "list_args args = args"

definition statusClass :: "CheckStatus \<Rightarrow> string" where
  "statusClass s =
     (case s of
        StatusOK \<Rightarrow> ''status-ok''
      | StatusWarn \<Rightarrow> ''status-warn''
      | StatusNotice \<Rightarrow> ''status-warn''
      | StatusUnknown \<Rightarrow> ''status-na''
      | StatusUnset \<Rightarrow> [])"

definition okClass :: "string \<Rightarrow> string" where
  "okClass s = (if s = ''ok'' then ''status-ok'' else ''status-warn'')"

definition yesClass :: "string \<Rightarrow> string" where
  "yesClass s = (if s = ''Yes'' then ''status-ok'' else ''status-warn'')"

definition linkStatusClass :: "string \<Rightarrow> string" where
  "linkStatusClass s =
     (if s = ''ok'' then ''status-ok'' else if s = ''N/A'' then [] else ''status-warn'')"

definition depStatusClass :: "string \<Rightarrow> string" where
  "depStatusClass s =
     (if s = ''ok'' then ''status-ok'' else if s = ''skip'' then [] else ''status-warn'')"

definition mongoHealthLabel :: "goint \<Rightarrow> string" where
  "mongoHealthLabel h = (if h = 1 then txt_healthy else txt_abnormal)"

definition boolLabel :: "bool \<Rightarrow> string \<Rightarrow> string \<Rightarrow> string" where
  "boolLabel b trueLabel falseLabel = (if b then trueLabel else falseLabel)"

definition boolClassOK :: "bool \<Rightarrow> string" where
  "boolClassOK b = (if b then ''status-ok'' else ''status-warn'')"

definition warnCardClass :: "goint \<Rightarrow> string" where
  "warnCardClass n = (if n > 0 then ''warn'' else ''ok'')"

subsection \<open>The page\<close>

datatype render_error = LoadTemplatesFailed | ExecuteFailed

text \<open>\<open>parsed\<close> is what parsing the embedded templates with the functions above gives.\<close>

definition LoadTemplates :: "'t option \<Rightarrow> render_error + 't" where
  "LoadTemplates parsed = (case parsed of None \<Rightarrow> Inl LoadTemplatesFailed | Some tmpl \<Rightarrow> Inr tmpl)"

definition RenderHTML ::
  "'t option \<Rightarrow> ('t \<Rightarrow> InspectReport \<Rightarrow> string option) \<Rightarrow> InspectReport \<Rightarrow> render_error + string" where
  "RenderHTML parsed execute report =
     (case LoadTemplates parsed of
        Inl e \<Rightarrow> Inl e
      | Inr tmpl \<Rightarrow>
          (case execute tmpl report of None \<Rightarrow> Inl ExecuteFailed | Some html \<Rightarrow> Inr html))"

lemma RenderHTML_eq:
  "RenderHTML None execute report = Inl LoadTemplatesFailed"
  "RenderHTML (Some tmpl) execute report =
     (case execute tmpl report of None \<Rightarrow> Inl ExecuteFailed | Some html \<Rightarrow> Inr html)"
  by (simp_all add: RenderHTML_def LoadTemplates_def)

end
