(* ===== verification/Report_Json.thy ===== *)
theory Report_Json
  imports Inspect_Model Go_Json_Text
begin

text \<open>
  The report as the JSON document that \<open>json.MarshalIndent\<close> makes of it: one encoder per struct of
  src/model/types.go, its fields in order under the names of their tags, the fields tagged \<open>"-"\<close> left
  out and those tagged \<open>omitempty\<close> left out where they are zero.  A slice of the report is nil until
  something is appended to it, so the empty one is \<open>null\<close>.  Only a figure that is no finite number
  cannot be encoded.  The text of a finite one is the parameter \<open>fmt\<close>.
\<close>

subsection \<open>Values\<close>

definition str_value :: "string \<Rightarrow> json option" where
  "str_value s = Some (JStr (to_valid s))"

definition enc_float :: "(float64 \<Rightarrow> string) \<Rightarrow> float64 \<Rightarrow> json option" where
  "enc_float fmt f = (case f of FNum s q \<Rightarrow> Some (JNum (fmt f)) | _ \<Rightarrow> None)"

fun enc_list :: "('a \<Rightarrow> json option) \<Rightarrow> 'a list \<Rightarrow> json list option" where
  "enc_list enc [] = Some []"
| "enc_list enc (x # xs) =
     (case enc x of
        None \<Rightarrow> None
      | Some v \<Rightarrow> (case enc_list enc xs of None \<Rightarrow> None | Some vs \<Rightarrow> Some (v # vs)))"

definition enc_slice :: "('a \<Rightarrow> json option) \<Rightarrow> 'a list \<Rightarrow> json option" where
  "enc_slice enc xs = (if xs = [] then Some JNull else map_option JArr (enc_list enc xs))"

definition enc_pointer :: "('a \<Rightarrow> json option) \<Rightarrow> 'a option \<Rightarrow> json option" where
  "enc_pointer enc p = (case p of None \<Rightarrow> Some JNull | Some x \<Rightarrow> enc x)"

type_synonym json_field = "(string \<times> json option) list"

fun enc_fields :: "json_field \<Rightarrow> (string \<times> json) list option" where
  "enc_fields [] = Some []"
| "enc_fields ((k, v) # fs) =
     (case v of
        None \<Rightarrow> None
      | Some v \<Rightarrow> (case enc_fields fs of None \<Rightarrow> None | Some rest \<Rightarrow> Some ((k, v) # rest)))"

definition enc_struct :: "json_field list \<Rightarrow> json option" where
  "enc_struct fs = map_option JObj (enc_fields (concat fs))"

text \<open>A map: its keys in order.\<close>

definition enc_map :: "('a \<Rightarrow> json option) \<Rightarrow> (string \<times> 'a) list \<Rightarrow> json option" where
  "enc_map enc m =
     enc_struct [map (\<lambda>(k, x). (to_valid k, enc x)) (sort_key fst m)]"

subsection \<open>Fields\<close>

definition struct_field :: "string \<Rightarrow> json option \<Rightarrow> json_field" where
  "struct_field name v = [(name, v)]"

definition omitempty :: "bool \<Rightarrow> json_field \<Rightarrow> json_field" where
  "omitempty zero f = (if zero then [] else f)"

definition str_field :: "string \<Rightarrow> string \<Rightarrow> json_field" where
  "str_field name s = struct_field name (str_value s)"

definition int_field :: "string \<Rightarrow> goint \<Rightarrow> json_field" where
  "int_field name n = struct_field name (Some (JNum (Itoa n)))"

definition bool_field :: "string \<Rightarrow> bool \<Rightarrow> json_field" where
  "bool_field name b = struct_field name (Some (JBool b))"

definition float_field :: "(float64 \<Rightarrow> string) \<Rightarrow> string \<Rightarrow> float64 \<Rightarrow> json_field" where
  "float_field fmt name f = struct_field name (enc_float fmt f)"

definition slice_field :: "string \<Rightarrow> ('a \<Rightarrow> json option) \<Rightarrow> 'a list \<Rightarrow> json_field" where
  "slice_field name enc xs = struct_field name (enc_slice enc xs)"

definition pointer_field :: "string \<Rightarrow> ('a \<Rightarrow> json option) \<Rightarrow> 'a option \<Rightarrow> json_field" where
  "pointer_field name enc p = struct_field name (enc_pointer enc p)"

definition map_field :: "string \<Rightarrow> ('a \<Rightarrow> json option) \<Rightarrow> (string \<times> 'a) list \<Rightarrow> json_field" where
  "map_field name enc m = struct_field name (enc_map enc m)"

definition str_opt :: "string \<Rightarrow> string \<Rightarrow> json_field" where
  "str_opt name s = omitempty (s = []) (str_field name s)"

definition int_opt :: "string \<Rightarrow> goint \<Rightarrow> json_field" where
  "int_opt name n = omitempty (n = 0) (int_field name n)"

definition bool_opt :: "string \<Rightarrow> bool \<Rightarrow> json_field" where
  "bool_opt name b = omitempty (\<not> b) (bool_field name b)"

definition slice_opt :: "string \<Rightarrow> ('a \<Rightarrow> json option) \<Rightarrow> 'a list \<Rightarrow> json_field" where
  "slice_opt name enc xs = omitempty (xs = []) (slice_field name enc xs)"

definition pointer_opt :: "string \<Rightarrow> ('a \<Rightarrow> json option) \<Rightarrow> 'a option \<Rightarrow> json_field" where
  "pointer_opt name enc p = omitempty (p = None) (pointer_field name enc p)"

definition status_text :: "CheckStatus \<Rightarrow> string" where
  "status_text s =
     (case s of
        StatusOK \<Rightarrow> ''ok''
      | StatusWarn \<Rightarrow> ''warn''
      | StatusUnknown \<Rightarrow> ''unknown''
      | StatusNotice \<Rightarrow> ''notice''
      | StatusUnset \<Rightarrow> [])"

subsection \<open>The structs\<close>

definition enc_DiskUsage :: "DiskUsage \<Rightarrow> json option" where
  "enc_DiskUsage x =
     enc_struct
       [str_field ''mount_point'' (du_MountPoint x), str_opt ''fs_type'' (du_FsType x),
         str_field ''usage'' (du_Usage x)]"

definition enc_NetworkStats :: "NetworkStats \<Rightarrow> json option" where
  "enc_NetworkStats x =
     enc_struct
       [int_field ''CLOSE_WAIT'' (ns_CloseWait x),
         int_field ''ESTABLISHED'' (ns_Established x), int_field ''LISTEN'' (ns_Listen x),
         int_field ''TIME_WAIT'' (ns_TimeWait x)]"

definition enc_HostMetrics :: "(float64 \<Rightarrow> string) \<Rightarrow> HostMetrics \<Rightarrow> json option" where
  "enc_HostMetrics fmt x =
     enc_struct
       [str_field ''ip'' (hm_IP x), float_field fmt ''cpu_usage'' (hm_CPUUsage x),
         float_field fmt ''mem_usage'' (hm_MemUsage x),
         float_field fmt ''loadavg1'' (hm_LoadAvg1 x),
         float_field fmt ''loadavg5'' (hm_LoadAvg5 x),
         float_field fmt ''loadavg15'' (hm_LoadAvg15 x),
         float_field fmt ''swap_usage'' (hm_SwapUsage x),
         slice_field ''disk_usage'' enc_DiskUsage (hm_DiskUsage x),
         slice_field ''innode_usage'' enc_DiskUsage (hm_InodeUsage x),
         int_field ''max_open_files'' (hm_MaxOpenFiles x),
         int_field ''process_total'' (hm_ProcessTotal x), str_field ''ntpd'' (hm_Ntpd x),
         str_field ''chronyd'' (hm_Chronyd x), str_field ''selinux'' (hm_SELinux x),
         str_field ''firewalld'' (hm_Firewalld x), int_field ''proxy'' (hm_Proxy x),
         str_field ''iptables'' (hm_Iptables x),
         struct_field ''network'' (enc_NetworkStats (hm_Network x)),
         int_field ''run_days'' (hm_RunDays x), str_field ''version'' (hm_Version x),
         str_field ''kernel'' (hm_Kernel x), float_field fmt ''memory'' (hm_Memory x),
         float_field fmt ''swap'' (hm_Swap x), int_field ''core'' (hm_Core x),
         str_field ''manufacturer'' (hm_Manufacturer x), str_field ''product'' (hm_Product x),
         str_field ''serial'' (hm_Serial x), str_opt ''error'' (hm_Error x)]"

definition enc_CheckResult :: "CheckResult \<Rightarrow> json option" where
  "enc_CheckResult x =
     enc_struct
       [str_field ''field'' (cr_Field x), str_field ''value'' (cr_Value x),
         str_field ''status'' (status_text (cr_Status x)),
         str_opt ''threshold'' (cr_Threshold x)]"

definition enc_HostCheckResult :: "(float64 \<Rightarrow> string) \<Rightarrow> HostCheckResult \<Rightarrow> json option" where
  "enc_HostCheckResult fmt x =
     enc_struct
       [struct_field ''metrics'' (enc_HostMetrics fmt (hc_Metrics x)),
         slice_field ''checks'' enc_CheckResult (hc_Checks x)]"

definition enc_ServiceModule :: "ServiceModule \<Rightarrow> json option" where
  "enc_ServiceModule x =
     enc_struct
       [str_field ''module'' (sm_Module x), str_field ''status'' (sm_Status x),
         str_field ''resolved'' (sm_Resolved x), str_field ''healthz_api'' (sm_HealthzAPI x),
         int_field ''main_pid'' (sm_MainPID x), str_field ''start_time'' (sm_StartTime x),
         int_field ''workers'' (sm_Workers x)]"

definition enc_ServiceStatus :: "ServiceStatus \<Rightarrow> json option" where
  "enc_ServiceStatus x =
     enc_struct
       [str_field ''host_ip'' (ss_HostIP x), str_field ''module'' (ss_Module x),
         slice_field ''services'' enc_ServiceModule (ss_Services x),
         int_opt ''containers_up'' (ss_ContainersUp x),
         int_opt ''containers_exited'' (ss_ContainersExited x),
         str_opt ''error'' (ss_Error x)]"

definition enc_ESNode :: "(float64 \<Rightarrow> string) \<Rightarrow> ESNode \<Rightarrow> json option" where
  "enc_ESNode fmt x =
     enc_struct
       [str_field ''ip'' (en_IP x), int_field ''heap_percent'' (en_HeapPercent x),
         int_field ''ram_percent'' (en_RAMPercent x), int_field ''cpu'' (en_CPU x),
         float_field fmt ''load_1m'' (en_Load1m x), float_field fmt ''load_5m'' (en_Load5m x),
         float_field fmt ''load_15m'' (en_Load15m x), str_field ''role'' (en_Role x)]"

definition enc_ESNodeReach :: "ESNodeReach \<Rightarrow> json option" where
  "enc_ESNodeReach x =
     enc_struct
       [str_field ''ip'' (er_IP x), str_field ''status'' (er_Status x),
         str_opt ''detail'' (er_Detail x)]"

definition enc_ESCluster :: "(float64 \<Rightarrow> string) \<Rightarrow> ESCluster \<Rightarrow> json option" where
  "enc_ESCluster fmt x =
     enc_struct
       [str_field ''instance'' (ec_Instance x),
         str_field ''cluster_name'' (ec_ClusterName x), str_field ''status'' (ec_Status x),
         int_field ''number_of_nodes'' (ec_NumberOfNodes x),
         int_field ''number_of_data_nodes'' (ec_NumberOfDataNodes x),
         int_field ''active_primary_shards'' (ec_ActivePrimaryShards x),
         int_field ''active_shards'' (ec_ActiveShards x),
         int_field ''unassigned_shards'' (ec_UnassignedShards x),
         int_field ''number_of_pending_tasks'' (ec_PendingTasks x),
         float_field fmt ''active_shards_percent_as_number'' (ec_ActiveShardsPercent x),
         slice_field ''nodes'' (enc_ESNode fmt) (ec_Nodes x),
         slice_opt ''node_reachability'' enc_ESNodeReach (ec_NodeReachability x),
         str_opt ''error'' (ec_Error x), str_opt ''error_class'' (ec_ErrorClass x)]"

definition enc_MySQLNode :: "MySQLNode \<Rightarrow> json option" where
  "enc_MySQLNode x =
     enc_struct
       [str_field ''ip'' (mn_IP x), str_field ''version'' (mn_Version x),
         int_field ''max_connections'' (mn_MaxConnections x),
         int_field ''expire_logs_days'' (mn_ExpireLogsDays x),
         int_field ''max_allowed_packet'' (mn_MaxAllowedPacket x),
         str_field ''role'' (mn_Role x), int_field ''binlog_count'' (mn_BinlogCount x),
         str_field ''slave_io_state'' (mn_SlaveIOState x),
         str_field ''slave_sql_state'' (mn_SlaveSQLState x),
         str_field ''slow_query_log'' (mn_SlowQueryLog x),
         str_field ''character_set'' (mn_CharacterSet x),
         int_field ''buffer_pool_size'' (mn_BufferPoolSize x),
         int_field ''buffer_pool_instances'' (mn_BufferPoolInstances x),
         int_field ''innodb_io_capacity'' (mn_InnodbIOCapacity x),
         int_field ''innodb_read_io_threads'' (mn_InnodbReadIOThreads x),
         int_field ''innodb_write_io_threads'' (mn_InnodbWriteIOThreads x),
         int_field ''interactive_timeout'' (mn_InteractiveTimeout x),
         int_field ''table_open_cache'' (mn_TableOpenCache x),
         int_field ''wait_timeout'' (mn_WaitTimeout x), str_opt ''error'' (mn_Error x),
         str_opt ''error_class'' (mn_ErrorClass x)]"

definition enc_MySQLCluster :: "MySQLCluster \<Rightarrow> json option" where
  "enc_MySQLCluster x =
     enc_struct
       [str_field ''instance'' (mc_Instance x),
         slice_field ''nodes'' enc_MySQLNode (mc_Nodes x), str_opt ''error'' (mc_Error x)]"

definition enc_RedisNode :: "RedisNode \<Rightarrow> json option" where
  "enc_RedisNode x =
     enc_struct
       [str_field ''ip'' (rn_IP x), str_field ''role'' (rn_Role x),
         str_field ''cluster_enabled'' (rn_ClusterEnabled x),
         str_field ''version'' (rn_Version x), str_field ''used_memory'' (rn_UsedMemory x),
         str_field ''max_memory'' (rn_MaxMemory x),
         str_field ''uptime_days'' (rn_UptimeDays x),
         str_field ''connected_clients'' (rn_ConnectedClients x),
         str_field ''blocked_clients'' (rn_BlockedClients x),
         int_field ''celery_queue'' (rn_CeleryQueue x),
         int_field ''monitor_queue'' (rn_MonitorQueue x), str_opt ''error'' (rn_Error x),
         str_opt ''error_class'' (rn_ErrorClass x)]"

definition enc_SentinelNodeStatus :: "SentinelNodeStatus \<Rightarrow> json option" where
  "enc_SentinelNodeStatus x =
     enc_struct
       [str_field ''ip'' (sn_IP x), str_field ''port'' (sn_Port x),
         bool_field ''reachable'' (sn_Reachable x), str_opt ''error'' (sn_Error x),
         str_opt ''error_class'' (sn_ErrorClass x)]"

definition enc_SentinelClusterStatus :: "SentinelClusterStatus \<Rightarrow> json option" where
  "enc_SentinelClusterStatus x =
     enc_struct
       [str_field ''master_name'' (sc_MasterName x),
         slice_field ''sentinels'' enc_SentinelNodeStatus (sc_Sentinels x),
         str_opt ''discovered_master'' (sc_DiscoveredMaster x),
         bool_field ''master_reachable'' (sc_MasterReachable x),
         str_field ''status'' (sc_Status x),
         str_opt ''master_env_match'' (sc_MasterEnvMatch x), str_opt ''error'' (sc_Error x),
         str_opt ''error_class'' (sc_ErrorClass x)]"

definition enc_MongoMember :: "MongoMember \<Rightarrow> json option" where
  "enc_MongoMember x =
     enc_struct
       [str_field ''name'' (gm_Name x), int_field ''health'' (gm_Health x),
         str_field ''stateStr'' (gm_StateStr x), int_field ''uptime'' (gm_Uptime x),
         str_field ''syncingTo'' (gm_SyncingTo x),
         str_field ''syncSourceHost'' (gm_SyncSourceHost x)]"

definition enc_MongoCluster :: "MongoCluster \<Rightarrow> json option" where
  "enc_MongoCluster x =
     enc_struct
       [str_field ''instance'' (gc_Instance x),
         slice_field ''members'' enc_MongoMember (gc_Members x),
         str_opt ''error'' (gc_Error x), str_opt ''error_class'' (gc_ErrorClass x)]"

definition enc_RabbitMQAlarm :: "RabbitMQAlarm \<Rightarrow> json option" where
  "enc_RabbitMQAlarm x =
     enc_struct
       [str_field ''node'' (ra_Node x), bool_field ''mem_alarm'' (ra_MemAlarm x),
         bool_field ''disk_free_alarm'' (ra_DiskFreeAlarm x)]"

definition enc_RabbitMQVHostSummary :: "RabbitMQVHostSummary \<Rightarrow> json option" where
  "enc_RabbitMQVHostSummary x =
     enc_struct
       [str_field ''vhost'' (rv_VHost x), int_field ''queues'' (rv_Queues x),
         int_field ''messages'' (rv_Messages x), int_field ''consumers'' (rv_Consumers x)]"

definition enc_RabbitMQQueue :: "RabbitMQQueue \<Rightarrow> json option" where
  "enc_RabbitMQQueue x =
     enc_struct
       [str_field ''vhost'' (rq_VHost x), str_field ''queue'' (rq_Queue x),
         int_field ''message_count'' (rq_MessageCount x),
         int_field ''consumers'' (rq_Consumers x), bool_field ''durable'' (rq_Durable x)]"

definition enc_RabbitMQStatus :: "RabbitMQStatus \<Rightarrow> json option" where
  "enc_RabbitMQStatus x =
     enc_struct
       [bool_field ''cluster_partition'' (rs_ClusterPartition x),
         str_field ''uptime'' (rs_Uptime x),
         int_field ''total_connections'' (rs_TotalConnections x),
         int_field ''abnormal_connections'' (rs_AbnormalConnections x),
         int_field ''total_channels'' (rs_TotalChannels x),
         slice_field ''nodes_alarms'' enc_RabbitMQAlarm (rs_NodeAlarms x),
         slice_field ''vhost_summary'' enc_RabbitMQVHostSummary (rs_VHostSummary x),
         slice_field ''queues_exceeding_message_threshold'' enc_RabbitMQQueue (rs_ExceedingQueues x),
         slice_field ''queues_with_no_consumers'' enc_RabbitMQQueue (rs_NoConsumerQueues x),
         str_opt ''queues_error'' (rs_QueuesError x), str_opt ''error'' (rs_Error x),
         str_opt ''error_class'' (rs_ErrorClass x)]"

definition enc_MySQLMasterStatus :: "MySQLMasterStatus \<Rightarrow> json option" where
  "enc_MySQLMasterStatus x =
     enc_struct
       [str_field ''ip'' (mm_IP x), bool_field ''read_only'' (mm_ReadOnly x),
         str_field ''status'' (mm_Status x), str_opt ''error'' (mm_Error x),
         str_opt ''error_class'' (mm_ErrorClass x)]"

definition enc_MySQLReplicationStatus :: "MySQLReplicationStatus \<Rightarrow> json option" where
  "enc_MySQLReplicationStatus x =
     enc_struct
       [str_field ''io_running'' (mr_IORunning x),
         str_field ''sql_running'' (mr_SQLRunning x),
         int_field ''seconds_behind_master'' (mr_SecondsBehindMaster x),
         str_opt ''last_io_error'' (mr_LastIOError x),
         str_opt ''last_sql_error'' (mr_LastSQLError x),
         str_opt ''master_host'' (mr_MasterHost x), str_field ''status'' (mr_Status x)]"

definition enc_MySQLSlaveStatus :: "MySQLSlaveStatus \<Rightarrow> json option" where
  "enc_MySQLSlaveStatus x =
     enc_struct
       [str_field ''ip'' (ms_IP x),
         pointer_opt ''replication'' enc_MySQLReplicationStatus (ms_Replication x),
         str_opt ''error'' (ms_Error x), str_opt ''error_class'' (ms_ErrorClass x)]"

definition enc_RedisReplicationStatus :: "RedisReplicationStatus \<Rightarrow> json option" where
  "enc_RedisReplicationStatus x =
     enc_struct
       [str_field ''ip'' (rr_IP x), str_field ''role'' (rr_Role x),
         str_opt ''master_host'' (rr_MasterHost x), int_opt ''master_port'' (rr_MasterPort x),
         str_opt ''master_link_status'' (rr_MasterLinkStatus x),
         int_opt ''master_last_io_seconds_ago'' (rr_MasterLastIOSeconds x),
         bool_opt ''master_sync_in_progress'' (rr_MasterSyncInProgress x),
         int_opt ''connected_slaves'' (rr_ConnectedSlaves x),
         str_field ''role_consistency_status'' (rr_RoleConsistencyStatus x),
         str_opt ''link_status'' (rr_LinkStatus x), str_opt ''error'' (rr_Error x),
         str_opt ''error_class'' (rr_ErrorClass x)]"

definition enc_ReplicationReport :: "ReplicationReport \<Rightarrow> json option" where
  "enc_ReplicationReport x =
     enc_struct
       [slice_opt ''mysql_masters'' enc_MySQLMasterStatus (rp_MySQLMasters x),
         slice_opt ''mysql_slaves'' enc_MySQLSlaveStatus (rp_MySQLSlaves x),
         slice_opt ''redis_nodes'' enc_RedisReplicationStatus (rp_RedisNodes x)]"

definition enc_DependencyResult :: "DependencyResult \<Rightarrow> json option" where
  "enc_DependencyResult x =
     enc_struct
       [str_field ''item'' (dr_Item x), str_field ''endpoint'' (dr_Endpoint x),
         str_field ''status'' (dr_Status x), str_opt ''detail'' (dr_Detail x)]"

definition enc_BKMonitorV3Section :: "BKMonitorV3Section \<Rightarrow> json option" where
  "enc_BKMonitorV3Section x =
     enc_struct
       [slice_field ''dependencies'' enc_DependencyResult (bs_Dependencies x)]"

definition enc_CheckSummary :: "CheckSummary \<Rightarrow> json option" where
  "enc_CheckSummary x =
     enc_struct
       [int_field ''total'' (cs_Total x), int_field ''ok'' (cs_OK x),
         int_field ''warn'' (cs_Warn x), int_field ''unknown'' (cs_Unknown x)]"

definition enc_InspectReport :: "(float64 \<Rightarrow> string) \<Rightarrow> InspectReport \<Rightarrow> json option" where
  "enc_InspectReport fmt x =
     enc_struct
       [str_field ''timestamp'' (ir_Timestamp x),
         slice_field ''hosts'' (enc_HostCheckResult fmt) (ir_Hosts x),
         map_field ''services'' (enc_slice enc_ServiceStatus) (ir_Services x),
         slice_field ''elasticsearch'' (enc_ESCluster fmt) (ir_ES x),
         slice_field ''mysql'' enc_MySQLCluster (ir_MySQL x),
         slice_field ''redis_standalone'' enc_RedisNode (ir_RedisStandalone x),
         pointer_opt ''redis_sentinel'' enc_SentinelClusterStatus (ir_RedisSentinel x),
         slice_field ''mongodb'' enc_MongoCluster (ir_MongoDB x),
         pointer_field ''rabbitmq'' enc_RabbitMQStatus (ir_RabbitMQ x),
         pointer_opt ''replication'' enc_ReplicationReport (ir_Replication x),
         pointer_opt ''bkmonitorv3'' enc_BKMonitorV3Section (ir_BKMonitorV3 x),
         struct_field ''summary'' (enc_CheckSummary (ir_Summary x))]"

text \<open>The text of the report, \<open>None\<close> where the encoder fails.\<close>

definition MarshalReport :: "(float64 \<Rightarrow> string) \<Rightarrow> InspectReport \<Rightarrow> string option" where
  "MarshalReport fmt report = map_option MarshalIndent (enc_InspectReport fmt report)"

subsection \<open>What cannot be encoded\<close>

definition finite_float :: "float64 \<Rightarrow> bool" where
  "finite_float f \<longleftrightarrow> (\<exists>s q. f = FNum s q)"

definition finite_host :: "HostMetrics \<Rightarrow> bool" where
  "finite_host m \<longleftrightarrow>
     list_all finite_float
       [hm_CPUUsage m, hm_MemUsage m, hm_LoadAvg1 m, hm_LoadAvg5 m, hm_LoadAvg15 m, hm_SwapUsage m,
        hm_Memory m, hm_Swap m]"

definition finite_cluster :: "ESCluster \<Rightarrow> bool" where
  "finite_cluster c \<longleftrightarrow>
     finite_float (ec_ActiveShardsPercent c) \<and>
     list_all (\<lambda>n. list_all finite_float [en_Load1m n, en_Load5m n, en_Load15m n]) (ec_Nodes c)"

text \<open>Every figure of the report is a finite number.\<close>

definition finite_report :: "InspectReport \<Rightarrow> bool" where
  "finite_report r \<longleftrightarrow>
     list_all (\<lambda>h. finite_host (hc_Metrics h)) (ir_Hosts r) \<and> list_all finite_cluster (ir_ES r)"

definition no_value :: "json_field \<Rightarrow> bool" where
  "no_value f \<longleftrightarrow> list_ex (\<lambda>(k, v). v = None) f"

lemma enc_list_None [simp]: "enc_list enc xs = None \<longleftrightarrow> list_ex (\<lambda>x. enc x = None) xs"
  by (induction enc xs rule: enc_list.induct) (auto split: option.splits)

lemma enc_slice_None [simp]: "enc_slice enc xs = None \<longleftrightarrow> list_ex (\<lambda>x. enc x = None) xs"
  by (auto simp: enc_slice_def)

lemma enc_pointer_None [simp]: "enc_pointer enc p = None \<longleftrightarrow> (\<exists>x. p = Some x \<and> enc x = None)"
  by (simp add: enc_pointer_def split: option.splits)

lemma enc_fields_None [simp]: "enc_fields fs = None \<longleftrightarrow> no_value fs"
  by (induction fs rule: enc_fields.induct) (auto simp: no_value_def split: option.splits)

lemma no_value_concat: "no_value (concat fs) \<longleftrightarrow> list_ex no_value fs"
  by (induction fs) (auto simp: no_value_def)

lemma enc_struct_None: "enc_struct fs = None \<longleftrightarrow> list_ex no_value fs"
  by (simp add: enc_struct_def no_value_concat)

lemma no_value_map [simp]: "no_value (map (\<lambda>(k, x). (f k, enc x)) m) \<longleftrightarrow> list_ex (\<lambda>e. enc (snd e) = None) m"
  by (induction m) (auto simp: no_value_def)

lemma list_ex_False [simp]: "\<not> list_ex (\<lambda>x. False) xs"
  by (simp add: list_ex_iff)

lemma enc_map_None [simp]: "enc_map enc m = None \<longleftrightarrow> list_ex (\<lambda>e. enc (snd e) = None) m"
  by (simp add: enc_map_def enc_struct_None) (simp add: list_ex_iff)

lemma no_value_fields [simp]:
  "\<not> no_value (str_field name s)" "\<not> no_value (int_field name n)" "\<not> no_value (bool_field name b)"
  "no_value (float_field fmt name f) \<longleftrightarrow> \<not> finite_float f"
  "no_value (slice_field name enc xs) \<longleftrightarrow> list_ex (\<lambda>x. enc x = None) xs"
  "no_value (pointer_field name enc p) \<longleftrightarrow> (\<exists>x. p = Some x \<and> enc x = None)"
  "no_value (map_field name enc m) \<longleftrightarrow> list_ex (\<lambda>e. enc (snd e) = None) m"
  "no_value (struct_field name v) \<longleftrightarrow> v = None"
  by (auto simp: str_field_def int_field_def bool_field_def float_field_def slice_field_def
      pointer_field_def map_field_def struct_field_def no_value_def str_value_def enc_float_def
      finite_float_def split: float64.splits)

lemma no_value_opts [simp]:
  "\<not> no_value (str_opt name s)" "\<not> no_value (int_opt name n)" "\<not> no_value (bool_opt name b)"
  "no_value (slice_opt name enc xs) \<longleftrightarrow> list_ex (\<lambda>x. enc x = None) xs"
  "no_value (pointer_opt name enc p) \<longleftrightarrow> (\<exists>x. p = Some x \<and> enc x = None)"
  by (auto simp: str_opt_def int_opt_def bool_opt_def slice_opt_def pointer_opt_def omitempty_def)
    (auto simp: no_value_def)

lemma plain_structs [simp]:
  "enc_DiskUsage x0 \<noteq> None"
  "enc_NetworkStats x1 \<noteq> None"
  "enc_CheckResult x2 \<noteq> None"
  "enc_ServiceModule x3 \<noteq> None"
  "enc_ServiceStatus x4 \<noteq> None"
  "enc_ESNodeReach x5 \<noteq> None"
  "enc_MySQLNode x6 \<noteq> None"
  "enc_MySQLCluster x7 \<noteq> None"
  "enc_RedisNode x8 \<noteq> None"
  "enc_SentinelNodeStatus x9 \<noteq> None"
  "enc_SentinelClusterStatus x10 \<noteq> None"
  "enc_MongoMember x11 \<noteq> None"
  "enc_MongoCluster x12 \<noteq> None"
  "enc_RabbitMQAlarm x13 \<noteq> None"
  "enc_RabbitMQVHostSummary x14 \<noteq> None"
  "enc_RabbitMQQueue x15 \<noteq> None"
  "enc_RabbitMQStatus x16 \<noteq> None"
  "enc_MySQLMasterStatus x17 \<noteq> None"
  "enc_MySQLReplicationStatus x18 \<noteq> None"
  "enc_MySQLSlaveStatus x19 \<noteq> None"
  "enc_RedisReplicationStatus x20 \<noteq> None"
  "enc_ReplicationReport x21 \<noteq> None"
  "enc_DependencyResult x22 \<noteq> None"
  "enc_BKMonitorV3Section x23 \<noteq> None"
  "enc_CheckSummary x24 \<noteq> None"
    by (simp_all add: enc_struct_None enc_DiskUsage_def enc_NetworkStats_def enc_CheckResult_def
      enc_ServiceModule_def enc_ServiceStatus_def enc_ESNodeReach_def enc_MySQLNode_def
      enc_MySQLCluster_def enc_RedisNode_def enc_SentinelNodeStatus_def
      enc_SentinelClusterStatus_def enc_MongoMember_def enc_MongoCluster_def enc_RabbitMQAlarm_def
      enc_RabbitMQVHostSummary_def enc_RabbitMQQueue_def enc_RabbitMQStatus_def
      enc_MySQLMasterStatus_def enc_MySQLReplicationStatus_def enc_MySQLSlaveStatus_def
      enc_RedisReplicationStatus_def enc_ReplicationReport_def enc_DependencyResult_def
      enc_BKMonitorV3Section_def enc_CheckSummary_def)

lemma figure_structs:
  "enc_HostMetrics fmt m = None \<longleftrightarrow> \<not> finite_host m"
  "enc_ESCluster fmt c = None \<longleftrightarrow> \<not> finite_cluster c"
  by (auto simp: enc_struct_None enc_HostMetrics_def enc_ESNode_def enc_ESCluster_def finite_host_def
      finite_cluster_def list_all_iff list_ex_iff)

lemma enc_InspectReport_None: "enc_InspectReport fmt r = None \<longleftrightarrow> \<not> finite_report r"
  by (auto simp: enc_struct_None enc_InspectReport_def enc_HostCheckResult_def figure_structs
      finite_report_def list_all_iff list_ex_iff)

subsection \<open>The document is well formed\<close>

text \<open>The formatter writes JSON numbers.\<close>

definition writes_numbers :: "(float64 \<Rightarrow> string) \<Rightarrow> bool" where
  "writes_numbers fmt \<longleftrightarrow> (\<forall>s q. json_number (fmt (FNum s q)))"

definition enc_ok :: "nat \<Rightarrow> json option \<Rightarrow> bool" where
  "enc_ok n r \<longleftrightarrow> (\<forall>v. r = Some v \<longrightarrow> json_ok n v)"

definition field_ok :: "nat \<Rightarrow> json_field \<Rightarrow> bool" where
  "field_ok n f \<longleftrightarrow> list_all (\<lambda>(k, r). valid_utf8 k \<and> enc_ok n r) f"

lemma enc_ok_list:
  "list_all (\<lambda>x. enc_ok n (enc x)) xs \<Longrightarrow> enc_list enc xs = Some vs \<Longrightarrow> list_all (json_ok n) vs"
  by (induction enc xs arbitrary: vs rule: enc_list.induct) (auto simp: enc_ok_def split: option.splits)

lemma enc_ok_fields:
  "field_ok n fs \<Longrightarrow> enc_fields fs = Some vs \<Longrightarrow> list_all (\<lambda>(k, v). valid_utf8 k \<and> json_ok n v) vs"
  by (induction fs arbitrary: vs rule: enc_fields.induct)
    (auto simp: enc_ok_def field_ok_def split: option.splits)

lemma field_ok_concat: "field_ok n (concat fs) \<longleftrightarrow> list_all (field_ok n) fs"
  by (induction fs) (auto simp: field_ok_def)

lemma enc_ok_struct: "list_all (field_ok n) fs \<Longrightarrow> enc_ok (Suc n) (enc_struct fs)"
  using enc_ok_fields [of n "concat fs"] by (auto simp: enc_struct_def enc_ok_def field_ok_concat)

lemma enc_ok_slice: "(\<And>x. enc_ok n (enc x)) \<Longrightarrow> enc_ok (Suc n) (enc_slice enc xs)"
  using enc_ok_list [of n enc xs] by (auto simp: enc_slice_def enc_ok_def list_all_iff)

lemma enc_ok_pointer: "(\<And>x. enc_ok n (enc x)) \<Longrightarrow> enc_ok n (enc_pointer enc p)"
  by (auto simp: enc_pointer_def enc_ok_def split: option.splits)

lemma enc_ok_map: "(\<And>x. enc_ok n (enc x)) \<Longrightarrow> enc_ok (Suc n) (enc_map enc m)"
  unfolding enc_map_def by (rule enc_ok_struct) (auto simp: field_ok_def list_all_iff valid_to_valid)

lemma field_ok_plain:
  "field_ok n (str_field name s) = valid_utf8 name" "field_ok n (int_field name i) = valid_utf8 name"
  "field_ok n (bool_field name b) = valid_utf8 name"
  "writes_numbers fmt \<Longrightarrow> field_ok n (float_field fmt name f) = valid_utf8 name"
  by (auto simp: field_ok_def str_field_def int_field_def bool_field_def float_field_def
      struct_field_def str_value_def enc_float_def enc_ok_def writes_numbers_def valid_to_valid
      split: float64.splits)

lemma field_ok_struct: "field_ok n (struct_field name r) \<longleftrightarrow> valid_utf8 name \<and> enc_ok n r"
  by (simp add: field_ok_def struct_field_def)

lemma field_ok_nested:
  "valid_utf8 name \<Longrightarrow> (\<And>x. enc_ok n (enc x)) \<Longrightarrow> field_ok (Suc n) (slice_field name enc xs)"
  "valid_utf8 name \<Longrightarrow> (\<And>x. enc_ok n (enc x)) \<Longrightarrow> field_ok n (pointer_field name enc p)"
  "valid_utf8 name \<Longrightarrow> (\<And>x. enc_ok n (enc x)) \<Longrightarrow> field_ok (Suc n) (map_field name enc m)"
  using enc_ok_slice [of n enc xs] enc_ok_pointer [of n enc p] enc_ok_map [of n enc m]
  by (simp_all add: field_ok_def struct_field_def slice_field_def pointer_field_def map_field_def)

lemma field_ok_omitempty: "field_ok n f \<Longrightarrow> field_ok n (omitempty z f)"
  by (simp add: omitempty_def field_ok_def)

lemma field_ok_opt:
  "valid_utf8 name \<Longrightarrow> field_ok n (str_opt name s)" "valid_utf8 name \<Longrightarrow> field_ok n (int_opt name i)"
  "valid_utf8 name \<Longrightarrow> field_ok n (bool_opt name b)"
  "valid_utf8 name \<Longrightarrow> (\<And>x. enc_ok n (enc x)) \<Longrightarrow> field_ok (Suc n) (slice_opt name enc xs)"
  "valid_utf8 name \<Longrightarrow> (\<And>x. enc_ok n (enc x)) \<Longrightarrow> field_ok n (pointer_opt name enc p)"
  by (simp_all add: str_opt_def int_opt_def bool_opt_def slice_opt_def pointer_opt_def
      field_ok_omitempty field_ok_plain field_ok_nested)

lemma flat_structs_ok [simp]:
  "enc_ok (Suc n) (enc_DiskUsage x0)"
  "enc_ok (Suc n) (enc_NetworkStats x1)"
  "enc_ok (Suc n) (enc_CheckResult x2)"
  "enc_ok (Suc n) (enc_ServiceModule x3)"
  "enc_ok (Suc n) (enc_ESNodeReach x4)"
  "enc_ok (Suc n) (enc_MySQLNode x5)"
  "enc_ok (Suc n) (enc_RedisNode x6)"
  "enc_ok (Suc n) (enc_SentinelNodeStatus x7)"
  "enc_ok (Suc n) (enc_MongoMember x8)"
  "enc_ok (Suc n) (enc_RabbitMQAlarm x9)"
  "enc_ok (Suc n) (enc_RabbitMQVHostSummary x10)"
  "enc_ok (Suc n) (enc_RabbitMQQueue x11)"
  "enc_ok (Suc n) (enc_MySQLMasterStatus x12)"
  "enc_ok (Suc n) (enc_MySQLReplicationStatus x13)"
  "enc_ok (Suc n) (enc_RedisReplicationStatus x14)"
  "enc_ok (Suc n) (enc_DependencyResult x15)"
  "enc_ok (Suc n) (enc_CheckSummary x16)"
    by (auto simp: enc_DiskUsage_def enc_NetworkStats_def enc_CheckResult_def
      enc_ServiceModule_def enc_ESNodeReach_def enc_MySQLNode_def enc_RedisNode_def
      enc_SentinelNodeStatus_def enc_MongoMember_def enc_RabbitMQAlarm_def
      enc_RabbitMQVHostSummary_def enc_RabbitMQQueue_def enc_MySQLMasterStatus_def
      enc_MySQLReplicationStatus_def enc_RedisReplicationStatus_def enc_DependencyResult_def
      enc_CheckSummary_def
      field_ok_plain code_def intro!: enc_ok_struct field_ok_opt)

lemma nested_structs_ok [simp]:
  "enc_ok (Suc (Suc (Suc n))) (enc_ServiceStatus x0)"
  "enc_ok (Suc (Suc (Suc n))) (enc_MySQLCluster x1)"
  "enc_ok (Suc (Suc (Suc n))) (enc_SentinelClusterStatus x2)"
  "enc_ok (Suc (Suc (Suc n))) (enc_MongoCluster x3)"
  "enc_ok (Suc (Suc (Suc n))) (enc_RabbitMQStatus x4)"
  "enc_ok (Suc (Suc n)) (enc_MySQLSlaveStatus x5)"
  "enc_ok (Suc (Suc (Suc n))) (enc_BKMonitorV3Section x6)"
    by (auto simp: enc_ServiceStatus_def enc_MySQLCluster_def enc_SentinelClusterStatus_def
      enc_MongoCluster_def enc_RabbitMQStatus_def enc_MySQLSlaveStatus_def
      enc_BKMonitorV3Section_def
      field_ok_plain field_ok_struct code_def
      intro!: enc_ok_struct enc_ok_slice field_ok_opt field_ok_nested)

lemma replication_ok [simp]:
  "enc_ok (Suc (Suc (Suc (Suc n)))) (enc_ReplicationReport x0)"
  by (auto simp: enc_ReplicationReport_def
      field_ok_plain field_ok_struct code_def
      intro!: enc_ok_struct enc_ok_slice field_ok_opt field_ok_nested)

lemma figures_ok [simp]:
  assumes "writes_numbers fmt"
  shows "enc_ok (Suc (Suc (Suc n))) (enc_HostMetrics fmt x0)"
    "enc_ok (Suc n) (enc_ESNode fmt x1)"
  using assms
  by (auto simp: enc_HostMetrics_def enc_ESNode_def
      field_ok_plain field_ok_struct code_def
      intro!: enc_ok_struct enc_ok_slice field_ok_opt field_ok_nested)

lemma figure_lists_ok [simp]:
  assumes "writes_numbers fmt"
  shows "enc_ok (Suc (Suc (Suc (Suc n)))) (enc_HostCheckResult fmt x0)"
    "enc_ok (Suc (Suc (Suc n))) (enc_ESCluster fmt x1)"
  using assms
  by (auto simp: enc_HostCheckResult_def enc_ESCluster_def
      field_ok_plain field_ok_struct code_def
      intro!: enc_ok_struct enc_ok_slice field_ok_opt field_ok_nested)

lemma report_ok:
  assumes "writes_numbers fmt"
  shows "enc_ok (Suc (Suc (Suc (Suc (Suc (Suc n)))))) (enc_InspectReport fmt x0)"
  using assms
  by (auto simp: enc_InspectReport_def
      field_ok_plain field_ok_struct code_def
      intro!: enc_ok_struct enc_ok_slice field_ok_opt field_ok_nested)

text \<open>A report whose figures are finite has a text, and the scanner reads its document back.\<close>

lemma MarshalReport_scanned:
  assumes "writes_numbers fmt" "MarshalReport fmt report = Some text"
  shows "scan_json text = enc_InspectReport fmt report"
proof -
  obtain v where v: "enc_InspectReport fmt report = Some v" "text = MarshalIndent v"
    using assms(2) by (auto simp: MarshalReport_def)
  then have "json_ok 10000 v"
    using report_ok [OF assms(1), of 0 report] by (auto simp: enc_ok_def intro: json_ok_mono)
  with v show ?thesis by (simp add: scan_text)
qed

lemma MarshalReport_None: "MarshalReport fmt report = None \<longleftrightarrow> \<not> finite_report report"
  by (simp add: MarshalReport_def enc_InspectReport_None)

end
