(* ===== verification/Output_Writer.thy ===== *)
theory Output_Writer
  imports Render_Funcs Notify_Config Report_Json
begin

text \<open>
  The report writer (src/output/writer.go).  The disk is a map from paths to texts; what the calls
  to the operating system answer, the rendering and the text of a float are arguments.
\<close>

type_synonym disk = "string \<Rightarrow> string option"

datatype write_error =
    CreateDirFailed | RenderFailed | WriteHTMLFailed | MarshalJSONFailed | WriteJSONFailed

record write_calls =
  wc_Mkdir :: bool
  wc_WriteHTML :: bool
  wc_WriteJSON :: bool
  wc_Abs :: "string \<Rightarrow> string option"

text \<open>A write that fails may leave anything in the file: an arbitrary text, or no file.\<close>

definition write_file :: "bool \<Rightarrow> string option \<Rightarrow> string \<Rightarrow> string \<Rightarrow> disk \<Rightarrow> disk" where
  "write_file ok junk path text d = d(path := if ok then Some text else junk)"

definition html_path :: "string \<Rightarrow> string" where
  "html_path outputDir = path_join [outputDir, ''weops_inspection.html'']"

definition json_path :: "string \<Rightarrow> string" where
  "json_path outputDir = path_join [outputDir, ''weops_inspection.json'']"

definition Write ::
  "write_calls \<Rightarrow> string option \<Rightarrow> (InspectReport \<Rightarrow> render_error + string) \<Rightarrow>
     (float64 \<Rightarrow> string) \<Rightarrow> InspectReport \<Rightarrow> string \<Rightarrow> disk \<Rightarrow>
     (write_error + string) \<times> disk" where
  "Write os junk render fmt report outputDir d =
     (if \<not> wc_Mkdir os then (Inl CreateDirFailed, d)
      else case render report of
        Inl e \<Rightarrow> (Inl RenderFailed, d)
      | Inr htmlContent \<Rightarrow>
          let htmlPath = html_path outputDir;
              d = write_file (wc_WriteHTML os) junk htmlPath htmlContent d
          in if \<not> wc_WriteHTML os then (Inl WriteHTMLFailed, d)
             else case MarshalReport fmt report of
               None \<Rightarrow> (Inl MarshalJSONFailed, d)
             | Some jsonData \<Rightarrow>
                 let d = write_file (wc_WriteJSON os) junk (json_path outputDir) jsonData d
                 in if \<not> wc_WriteJSON os then (Inl WriteJSONFailed, d)
                    else (Inr (case wc_Abs os htmlPath of Some p \<Rightarrow> p | None \<Rightarrow> htmlPath), d))"

subsection \<open>The two files\<close>

lemma Split_file:
  assumes "CHR ''/'' \<notin> set name"
  shows "Split (dir @ ''/'' @ name) ''/'' = Split dir ''/'' @ [name]"
proof -
  have "Split (Join (Split dir ''/'' @ [name]) ''/'') ''/'' = Split dir ''/'' @ [name]"
    using assms by (intro Split_Join) (auto dest: Split_byte_complete)
  then show ?thesis by (simp add: Join_snoc Join_Split)
qed

lemma Join_ends: "\<exists>pre. Join (es @ [name]) sep = pre @ name"
  by (cases "es = []") (auto simp: Join_snoc)

lemma Clean_ends:
  assumes "plain_name name" "Split path ''/'' = es @ [name]"
  shows "\<exists>pre. Clean path = pre @ name"
  using Join_ends [of "rev (foldl (clean_step (HasPrefix path ''/'')) [] es)" name "''/''"] assms
  by (auto simp: Clean_def Let_def)

lemma path_join_ends:
  assumes "plain_name name"
  shows "\<exists>pre. path_join [dir, name] = pre @ name"
proof (cases "dir = []")
  case True
  with assms show ?thesis
    using Clean_ends [OF assms, of name "[]"]
    by (simp add: path_join_def plain_nameD Split_byte_no_sep)
next
  case False
  with assms show ?thesis
    using Clean_ends [OF assms Split_file [OF plain_nameD(1) [OF assms], of dir]]
    by (simp add: path_join_def plain_nameD)
qed

lemma report_paths_differ: "html_path outputDir \<noteq> json_path outputDir"
proof -
  obtain pre where "html_path outputDir = pre @ ''weops_inspection.html''"
    using path_join_ends [of "''weops_inspection.html''" outputDir]
    by (auto simp: html_path_def plain_name_def)
  then have "last (html_path outputDir) = CHR ''l''" by simp
  moreover obtain pre where "json_path outputDir = pre @ ''weops_inspection.json''"
    using path_join_ends [of "''weops_inspection.json''" outputDir]
    by (auto simp: json_path_def plain_name_def)
  then have "last (json_path outputDir) = CHR ''n''" by simp
  ultimately show ?thesis by auto
qed

lemma Write_success:
  assumes "Write os junk render fmt report outputDir d = (Inr path, d')"
  shows "\<exists>html json. render report = Inr html \<and> MarshalReport fmt report = Some json \<and>
    d' = d(html_path outputDir \<mapsto> html, json_path outputDir \<mapsto> json)"
  using assms
  by (auto simp: Write_def write_file_def Let_def split: if_splits sum.splits option.splits)

end
