(* ===== verification/Inspect_Run.thy ===== *)
theory Inspect_Run
  imports Check_Rules Check_ES Check_Redis Check_Mongo Check_RabbitMQ Check_BKDeps Notify
    Collect_ES Collect_RabbitMQ Collect_Mongo Collect_BKDeps Collect_Service Ssh_Client
    Instance_Lock Output_Writer
begin

text \<open>
  A run of the command line (src/main.go): configuration, lock, collection, checks, summary,
  confirmation, report, notification.  The outside world is one record: the environment, the
  servers, the schedules of the goroutines, the order in which Go visits the map of services, the
  clock and the disk.
\<close>

record world =
  w_Env :: environment
  w_OutputDir :: string
  w_Lock :: lock_calls
  w_Timestamp :: string
  w_Auth :: auth_world
  w_Oob :: "float64 \<Rightarrow> goint"
  w_NetBefore :: ssh_net
  w_NetAfter :: ssh_net
  w_Phase1 :: "nat list"
  w_Phase2 :: "nat list"
  w_Services :: "nat list"
  w_Visit :: "nat list"
  w_HaveCurl :: bool
  w_CurlGet :: curl_get
  w_Reach :: "nat list"
  w_MySQL :: mysql_dial
  w_Redis :: redis_dial
  w_Sentinels :: sentinel_dial
  w_Mongo :: mongo_driver
  w_Curl :: curl_run
  w_Machine :: machine
  w_Stat :: "string \<Rightarrow> stat_result"
  w_ParseTime :: "string \<Rightarrow> int option"
  w_Now :: int
  w_Files :: files
  w_Write :: write_calls
  w_Junk :: "string option"
  w_Templates :: "(InspectReport \<Rightarrow> string option) option"
  w_FormatFloat :: "float64 \<Rightarrow> string"
  w_Disk :: disk
  w_Dispatch :: dispatch_world

subsection \<open>Hosts\<close>

definition cpuStatCmd :: string where
  "cpuStatCmd = ''cat /proc/stat | head -1''"

definition batch_section :: "string \<Rightarrow> string \<Rightarrow> string" where
  "batch_section tag cmd =
     ''echo '' @ quoted (''==='' @ tag @ ''==='') @ ''; '' @ cmd @ [CHR 0x0A]"

definition active_cmd :: "string \<Rightarrow> string" where
  "active_cmd service =
     ''out=$(systemctl is-active '' @ service @ '' 2>/dev/null); echo '' @ quoted ''${out:-N/A}''"

definition dmi_cmd :: "string \<Rightarrow> string" where
  "dmi_cmd key = ''dmidecode -s '' @ key @ '' 2>/dev/null || echo '' @ quoted ''N/A''"

definition hostBatchCmd :: string where
  "hostBatchCmd =
     batch_section ''LOADAVG'' ''cat /proc/loadavg'' @
     batch_section ''FREE'' ''free -b'' @
     batch_section ''DF'' ''df -ThP'' @
     batch_section ''DFI'' ''df -iPT'' @
     batch_section ''ULIMIT'' ''ulimit -n'' @
     batch_section ''PROCS'' ''ps -eLf 2>/dev/null | wc -l'' @
     batch_section ''NTPD'' (active_cmd ''ntpd'') @
     batch_section ''CHRONYD'' (active_cmd ''chronyd'') @
     batch_section ''SELINUX'' (''getenforce 2>/dev/null || echo '' @ quoted ''N/A'') @
     batch_section ''FIREWALLD'' (active_cmd ''firewalld'') @
     batch_section ''IPTABLES'' (active_cmd ''iptables'') @
     batch_section ''SS'' ''ss -s 2>/dev/null'' @
     batch_section ''UPTIME'' ''cat /proc/uptime'' @
     batch_section ''VERSION''
       ''cat /etc/redhat-release 2>/dev/null || cat /etc/os-release 2>/dev/null | head -1'' @
     batch_section ''KERNEL'' ''uname -r'' @
     batch_section ''MEMINFO'' (''grep -E '' @ quoted ''MemTotal|SwapTotal'' @ '' /proc/meminfo'') @
     batch_section ''CPUCOUNT'' ''grep -c processor /proc/cpuinfo'' @
     batch_section ''DMIDECODE''
       (dmi_cmd ''system-manufacturer'' @ ''; echo '' @ quoted ''---'' @ ''; ''
         @ dmi_cmd ''system-product-name'' @ ''; echo '' @ quoted ''---'' @ ''; ''
         @ dmi_cmd ''system-serial-number'')"

text \<open>The client as the host collector uses it: the first and the second command.\<close>

definition host_run :: "world \<Rightarrow> ssh_client \<Rightarrow> bool \<Rightarrow> string \<Rightarrow> string \<times> string option" where
  "host_run w client second ip =
     (if second then RunContext (w_NetAfter w) client ip (cpuStatCmd @ ''; '' @ hostBatchCmd)
      else RunContext (w_NetBefore w) client ip cpuStatCmd)"

definition host_results :: "Thresholds \<Rightarrow> HostMetrics list \<Rightarrow> HostCheckResult list" where
  "host_results t metrics =
     map (\<lambda>hm. HostCheckResult_zero\<lparr>hc_Metrics := hm, hc_Checks := CheckHost hm t\<rparr>) metrics"

subsection \<open>Services\<close>

definition check_service_status ::
  "Thresholds \<Rightarrow> string \<Rightarrow> ServiceStatus \<Rightarrow> ServiceStatus \<times> CheckResult list" where
  "check_service_status t moduleKey s =
     (let r1 = CheckServiceCollectError s;
          (services, r2) = check_list (\<lambda>sm. CheckService sm (ss_HostIP s) moduleKey) (ss_Services s);
          (s, r3) = CheckServiceContainers (s\<lparr>ss_Services := services\<rparr>) t
      in (s, r1 @ r2 @ r3))"

definition check_module ::
  "Thresholds \<Rightarrow> string \<times> ServiceStatus list \<Rightarrow> (string \<times> ServiceStatus list) \<times> CheckResult list" where
  "check_module t entry =
     (let (moduleKey, statuses) = entry;
          (statuses, rs) = check_list (check_service_status t moduleKey) statuses
      in ((moduleKey, statuses), rs))"

text \<open>
  The statuses are painted in place; the results come in the order of the visit, a permutation of
  the entries.
\<close>

definition check_services ::
  "Thresholds \<Rightarrow> nat list \<Rightarrow> service_results \<Rightarrow> service_results \<times> CheckResult list" where
  "check_services t visit results =
     (map (\<lambda>e. fst (check_module t e)) results,
      concat (map (\<lambda>i. snd (check_module t (results ! i))) visit))"

subsection \<open>The report\<close>

definition collect_report :: "world \<Rightarrow> Config \<Rightarrow> ssh_client \<Rightarrow> InspectReport" where
  "collect_report w cfg client =
     (let t = cf_Thresholds cfg;
          metrics = CollectAllHosts (w_Oob w) (host_run w client) (w_Phase1 w) (w_Phase2 w)
                      (cf_AllHosts cfg) (cf_CheckMountPath cfg) (cf_DiskIncludeNFS cfg);
          hosts = host_results t metrics;
          (services, serviceChecks) =
            check_services t (w_Visit w)
              (CollectAllServices (RunContext (w_NetAfter w) client) (w_Services w) cfg);
          (es, r1) = CheckES (CollectES (w_Oob w) (w_HaveCurl w) (w_CurlGet w)
                                (w_Reach w) cfg) t;
          mysql = CollectMySQL (w_MySQL w) cfg;
          (redis, r2) = CheckRedis (CollectRedisStandalone (w_Redis w) cfg) t;
          (sentinel, r3) =
            CheckRedisSentinel
              (CrossCheckSentinelMaster
                 (CollectRedisSentinel (w_Env w) (w_Sentinels w) (w_Redis w) cfg)
                 (cf_RedisMasterIPs cfg));
          (mongo, r4) = CheckMongo (CollectMongo (w_Mongo w) cfg);
          (rabbit, r5) =
            CheckRabbitMQ (CollectRabbitMQ (w_Oob w) (w_HaveCurl w) (w_Curl w) cfg) t;
          (deps, r6) =
            CheckBKDeps (map_option (\<lambda>deps. \<lparr>bs_Dependencies = deps\<rparr>)
                           (CollectBKMonitorV3Deps (w_Machine w) cfg));
          replication = CollectReplication (w_MySQL w) (w_Redis w) cfg;
          r7 = CheckReplication replication t;
          allChecks = concat (map hc_Checks hosts) @ serviceChecks @ r1 @ r2 @ r3 @ r4 @ r5 @ r6 @ r7
      in InspectReport_zero\<lparr>ir_Timestamp := w_Timestamp w, ir_Hosts := hosts,
           ir_Services := services, ir_ES := es, ir_MySQL := mysql, ir_RedisStandalone := redis,
           ir_RedisSentinel := sentinel, ir_MongoDB := mongo, ir_RabbitMQ := rabbit,
           ir_Replication := replication, ir_BKMonitorV3 := deps,
           ir_Summary := Summarize allChecks, ir_AllChecks := allChecks\<rparr>)"

subsection \<open>The run\<close>

text \<open>
  How it ends.  \<open>Inspected\<close> has the report as written and the mail that was delivered, if any.
\<close>

datatype run_end =
    ConfigFailed
  | NoHostsConfigured
  | AnotherInstance
  | SSHFailed
  | ReportFailed
  | Inspected InspectReport "message option"

definition exit_code :: "run_end \<Rightarrow> goint" where
  "exit_code e =
     (case e of
        ConfigFailed \<Rightarrow> 1
      | NoHostsConfigured \<Rightarrow> 1
      | AnotherInstance \<Rightarrow> 0
      | SSHFailed \<Rightarrow> 1
      | ReportFailed \<Rightarrow> 1
      | Inspected r m \<Rightarrow> 0)"

text \<open>The lock is tried only where the directory of the configuration is known.\<close>

definition busy :: "world \<Rightarrow> bool" where
  "busy w =
     (case ConfigPath (w_Env w) of
        Inl e \<Rightarrow> False
      | Inr notifyPath \<Rightarrow> lock_verdict (Acquire (w_Lock w)) = LeaveBusy)"

definition notify_config :: "world \<Rightarrow> NotifyConfig option" where
  "notify_config w =
     (case notify_Load (w_Env w) (w_Stat w) (read_file (w_Files w)) of
        Inl e \<Rightarrow> None
      | Inr cfg \<Rightarrow> cfg)"

text \<open>
  The parsed templates are taken as what executing them gives, \<open>None\<close> where they do not parse.  The
  mail is built from the page under the path that \<open>Write\<close> returned, which names the file just
  written.
\<close>

definition render :: "world \<Rightarrow> InspectReport \<Rightarrow> render_error + string" where
  "render w = RenderHTML (w_Templates w) (\<lambda>tmpl report. tmpl report)"

definition read_page :: "string \<Rightarrow> string \<Rightarrow> disk \<Rightarrow> string \<Rightarrow> string option" where
  "read_page outputDir htmlPath d path = (if path = htmlPath then d (html_path outputDir) else d path)"

text \<open>The report, the state and the mail of a run.\<close>

definition inspect :: "world \<Rightarrow> Config \<Rightarrow> ssh_client \<Rightarrow> run_end \<times> disk \<times> files" where
  "inspect w cfg client =
     (let nc = notify_config w;
          (prep, report) = Prepare (w_ParseTime w) (w_Files w) (w_Now w) nc
                             (collect_report w cfg client)
      in case Write (w_Write w) (w_Junk w) (render w) (w_FormatFloat w) report (cf_OutputDir cfg)
                (w_Disk w) of
           (Inl e, d) \<Rightarrow> (ReportFailed, d, w_Files w)
         | (Inr htmlPath, d) \<Rightarrow>
             (case nc of
                None \<Rightarrow> (Inspected report None, d, w_Files w)
              | Some nc \<Rightarrow>
                  (case Dispatch ((w_Dispatch w)\<lparr>dw_ReadHTML := read_page (cf_OutputDir cfg) htmlPath d\<rparr>)
                          prep nc report htmlPath (w_Files w) of
                     (sent, fs) \<Rightarrow> (Inspected report sent, d, fs))))"

definition main_run :: "world \<Rightarrow> run_end \<times> disk \<times> files" where
  "main_run w =
     (let stop = (\<lambda>e. (e, w_Disk w, w_Files w))
      in case Load (w_Env w) (w_OutputDir w) of
           Inl e \<Rightarrow> stop ConfigFailed
         | Inr cfg \<Rightarrow>
             if Validate_hosts cfg \<noteq> None then stop NoHostsConfigured
             else if busy w then stop AnotherInstance
             else case New (w_Env w) (w_Auth w) (cf_SSHUser cfg) (cf_SSHPort cfg) (cf_SSHKeyPath cfg)
                       (cf_SSHUseSudo cfg) of
               Inl e \<Rightarrow> stop SSHFailed
             | Inr client \<Rightarrow> inspect w cfg client)"

end
