(* ===== verification/Probe_Properties.thy ===== *)
theory Probe_Properties
  imports Inspect_Run
begin

text \<open>
  The properties that hold of every probe: secrets stay out of the texts, and every error has a
  class.
\<close>

subsection \<open>Secrets\<close>











lemma set_steps_error:
  "mn_Error (set_vars v n) = mn_Error n" "mn_Error (set_role db n) = mn_Error n"
  "mn_Error (set_binlogs db n) = mn_Error n"
  "mn_ErrorClass (set_vars v n) = mn_ErrorClass n" "mn_ErrorClass (set_role db n) = mn_ErrorClass n"
  "mn_ErrorClass (set_binlogs db n) = mn_ErrorClass n"
  by (simp_all add: set_vars_def set_role_def set_binlogs_def case_prod_beta Let_def split: option.splits)


subsection \<open>Error classes\<close>

lemma failed_class: "pb_Err (failed_probe t f e) \<noteq> None"
  by (simp add: failed_probe_def WrapErr_def Let_def)

text \<open>
  C30. Every error has a class and nothing else has one: this holds for the general classifier and
  those of MySQL, Redis, MongoDB and curl; and each of the five probes (MySQL, Redis, MongoDB,
  RabbitMQ, Elasticsearch, run on the entry its collector prepares) records an error class in that
  entry exactly when it returns an error.  The standard logger writes a line exactly for the probes that
  failed, the one set by \<open>nil\<close> never.
\<close>

theorem error_class_iff_error:
  "(Classify err = ErrNone \<longleftrightarrow> err = None) \<and> (classifyMySQL err = ErrNone \<longleftrightarrow> err = None) \<and>
   (classifyRedis err = ErrNone \<longleftrightarrow> err = None) \<and> (classifyMongo err = ErrNone \<longleftrightarrow> err = None) \<and>
   (curlErrClass err = ErrNone \<longleftrightarrow> err = None) \<and>
   (let (node, r) = mysqlNodeProbe_Run dial ip port creds in mn_ErrorClass node = [] \<longleftrightarrow> pb_Err r = None) \<and>
   (let (node, r) = redisNodeProbe_Run rdial ip port password in rn_ErrorClass node = [] \<longleftrightarrow> pb_Err r = None) \<and>
   (let (c, r) = mongoProbe_Run driver uri (MongoCluster_zero\<lparr>gc_Instance := inst\<rparr>)
    in gc_ErrorClass c = [] \<longleftrightarrow> pb_Err r = None) \<and>
   (let (st, r) = rmqProbe_Run oob curl p target RabbitMQStatus_zero
    in rs_ErrorClass st = [] \<longleftrightarrow> pb_Err r = None) \<and>
   (let (c, r) = esProbe_Run oob get host port auth target (ESCluster_zero
        \<lparr>ec_NodeReachability := reach, ec_Instance := target\<rparr>)
    in ec_ErrorClass c = [] \<longleftrightarrow> pb_Err r = None) \<and>
   (snd (RunProbe StdLogger name t result) = None \<longleftrightarrow> pb_Err result = None) \<and>
   snd (RunProbe (SetProbeLogger None) name t result) = None"
proof -
  have mysql: "mn_ErrorClass (fst (mysqlNodeProbe_Run dial ip port creds)) = [] \<longleftrightarrow>
      pb_Err (snd (mysqlNodeProbe_Run dial ip port creds)) = None"
    using mysql.classify_Some failed_class
    by (simp add: mysqlNodeProbe_Run_def mysql_node_error_def set_steps_error MySQLNode_zero_def
        ok_probe_def class_text_Nil Let_def split: option.splits sum.splits)
  have redis: "rn_ErrorClass (fst (redisNodeProbe_Run rdial ip port password)) = [] \<longleftrightarrow>
      pb_Err (snd (redisNodeProbe_Run rdial ip port password)) = None"
    using redis.classify_Some
    by (simp add: redisNodeProbe_Run_def RedisNode_zero_def ok_probe_def class_text_Nil Let_def
        split: sum.splits)
  let ?mongo = "mongoProbe_Run driver uri (MongoCluster_zero\<lparr>gc_Instance := inst\<rparr>)"
  have mongo: "gc_ErrorClass (fst ?mongo) = [] \<longleftrightarrow> pb_Err (snd ?mongo) = None"
    using mongo.classify_Some failed_class
    by (simp add: mongoProbe_Run_def MongoCluster_zero_def ok_probe_def class_text_Nil Let_def
        split: option.splits sum.splits)
  have node: "rs_ErrorClass (rmq_node oob st n) = rs_ErrorClass st" for st n
    by (simp add: rmq_node_def Let_def split: json.splits)
  have nodes: "rs_ErrorClass (foldl (rmq_node oob) st ns) = rs_ErrorClass st" for st ns
    by (induction ns arbitrary: st) (simp_all add: node)
  have conns: "rs_ErrorClass (rmq_connections cs st) = rs_ErrorClass st" for cs st
    by (simp add: rmq_connections_def)
  have queue: "rs_ErrorClass (snd (rmq_queue oob b bl acc q)) = rs_ErrorClass (snd acc)" for b bl acc q
    by (simp add: rmq_queue_def case_prod_beta Let_def)
  have fold: "rs_ErrorClass (snd (foldl (rmq_queue oob b bl) acc qs)) = rs_ErrorClass (snd acc)"
    for b bl acc qs
    by (induction qs arbitrary: acc) (simp_all add: queue)
  have queues: "rs_ErrorClass (rmq_queues oob b bl qs st) = rs_ErrorClass st" for b bl qs st
    using fold by (simp add: rmq_queues_def case_prod_beta Let_def)
  have rabbit: "rs_ErrorClass (fst (rmqProbe_Run oob curl p target RabbitMQStatus_zero)) = [] \<longleftrightarrow>
      pb_Err (snd (rmqProbe_Run oob curl p target RabbitMQStatus_zero)) = None"
    using curl.classify_Some
    by (simp add: rmqProbe_Run_def RabbitMQStatus_zero_def [THEN arg_cong, of rs_ErrorClass] nodes
        conns queues ok_probe_def class_text_Nil Let_def split: option.splits sum.splits)
  let ?es = "esProbe_Run oob get host port auth target (ESCluster_zero
    \<lparr>ec_NodeReachability := reach, ec_Instance := target\<rparr>)"
  have es: "ec_ErrorClass (fst ?es) = [] \<longleftrightarrow> pb_Err (snd ?es) = None"
    using curl.classify_Some
    by (simp add: esProbe_Run_def set_health_def ESCluster_zero_def ok_probe_def class_text_Nil Let_def
        split: option.splits sum.splits)
  show ?thesis
    using mysql redis mongo rabbit es RunProbe_log
    by (simp add: plain.classify_none_iff mysql.classify_none_iff redis.classify_none_iff
        mongo.classify_none_iff curl.classify_none_iff case_prod_beta Let_def)
qed

end
