(* ===== verification/Run_Samples.thy ===== *)
theory Run_Samples
  imports Inspect_Run Sample_Values
begin

text \<open>
  A configuration for the witnesses: what \<open>Load\<close> makes of an environment given as a list of
  variables, with fixed thresholds.
\<close>

definition sample_config_of :: "(string \<times> string) list \<Rightarrow> Config" where
  "sample_config_of vars = load_config (map_of vars) ''/tmp'' sample_thresholds 22 60"

lemma sample_config_fields:
  "cf_RedisSentinelIPs (sample_config_of vars) = parseIPList (Getenv (map_of vars) ''BK_REDIS_SENTINEL_IP_COMMA'')"
  "cf_RabbitMQIPs (sample_config_of vars) = parseIPList (Getenv (map_of vars) ''BK_RABBITMQ_IP_COMMA'')"
  "cf_ES7IPs (sample_config_of vars) = parseIPList (Getenv (map_of vars) ''BK_ES7_IP_COMMA'')"
  "cf_Thresholds (sample_config_of vars) = sample_thresholds"
  by (simp_all add: sample_config_of_def load_config_def)

text \<open>A world in which no server answers, every schedule is that of the indices below \<open>n\<close>.\<close>

definition refused :: go_error where
  "refused = \<lparr>ge_Text = ''connection refused'', ge_Chain = []\<rparr>"

definition dark_net :: ssh_net where
  "dark_net =
     \<lparr>sw_Dial = (\<lambda>addr. Some ''connection refused''), sw_Session = (\<lambda>addr. None),
      sw_Exec = (\<lambda>addr cmd. session_end.Ended [] None)\<rparr>"

definition dark_redis :: redis_server where
  "dark_redis = \<lparr>rd_Info = (\<lambda>s. Inl refused), rd_LLen = (\<lambda>k. Inl refused), rd_Ping = Inl refused\<rparr>"

definition dark_world :: "(string \<times> string) list \<Rightarrow> nat \<Rightarrow> world" where
  "dark_world vars n =
     \<lparr>w_Env = map_of vars, w_OutputDir = ''/tmp'',
      w_Lock = \<lparr>lk_Mkdir = True, lk_Open = True, lk_Flock = FlockOK\<rparr>,
      w_Timestamp = ''2026-01-01 00:00:00'',
      w_Auth = \<lparr>aw_File = (\<lambda>path. Key ''k''), aw_AgentDial = (\<lambda>sock. False)\<rparr>,
      w_Oob = (\<lambda>f. 0), w_NetBefore = dark_net, w_NetAfter = dark_net,
      w_Phase1 = [0..<n], w_Phase2 = [0..<n], w_Services = [], w_Visit = [], w_HaveCurl = False,
      w_CurlGet = (\<lambda>url. Inl refused), w_Reach = [],
      w_MySQL = (\<lambda>ip. \<lparr>db_Open = Some refused, db_Ping = Some refused, db_Vars = Inl refused,
        db_ReadOnly = Inl refused, db_Status = (\<lambda>q. Inl refused), db_Rows = (\<lambda>q. Inl refused)\<rparr>),
      w_Redis = (\<lambda>addr. dark_redis),
      w_Sentinels = (\<lambda>addr. \<lparr>sd_Ping = Inl refused, sd_Master = (\<lambda>m. Inl refused)\<rparr>),
      w_Mongo = \<lparr>md_Connect = (\<lambda>uri. Some refused), md_Status = (\<lambda>uri. Inl refused)\<rparr>,
      w_Curl = (\<lambda>args. Inl refused),
      w_Machine = \<lparr>mk_Has = (\<lambda>c. False), mk_Run = (\<lambda>args. Hangs), mk_Dial = (\<lambda>a. Some ''refused''),
        mk_Write = (\<lambda>a t. None), mk_Read = (\<lambda>a. (0, True))\<rparr>,
      w_Stat = (\<lambda>path. StatNotExist), w_ParseTime = (\<lambda>t. None), w_Now = 0, w_Files = Map.empty,
      w_Write = \<lparr>wc_Mkdir = True, wc_WriteHTML = True, wc_WriteJSON = True, wc_Abs = (\<lambda>p. None)\<rparr>,
      w_Junk = None, w_Templates = Some (\<lambda>r. Some ''<html>''), w_FormatFloat = (\<lambda>f. ''0''),
      w_Disk = Map.empty,
      w_Dispatch = \<lparr>dw_ReadHTML = (\<lambda>p. None), dw_FormatTime = (\<lambda>t. None),
        dw_Save = \<lparr>sv_Mkdir = False, sv_CreateTemp = None, sv_Write = False, sv_Written = 0, sv_Chmod = False,
          sv_Close = False, sv_Rename = False, sv_Remove = False\<rparr>,
        dw_Mailer = \<lparr>ml_From = (\<lambda>a. False), ml_To = (\<lambda>a. False), ml_NewClient = (\<lambda>a b. False),
          ml_Deliver = (\<lambda>a b c. False)\<rparr>,
        dw_Sort = insertion_sort\<rparr>\<rparr>"

definition two_hosts :: Config where
  "two_hosts = (sample_config_of [])\<lparr>cf_AllHosts := [''10.0.0.1'', ''10.0.0.2'']\<rparr>"

lemma parseIPList_Nil: "parseIPList [] = []"
  by code_simp

lemma two_hosts_fields:
  "cf_AllHosts two_hosts = [''10.0.0.1'', ''10.0.0.2'']" "cf_ES7IPs two_hosts = []"
  "cf_Thresholds two_hosts = sample_thresholds"
  by (simp_all add: two_hosts_def sample_config_fields Getenv_def parseIPList_Nil)

definition plain_client :: ssh_client where
  "plain_client = \<lparr>sl_User = ''root'', sl_Port = 22, sl_UseSudo = False, sl_Auth = []\<rparr>"

end
