(* ===== verification/Redis_Properties.thy ===== *)
theory Redis_Properties
  imports Run_Samples
begin

text \<open>
  The properties of the Redis and replication collectors, alone and together with the checkers and
  the page.
\<close>

subsection \<open>Sentinels\<close>

definition sentinel_port :: "environment \<Rightarrow> string" where
  "sentinel_port env = envOrDefault env ''INSPECT_REDIS_SENTINEL_PORT'' ''26379''"

definition sentinel_master :: "environment \<Rightarrow> string" where
  "sentinel_master env = envOrDefault env ''BK_APIGW_REDIS_SENTINEL_MASTER_NAME'' ''mymaster''"

text \<open>The sentinels that answer, and the master the first of them names that names one.\<close>

definition answers :: "environment \<Rightarrow> sentinel_dial \<Rightarrow> string \<Rightarrow> bool" where
  "answers env sentinels ip \<longleftrightarrow> sd_Ping (sentinel_client sentinels (JoinHostPort ip (sentinel_port env))) = Inr ''PONG''"

definition named_master ::
  "environment \<Rightarrow> sentinel_dial \<Rightarrow> string \<Rightarrow> (string \<times> string) option" where
  "named_master env sentinels ip =
     (case sentinelGetMaster sentinels ip (sentinel_port env) (sentinel_master env) of
        Some (h, p) \<Rightarrow> if h \<noteq> [] then Some (h, p) else None
      | None \<Rightarrow> None)"

definition found_master ::
  "environment \<Rightarrow> sentinel_dial \<Rightarrow> string list \<Rightarrow> (string \<times> string) option" where
  "found_master env sentinels ips =
     (case List.map_filter (named_master env sentinels) (filter (answers env sentinels) ips) of
        [] \<Rightarrow> None
      | m # _ \<Rightarrow> Some m)"

lemma ping_fields:
  "sn_Reachable (pingSentinel dial ip port) \<longleftrightarrow>
     sd_Ping (sentinel_client dial (JoinHostPort ip port)) = Inr ''PONG''"
  "sn_IP (pingSentinel dial ip port) = ip" "sn_Port (pingSentinel dial ip port) = port"
  by (simp_all add: pingSentinel_def SentinelNodeStatus_zero_def Let_def split: sum.splits)

lemma discover_found:
  "discover sentinels (sentinel_master env)
     (map (\<lambda>ip. pingSentinel sentinels ip (sentinel_port env)) ips) =
   found_master env sentinels ips"
  by (induction ips)
    (simp_all add: found_master_def answers_def named_master_def ping_fields map_filter_simps
      split: option.splits prod.splits)

lemma JoinHostPort_Nil: "JoinHostPort h p \<noteq> []"
  by (simp add: JoinHostPort_def)

definition host_text :: "string \<Rightarrow> string" where
  "host_text h = (if CHR '':'' \<in> set h then ''['' @ h @ '']'' else h)"

lemma cut_port:
  assumes "CHR '':'' \<notin> set p" "h \<noteq> []"
  shows "(case LastIndexByte (JoinHostPort h p) CHR '':'' of
            None \<Rightarrow> JoinHostPort h p
          | Some i \<Rightarrow> if i > 0 then take i (JoinHostPort h p) else JoinHostPort h p) = host_text h"
proof -
  have "JoinHostPort h p = host_text h @ CHR '':'' # p"
    by (simp add: JoinHostPort_def host_text_def)
  moreover have "host_text h \<noteq> []" using assms(2) by (simp add: host_text_def)
  ultimately show ?thesis by (simp add: LastIndexByte_last assms(1))
qed

lemma found_master_host: "found_master env sentinels ips = Some (h, p) \<Longrightarrow> h \<noteq> []"
proof -
  assume f: "found_master env sentinels ips = Some (h, p)"
  then have "(h, p) \<in> set (List.map_filter (named_master env sentinels) (filter (answers env sentinels) ips))"
    by (simp add: found_master_def split: list.splits)
  then show "h \<noteq> []"
    by (auto simp: List.map_filter_def named_master_def split: option.splits prod.splits if_splits)
qed

lemma no_sentinel:
  assumes "filter sn_Reachable (map (\<lambda>ip. pingSentinel sentinels ip (sentinel_port env)) ips) = []"
  shows "found_master env sentinels ips = None"
proof -
  have "filter (answers env sentinels) ips = []"
    using assms by (auto simp: filter_empty_conv ping_fields answers_def)
  then show ?thesis by (simp add: found_master_def map_filter_simps)
qed

lemma some_sentinel:
  "length (filter sn_Reachable (map (\<lambda>ip. pingSentinel sentinels ip (sentinel_port env)) ips)) < length ips
     \<longleftrightarrow> \<not> list_all (answers env sentinels) ips"
proof -
  have "length (filter sn_Reachable (map (\<lambda>ip. pingSentinel sentinels ip (sentinel_port env)) ips)) =
      length (filter (answers env sentinels) ips)"
    by (simp add: filter_map comp_def ping_fields answers_def [abs_def])
  then show ?thesis
    by (metis length_filter_less filter_True list_all_iff less_irrefl)
qed

lemma collected_sentinel:
  assumes "cf_RedisSentinelIPs cfg \<noteq> []"
    and "CollectRedisSentinel env sentinels redis cfg = Some st"
  shows "sc_DiscoveredMaster st =
      (case found_master env sentinels (cf_RedisSentinelIPs cfg) of
         None \<Rightarrow> [] | Some (h, p) \<Rightarrow> JoinHostPort h p)"
    and "sc_Status st =
      (case found_master env sentinels (cf_RedisSentinelIPs cfg) of
         None \<Rightarrow> ''critical''
       | Some (h, p) \<Rightarrow>
           if \<not> redisPing redis h p (cd_RedisPassword (cf_Creds cfg)) then ''critical''
           else if list_all (answers env sentinels) (cf_RedisSentinelIPs cfg) then ''ok'' else ''warn'')"
proof -
  let ?ips = "cf_RedisSentinelIPs cfg"
  let ?nodes = "map (\<lambda>ip. pingSentinel sentinels ip (sentinel_port env)) ?ips"
  note none = no_sentinel [of sentinels env ?ips] and count = some_sentinel [of sentinels env ?ips]
  have disc: "discover sentinels (envOrDefault env ''BK_APIGW_REDIS_SENTINEL_MASTER_NAME'' ''mymaster'') ?nodes =
      found_master env sentinels ?ips"
    using discover_found by (simp add: sentinel_master_def)
  note defs = CollectRedisSentinel_def Let_def sentinel_port_def [symmetric] SentinelClusterStatus_zero_def
  show "sc_DiscoveredMaster st =
      (case found_master env sentinels ?ips of None \<Rightarrow> [] | Some (h, p) \<Rightarrow> JoinHostPort h p)"
  proof (cases "filter sn_Reachable ?nodes = []")
    case True
    with assms none show ?thesis by (auto simp: defs)
  next
    case False
    with assms disc show ?thesis
      by (auto simp: defs split: option.splits prod.splits)
  qed
  show "sc_Status st =
      (case found_master env sentinels ?ips of
         None \<Rightarrow> ''critical''
       | Some (h, p) \<Rightarrow>
           if \<not> redisPing redis h p (cd_RedisPassword (cf_Creds cfg)) then ''critical''
           else if list_all (answers env sentinels) ?ips then ''ok'' else ''warn'')"
  proof (cases "filter sn_Reachable ?nodes = []")
    case True
    with assms none show ?thesis by (auto simp: defs)
  next
    case False
    with assms disc count show ?thesis
      by (auto simp: defs JoinHostPort_Nil split: option.splits prod.splits)
  qed
qed

text \<open>
  C22. The verdict on a sentinel cluster: it is \<open>ok\<close> exactly when every sentinel answers and the
  master that the first of them to know one names answers, too; \<open>critical\<close> exactly when no such
  master is found or it does not answer; and with declared masters the master matches exactly when
  its host, in brackets if it is an IPv6 address, is one of them.
\<close>

theorem sentinel_verdict:
  assumes "cf_RedisSentinelIPs cfg \<noteq> []"
    and "CrossCheckSentinelMaster (CollectRedisSentinel env sentinels redis cfg) declared = Some st"
    and "found_master env sentinels (cf_RedisSentinelIPs cfg) = found"
    and "\<And>h p. found = Some (h, p) \<Longrightarrow> CHR '':'' \<notin> set p"
  shows "(sc_Status st = ''ok'' \<longleftrightarrow>
      (\<exists>h p. found = Some (h, p) \<and> redisPing redis h p (cd_RedisPassword (cf_Creds cfg))) \<and>
      list_all (answers env sentinels) (cf_RedisSentinelIPs cfg)) \<and>
    (sc_Status st = ''critical'' \<longleftrightarrow>
      \<not> (\<exists>h p. found = Some (h, p) \<and> redisPing redis h p (cd_RedisPassword (cf_Creds cfg)))) \<and>
    (sc_MasterEnvMatch st = ''ok'' \<longleftrightarrow> (\<exists>h p. found = Some (h, p) \<and> host_text h \<in> set declared)) \<and>
    (sc_MasterEnvMatch st = ''N/A'' \<longleftrightarrow> declared = [])"
proof -
  obtain st0 where st0: "CollectRedisSentinel env sentinels redis cfg = Some st0"
    using assms(2) by (cases "CollectRedisSentinel env sentinels redis cfg")
      (simp_all add: CrossCheckSentinelMaster_def)
  note c = collected_sentinel [OF assms(1) st0, unfolded assms(3)]
  have status: "sc_Status st = sc_Status st0"
    and env: "sc_MasterEnvMatch st =
      (if declared = [] then ''N/A''
       else if sc_DiscoveredMaster st0 = [] then ''warn''
       else let ip = (case LastIndexByte (sc_DiscoveredMaster st0) CHR '':'' of
                        None \<Rightarrow> sc_DiscoveredMaster st0
                      | Some i \<Rightarrow> if i > 0 then take i (sc_DiscoveredMaster st0)
                                  else sc_DiscoveredMaster st0)
            in if ip \<in> set declared then ''ok'' else ''warn'')"
    using assms(2) by (auto simp: st0 CrossCheckSentinelMaster_def Let_def)
  show ?thesis
  proof (cases found)
    case None
    with c status env show ?thesis by auto
  next
    case (Some m)
    obtain h p where m: "found = Some (h, p)" using Some by (cases m) auto
    then have hp: "CHR '':'' \<notin> set p" "h \<noteq> []" using assms(3,4) found_master_host by auto
    have d: "sc_DiscoveredMaster st0 = JoinHostPort h p" using c(1) by (simp add: m)
    have "sc_MasterEnvMatch st =
        (if declared = [] then ''N/A'' else if host_text h \<in> set declared then ''ok'' else ''warn'')"
      using env [unfolded d Let_def cut_port [OF hp]] by (simp add: JoinHostPort_Nil)
    moreover have "sc_Status st =
        (if \<not> redisPing redis h p (cd_RedisPassword (cf_Creds cfg)) then ''critical''
         else if list_all (answers env sentinels) (cf_RedisSentinelIPs cfg) then ''ok'' else ''warn'')"
      using status c(2) by (simp add: m)
    ultimately show ?thesis by (auto simp: m)
  qed
qed

theorem sentinel_verdict_witness:
  "\<exists>st. CrossCheckSentinelMaster
      (CollectRedisSentinel Map.empty
         (\<lambda>addr. \<lparr>sd_Ping = Inr ''PONG'', sd_Master = \<lambda>name. Inr [''10.0.0.2'', ''6379'']\<rparr>)
         (\<lambda>addr. \<lparr>rd_Info = \<lambda>s. Inr [], rd_LLen = \<lambda>k. Inr 0, rd_Ping = Inr ''PONG''\<rparr>)
         (sample_config_of [(''BK_REDIS_SENTINEL_IP_COMMA'', ''10.0.0.1'')])) [''10.0.0.2''] = Some st \<and>
    sc_Status st = ''ok'' \<and> sc_MasterEnvMatch st = ''ok''"
proof -
  let ?cfg = "sample_config_of [(''BK_REDIS_SENTINEL_IP_COMMA'', ''10.0.0.1'')]"
  let ?sens = "\<lambda>addr :: redis_options. \<lparr>sd_Ping = Inr ''PONG'', sd_Master = \<lambda>name. Inr [''10.0.0.2'', ''6379'']\<rparr>"
  let ?redis = "\<lambda>addr :: redis_options. \<lparr>rd_Info = \<lambda>s. Inr [], rd_LLen = \<lambda>k. Inr 0, rd_Ping = Inr ''PONG''\<rparr>"
  have "parseIPList ''10.0.0.1'' = [''10.0.0.1'']" by code_simp
  then have ips: "cf_RedisSentinelIPs ?cfg = [''10.0.0.1'']"
    by (simp add: sample_config_fields Getenv_def)
  have found: "found_master Map.empty ?sens (cf_RedisSentinelIPs ?cfg) = Some (''10.0.0.2'', ''6379'')"
    by (simp add: ips found_master_def answers_def named_master_def sentinelGetMaster_def
        sentinel_client_def map_filter_simps)
  obtain st where st: "CrossCheckSentinelMaster (CollectRedisSentinel Map.empty ?sens ?redis ?cfg)
      [''10.0.0.2''] = Some st"
    by (simp add: CollectRedisSentinel_def ips CrossCheckSentinelMaster_def pingSentinel_def
        sentinel_client_def Let_def)
  have "sc_Status st = ''ok'' \<and> sc_MasterEnvMatch st = ''ok''"
    using sentinel_verdict [OF _ st found] ips
    by (simp add: redisPing_def newRedisClient_def answers_def sentinel_client_def host_text_def)
  with st show ?thesis by blast
qed

subsection \<open>INFO\<close>

text \<open>The lines of an INFO text: comments, blank lines and pairs.\<close>

datatype info_item = Comment string | Pair string string

fun item_line :: "info_item \<Rightarrow> string" where
  "item_line (Comment s) = s"
| "item_line (Pair k v) = k @ '':'' @ v"

fun good_item :: "info_item \<Rightarrow> bool" where
  "good_item (Comment s) \<longleftrightarrow> TrimSpace s = [] \<or> HasPrefix (TrimSpace s) ''#''"
| "good_item (Pair k v) \<longleftrightarrow> info_pair (k, v)"

fun item_pairs :: "info_item list \<Rightarrow> info" where
  "item_pairs [] = []"
| "item_pairs (Comment s # items) = item_pairs items"
| "item_pairs (Pair k v # items) = item_pairs items @ [(k, v)]"

definition unbroken :: "string \<Rightarrow> bool" where
  "unbroken l \<longleftrightarrow> CHR 0x0D \<notin> set l \<and> CHR 0x0A \<notin> set l"

lemma info_items:
  "list_all good_item items \<Longrightarrow> foldl info_line info (map item_line items) = item_pairs items @ info"
proof (induction items arbitrary: info rule: item_pairs.induct)
  case (2 s items)
  then show ?case by (simp add: info_line_skip)
next
  case (3 k v items)
  then show ?case using info_line_pair [of k v info] by simp
qed simp

lemma TrimSpace_hash: "HasPrefix (TrimSpace (CHR ''#'' # s)) ''#''"
  using TrimSpace_visible [of "CHR ''#''" s]
  by (auto simp: HasPrefix_def visible_def ascii_space_def)

text \<open>
  C31. INFO reads back: from lines that are comments, blanks and plain pairs, ended by carriage
  return and line feed, every key has the value of its last pair and no other key has one; with
  line feeds only the same holds when the text starts with a comment, as it does when a server
  sends it.
\<close>

theorem info_roundtrip:
  assumes "list_all good_item items" "list_all unbroken (map item_line items)"
    and "items = Comment (CHR ''#'' # c) # rest" "item_pairs items \<noteq> []"
  shows "parseRedisInfo (Join (map item_line items) [CHR 0x0D, CHR 0x0A]) = item_pairs items \<and>
    parseRedisInfo (Join (map item_line items) [CHR 0x0A]) = item_pairs items"
proof
  let ?ls = "map item_line items"
  have ne: "?ls \<noteq> []" using assms(3) by simp
  have crlf: "Split (Join ?ls [CHR 0x0D, CHR 0x0A]) [CHR 0x0D, CHR 0x0A] = ?ls"
    using assms(2) ne by (intro Split_Join_crlf) (auto simp: list_all_iff unbroken_def)
  have lf: "Split (Join ?ls [CHR 0x0A]) [CHR 0x0A] = ?ls"
    using assms(2) ne by (intro Split_Join_comma) (auto simp: list_all_iff unbroken_def)
  have items: "foldl info_line [] ?ls = item_pairs items"
    using info_items [OF assms(1), of "[]"] by simp
  show "parseRedisInfo (Join ?ls [CHR 0x0D, CHR 0x0A]) = item_pairs items"
    using assms(4) by (simp add: parseRedisInfo_def crlf items Let_def)
  have "CHR 0x0D \<notin> set (Join ls [CHR 0x0A])" if "list_all unbroken ls" for ls
    using that by (induction ls "[CHR 0x0A]" rule: Join.induct) (auto simp: unbroken_def)
  then have "Split (Join ?ls [CHR 0x0A]) [CHR 0x0D, CHR 0x0A] = [Join ?ls [CHR 0x0A]]"
    using Split_Join_crlf [of "[Join ?ls [CHR 0x0A]]"] assms(2) by simp
  moreover have "\<exists>s. Join ?ls [CHR 0x0A] = CHR ''#'' # s"
    using assms(3) by (cases rest) auto
  then have "info_line [] (Join ?ls [CHR 0x0A]) = []"
    using TrimSpace_hash info_line_skip by auto
  ultimately show "parseRedisInfo (Join ?ls [CHR 0x0A]) = item_pairs items"
    by (simp add: parseRedisInfo_def lf items Let_def)
qed

theorem info_roundtrip_witness:
  "parseRedisInfo (Join [''# Replication'', ''role:slave'', ''master_host:10.0.0.1''] [CHR 0x0A]) =
   [(''master_host'', ''10.0.0.1''), (''role'', ''slave'')]"
proof -
  let ?items = "[Comment ''# Replication'', Pair ''role'' ''slave'', Pair ''master_host'' ''10.0.0.1'']"
  have "TrimSpace ''# Replication'' = ''# Replication''" "TrimSpace ''role:slave'' = ''role:slave''"
    "TrimSpace ''master_host:10.0.0.1'' = ''master_host:10.0.0.1''"
    by code_simp+
  then have "list_all good_item ?items"
    by (simp add: info_pair_def HasPrefix_def)
  moreover have "list_all unbroken (map item_line ?items)" by (simp add: unbroken_def)
  ultimately have "parseRedisInfo (Join (map item_line ?items) [CHR 0x0A]) = item_pairs ?items"
    by (rule info_roundtrip [THEN conjunct2]) simp_all
  then show ?thesis by simp
qed

text \<open>Without a comment in front, a text with line feeds only is read as one pair.\<close>

lemma lf_info_without_comment:
  "parseRedisInfo (''role:slave'' @ [CHR 0x0A] @ ''master_host:10.0.0.1'') =
   [(''role'', ''slave'' @ [CHR 0x0A] @ ''master_host:10.0.0.1'')]"
  by code_simp

subsection \<open>Replication, from the server to the page\<close>

lemma grade_redis_fields:
  "rr_Role (grade_redis info declared thr r) = info_get info ''role''"
  "rr_RoleConsistencyStatus (grade_redis info declared thr r) =
     (if info_get info ''role'' \<noteq> declared then ''warn'' else rr_RoleConsistencyStatus r)"
  "info_get info ''role'' = ''slave'' \<Longrightarrow>
   rr_LinkStatus (grade_redis info declared thr r) =
     (if info_get info ''master_link_status'' \<noteq> ''up'' then ''critical''
      else if Atoi0 (info_get info ''master_last_io_seconds_ago'') > thr then ''warn'' else ''ok'')"
  "info_get info ''role'' \<noteq> ''slave'' \<Longrightarrow> rr_LinkStatus (grade_redis info declared thr r) = ''N/A''"
  by (auto simp: grade_redis_def Let_def)

lemma slave_replication_ok:
  "mr_Status (slave_replication cols row lag) = ''ok'' \<longleftrightarrow>
     mr_IORunning (slave_replication cols row lag) = ''Yes'' \<and>
     mr_SQLRunning (slave_replication cols row lag) = ''Yes'' \<and>
     mr_SecondsBehindMaster (slave_replication cols row lag) \<le> lag"
  unfolding slave_replication_def Let_def MySQLReplicationStatus.simps by auto

lemma mysql_slave_grade:
  "collectMySQLSlave dial ip port creds lag = s \<Longrightarrow>
   (case ms_Replication s of
      None \<Rightarrow> ms_ErrorClass s \<noteq> []
    | Some r \<Rightarrow> ms_ErrorClass s = [] \<and>
        (mr_Status r = ''ok'' \<longleftrightarrow> mr_IORunning r = ''Yes'' \<and> mr_SQLRunning r = ''Yes'' \<and>
           mr_SecondsBehindMaster r \<le> lag))"
proof -
  assume s: "collectMySQLSlave dial ip port creds lag = s"
  define db where "db = openMySQL dial ip port creds"
  obtain q1 e1 q2 e2 where q: "queryStatusVertical db ''SHOW SLAVE STATUS'' = (q1, e1)"
    "queryStatusVertical db ''SHOW REPLICA STATUS'' = (q2, e2)"
    by (meson surj_pair)
  obtain c1 r1 c2 r2 where qs: "q1 = (c1, r1)" "q2 = (c2, r2)" by (meson surj_pair)
  note rec = mysql.class_recorded slave_replication_ok MySQLSlaveStatus_zero_def
    MySQLReplicationStatus_zero_def
  show ?thesis
  proof (cases "db_Open db")
    case None
    show ?thesis
      unfolding s [symmetric] collectMySQLSlave_def db_def [symmetric] Let_def None q qs
      by (cases "e1 \<noteq> None \<or> c1 = []"; cases e2; cases "c2 = []") (auto simp: rec)
  next
    case (Some e)
    then show ?thesis
      unfolding s [symmetric] collectMySQLSlave_def by (simp add: rec db_def Let_def)
  qed
qed

text \<open>
  The classes of the coloured cells of a node's row on the page, left to right, as the template
  writes them (src/render/templates/opensources.html.tmpl, the tables of the replication).
\<close>

definition mysql_master_cells :: "MySQLMasterStatus \<Rightarrow> string list" where
  "mysql_master_cells m = [okClass (mm_Status m)]"

definition mysql_slave_cells :: "MySQLSlaveStatus \<Rightarrow> string list" where
  "mysql_slave_cells s =
     (case ms_Replication s of
        Some r \<Rightarrow> [yesClass (mr_IORunning r), yesClass (mr_SQLRunning r), okClass (mr_Status r)]
      | None \<Rightarrow> [''status-warn''])"

definition redis_replica_cells :: "RedisReplicationStatus \<Rightarrow> string list" where
  "redis_replica_cells n = [okClass (rr_RoleConsistencyStatus n), linkStatusClass (rr_LinkStatus n)]"

lemmas replica_defs = mysql_master_cells_def mysql_slave_cells_def redis_replica_cells_def
  okClass_def yesClass_def linkStatusClass_def statusClass_def warn_if_def

lemma mysql_master_judged:
  "let db = openMySQL dial ip port creds; m = collectMySQLMaster dial ip port creds;
       c = check_mysql_master m;
       writable = (db_Open db = None \<and> (case db_ReadOnly db of Inl e \<Rightarrow> False | Inr v \<Rightarrow> v \<noteq> 1))
   in cr_Status c = warn_if (\<not> writable) \<and> mysql_master_cells m = [statusClass (cr_Status c)]"
  by (simp add: collectMySQLMaster_def check_mysql_master_def replica_defs Let_def
      split: option.split sum.split)

lemma mysql_slave_judged:
  "let s = collectMySQLSlave dial ip port creds lag; rs = check_mysql_slave lagText s
   in case ms_Replication s of
        None \<Rightarrow> ms_ErrorClass s \<noteq> [] \<and> rs = [] \<and> mysql_slave_cells s = [statusClass StatusWarn]
      | Some r \<Rightarrow> ms_ErrorClass s = [] \<and>
          map cr_Status rs =
            [warn_if (\<not> (mr_IORunning r = ''Yes'' \<and> mr_SQLRunning r = ''Yes'' \<and>
                        mr_SecondsBehindMaster r \<le> lag))] \<and>
          mysql_slave_cells s =
            statusClass (warn_if (mr_IORunning r \<noteq> ''Yes'')) #
            statusClass (warn_if (mr_SQLRunning r \<noteq> ''Yes'')) #
            map (\<lambda>c. statusClass (cr_Status c)) rs"
proof -
  obtain s where s: "collectMySQLSlave dial ip port creds lag = s" by simp
  show ?thesis
    unfolding s Let_def using mysql_slave_grade [OF s]
    by (cases "ms_Replication s") (simp_all add: check_mysql_slave_def replica_defs)
qed

lemma redis_replica_judged:
  "let n = collectRedisReplication rdial ip port password declared thr; rs = check_redis_replica ioText n
   in case rd_Info (newRedisClient rdial (JoinHostPort ip port) password 0) ''replication'' of
        Inl e \<Rightarrow> rr_ErrorClass n \<noteq> [] \<and> map cr_Status rs = [StatusWarn] \<and>
                 redis_replica_cells n = map (\<lambda>c. statusClass (cr_Status c)) rs @ [statusClass StatusWarn]
      | Inr out \<Rightarrow>
          let info = parseRedisInfo out; slave = (info_get info ''role'' = ''slave'')
          in map cr_Status rs =
               warn_if (info_get info ''role'' \<noteq> declared) #
               (if slave then [warn_if (\<not> (info_get info ''master_link_status'' = ''up'' \<and>
                   Atoi0 (info_get info ''master_last_io_seconds_ago'') \<le> thr))] else []) \<and>
             redis_replica_cells n =
               map (\<lambda>c. statusClass (cr_Status c)) rs @ (if slave then [] else [[]])"
  using redis.class_recorded
  by (cases "rd_Info (newRedisClient rdial (JoinHostPort ip port) password 0) ''replication''")
    (simp_all add: collectRedisReplication_def check_redis_replica_def grade_redis_fields
      RedisReplicationStatus_zero_def replica_defs Let_def)

text \<open>
  C27. What the checks and the page say of a replicating node.  A MySQL master has one check, a
  warning exactly unless it answers and is writable, in the colour of its cell.  A MySQL slave whose
  replication was read has one check, a warning exactly unless both threads run within the permitted
  lag, in the colour of its status cell, and the cells of the two threads are red exactly where a
  thread does not run; one whose replication could not be read has an error class and a red row, but
  no check: there the page warns and the summary does not.  A Redis node that answers has one role
  check, a warning exactly when its role is not the declared one, and as a slave one link check, a
  warning exactly when the link is not up or silent for longer than the threshold; its cells have
  the colours of these checks, and the link cell of any other role is plain.  A Redis node that
  does not answer has an error class and one warning, for its role; its link cell is red as well,
  without a check.
\<close>

theorem replication_judged:
  "(let db = openMySQL dial ip port creds; m = collectMySQLMaster dial ip port creds;
        c = check_mysql_master m;
        writable = (db_Open db = None \<and> (case db_ReadOnly db of Inl e \<Rightarrow> False | Inr v \<Rightarrow> v \<noteq> 1))
    in cr_Status c = warn_if (\<not> writable) \<and> mysql_master_cells m = [statusClass (cr_Status c)]) \<and>
   (let s = collectMySQLSlave dial ip port creds lag; rs = check_mysql_slave lagText s
    in case ms_Replication s of
         None \<Rightarrow> ms_ErrorClass s \<noteq> [] \<and> rs = [] \<and> mysql_slave_cells s = [statusClass StatusWarn]
       | Some r \<Rightarrow> ms_ErrorClass s = [] \<and>
           map cr_Status rs =
             [warn_if (\<not> (mr_IORunning r = ''Yes'' \<and> mr_SQLRunning r = ''Yes'' \<and>
                         mr_SecondsBehindMaster r \<le> lag))] \<and>
           mysql_slave_cells s =
             statusClass (warn_if (mr_IORunning r \<noteq> ''Yes'')) #
             statusClass (warn_if (mr_SQLRunning r \<noteq> ''Yes'')) #
             map (\<lambda>c. statusClass (cr_Status c)) rs) \<and>
   (let n = collectRedisReplication rdial ip port password declared thr; rs = check_redis_replica ioText n
    in case rd_Info (newRedisClient rdial (JoinHostPort ip port) password 0) ''replication'' of
         Inl e \<Rightarrow> rr_ErrorClass n \<noteq> [] \<and> map cr_Status rs = [StatusWarn] \<and>
                  redis_replica_cells n = map (\<lambda>c. statusClass (cr_Status c)) rs @ [statusClass StatusWarn]
       | Inr out \<Rightarrow>
           let info = parseRedisInfo out; slave = (info_get info ''role'' = ''slave'')
           in map cr_Status rs =
                warn_if (info_get info ''role'' \<noteq> declared) #
                (if slave then [warn_if (\<not> (info_get info ''master_link_status'' = ''up'' \<and>
                    Atoi0 (info_get info ''master_last_io_seconds_ago'') \<le> thr))] else []) \<and>
              redis_replica_cells n =
                map (\<lambda>c. statusClass (cr_Status c)) rs @ (if slave then [] else [[]]))"
  by (intro conjI mysql_master_judged mysql_slave_judged redis_replica_judged)

end
