(* ===== verification/Component_Properties.thy ===== *)
theory Component_Properties
  imports Run_Samples
begin

text \<open>
  The properties of the RabbitMQ, Elasticsearch, service and dependency collectors.
\<close>

subsection \<open>RabbitMQ queues\<close>

lemma wrap64_add: "wrap64 (wrap64 a + b) = wrap64 (a + b)"
  by (simp add: wrap64_def mod_simps algebra_simps)

lemma wrap64_add2: "wrap64 (b + wrap64 a) = wrap64 (b + a)"
  using wrap64_add [of a b] by (simp add: add.commute)

definition counted_queues :: "(float64 \<Rightarrow> goint) \<Rightarrow> json_map list \<Rightarrow> RabbitMQQueue list" where
  "counted_queues oob queues = filter (\<lambda>q. \<not> ignored_queue q) (map (queue_info oob) queues)"

definition vhost_total :: "RabbitMQQueue list \<Rightarrow> string \<Rightarrow> RabbitMQVHostSummary" where
  "vhost_total qs v =
     (let mine = filter (\<lambda>q. rq_VHost q = v) qs
      in \<lparr>rv_VHost = v, rv_Queues = wrap64 (int (length mine)),
          rv_Messages = wrap64 (sum_list (map rq_MessageCount mine)),
          rv_Consumers = wrap64 (sum_list (map rq_Consumers mine))\<rparr>)"

definition tally :: "vhost_totals \<Rightarrow> RabbitMQQueue \<Rightarrow> vhost_totals" where
  "tally totals q = add_vhost (rq_VHost q) (rq_MessageCount q) (rq_Consumers q) totals"

lemma add_vhost_keys: "fst ` set (add_vhost v m c totals) = insert v (fst ` set totals)"
proof (induction totals)
  case (Cons t totals)
  then show ?case by (cases t; cases "fst t = v") auto
qed simp

lemma add_vhost_distinct: "distinct (map fst totals) \<Longrightarrow> distinct (map fst (add_vhost v m c totals))"
proof (induction totals)
  case (Cons t totals)
  have "fst t \<notin> fst ` set (add_vhost v m c totals)" if "fst t \<noteq> v"
    using that Cons.prems by (simp add: add_vhost_keys)
  with Cons show ?case by (cases t) auto
qed simp

lemma add_vhost_lookup:
  "map_of (add_vhost v m c totals) k =
     (if k = v then
        Some (case map_of totals v of
                None \<Rightarrow> RabbitMQVHostSummary_zero\<lparr>rv_VHost := v, rv_Queues := 1,
                          rv_Messages := wrap64 m, rv_Consumers := wrap64 c\<rparr>
              | Some agg \<Rightarrow> agg\<lparr>rv_Queues := wrap64 (rv_Queues agg + 1),
                               rv_Messages := wrap64 (rv_Messages agg + m),
                               rv_Consumers := wrap64 (rv_Consumers agg + c)\<rparr>)
      else map_of totals k)"
  by (induction totals) auto

lemma wrap64_1: "wrap64 1 = 1" "wrap64 (int (Suc 0)) = 1"
  by (simp_all add: wrap64_def)

lemma vhost_total_snoc:
  "vhost_total (qs @ [q]) (rq_VHost q) =
     (vhost_total qs (rq_VHost q))
       \<lparr>rv_Queues := wrap64 (rv_Queues (vhost_total qs (rq_VHost q)) + 1),
        rv_Messages := wrap64 (rv_Messages (vhost_total qs (rq_VHost q)) + rq_MessageCount q),
        rv_Consumers := wrap64 (rv_Consumers (vhost_total qs (rq_VHost q)) + rq_Consumers q)\<rparr>"
  by (simp add: vhost_total_def wrap64_add wrap64_add2 Let_def ac_simps)

lemma vhost_total_other: "rq_VHost q \<noteq> v \<Longrightarrow> vhost_total (qs @ [q]) v = vhost_total qs v"
  by (simp add: vhost_total_def)

lemma vhost_total_first:
  assumes "\<forall>q' \<in> set qs. rq_VHost q' \<noteq> rq_VHost q"
  shows "vhost_total (qs @ [q]) (rq_VHost q) =
    RabbitMQVHostSummary_zero\<lparr>rv_VHost := rq_VHost q, rv_Queues := 1,
      rv_Messages := wrap64 (rq_MessageCount q), rv_Consumers := wrap64 (rq_Consumers q)\<rparr>"
proof -
  have "filter (\<lambda>q'. rq_VHost q' = rq_VHost q) qs = []" using assms by (simp add: filter_empty_conv)
  then show ?thesis
    by (simp add: vhost_total_def RabbitMQVHostSummary_zero_def wrap64_1 [simplified] Let_def)
qed

lemma tally_lookup:
  "map_of (foldl tally [] qs) v = (if v \<in> rq_VHost ` set qs then Some (vhost_total qs v) else None)"
proof (induction qs arbitrary: v rule: rev_induct)
  case Nil
  then show ?case by simp
next
  case (snoc q qs)
  show ?case
  proof (cases "v = rq_VHost q")
    case True
    note ih = snoc.IH [of "rq_VHost q"]
    have step: "tally (foldl tally [] qs) q =
        add_vhost (rq_VHost q) (rq_MessageCount q) (rq_Consumers q) (foldl tally [] qs)"
      by (simp add: tally_def)
    show ?thesis
    proof (cases "rq_VHost q \<in> rq_VHost ` set qs")
      case True
      with ih have "map_of (foldl tally [] qs) (rq_VHost q) = Some (vhost_total qs (rq_VHost q))"
        by simp
      then show ?thesis
        unfolding \<open>v = rq_VHost q\<close> by (simp add: step add_vhost_lookup vhost_total_snoc)
    next
      case False
      then have "\<forall>q' \<in> set qs. rq_VHost q' \<noteq> rq_VHost q" by (metis image_eqI)
      from vhost_total_first [OF this] show ?thesis
        unfolding \<open>v = rq_VHost q\<close> using False ih by (simp add: step add_vhost_lookup)
    qed
  next
    case False
    then show ?thesis
      using snoc.IH [of v] by (simp add: tally_def add_vhost_lookup vhost_total_other)
  qed
qed

lemma tally_keys: "fst ` set (foldl tally totals qs) = fst ` set totals \<union> rq_VHost ` set qs"
  by (induction qs arbitrary: totals) (simp_all add: tally_def add_vhost_keys)

lemma tally_distinct: "distinct (map fst totals) \<Longrightarrow> distinct (map fst (foldl tally totals qs))"
  by (induction qs arbitrary: totals) (simp_all add: tally_def add_vhost_distinct)

lemma sort_tally: "sort (map fst (foldl tally [] qs)) = sorted_list_of_set (rq_VHost ` set qs)"
proof -
  have "set (map fst (foldl tally [] qs)) = rq_VHost ` set qs"
    using tally_keys [of "[]" qs] by simp
  moreover have "distinct (map fst (foldl tally [] qs))" by (simp add: tally_distinct)
  ultimately show ?thesis by (metis sorted_list_of_set_sort_remdups distinct_remdups_id)
qed

definition exceeding :: "goint \<Rightarrow> RabbitMQQueue list \<Rightarrow> RabbitMQQueue list" where
  "exceeding backlog qs = filter (\<lambda>q. rq_MessageCount q \<ge> backlog) qs"

definition unconsumed :: "string list \<Rightarrow> RabbitMQQueue list \<Rightarrow> RabbitMQQueue list" where
  "unconsumed blacklist qs =
     filter (\<lambda>q. rq_Consumers q = 0 \<and> rq_MessageCount q > 0 \<and> rq_VHost q \<notin> set blacklist) qs"

lemma rmq_queue_fold:
  "foldl (rmq_queue oob backlog blacklist) (totals, st) queues =
     (foldl tally totals (counted_queues oob queues),
      st\<lparr>rs_ExceedingQueues := rs_ExceedingQueues st @ exceeding backlog (counted_queues oob queues),
         rs_NoConsumerQueues := rs_NoConsumerQueues st @ unconsumed blacklist (counted_queues oob queues)\<rparr>)"
proof (induction queues arbitrary: totals st)
  case Nil
  then show ?case by (simp add: counted_queues_def exceeding_def unconsumed_def)
next
  case (Cons q queues)
  then show ?case
    by (cases "ignored_queue (queue_info oob q)")
      (simp_all add: rmq_queue_def counted_queues_def exceeding_def unconsumed_def tally_def Let_def)
qed

text \<open>
  C24. The queue report of RabbitMQ: of the queues that are not ignored it lists, in order, those
  at or above the backlog threshold and those with messages and no consumer outside the exempt
  vhosts; and it has one summary per vhost with a queue, sorted by name, whose counts are the
  number of its queues and the sums of their messages and consumers, as 64-bit integers.
\<close>

theorem queue_report:
  "rmq_queues oob backlog blacklist queues st =
     (let qs = counted_queues oob queues
      in st\<lparr>rs_ExceedingQueues := rs_ExceedingQueues st @ exceeding backlog qs,
            rs_NoConsumerQueues := rs_NoConsumerQueues st @ unconsumed blacklist qs,
            rs_VHostSummary := rs_VHostSummary st @
              map (vhost_total qs) (sorted_list_of_set (rq_VHost ` set qs))\<rparr>)"
proof -
  let ?qs = "counted_queues oob queues"
  have "map (\<lambda>v. the (map_of (foldl tally [] ?qs) v)) (sort (map fst (foldl tally [] ?qs))) =
      map (vhost_total ?qs) (sorted_list_of_set (rq_VHost ` set ?qs))"
    by (simp add: sort_tally tally_lookup)
  then show ?thesis
    by (simp add: rmq_queues_def rmq_queue_fold Let_def)
qed

subsection \<open>RabbitMQ without permission\<close>

lemma rmqAPI_object:
  assumes "curl (rmq_args host port user pass endpoint (if t \<le> 0 then 60 else t)) = Inr (CHR ''{'' # body)"
  shows "rmqAPI curl host port user pass endpoint t = Inr (CHR ''{'' # body)"
proof -
  obtain s where "TrimSpace (CHR ''{'' # body) = CHR ''{'' # s"
    using TrimSpace_visible [of "CHR ''{''" body] by (auto simp: visible_def ascii_space_def)
  with assms show ?thesis by (simp add: rmqAPI_def Let_def)
qed

text \<open>
  C40. Refused requests go unnoticed: when the management API answers every request with a JSON
  object, as it does to refuse one, where lists are expected, the collector reports neither an
  error nor any finding, and the checker finds nothing to report.
\<close>

theorem refused_requests_unnoticed:
  assumes "cf_RabbitMQIPs cfg \<noteq> []"
    and "\<And>args. \<exists>body fs. curl args = Inr (CHR ''{'' # body) \<and> scan_json (CHR ''{'' # body) = Some (JObj fs)"
  shows "CollectRabbitMQ oob True curl cfg = Some RabbitMQStatus_zero \<and>
    snd (CheckRabbitMQ (CollectRabbitMQ oob True curl cfg) t) = []"
proof -
  have call: "\<exists>out. rmq_call curl p endpoint = Inr out \<and> decode_maps (scan_json out) = None \<and>
      decode_list (scan_json out) = None" for p endpoint
  proof -
    obtain body fs where "curl (rmq_args (rp_host p) (rp_port p) (rp_user p) (rp_pass p) endpoint
        (if rp_timeout p \<le> 0 then 60 else rp_timeout p)) = Inr (CHR ''{'' # body)"
      and "scan_json (CHR ''{'' # body) = Some (JObj fs)"
      using assms(2) by blast
    then show ?thesis
      by (auto simp: rmq_call_def rmqAPI_object decode_maps_def decode_list_def)
  qed
  have run: "fst (rmqProbe_Run oob curl p target st) = st" for p target st
    unfolding rmqProbe_Run_def Let_def
    using call [of p "''nodes?columns=name,mem_alarm,disk_free_alarm,partitions,uptime''"]
      call [of p "''connections?columns=state''"] call [of p "''channels?columns=name''"]
      call [of p "''queues?disable_stats=true&enable_queue_totals=true&'' @
        ''columns=name,vhost,messages,consumers,durable''"]
    by auto
  have "CollectRabbitMQ oob True curl cfg = Some RabbitMQStatus_zero"
    using assms(1) by (simp add: CollectRabbitMQ_def run Let_def)
  then show ?thesis
    by (simp add: CheckRabbitMQ_def check_opt_def check_rabbitmq_def RabbitMQStatus_zero_def
        check_list_eq)
qed

definition refused_body :: string where
  "refused_body = ''{'' @ json_quote ''error'' @ '':'' @ json_quote ''not_authorized'' @ ''}''"

lemma refused_body_scanned:
  "refused_body = CHR ''{'' # tl refused_body"
  "scan_json refused_body = Some (JObj [(''error'', JStr ''not_authorized'')])"
  by (simp add: refused_body_def) code_simp

theorem refused_requests_unnoticed_witness:
  "CollectRabbitMQ (\<lambda>f. 0) True (\<lambda>args. Inr refused_body)
     (sample_config_of [(''BK_RABBITMQ_IP_COMMA'', ''10.0.0.1'')]) = Some RabbitMQStatus_zero"
proof -
  have "parseIPList ''10.0.0.1'' = [''10.0.0.1'']" by code_simp
  then have ips: "cf_RabbitMQIPs (sample_config_of [(''BK_RABBITMQ_IP_COMMA'', ''10.0.0.1'')]) \<noteq> []"
    by (simp add: sample_config_fields Getenv_def)
  show ?thesis
    by (rule refused_requests_unnoticed [OF ips, THEN conjunct1])
      (metis refused_body_scanned)
qed

subsection \<open>Elasticsearch\<close>

definition reachable_es :: "curl_get \<Rightarrow> string \<Rightarrow> bool" where
  "reachable_es curl ip \<longleftrightarrow> (\<exists>out. curl (node_url ip ''9200'') = Inr out)"

lemma probe_node_fields:
  "er_IP (probe_node curl port ip) = ip"
  "er_Status (probe_node curl ''9200'' ip) = (if reachable_es curl ip then ''ok'' else ''unreachable'')"
  by (auto simp: probe_node_def ESNodeReach_zero_def reachable_es_def split: sum.splits)

lemma first_ok_reachable:
  "first_ok (map (probe_node curl ''9200'') ips) =
     (case filter (reachable_es curl) ips of [] \<Rightarrow> [] | ip # _ \<Rightarrow> ip)"
  by (induction ips) (simp_all add: probe_node_fields)

lemma es_run_fields:
  "ec_Instance (fst (esProbe_Run oob curl host port auth target c)) = ec_Instance c"
  "ec_NodeReachability (fst (esProbe_Run oob curl host port auth target c)) = ec_NodeReachability c"
  "ec_Error c = [] \<Longrightarrow> ec_Error (fst (esProbe_Run oob curl host port auth target c)) \<noteq> ''all nodes unreachable''"
  by (auto simp: esProbe_Run_def set_health_def Let_def split: sum.splits option.splits)

definition es_auth :: "Config \<Rightarrow> string" where
  "es_auth cfg = (if cd_ES7Password (cf_Creds cfg) = [] then []
     else ''elastic:'' @ cd_ES7Password (cf_Creds cfg) @ ''@'')"

definition es_entry :: "curl_get \<Rightarrow> Config \<Rightarrow> string \<Rightarrow> ESCluster" where
  "es_entry curl cfg ip =
     ESCluster_zero\<lparr>ec_NodeReachability := map (probe_node curl ''9200'') (cf_ES7IPs cfg),
       ec_Instance := JoinHostPort ip ''9200''\<rparr>"

lemma CollectES_leader:
  assumes "mset sched = mset [0..<length (cf_ES7IPs cfg)]" "cf_ES7IPs cfg \<noteq> []" "[] \<notin> set (cf_ES7IPs cfg)"
  shows "CollectES oob True curl sched cfg =
    [case filter (reachable_es curl) (cf_ES7IPs cfg) of
       [] \<Rightarrow> (es_entry curl cfg (hd (cf_ES7IPs cfg)))
              \<lparr>ec_Error := ''all nodes unreachable'', ec_ErrorClass := class_text ErrNetwork\<rparr>
     | ip # _ \<Rightarrow> fst (esProbe_Run oob curl ip ''9200'' (es_auth cfg) (JoinHostPort ip ''9200'')
                    (es_entry curl cfg ip))]"
proof -
  let ?ips = "cf_ES7IPs cfg"
  have reach: "probeES7Nodes curl sched ?ips ''9200'' = map (probe_node curl ''9200'') ?ips"
    by (rule probeES7Nodes_eq) (rule assms(1))
  note defs = CollectES_def reach first_ok_reachable Let_def es_entry_def es_auth_def
  show ?thesis
  proof (cases "filter (reachable_es curl) ?ips")
    case Nil
    then show ?thesis using assms(2) by (simp add: defs hd_conv_nth)
  next
    case (Cons ip rest)
    then have "ip \<in> set (filter (reachable_es curl) ?ips)" by simp
    then have "ip \<noteq> []" using assms(3) by auto
    with Cons show ?thesis using assms(2) by (simp add: defs)
  qed
qed

text \<open>The answers of the node that is asked, field by field, for an entry with nothing in it yet.\<close>

lemma es_run_answers:
  assumes "cluster = es_entry curl cfg ip" "c = fst (esProbe_Run oob curl ip ''9200'' auth target cluster)"
  shows "case curl (health_url auth ip ''9200'') of
      Inl e \<Rightarrow> c = cluster\<lparr>ec_Error := ''curl error: '' @ ge_Text e,
                       ec_ErrorClass := class_text (curlErrClass (Some e))\<rparr>
    | Inr answer \<Rightarrow> ec_Error c = [] \<and> ec_ErrorClass c = [] \<and>
        (case decode_map (scan_json answer) of
           None \<Rightarrow> c = cluster\<lparr>ec_Nodes := ec_Nodes c\<rparr>
         | Some h \<Rightarrow>
             ec_ClusterName c = jsonStr (json_at h ''cluster_name'') \<and>
             ec_Status c = jsonStr (json_at h ''status'') \<and>
             ec_NumberOfNodes c = jsonInt oob (json_at h ''number_of_nodes'') \<and>
             ec_NumberOfDataNodes c = jsonInt oob (json_at h ''number_of_data_nodes'') \<and>
             ec_ActivePrimaryShards c = jsonInt oob (json_at h ''active_primary_shards'') \<and>
             ec_ActiveShards c = jsonInt oob (json_at h ''active_shards'') \<and>
             ec_UnassignedShards c = jsonInt oob (json_at h ''unassigned_shards'') \<and>
             ec_PendingTasks c = jsonInt oob (json_at h ''number_of_pending_tasks'') \<and>
             ec_ActiveShardsPercent c =
               (case json_at h ''active_shards_percent_as_number'' of JNum t \<Rightarrow> ParseFloat0 t | _ \<Rightarrow> fzero)) \<and>
        ec_Nodes c =
          (case curl (nodes_url auth ip ''9200'') of
             Inl e \<Rightarrow> []
           | Inr rows \<Rightarrow> (case decode_maps (scan_json rows) of None \<Rightarrow> [] | Some ns \<Rightarrow> map es_node ns))"
  unfolding assms esProbe_Run_def es_entry_def
  by (simp add: set_health_def ESCluster_zero_def Let_def split: sum.split option.split json.split)

text \<open>
  C25. The Elasticsearch report is the same for every order in which the nodes answer.  It lists
  the nodes in the order of the configuration, each with its own outcome.  When no node answers,
  and only then, the cluster is reported unreachable.  Otherwise everything else in it comes from
  the first configured node that answers, which is named as the instance: its answer to the health
  request, made with the configured password, gives the name, the status and the figures of the
  cluster, or its error text and class; its answer to the request for the nodes gives the nodes.
\<close>

theorem es_report:
  assumes "mset sched = mset [0..<length (cf_ES7IPs cfg)]" "cf_ES7IPs cfg \<noteq> []" "[] \<notin> set (cf_ES7IPs cfg)"
  shows "\<exists>c. CollectES oob True curl sched cfg = [c] \<and>
    (\<forall>sched'. mset sched' = mset sched \<longrightarrow> CollectES oob True curl sched' cfg = [c]) \<and>
    ec_NodeReachability c = map (probe_node curl ''9200'') (cf_ES7IPs cfg) \<and>
    ec_Instance c = JoinHostPort (hd (filter (reachable_es curl) (cf_ES7IPs cfg) @ cf_ES7IPs cfg)) ''9200'' \<and>
    (ec_Error c = ''all nodes unreachable'' \<longleftrightarrow> (\<forall>ip \<in> set (cf_ES7IPs cfg). \<not> reachable_es curl ip)) \<and>
    (case filter (reachable_es curl) (cf_ES7IPs cfg) of
       [] \<Rightarrow> c = (es_entry curl cfg (hd (cf_ES7IPs cfg)))
               \<lparr>ec_Error := ''all nodes unreachable'', ec_ErrorClass := ''network''\<rparr>
     | ip # _ \<Rightarrow>
         let url = ''http://'' @ es_auth cfg @ ip @ '':9200/''
         in (case curl (url @ ''_cluster/health'') of
               Inl e \<Rightarrow> c = (es_entry curl cfg ip)
                 \<lparr>ec_Error := ''curl error: '' @ ge_Text e,
                  ec_ErrorClass := class_text (curlErrClass (Some e))\<rparr>
             | Inr answer \<Rightarrow> ec_Error c = [] \<and> ec_ErrorClass c = [] \<and>
                 (case decode_map (scan_json answer) of
                    None \<Rightarrow> c = (es_entry curl cfg ip)\<lparr>ec_Nodes := ec_Nodes c\<rparr>
                  | Some h \<Rightarrow>
                      ec_ClusterName c = jsonStr (json_at h ''cluster_name'') \<and>
                      ec_Status c = jsonStr (json_at h ''status'') \<and>
                      ec_NumberOfNodes c = jsonInt oob (json_at h ''number_of_nodes'') \<and>
                      ec_NumberOfDataNodes c = jsonInt oob (json_at h ''number_of_data_nodes'') \<and>
                      ec_ActivePrimaryShards c = jsonInt oob (json_at h ''active_primary_shards'') \<and>
                      ec_ActiveShards c = jsonInt oob (json_at h ''active_shards'') \<and>
                      ec_UnassignedShards c = jsonInt oob (json_at h ''unassigned_shards'') \<and>
                      ec_PendingTasks c = jsonInt oob (json_at h ''number_of_pending_tasks'') \<and>
                      ec_ActiveShardsPercent c =
                        (case json_at h ''active_shards_percent_as_number'' of
                           JNum t \<Rightarrow> ParseFloat0 t | _ \<Rightarrow> fzero)) \<and>
                 ec_Nodes c =
                   (case curl (url @ ''_cat/nodes?format=json&h='' @
                       ''ip,heap.percent,ram.percent,cpu,load_1m,load_5m,load_15m,node.role'') of
                      Inl e \<Rightarrow> []
                    | Inr rows \<Rightarrow>
                        (case decode_maps (scan_json rows) of
                           None \<Rightarrow> []
                         | Some ns \<Rightarrow> map (\<lambda>n. ESNode_zero
                             \<lparr>en_IP := jsonStr (json_at n ''ip''),
                              en_HeapPercent := jsonIntFromStr (jsonStr (json_at n ''heap.percent'')),
                              en_RAMPercent := jsonIntFromStr (jsonStr (json_at n ''ram.percent'')),
                              en_CPU := jsonIntFromStr (jsonStr (json_at n ''cpu'')),
                              en_Load1m := ParseFloat0 (jsonStr (json_at n ''load_1m'')),
                              en_Load5m := ParseFloat0 (jsonStr (json_at n ''load_5m'')),
                              en_Load15m := ParseFloat0 (jsonStr (json_at n ''load_15m'')),
                              en_Role := (if Contains (jsonStr (json_at n ''node.role'')) ''m''
                                then ''master'' else ''data'')\<rparr>) ns))))"
proof -
  let ?ips = "cf_ES7IPs cfg" and ?auth = "es_auth cfg"
  note leader = CollectES_leader [OF _ assms(2,3), of _ oob curl]
  have any: "\<forall>sched'. mset sched' = mset sched \<longrightarrow> CollectES oob True curl sched' cfg = [c]"
    if whole: "CollectES oob True curl sched cfg = [c]" for c
  proof (intro allI impI)
    fix sched' assume "mset sched' = mset sched"
    then have "mset sched' = mset [0..<length ?ips]" by (simp only: assms(1))
    from leader [OF this] leader [OF assms(1)] whole show "CollectES oob True curl sched' cfg = [c]"
      by (simp only:)
  qed
  show ?thesis
  proof (cases "filter (reachable_es curl) ?ips")
    case Nil
    define c where "c = (es_entry curl cfg (hd ?ips))
      \<lparr>ec_Error := ''all nodes unreachable'', ec_ErrorClass := ''network''\<rparr>"
    have whole: "CollectES oob True curl sched cfg = [c]"
      using leader [OF assms(1)] Nil by (simp add: c_def class_text_def)
    have "ec_NodeReachability c = map (probe_node curl ''9200'') ?ips \<and>
        ec_Instance c = JoinHostPort (hd ?ips) ''9200'' \<and> ec_Error c = ''all nodes unreachable''"
      by (simp add: c_def es_entry_def)
    moreover have "\<forall>ip \<in> set ?ips. \<not> reachable_es curl ip" using Nil by (simp add: filter_empty_conv)
    ultimately show ?thesis
      using whole any [OF whole] c_def unfolding Nil list.case append_Nil by blast
  next
    case (Cons ip rest)
    define c where "c = fst (esProbe_Run oob curl ip ''9200'' ?auth (JoinHostPort ip ''9200'')
      (es_entry curl cfg ip))"
    have "ip \<in> set (filter (reachable_es curl) ?ips)" using Cons by simp
    then have up: "\<exists>ip \<in> set ?ips. reachable_es curl ip" by auto
    have whole: "CollectES oob True curl sched cfg = [c]"
      using leader [OF assms(1)] Cons by (simp add: c_def)
    note answers = es_run_answers [OF refl c_def, unfolded es_node_def [abs_def]]
    have urls: "health_url ?auth ip ''9200'' = (''http://'' @ ?auth @ ip @ '':9200/'') @ ''_cluster/health''"
      "nodes_url ?auth ip ''9200'' = (''http://'' @ ?auth @ ip @ '':9200/'') @ ''_cat/nodes?format=json&h='' @
         ''ip,heap.percent,ram.percent,cpu,load_1m,load_5m,load_15m,node.role''"
      by (simp_all add: health_url_def nodes_url_def)
    have "ec_NodeReachability c = map (probe_node curl ''9200'') ?ips \<and>
        ec_Instance c = JoinHostPort ip ''9200'' \<and> ec_Error c \<noteq> ''all nodes unreachable''"
      by (simp add: c_def es_run_fields es_entry_def ESCluster_zero_def)
    then show ?thesis
      using whole any [OF whole] answers up unfolding urls Cons Let_def list.case append_Cons list.sel
      by blast
  qed
qed

definition green_body :: string where
  "green_body = ''{'' @ json_quote ''status'' @ '':'' @ json_quote ''green'' @ ''}''"

lemma green_body_decoded: "decode_map (scan_json green_body) = Some [(''status'', JStr ''green'')]"
  by (simp add: green_body_def) code_simp

text \<open>The first node does not answer, the second one is asked, with the password.\<close>

theorem es_report_witness:
  "\<exists>c. CollectES (\<lambda>f. 0) True
      (\<lambda>url. if url = ''http://10.0.0.2:9200/'' then Inr []
             else if url = ''http://elastic:pw@10.0.0.2:9200/_cluster/health'' then Inr green_body
             else Inl \<lparr>ge_Text = ''exit status 7'', ge_Chain = []\<rparr>) [1, 0]
      (sample_config_of [(''BK_ES7_IP_COMMA'', ''10.0.0.1,10.0.0.2''),
        (''BK_ES7_ADMIN_PASSWORD'', ''pw'')]) = [c] \<and>
     ec_Instance c = ''10.0.0.2:9200'' \<and> ec_Status c = ''green'' \<and> ec_Nodes c = []"
proof -
  let ?cfg = "sample_config_of [(''BK_ES7_IP_COMMA'', ''10.0.0.1,10.0.0.2''),
        (''BK_ES7_ADMIN_PASSWORD'', ''pw'')]"
  let ?curl = "\<lambda>url. if url = ''http://10.0.0.2:9200/'' then Inr []
             else if url = ''http://elastic:pw@10.0.0.2:9200/_cluster/health'' then Inr green_body
             else Inl \<lparr>ge_Text = ''exit status 7'', ge_Chain = []\<rparr>"
  have "parseIPList ''10.0.0.1,10.0.0.2'' = [''10.0.0.1'', ''10.0.0.2'']" by code_simp
  then have ips: "cf_ES7IPs ?cfg = [''10.0.0.1'', ''10.0.0.2'']" "es_auth ?cfg = ''elastic:pw@''"
    by (simp_all add: sample_config_fields Getenv_def es_auth_def sample_config_of_def load_config_def
        load_creds_def)
  have reach: "filter (reachable_es ?curl) [''10.0.0.1'', ''10.0.0.2''] = [''10.0.0.2'']"
    by (simp add: reachable_es_def node_url_def)
  have "mset [1, 0] = mset [0..<length (cf_ES7IPs ?cfg)]" "cf_ES7IPs ?cfg \<noteq> []"
      "[] \<notin> set (cf_ES7IPs ?cfg)"
    by (simp_all add: ips upt_rec)
  from es_report [OF this, of "\<lambda>f. 0" ?curl] show ?thesis
    unfolding ips reach Let_def
    by (auto simp: JoinHostPort_def green_body_decoded json_at_def jsonStr_def)
qed

subsection \<open>Services\<close>

text \<open>
  C26. The results of the services have one entry per configured module with hosts, whatever the
  order in which the goroutines append to the map: nothing is lost, nothing is counted twice, and
  every status is the one its host gave.  Only the order within an entry depends on the schedule.
\<close>

theorem services_any_schedule:
  assumes "mset sched = mset [0..<length (service_jobs cfg)]"
  shows "distinct (map fst (CollectAllServices run sched cfg)) \<and>
    fst ` set (CollectAllServices run sched cfg) = fst ` set (service_jobs cfg) \<and>
    (\<forall>(m, statuses) \<in> set (CollectAllServices run sched cfg).
       mset statuses =
         image_mset (job_status run) (filter_mset (\<lambda>job. fst job = m) (mset (service_jobs cfg))))"
proof -
  let ?jobs = "map (\<lambda>i. service_jobs cfg ! i) sched"
  let ?results = "CollectAllServices run sched cfg"
  have perm: "mset ?jobs = mset (service_jobs cfg)"
    by (rule scheduled_jobs) (rule assms)
  have dist: "distinct (map fst ?results)"
    unfolding CollectAllServices_def by (rule service_tasks_distinct) simp
  have keys: "fst ` set ?results = fst ` set (service_jobs cfg)"
    unfolding CollectAllServices_def service_tasks_keys using mset_eq_setD [OF perm] by simp
  have "mset statuses =
      image_mset (job_status run) (filter_mset (\<lambda>job. fst job = m) (mset (service_jobs cfg)))"
    if "(m, statuses) \<in> set ?results" for m statuses
  proof -
    have "map_of ?results m = Some statuses" using dist that by simp
    then have "statuses = map (job_status run) (filter (\<lambda>job. fst job = m) ?jobs)"
      using service_tasks_lookup [of run "[]" ?jobs m] by (simp add: CollectAllServices_def)
    then have "mset statuses = image_mset (job_status run) (mset (filter (\<lambda>job. fst job = m) ?jobs))"
      by simp
    then show ?thesis by (simp only: mset_filter perm)
  qed
  with dist keys show ?thesis by blast
qed

theorem services_any_schedule_witness:
  "let cfg = sample_config_of [(''BK_PAAS_IP_COMMA'', ''10.0.0.1,10.0.0.2'')] in
   fst ` set (CollectAllServices (\<lambda>host cmd. ([], Some ''refused'')) (rev [0..<length (service_jobs cfg)]) cfg) =
     fst ` set (service_jobs cfg)"
  unfolding Let_def
  by (rule services_any_schedule [THEN conjunct2, THEN conjunct1]) simp

subsection \<open>The dependencies of bkmonitorv3\<close>

lemma dep_result_fields [simp]:
  "dr_Item (dep_result item endpoint status detail) = item"
  "dr_Endpoint (dep_result item endpoint status detail) = endpoint"
  "dr_Status (dep_result item endpoint status detail) = status"
  by (simp_all add: dep_result_def)

definition dep_verdict :: "string \<Rightarrow> bool \<Rightarrow> DependencyResult \<Rightarrow> bool" where
  "dep_verdict item missing d \<longleftrightarrow>
     dr_Item d = item \<and> dr_Status d \<in> {''ok'', ''fail'', ''unreachable'', ''skip''} \<and>
     (dr_Status d = ''skip'' \<longleftrightarrow> missing)"

lemma dep_verdict_result [simp]:
  "dep_verdict item missing (dep_result item endpoint status detail) \<longleftrightarrow>
     status \<in> {''ok'', ''fail'', ''unreachable'', ''skip''} \<and> (status = ''skip'' \<longleftrightarrow> missing)"
  by (simp add: dep_verdict_def)

lemmas probe_defs = skipIfMissing_def probeRedisLogin_def probeMySQLLogin_def
  probeRabbitMQ_def probeZookeeper_def probeES7_def probeInfluxDB_def

lemma probe_verdicts:
  "dep_verdict item (host = [] \<or> port = []) (probeRedisLogin mc item host port password)"
  "dep_verdict item (host = [] \<or> port = [] \<or> user = []) (probeMySQLLogin mc item host port user password)"
  "dep_verdict item (host = [] \<or> port = [] \<or> user = []) (probeRabbitMQ mc item host port user vhost)"
  "dep_verdict item (host = [] \<or> port = []) (probeZookeeper mc item host port)"
  "dep_verdict item (host = [] \<or> port = []) (probeES7 mc item host port user password)"
  "dep_verdict item (host = [] \<or> port = []) (probeInfluxDB mc item host port)"
  by (simp_all add: probe_defs Let_def case_prod_beta split: option.split)

text \<open>
  C37. The dependencies of bkmonitorv3 are probed where one of its modules is deployed: six items in
  a fixed order, each ok, failed, unreachable or skipped, and skipped exactly when its part of the
  configuration is missing; the checker then reports those not skipped, a notice for each that is
  not ok, and never a warning.
\<close>

definition deployed :: "Config \<Rightarrow> bool" where
  "deployed cfg \<longleftrightarrow>
     cf_MonitorV3IPs cfg @ cf_MonitorV3MonitorIPs cfg @ cf_MonitorV3InfluxDBProxyIPs cfg @
     cf_MonitorV3TransferIPs cfg @ cf_MonitorV3UnifyQueryIPs cfg \<noteq> []"

definition dep_missing :: "BKMonitorV3DepConfig \<Rightarrow> (string \<times> bool) list" where
  "dep_missing dep =
     [(''redis'', bd_RedisHost dep = [] \<or> bd_RedisPort dep = []),
      (''mysql'', bd_MySQLHost dep = [] \<or> bd_MySQLPort dep = [] \<or> bd_MySQLUser dep = []),
      (''rabbitmq'', bd_RabbitMQHost dep = [] \<or> bd_RabbitMQPort dep = [] \<or> bd_RabbitMQUser dep = []),
      (''zookeeper'', bd_ZKHost dep = [] \<or> bd_ZKPort dep = []),
      (''es7'', bd_ES7Host dep = [] \<or> bd_ES7RestPort dep = []),
      (''influxdb'', bd_InfluxDBHost dep = [] \<or> bd_InfluxDBPort dep = [])]"

lemma dependencies_reported:
  "map cr_Status (snd (check_list check_dependency deps)) =
     map (\<lambda>d. if dr_Status d = ''ok'' then StatusOK else StatusNotice)
       (filter (\<lambda>d. dr_Status d \<noteq> ''skip'') deps)"
  by (induction deps) (auto simp: check_list_eq check_dependency_def)

theorem dependency_verdicts:
  "(case CollectBKMonitorV3Deps mc cfg of
      None \<Rightarrow> \<not> deployed cfg
    | Some deps \<Rightarrow> deployed cfg \<and>
        list_all2 (\<lambda>(item, missing) d. dep_verdict item missing d) (dep_missing (cf_BKMonitorV3 cfg)) deps \<and>
        map cr_Status (snd (CheckBKDeps (Some \<lparr>bs_Dependencies = deps\<rparr>))) =
          map (\<lambda>d. if dr_Status d = ''ok'' then StatusOK else StatusNotice)
            (filter (\<lambda>d. dr_Status d \<noteq> ''skip'') deps))"
proof (cases "CollectBKMonitorV3Deps mc cfg")
  case None
  then show ?thesis by (simp add: CollectBKMonitorV3Deps_def deployed_def Let_def split: if_splits)
next
  case (Some deps)
  then have "deployed cfg" by (simp add: CollectBKMonitorV3Deps_def deployed_def split: if_splits)
  moreover have "list_all2 (\<lambda>(item, missing) d. dep_verdict item missing d)
      (dep_missing (cf_BKMonitorV3 cfg)) deps"
    using Some unfolding CollectBKMonitorV3Deps_def dep_missing_def Let_def
    by (cases "deps = []") (auto simp: probe_verdicts simp del: length_0_conv split: if_splits)
  moreover have "map cr_Status (snd (CheckBKDeps (Some \<lparr>bs_Dependencies = deps\<rparr>))) =
      map (\<lambda>d. if dr_Status d = ''ok'' then StatusOK else StatusNotice)
        (filter (\<lambda>d. dr_Status d \<noteq> ''skip'') deps)"
    by (simp add: CheckBKDeps_def check_opt_def check_section_def case_prod_beta dependencies_reported)
  ultimately show ?thesis using Some by simp
qed

end
