(* ===== verification/Goroutines.thy ===== *)
theory Goroutines
  imports Prelude
begin

text \<open>
  Goroutines as interleaved moves: a program gives every thread its next move, if it has one, and
  an execution is the list of the threads that moved.  \<open>ending\<close> is the contract of a program all
  of whose executions end.  The pool is the fork and join of the collectors: the main thread starts
  one goroutine per task, each does its task in one move, and \<open>Wait\<close> lets the main thread return.
\<close>

datatype thread = Main | Go nat

type_synonym 's program = "thread \<Rightarrow> 's \<Rightarrow> 's option"

fun execute :: "'s program \<Rightarrow> thread list \<Rightarrow> 's \<Rightarrow> 's option" where
  "execute move [] s = Some s"
| "execute move (t # ts) s =
     (case move t s of
        None \<Rightarrow> None
      | Some s' \<Rightarrow> execute move ts s')"

lemma execute_append:
  "execute move (ts @ us) s = Option.bind (execute move ts s) (execute move us)"
  by (induction ts arbitrary: s) (auto split: option.split)

lemma execute_Cons:
  "execute move (t # ts) s = Some u \<longleftrightarrow>
     (\<exists>s'. move t s = Some s' \<and> execute move ts s' = Some u)"
  by (auto split: option.splits)

subsection \<open>Programs that end\<close>

locale ending =
  fixes move :: "'s program"
    and inv :: "'s \<Rightarrow> bool"
    and weight :: "'s \<Rightarrow> nat"
    and returned :: "'s \<Rightarrow> bool"
  assumes inv_move: "inv s \<Longrightarrow> move t s = Some s' \<Longrightarrow> inv s'"
    and weight_move: "inv s \<Longrightarrow> move t s = Some s' \<Longrightarrow> weight s = Suc (weight s')"
    and progress: "inv s \<Longrightarrow> \<not> returned s \<Longrightarrow> \<exists>t. move t s \<noteq> None"
    and spent: "inv s \<Longrightarrow> returned s \<longleftrightarrow> weight s = 0"
begin

lemma execute_inv: "inv s \<Longrightarrow> execute move ts s = Some u \<Longrightarrow> inv u"
  by (induction ts arbitrary: s) (auto split: option.splits intro: inv_move)

lemma execute_weight:
  "inv s \<Longrightarrow> execute move ts s = Some u \<Longrightarrow> weight s = length ts + weight u"
  by (induction ts arbitrary: s) (auto split: option.splits simp: weight_move dest: inv_move)

lemma execute_bound: "inv s \<Longrightarrow> execute move ts s = Some u \<Longrightarrow> length ts \<le> weight s"
  using execute_weight by fastforce

lemma returned_exact:
  "inv s \<Longrightarrow> execute move ts s = Some u \<Longrightarrow> returned u \<longleftrightarrow> length ts = weight s"
  using execute_weight execute_inv spent by fastforce

lemma can_return: "inv s \<Longrightarrow> \<exists>ts u. execute move ts s = Some u \<and> returned u"
proof (induction "weight s" arbitrary: s)
  case 0
  then have "execute move [] s = Some s \<and> returned s" by (simp add: spent)
  then show ?case by blast
next
  case (Suc n)
  then have "\<not> returned s" by (simp add: spent)
  with progress [OF Suc.prems] obtain t s' where t: "move t s = Some s'" by auto
  then have "n = weight s'" using Suc.hyps(2) Suc.prems weight_move by fastforce
  then obtain ts u where "execute move ts s' = Some u" "returned u"
    using Suc.hyps(1) inv_move [OF Suc.prems t] by blast
  with t have "execute move (t # ts) s = Some u \<and> returned u" by simp
  then show ?case by blast
qed

end

subsection \<open>Fork and join\<close>

record 'a pool =
  pl_Done :: "bool list"
  pl_Wait :: int
  pl_Returned :: bool
  pl_Data :: 'a

definition pool_start :: "'a \<Rightarrow> 'a pool" where
  "pool_start a = \<lparr>pl_Done = [], pl_Wait = 0, pl_Returned = False, pl_Data = a\<rparr>"

fun pool_move :: "nat \<Rightarrow> ('a \<Rightarrow> nat \<Rightarrow> 'a) \<Rightarrow> 'a pool program" where
  "pool_move n task Main p =
     (if pl_Returned p then None
      else if length (pl_Done p) < n then
        Some (p\<lparr>pl_Done := pl_Done p @ [False], pl_Wait := pl_Wait p + 1\<rparr>)
      else if pl_Wait p = 0 then Some (p\<lparr>pl_Returned := True\<rparr>)
      else None)"
| "pool_move n task (Go i) p =
     (if i < length (pl_Done p) \<and> \<not> pl_Done p ! i then
        Some (p\<lparr>pl_Data := task (pl_Data p) i, pl_Done := (pl_Done p)[i := True],
                pl_Wait := pl_Wait p - 1\<rparr>)
      else None)"

text \<open>The tasks that have been done, each once, gave the data; the wait group counts the others.\<close>

definition done_tasks :: "bool list \<Rightarrow> nat set" where
  "done_tasks ds = {i. i < length ds \<and> ds ! i}"

definition open_tasks :: "bool list \<Rightarrow> nat" where
  "open_tasks ds = length (filter Not ds)"

definition pool_inv :: "nat \<Rightarrow> ('a \<Rightarrow> nat \<Rightarrow> 'a) \<Rightarrow> 'a \<Rightarrow> 'a pool \<Rightarrow> bool" where
  "pool_inv n task a p \<longleftrightarrow>
     length (pl_Done p) \<le> n \<and> pl_Wait p = int (open_tasks (pl_Done p)) \<and>
     (pl_Returned p \<longrightarrow> length (pl_Done p) = n \<and> open_tasks (pl_Done p) = 0) \<and>
     (\<exists>sched. distinct sched \<and> set sched = done_tasks (pl_Done p) \<and>
        pl_Data p = foldl task a sched)"

definition pool_weight :: "nat \<Rightarrow> 'a pool \<Rightarrow> nat" where
  "pool_weight n p =
     2 * (n - length (pl_Done p)) + open_tasks (pl_Done p) + (if pl_Returned p then 0 else 1)"

lemma open_tasks_append [simp]: "open_tasks (ds @ [False]) = Suc (open_tasks ds)"
  by (simp add: open_tasks_def)

lemma open_tasks_do:
  "i < length ds \<Longrightarrow> \<not> ds ! i \<Longrightarrow> open_tasks ds = Suc (open_tasks (ds[i := True]))"
  by (induction ds arbitrary: i) (auto simp: open_tasks_def less_Suc_eq_0_disj)

lemma open_tasks_0: "open_tasks ds = 0 \<longleftrightarrow> (\<forall>i < length ds. ds ! i)"
  by (simp add: open_tasks_def filter_empty_conv all_set_conv_all_nth)

lemma done_tasks_append [simp]: "done_tasks (ds @ [False]) = done_tasks ds"
  by (auto simp: done_tasks_def nth_append)

lemma done_tasks_do: "i < length ds \<Longrightarrow> done_tasks (ds[i := True]) = insert i (done_tasks ds)"
  by (auto simp: done_tasks_def nth_list_update)

lemma pool_inv_move:
  assumes "pool_inv n task a p" "pool_move n task t p = Some p'"
  shows "pool_inv n task a p' \<and> pool_weight n p = Suc (pool_weight n p')"
proof (cases t)
  case Main
  then show ?thesis
    using assms by (auto simp: pool_inv_def pool_weight_def open_tasks_def split: if_splits)
next
  case (Go i)
  with assms(2) have i: "i < length (pl_Done p)" "\<not> pl_Done p ! i"
    and p': "p' = p\<lparr>pl_Data := task (pl_Data p) i, pl_Done := (pl_Done p)[i := True],
      pl_Wait := pl_Wait p - 1\<rparr>"
    by (auto split: if_splits)
  obtain sched where "distinct sched" "set sched = done_tasks (pl_Done p)"
      "pl_Data p = foldl task a sched"
    using assms(1) by (auto simp: pool_inv_def)
  then have "distinct (sched @ [i]) \<and> set (sched @ [i]) = done_tasks (pl_Done p') \<and>
      pl_Data p' = foldl task a (sched @ [i])"
    using i by (auto simp: p' done_tasks_do) (simp add: done_tasks_def)
  then have "\<exists>sched. distinct sched \<and> set sched = done_tasks (pl_Done p') \<and>
      pl_Data p' = foldl task a sched"
    by blast
  then show ?thesis
    using assms(1) open_tasks_do [OF i] by (auto simp: pool_inv_def pool_weight_def p')
qed

lemma pool_progress:
  assumes "pool_inv n task a p" "\<not> pl_Returned p"
  shows "\<exists>t. pool_move n task t p \<noteq> None"
proof (cases "length (pl_Done p) < n \<or> pl_Wait p = 0")
  case True
  then have "pool_move n task Main p \<noteq> None" using assms(2) by auto
  then show ?thesis ..
next
  case False
  then obtain i where "i < length (pl_Done p)" "\<not> pl_Done p ! i"
    using assms(1) open_tasks_0 [of "pl_Done p"] by (auto simp: pool_inv_def)
  then have "pool_move n task (Go i) p \<noteq> None" by simp
  then show ?thesis ..
qed

interpretation pool: ending "pool_move n task" "pool_inv n task a" "pool_weight n" pl_Returned
  for n task a
proof unfold_locales
  show "pool_inv n task a p'" "pool_weight n p = Suc (pool_weight n p')"
    if "pool_inv n task a p" "pool_move n task t p = Some p'" for p p' t
    using pool_inv_move [OF that] by simp_all
  show "\<exists>t. pool_move n task t p \<noteq> None" if "pool_inv n task a p" "\<not> pl_Returned p" for p
    by (rule pool_progress) (rule that)+
  show "pl_Returned p \<longleftrightarrow> pool_weight n p = 0" if "pool_inv n task a p" for p
    using that by (auto simp: pool_inv_def pool_weight_def)
qed

lemma pool_inv_start [simp]: "pool_inv n task a (pool_start a)"
  by (auto simp: pool_inv_def pool_start_def open_tasks_def done_tasks_def
      intro: exI [of _ "[]"])

lemma pool_weight_start [simp]: "pool_weight n (pool_start a) = 2 * n + 1"
  by (simp add: pool_weight_def pool_start_def open_tasks_def)

lemma pool_inv_returned:
  assumes "pool_inv n task a p" "pl_Returned p"
  shows "\<exists>sched. mset sched = mset [0..<n] \<and> pl_Data p = foldl task a sched"
proof -
  obtain sched where sched: "distinct sched" "set sched = done_tasks (pl_Done p)"
      "pl_Data p = foldl task a sched"
    using assms(1) by (auto simp: pool_inv_def)
  have "done_tasks (pl_Done p) = {0..<n}"
    using assms open_tasks_0 [of "pl_Done p"] by (auto simp: pool_inv_def done_tasks_def)
  then have "mset sched = mset [0..<n]"
    using mset_set_set [OF sched(1)] sched(2) by simp
  with sched(3) show ?thesis by blast
qed

lemma pool_result:
  assumes "execute (pool_move n task) ts (pool_start a) = Some p" "pl_Returned p"
  obtains sched where "mset sched = mset [0..<n]" "pl_Data p = foldl task a sched"
  using pool_inv_returned [OF pool.execute_inv [OF pool_inv_start assms(1)] assms(2)] by blast

end
