(* ===== verification/Service_Routines.thy ===== *)
theory Service_Routines
  imports Collect_Service Goroutines "HOL-Library.AList"
begin

text \<open>
  The goroutines of \<open>CollectAllServices\<close> (src/collector/service.go:15-42): the main thread starts
  one per module and host and waits; each asks its host, takes the mutex, reads the list of its
  module, writes it back with its status, releases the mutex and tells the wait group.  Every
  interleaving ends, and leaves what \<open>CollectAllServices\<close> gives for some schedule.
\<close>

subsection \<open>The program\<close>

datatype routine =
    Started
  | Answered ServiceStatus
  | Locked ServiceStatus
  | Appending ServiceStatus "ServiceStatus list"
  | Written
  | Unlocked
  | Ended

record collection =
  cl_Routines :: "routine list"
  cl_Wait :: int
  cl_Mutex :: "nat option"
  cl_Results :: service_results
  cl_Returned :: bool

definition collection_start :: collection where
  "collection_start =
     \<lparr>cl_Routines = [], cl_Wait = 0, cl_Mutex = None, cl_Results = [], cl_Returned = False\<rparr>"

text \<open>A module without an entry has the empty list, as Go's nil slice.\<close>

definition module_statuses :: "service_results \<Rightarrow> string \<Rightarrow> ServiceStatus list" where
  "module_statuses results m = (case map_of results m of None \<Rightarrow> [] | Some statuses \<Rightarrow> statuses)"

definition routine_move :: "ssh_run \<Rightarrow> service_job \<Rightarrow> nat \<Rightarrow> collection \<Rightarrow> collection option" where
  "routine_move run job i c =
     (let become = (\<lambda>r c. c\<lparr>cl_Routines := (cl_Routines c)[i := r]\<rparr>)
      in case cl_Routines c ! i of
           Started \<Rightarrow> Some (become (Answered (job_status run job)) c)
         | Answered status \<Rightarrow>
             if cl_Mutex c = None then Some (become (Locked status) (c\<lparr>cl_Mutex := Some i\<rparr>))
             else None
         | Locked status \<Rightarrow>
             Some (become (Appending status (module_statuses (cl_Results c) (fst job))) c)
         | Appending status old \<Rightarrow>
             Some (become Written
               (c\<lparr>cl_Results := AList.update (fst job) (old @ [status]) (cl_Results c)\<rparr>))
         | Written \<Rightarrow> Some (become Unlocked (c\<lparr>cl_Mutex := None\<rparr>))
         | Unlocked \<Rightarrow> Some (become Ended (c\<lparr>cl_Wait := cl_Wait c - 1\<rparr>))
         | Ended \<Rightarrow> None)"

fun service_move :: "ssh_run \<Rightarrow> Config \<Rightarrow> collection program" where
  "service_move run cfg Main c =
     (if cl_Returned c then None
      else if length (cl_Routines c) < length (service_jobs cfg) then
        Some (c\<lparr>cl_Routines := cl_Routines c @ [Started], cl_Wait := cl_Wait c + 1\<rparr>)
      else if cl_Wait c = 0 then Some (c\<lparr>cl_Returned := True\<rparr>)
      else None)"
| "service_move run cfg (Go i) c =
     (if i < length (cl_Routines c) then routine_move run (service_jobs cfg ! i) i c else None)"

subsection \<open>The pool it implements\<close>

text \<open>The append takes effect when the new list is written.\<close>

fun written :: "routine \<Rightarrow> bool" where
  "written Written = True"
| "written Unlocked = True"
| "written Ended = True"
| "written r = False"

fun holding :: "routine \<Rightarrow> bool" where
  "holding (Locked status) = True"
| "holding (Appending status old) = True"
| "holding Written = True"
| "holding r = False"

definition job_task :: "ssh_run \<Rightarrow> Config \<Rightarrow> service_results \<Rightarrow> nat \<Rightarrow> service_results" where
  "job_task run cfg results i = service_task run results (service_jobs cfg ! i)"

definition as_pool :: "collection \<Rightarrow> service_results pool" where
  "as_pool c =
     \<lparr>pl_Done = map written (cl_Routines c),
      pl_Wait = int (open_tasks (map written (cl_Routines c))),
      pl_Returned = cl_Returned c, pl_Data = cl_Results c\<rparr>"

text \<open>
  What holds between any two moves: the goroutine with the mutex is the only one in its critical
  section, so what it read is still there; and a goroutine past the first move has its job's status.
\<close>

definition routine_ok :: "ssh_run \<Rightarrow> service_job \<Rightarrow> service_results \<Rightarrow> routine \<Rightarrow> bool" where
  "routine_ok run job results r =
     (case r of
        Answered status \<Rightarrow> status = job_status run job
      | Locked status \<Rightarrow> status = job_status run job
      | Appending status old \<Rightarrow>
          status = job_status run job \<and> old = module_statuses results (fst job)
      | _ \<Rightarrow> True)"

definition exclusive :: "ssh_run \<Rightarrow> Config \<Rightarrow> collection \<Rightarrow> bool" where
  "exclusive run cfg c \<longleftrightarrow>
     (\<forall>i < length (cl_Routines c).
        (holding (cl_Routines c ! i) \<longleftrightarrow> cl_Mutex c = Some i) \<and>
        routine_ok run (service_jobs cfg ! i) (cl_Results c) (cl_Routines c ! i)) \<and>
     (\<forall>i. cl_Mutex c = Some i \<longrightarrow> i < length (cl_Routines c)) \<and>
     cl_Wait c = int (length (filter (\<lambda>r. r \<noteq> Ended) (cl_Routines c)))"

lemma append_result_update:
  "append_result m status results = AList.update m (module_statuses results m @ [status]) results"
  by (induction m status results rule: append_result.induct)
    (auto simp: module_statuses_def)

lemma service_task_update:
  "service_task run results job =
     AList.update (fst job) (module_statuses results (fst job) @ [job_status run job]) results"
  by (simp add: service_task_def job_status_def append_result_update case_prod_beta)

subsection \<open>The invariant\<close>

lemma filter_update_length:
  "i < length xs \<Longrightarrow>
     length (filter P (xs[i := x])) + (if P (xs ! i) then 1 else 0) =
       length (filter P xs) + (if P x then 1 else 0)"
  using arg_cong [OF id_take_nth_drop [of i xs], of "\<lambda>xs. length (filter P xs)"]
  by (simp add: upd_conv_take_nth_drop)

lemma exclusive_start: "exclusive run cfg collection_start"
  by (simp add: exclusive_def collection_start_def)

lemma exclusive_spawn:
  assumes "exclusive run cfg c"
  shows "exclusive run cfg (c\<lparr>cl_Routines := cl_Routines c @ [Started], cl_Wait := cl_Wait c + 1\<rparr>)"
proof -
  have "cl_Mutex c \<noteq> Some (length (cl_Routines c))"
    using assms by (auto simp: exclusive_def)
  then show ?thesis
    using assms by (auto simp: exclusive_def nth_append less_Suc_eq routine_ok_def)
qed

text \<open>A goroutine's move keeps the invariant: its own state fits, the others see no difference.\<close>

lemma exclusive_become:
  assumes "exclusive run cfg c" "i < length (cl_Routines c)"
    and "c' = c\<lparr>cl_Routines := (cl_Routines c)[i := r], cl_Mutex := mu, cl_Results := results,
      cl_Wait := cl_Wait c + (if r \<noteq> Ended then 1 else 0) - (if cl_Routines c ! i \<noteq> Ended then 1 else 0)\<rparr>"
    and "holding r \<longleftrightarrow> mu = Some i"
    and "routine_ok run (service_jobs cfg ! i) results r"
    and "\<And>j. j \<noteq> i \<Longrightarrow> mu = Some j \<longleftrightarrow> cl_Mutex c = Some j"
    and "results = cl_Results c \<or> cl_Mutex c = Some i"
  shows "exclusive run cfg c'"
proof -
  let ?rs = "cl_Routines c" and ?rs' = "cl_Routines c'"
  have own: "(holding (?rs' ! j) \<longleftrightarrow> mu = Some j) \<and>
      routine_ok run (service_jobs cfg ! j) results (?rs' ! j)" if j: "j < length ?rs" for j
  proof (cases "j = i")
    case True
    then show ?thesis using assms(2-5) by simp
  next
    case False
    have old: "holding (?rs ! j) \<longleftrightarrow> cl_Mutex c = Some j"
        "routine_ok run (service_jobs cfg ! j) (cl_Results c) (?rs ! j)"
      using assms(1) j by (auto simp: exclusive_def)
    have "routine_ok run (service_jobs cfg ! j) results (?rs ! j)"
    proof (cases "results = cl_Results c")
      case False
      with assms(7) \<open>j \<noteq> i\<close> old(1) have "\<not> holding (?rs ! j)" by simp
      with old(2) show ?thesis by (cases "?rs ! j") (simp_all add: routine_ok_def)
    qed (use old(2) in simp)
    with False old(1) assms(6) [OF False] show ?thesis by (simp add: assms(3))
  qed
  have "cl_Wait c' = int (length (filter (\<lambda>r. r \<noteq> Ended) ?rs'))"
    using filter_update_length [OF assms(2), of "\<lambda>r. r \<noteq> Ended" r] assms(1)
    by (auto simp: exclusive_def assms(3) split: if_splits)
  moreover have "j < length ?rs" if "mu = Some j" for j
    using that assms(1,2,6) by (cases "j = i") (auto simp: exclusive_def)
  ultimately show ?thesis using own by (simp add: exclusive_def assms(3))
qed

lemma exclusive_routine_move:
  assumes "exclusive run cfg c" "i < length (cl_Routines c)"
    and move: "routine_move run (service_jobs cfg ! i) i c = Some c'"
  shows "exclusive run cfg c'"
proof -
  have mine: "holding (cl_Routines c ! i) \<longleftrightarrow> cl_Mutex c = Some i"
      "routine_ok run (service_jobs cfg ! i) (cl_Results c) (cl_Routines c ! i)"
    using assms(1,2) by (auto simp: exclusive_def)
  let ?job = "service_jobs cfg ! i"
  note become = exclusive_become [OF assms(1,2)]
  note defs = routine_move_def routine_ok_def
  show ?thesis
  proof (cases "cl_Routines c ! i")
    case Started
    with move mine show ?thesis
      by (intro become [where r = "Answered (job_status run ?job)" and mu = "cl_Mutex c"
            and results = "cl_Results c"]) (auto simp: defs)
  next
    case (Answered status)
    with move mine show ?thesis
      by (intro become [where r = "Locked status" and mu = "Some i" and results = "cl_Results c"])
        (auto simp: defs split: if_splits)
  next
    case (Locked status)
    with move mine show ?thesis
      by (intro become [where r = "Appending status (module_statuses (cl_Results c) (fst ?job))"
            and mu = "cl_Mutex c" and results = "cl_Results c"]) (auto simp: defs)
  next
    case (Appending status old)
    with move mine show ?thesis
      by (intro become [where r = Written and mu = "cl_Mutex c"
            and results = "AList.update (fst ?job) (old @ [status]) (cl_Results c)"]) (auto simp: defs)
  next
    case Written
    with move mine show ?thesis
      by (intro become [where r = Unlocked and mu = None and results = "cl_Results c"])
        (auto simp: defs)
  next
    case Unlocked
    with move mine show ?thesis
      by (intro become [where r = Ended and mu = "cl_Mutex c" and results = "cl_Results c"])
        (auto simp: defs)
  qed (use move in \<open>simp add: routine_move_def\<close>)
qed

lemma exclusive_move:
  assumes "exclusive run cfg c" "service_move run cfg t c = Some c'"
  shows "exclusive run cfg c'"
proof (cases t)
  case Main
  with assms exclusive_spawn [OF assms(1)] show ?thesis
    by (auto simp: exclusive_def split: if_splits)
next
  case (Go i)
  with assms(2) exclusive_routine_move [OF assms(1)] show ?thesis by (auto split: if_splits)
qed

subsection \<open>The simulation\<close>

lemma as_pool_move:
  assumes "exclusive run cfg c" "service_move run cfg t c = Some c'"
  shows "as_pool c' = as_pool c \<or>
    pool_move (length (service_jobs cfg)) (job_task run cfg) t (as_pool c) = Some (as_pool c')"
proof (cases t)
  case Main
  have "open_tasks (map written (cl_Routines c)) = 0" if "cl_Wait c = 0"
    using assms(1) that by (auto simp: exclusive_def open_tasks_def filter_empty_conv)
  with Main assms(2) show ?thesis by (auto simp: as_pool_def split: if_splits)
next
  case (Go i)
  with assms(2) have i: "i < length (cl_Routines c)"
    and move: "routine_move run (service_jobs cfg ! i) i c = Some c'"
    by (auto split: if_splits)
  have same: "map written ((cl_Routines c)[i := r]) = map written (cl_Routines c)"
    if "written (cl_Routines c ! i) = written r" for r
    using i that by (simp add: map_update list_update_same_conv)
  show ?thesis
  proof (cases "\<exists>status old. cl_Routines c ! i = Appending status old")
    case False
    with move have "as_pool c' = as_pool c"
      by (cases "cl_Routines c ! i")
        (auto simp: routine_move_def as_pool_def same split: if_splits)
    then show ?thesis ..
  next
    case True
    then obtain status old where r: "cl_Routines c ! i = Appending status old" by blast
    then have "old = module_statuses (cl_Results c) (fst (service_jobs cfg ! i))"
        "status = job_status run (service_jobs cfg ! i)"
      using assms(1) i by (auto simp: exclusive_def routine_ok_def)
    then have c': "cl_Results c' = job_task run cfg (cl_Results c) i"
        "cl_Routines c' = (cl_Routines c)[i := Written]" "cl_Returned c' = cl_Returned c"
      using move r by (auto simp: routine_move_def job_task_def service_task_update)
    have "\<not> map written (cl_Routines c) ! i" using i r by simp
    from open_tasks_do [OF _ this] i have
      "int (open_tasks (map written (cl_Routines c))) - 1 =
       int (open_tasks ((map written (cl_Routines c))[i := True]))"
      by simp
    then show ?thesis using i r by (simp add: Go as_pool_def c' map_update)
  qed
qed

subsection \<open>Every execution ends\<close>

fun moves_left :: "routine \<Rightarrow> nat" where
  "moves_left Started = 6"
| "moves_left (Answered status) = 5"
| "moves_left (Locked status) = 4"
| "moves_left (Appending status old) = 3"
| "moves_left Written = 2"
| "moves_left Unlocked = 1"
| "moves_left Ended = 0"

definition service_weight :: "Config \<Rightarrow> collection \<Rightarrow> nat" where
  "service_weight cfg c =
     7 * (length (service_jobs cfg) - length (cl_Routines c)) +
     sum_list (map moves_left (cl_Routines c)) + (if cl_Returned c then 0 else 1)"

definition service_inv :: "ssh_run \<Rightarrow> Config \<Rightarrow> collection \<Rightarrow> bool" where
  "service_inv run cfg c \<longleftrightarrow>
     exclusive run cfg c \<and>
     pool_inv (length (service_jobs cfg)) (job_task run cfg) [] (as_pool c) \<and>
     (cl_Returned c \<longrightarrow> cl_Wait c = 0)"

lemma moves_left_0: "moves_left r = 0 \<longleftrightarrow> r = Ended"
  by (cases r) simp_all

lemma all_ended:
  assumes "exclusive run cfg c"
  shows "cl_Wait c = 0 \<longleftrightarrow> (\<forall>r \<in> set (cl_Routines c). r = Ended)"
  using assms by (auto simp: exclusive_def filter_empty_conv)

lemma sum_moves_update:
  assumes "i < length rs" "moves_left (rs ! i) = Suc (moves_left r)"
  shows "sum_list (map moves_left rs) = Suc (sum_list (map moves_left (rs[i := r])))"
  using arg_cong [OF id_take_nth_drop [OF assms(1)], of "\<lambda>rs. sum_list (map moves_left rs)"] assms
  by (simp add: upd_conv_take_nth_drop)

lemma routine_move_left:
  assumes "routine_move run job i c = Some c'"
  shows "\<exists>r. cl_Routines c' = (cl_Routines c)[i := r] \<and> moves_left (cl_Routines c ! i) = Suc (moves_left r)
    \<and> cl_Returned c' = cl_Returned c"
  using assms by (auto simp: routine_move_def split: routine.splits if_splits)

lemma service_weight_move:
  assumes "service_move run cfg t c = Some c'"
  shows "service_weight cfg c = Suc (service_weight cfg c')"
proof (cases t)
  case Main
  with assms show ?thesis by (auto simp: service_weight_def split: if_splits)
next
  case (Go i)
  with assms have i: "i < length (cl_Routines c)"
    and "routine_move run (service_jobs cfg ! i) i c = Some c'"
    by (auto split: if_splits)
  from routine_move_left [OF this(2)] obtain r where
    "cl_Routines c' = (cl_Routines c)[i := r]" "moves_left (cl_Routines c ! i) = Suc (moves_left r)"
    "cl_Returned c' = cl_Returned c"
    by blast
  with sum_moves_update [OF i] show ?thesis by (simp add: service_weight_def)
qed

lemma service_inv_move:
  assumes "service_inv run cfg c" "service_move run cfg t c = Some c'"
  shows "service_inv run cfg c'"
proof -
  have excl: "exclusive run cfg c" using assms(1) by (simp add: service_inv_def)
  have "pool_inv (length (service_jobs cfg)) (job_task run cfg) [] (as_pool c')"
    using as_pool_move [OF excl assms(2)] assms(1) pool.inv_move
    by (fastforce simp: service_inv_def)
  moreover have "cl_Wait c' = 0" if "cl_Returned c'"
  proof (cases t)
    case Main
    with assms(2) that show ?thesis by (auto split: if_splits)
  next
    case (Go i)
    with assms(2) have i: "i < length (cl_Routines c)"
      and move: "routine_move run (service_jobs cfg ! i) i c = Some c'"
      by (auto split: if_splits)
    from routine_move_left [OF move] that have "cl_Returned c" "cl_Routines c ! i \<noteq> Ended"
      by (auto simp: moves_left_0 [symmetric])
    then show ?thesis using all_ended [OF excl] assms(1) i by (auto simp: service_inv_def)
  qed
  ultimately show ?thesis using exclusive_move [OF excl assms(2)] by (simp add: service_inv_def)
qed

lemma service_progress:
  assumes "service_inv run cfg c" "\<not> cl_Returned c"
  shows "\<exists>t. service_move run cfg t c \<noteq> None"
proof (cases "length (cl_Routines c) < length (service_jobs cfg) \<or> cl_Wait c = 0")
  case True
  then have "service_move run cfg Main c \<noteq> None" using assms(2) by auto
  then show ?thesis ..
next
  case False
  have excl: "exclusive run cfg c" using assms(1) by (simp add: service_inv_def)
  obtain r where "r \<in> set (cl_Routines c)" "r \<noteq> Ended"
    using False all_ended [OF excl] by blast
  then obtain i where i: "i < length (cl_Routines c)" "cl_Routines c ! i \<noteq> Ended"
    by (metis in_set_conv_nth)
  show ?thesis
  proof (cases "cl_Mutex c")
    case None
    with i have "service_move run cfg (Go i) c \<noteq> None"
      by (auto simp: routine_move_def split: routine.split)
    then show ?thesis ..
  next
    case (Some j)
    then have "j < length (cl_Routines c)" "holding (cl_Routines c ! j)"
      using excl by (auto simp: exclusive_def)
    then have "service_move run cfg (Go j) c \<noteq> None"
      by (cases "cl_Routines c ! j") (simp_all add: routine_move_def)
    then show ?thesis ..
  qed
qed

interpretation services: ending "service_move run cfg" "service_inv run cfg" "service_weight cfg"
  cl_Returned
  for run cfg
proof unfold_locales
  show "service_inv run cfg c'" "service_weight cfg c = Suc (service_weight cfg c')"
    if "service_inv run cfg c" "service_move run cfg t c = Some c'" for c c' t
    using service_inv_move [OF that] service_weight_move [OF that(2)] .
  show "\<exists>t. service_move run cfg t c \<noteq> None" if "service_inv run cfg c" "\<not> cl_Returned c" for c
    by (rule service_progress) (rule that)+
  show "cl_Returned c \<longleftrightarrow> service_weight cfg c = 0" if inv: "service_inv run cfg c" for c
  proof
    assume "cl_Returned c"
    then show "service_weight cfg c = 0"
      using inv all_ended [of run cfg c]
      by (auto simp: service_weight_def service_inv_def pool_inv_def as_pool_def moves_left_0)
  qed (simp add: service_weight_def split: if_splits)
qed

lemma service_inv_start [simp]: "service_inv run cfg collection_start"
proof -
  have "as_pool collection_start = pool_start []"
    by (simp add: as_pool_def collection_start_def pool_start_def open_tasks_def)
  moreover have "\<not> cl_Returned collection_start" by (simp add: collection_start_def)
  ultimately show ?thesis by (simp add: service_inv_def exclusive_start)
qed

lemma service_weight_start [simp]:
  "service_weight cfg collection_start = 7 * length (service_jobs cfg) + 1"
  by (simp add: service_weight_def collection_start_def)

subsection \<open>The executions and the schedules\<close>

lemma CollectAllServices_job_task:
  "CollectAllServices run sched cfg = foldl (job_task run cfg) [] sched"
  by (simp add: CollectAllServices_def foldl_map job_task_def [abs_def])

lemma collected_schedule:
  assumes "execute (service_move run cfg) ts collection_start = Some c" "cl_Returned c"
  shows "\<exists>sched. mset sched = mset [0..<length (service_jobs cfg)] \<and>
    cl_Results c = CollectAllServices run sched cfg"
proof -
  have "pool_inv (length (service_jobs cfg)) (job_task run cfg) [] (as_pool c)"
    using services.execute_inv [OF service_inv_start assms(1)] by (simp add: service_inv_def)
  from pool_inv_returned [OF this] assms(2) show ?thesis
    by (simp add: as_pool_def CollectAllServices_job_task)
qed

text \<open>One goroutine after the other, in the order of any schedule.\<close>

definition in_turn :: "nat list \<Rightarrow> thread list" where
  "in_turn sched =
     replicate (length sched) Main @ concat (map (\<lambda>i. replicate 6 (Go i)) sched) @ [Main]"

lemma execute_spawn:
  "\<not> cl_Returned c \<Longrightarrow> length (cl_Routines c) + k \<le> length (service_jobs cfg) \<Longrightarrow>
     execute (service_move run cfg) (replicate k Main) c =
       Some (c\<lparr>cl_Routines := cl_Routines c @ replicate k Started, cl_Wait := cl_Wait c + int k\<rparr>)"
  by (induction k arbitrary: c) (simp_all add: algebra_simps)

lemma execute_alone:
  assumes "i < length (cl_Routines c)" "cl_Routines c ! i = Started" "cl_Mutex c = None"
  shows "execute (service_move run cfg) (replicate 6 (Go i)) c =
    Some (c\<lparr>cl_Routines := (cl_Routines c)[i := Ended], cl_Wait := cl_Wait c - 1,
            cl_Results := job_task run cfg (cl_Results c) i\<rparr>)"
  using assms
  by (simp add: eval_nat_numeral routine_move_def job_task_def service_task_update)

lemma execute_in_order:
  assumes "distinct sched" "\<forall>i \<in> set sched. i < length (cl_Routines c) \<and> cl_Routines c ! i = Started"
    and "cl_Mutex c = None"
  shows "\<exists>rs. execute (service_move run cfg) (concat (map (\<lambda>i. replicate 6 (Go i)) sched)) c =
      Some (c\<lparr>cl_Routines := rs, cl_Wait := cl_Wait c - int (length sched),
              cl_Results := foldl (job_task run cfg) (cl_Results c) sched\<rparr>) \<and>
    length rs = length (cl_Routines c)"
  using assms
proof (induction sched arbitrary: c)
  case Nil
  then show ?case by (auto intro: exI [of _ "cl_Routines c"])
next
  case (Cons i sched)
  let ?c = "c\<lparr>cl_Routines := (cl_Routines c)[i := Ended], cl_Wait := cl_Wait c - 1,
            cl_Results := job_task run cfg (cl_Results c) i\<rparr>"
  have "execute (service_move run cfg) (replicate 6 (Go i)) c = Some ?c"
    using Cons.prems by (intro execute_alone) auto
  moreover have "\<exists>rs. execute (service_move run cfg) (concat (map (\<lambda>i. replicate 6 (Go i)) sched)) ?c =
      Some (?c\<lparr>cl_Routines := rs, cl_Wait := cl_Wait ?c - int (length sched),
              cl_Results := foldl (job_task run cfg) (cl_Results ?c) sched\<rparr>) \<and>
      length rs = length (cl_Routines ?c)"
    using Cons.prems by (intro Cons.IH) (auto simp: nth_list_update)
  ultimately show ?case by (auto simp: execute_append algebra_simps)
qed

lemma execute_in_turn:
  assumes "mset sched = mset [0..<length (service_jobs cfg)]"
  shows "\<exists>c. execute (service_move run cfg) (in_turn sched) collection_start = Some c \<and>
    cl_Returned c \<and> cl_Results c = CollectAllServices run sched cfg"
proof -
  let ?n = "length (service_jobs cfg)"
  have sched: "length sched = ?n" "distinct sched" "set sched = {0..<?n}"
    using assms by (metis length_upt minus_nat.diff_0 size_mset,
        metis distinct_upt mset_eq_imp_distinct_iff, metis atLeastLessThan_upt mset_eq_setD)
  define c where "c = collection_start\<lparr>cl_Routines := replicate ?n Started, cl_Wait := int ?n\<rparr>"
  have "execute (service_move run cfg) (replicate ?n Main) collection_start = Some c"
    by (subst execute_spawn) (simp_all add: c_def collection_start_def)
  moreover obtain rs where
    "execute (service_move run cfg) (concat (map (\<lambda>i. replicate 6 (Go i)) sched)) c =
      Some (c\<lparr>cl_Routines := rs, cl_Wait := 0, cl_Results := foldl (job_task run cfg) [] sched\<rparr>)"
    "length rs = ?n"
    using execute_in_order [of sched c run cfg] sched
    by (auto simp: c_def collection_start_def)
  ultimately have "execute (service_move run cfg) (in_turn sched) collection_start =
    Some (c\<lparr>cl_Routines := rs, cl_Wait := 0, cl_Results := foldl (job_task run cfg) [] sched,
            cl_Returned := True\<rparr>)"
    by (simp add: in_turn_def execute_append sched(1)) (simp add: c_def collection_start_def)
  then show ?thesis
    by (auto simp: CollectAllServices_job_task)
qed

end
