(* ===== verification/Routine_Properties.thy ===== *)
theory Routine_Properties
  imports Service_Routines Run_Samples
begin

text \<open>
  What the schedules of the model stand for: the interleavings of the goroutines that collect
  services, hosts and Elasticsearch nodes.
\<close>

text \<open>
  C4. The concurrent collection of the services has exactly the results of the schedules: what
  any interleaving of its goroutines leaves when it returns is what one goroutine after the other
  gives in some order, and every order is the outcome of an interleaving.
\<close>

theorem services_linearizable:
  "{results. \<exists>ts c. execute (service_move run cfg) ts collection_start = Some c \<and>
      cl_Returned c \<and> cl_Results c = results} =
   {CollectAllServices run sched cfg | sched. mset sched = mset [0..<length (service_jobs cfg)]}"
proof (intro equalityI subsetI)
  fix results
  assume "results \<in> {results. \<exists>ts c. execute (service_move run cfg) ts collection_start = Some c \<and>
    cl_Returned c \<and> cl_Results c = results}"
  then show "results \<in> {CollectAllServices run sched cfg | sched.
      mset sched = mset [0..<length (service_jobs cfg)]}"
    using collected_schedule by blast
next
  fix results
  assume "results \<in> {CollectAllServices run sched cfg | sched.
    mset sched = mset [0..<length (service_jobs cfg)]}"
  then show "results \<in> {results. \<exists>ts c. execute (service_move run cfg) ts collection_start = Some c \<and>
      cl_Returned c \<and> cl_Results c = results}"
    using execute_in_turn by blast
qed

text \<open>
  C5. The concurrent collection of the services ends: no interleaving is longer than seven moves
  per job and the return, one of that length has returned, and no shorter one is stuck on the mutex
  or the wait group.
\<close>

theorem services_end:
  assumes "execute (service_move run cfg) ts collection_start = Some c"
  shows "length ts \<le> 7 * length (service_jobs cfg) + 1 \<and>
    (cl_Returned c \<longleftrightarrow> length ts = 7 * length (service_jobs cfg) + 1) \<and>
    (cl_Returned c \<or> (\<exists>t. service_move run cfg t c \<noteq> None))"
  using services.execute_bound [OF service_inv_start assms]
    services.returned_exact [OF service_inv_start assms]
    services.progress [OF services.execute_inv [OF service_inv_start assms]]
  by auto

definition paas_pair :: Config where
  "paas_pair = (sample_config_of [])\<lparr>cf_PaaSIPs := [''10.0.0.1'', ''10.0.0.2'']\<rparr>"

lemma paas_pair_jobs: "length (service_jobs paas_pair) = 2"
  by (simp add: service_jobs_def GetModuleHosts_def paas_pair_def sample_config_of_def
      load_config_def roleIPs_def Getenv_def parseIPList_Nil ModuleRegistry_def)

text \<open>The first goroutine has the mutex: the second is stuck, the program is not.\<close>

theorem services_end_witness:
  "\<exists>c. execute (service_move (\<lambda>host cmd. ([], Some ''refused'')) paas_pair) [Main, Main, Go 0, Go 1, Go 0]
      collection_start = Some c \<and>
    service_move (\<lambda>host cmd. ([], Some ''refused'')) paas_pair (Go 1) c = None \<and>
    (\<exists>t. service_move (\<lambda>host cmd. ([], Some ''refused'')) paas_pair t c \<noteq> None)"
proof -
  obtain c where c: "execute (service_move (\<lambda>host cmd. ([], Some ''refused'')) paas_pair) [Main, Main, Go 0, Go 1, Go 0]
      collection_start = Some c" "\<not> cl_Returned c"
      "service_move (\<lambda>host cmd. ([], Some ''refused'')) paas_pair (Go 1) c = None"
    by (simp add: collection_start_def paas_pair_jobs routine_move_def)
  with services_end [OF c(1)] show ?thesis by blast
qed

subsection \<open>Hosts\<close>

text \<open>The two rounds of \<open>CollectAllHosts\<close>: a pool each, the second on what the first left.\<close>

definition host_round1 ::
  "(bool \<Rightarrow> string \<Rightarrow> string \<times> string option) \<Rightarrow> string list \<Rightarrow> host_slot list pool program" where
  "host_round1 run hosts = pool_move (length hosts) (phase1_task run hosts)"

definition host_round2 ::
  "(float64 \<Rightarrow> goint) \<Rightarrow> (bool \<Rightarrow> string \<Rightarrow> string \<times> string option) \<Rightarrow> string \<Rightarrow> bool \<Rightarrow>
     string list \<Rightarrow> host_slot list pool program" where
  "host_round2 oob run mountPaths includeNFS hosts =
     pool_move (length hosts) (phase2_task oob run mountPaths includeNFS hosts)"

text \<open>
  C19. The concurrent host collection gives every host its own metrics, in host order: whatever the
  interleaving of its goroutines in the two rounds, what is there when the second returns is the
  collection of each host on its own.
\<close>

theorem hosts_interleaved:
  assumes "execute (host_round1 run hosts) ts
      (pool_start (replicate (length hosts) (HostMetrics_zero, []))) = Some p" "pl_Returned p"
    and "execute (host_round2 oob run mountPaths includeNFS hosts) us (pool_start (pl_Data p)) = Some q"
      "pl_Returned q"
  shows "map fst (pl_Data q) = map (collect_host oob run mountPaths includeNFS) hosts"
proof -
  obtain sched1 where 1: "mset sched1 = mset [0..<length hosts]"
      "pl_Data p = foldl (phase1_task run hosts) (replicate (length hosts) (HostMetrics_zero, [])) sched1"
    using assms(1,2) unfolding host_round1_def by (rule pool_result)
  obtain sched2 where 2: "mset sched2 = mset [0..<length hosts]"
      "pl_Data q = foldl (phase2_task oob run mountPaths includeNFS hosts) (pl_Data p) sched2"
    using assms(3,4) unfolding host_round2_def by (rule pool_result)
  have "map fst (pl_Data q) = CollectAllHosts oob run sched1 sched2 hosts mountPaths includeNFS"
    by (simp add: CollectAllHosts_def 1(2) 2(2))
  with CollectAllHosts_eq [OF 1(1) 2(1)] show ?thesis by simp
qed

theorem hosts_interleaved_witness:
  "\<exists>p q. execute (host_round1 (\<lambda>second ip. ([], Some ''timeout'')) [''10.0.0.1'', ''10.0.0.2''])
      [Main, Go 0, Main, Go 1, Main]
      (pool_start [(HostMetrics_zero, []), (HostMetrics_zero, [])]) = Some p \<and>
    execute (host_round2 (\<lambda>_. int64_min) (\<lambda>second ip. ([], Some ''timeout'')) [] False
      [''10.0.0.1'', ''10.0.0.2'']) [Main, Main, Go 1, Go 0, Main] (pool_start (pl_Data p)) = Some q \<and>
    map fst (pl_Data q) =
      [HostMetrics_zero\<lparr>hm_IP := ''10.0.0.1'', hm_Error := ''SSH error: timeout''\<rparr>,
       HostMetrics_zero\<lparr>hm_IP := ''10.0.0.2'', hm_Error := ''SSH error: timeout''\<rparr>]"
proof -
  let ?run = "\<lambda>(second :: bool) (ip :: string). ([], Some ''timeout'')"
  let ?hosts = "[''10.0.0.1'', ''10.0.0.2'']"
  let ?start = "pool_start [(HostMetrics_zero, []), (HostMetrics_zero, [])]"
  have start: "?start = pool_start (replicate (length ?hosts) (HostMetrics_zero, []))" by simp
  obtain p where p: "execute (host_round1 ?run ?hosts) [Main, Go 0, Main, Go 1, Main] ?start = Some p"
      "pl_Returned p"
    by (simp add: host_round1_def pool_start_def)
  obtain q where q: "execute (host_round2 (\<lambda>_. int64_min) ?run [] False ?hosts)
      [Main, Main, Go 1, Go 0, Main] (pool_start (pl_Data p)) = Some q" "pl_Returned q"
    by (simp add: host_round2_def pool_start_def)
  have "map fst (pl_Data q) = map (collect_host (\<lambda>_. int64_min) ?run [] False) ?hosts"
    by (rule hosts_interleaved [OF p [unfolded start] q])
  also have "\<dots> =
      [HostMetrics_zero\<lparr>hm_IP := ''10.0.0.1'', hm_Error := ''SSH error: timeout''\<rparr>,
       HostMetrics_zero\<lparr>hm_IP := ''10.0.0.2'', hm_Error := ''SSH error: timeout''\<rparr>]"
    by (simp add: collect_host_def)
  finally show ?thesis using p(1) q(1) by (intro exI conjI)
qed

end
