(* ===== verification/Command_Line.thy ===== *)
theory Command_Line
  imports Inspect_Run
begin

text \<open>
  The command line (src/main.go:24-34): Go's \<open>flag.Parse\<close> on the three flags the program defines,
  with \<open>ExitOnError\<close> as the default flag set has it, and what \<open>main\<close> does with them.
\<close>

subsection \<open>The flags\<close>

record main_flags =
  fl_Output :: string
  fl_VersionShort :: bool
  fl_VersionLong :: bool

definition main_flags_default :: main_flags where
  "main_flags_default = \<lparr>fl_Output = ''.'', fl_VersionShort = False, fl_VersionLong = False\<rparr>"

text \<open>\<open>strconv.ParseBool\<close>.\<close>

definition ParseBool :: "string \<Rightarrow> bool option" where
  "ParseBool s =
     (if s \<in> {''1'', ''t'', ''T'', ''true'', ''TRUE'', ''True''} then Some True
      else if s \<in> {''0'', ''f'', ''F'', ''false'', ''FALSE'', ''False''} then Some False
      else None)"

text \<open>
  An argument as \<open>parseOne\<close> reads it: not a flag, the end of the flags, malformed, or a name with
  the value after the first equals sign, if there is one.
\<close>

datatype flag_reading =
    NotAFlag
  | EndOfFlags
  | BadSyntax
  | Named string "string option"

definition flag_word :: "string \<Rightarrow> flag_reading" where
  "flag_word s =
     (if length s < 2 \<or> s ! 0 \<noteq> CHR ''-'' then NotAFlag
      else if s = ''--'' then EndOfFlags
      else
        let name = drop (if s ! 1 = CHR ''-'' then 2 else 1) s
        in if name = [] \<or> name ! 0 = CHR ''-'' \<or> name ! 0 = CHR ''='' then BadSyntax
           else case Index name ''='' of
                  None \<Rightarrow> Named name None
                | Some i \<Rightarrow> Named (take i name) (Some (drop (i + 1) name)))"

datatype flag_outcome =
    Parsed main_flags "string list"
  | HelpWanted
  | BadUsage

definition set_bool_flag ::
  "(bool \<Rightarrow> main_flags \<Rightarrow> main_flags) \<Rightarrow> string option \<Rightarrow> main_flags \<Rightarrow> main_flags option" where
  "set_bool_flag put value fl =
     (case value of
        None \<Rightarrow> Some (put True fl)
      | Some v \<Rightarrow> map_option (\<lambda>b. put b fl) (ParseBool v))"

fun parse_flags :: "string list \<Rightarrow> main_flags \<Rightarrow> flag_outcome" where
  "parse_flags [] fl = Parsed fl []"
| "parse_flags (s # args) fl =
     (case flag_word s of
        NotAFlag \<Rightarrow> Parsed fl (s # args)
      | EndOfFlags \<Rightarrow> Parsed fl args
      | BadSyntax \<Rightarrow> BadUsage
      | Named name value \<Rightarrow>
          if name = ''o'' then
            (case value of
               Some v \<Rightarrow> parse_flags args (fl\<lparr>fl_Output := v\<rparr>)
             | None \<Rightarrow>
                 (case args of
                    [] \<Rightarrow> BadUsage
                  | v # args' \<Rightarrow> parse_flags args' (fl\<lparr>fl_Output := v\<rparr>)))
          else if name = ''v'' then
            (case set_bool_flag (\<lambda>b fl. fl\<lparr>fl_VersionShort := b\<rparr>) value fl of
               None \<Rightarrow> BadUsage
             | Some fl \<Rightarrow> parse_flags args fl)
          else if name = ''version'' then
            (case set_bool_flag (\<lambda>b fl. fl\<lparr>fl_VersionLong := b\<rparr>) value fl of
               None \<Rightarrow> BadUsage
             | Some fl \<Rightarrow> parse_flags args fl)
          else if name = ''help'' \<or> name = ''h'' then HelpWanted
          else BadUsage)"

subsection \<open>The program\<close>

datatype main_end =
    UsageShown
  | UsageError
  | VersionPrinted
  | Ran run_end

text \<open>\<open>flag.Parse\<close> exits with 0 after the help that was asked for and with 2 after an error.\<close>

definition main_exit_code :: "main_end \<Rightarrow> goint" where
  "main_exit_code e =
     (case e of
        UsageShown \<Rightarrow> 0
      | UsageError \<Rightarrow> 2
      | VersionPrinted \<Rightarrow> 0
      | Ran e \<Rightarrow> exit_code e)"

definition weops_main :: "string list \<Rightarrow> world \<Rightarrow> main_end \<times> disk \<times> files" where
  "weops_main args w =
     (case parse_flags args main_flags_default of
        HelpWanted \<Rightarrow> (UsageShown, w_Disk w, w_Files w)
      | BadUsage \<Rightarrow> (UsageError, w_Disk w, w_Files w)
      | Parsed fl rest \<Rightarrow>
          if fl_VersionShort fl \<or> fl_VersionLong fl then (VersionPrinted, w_Disk w, w_Files w)
          else case main_run (w\<lparr>w_OutputDir := fl_Output fl\<rparr>) of
                 (e, d, fs) \<Rightarrow> (Ran e, d, fs))"

subsection \<open>What the flags decide\<close>

text \<open>A word after which the flags end, or none.\<close>

definition flags_stop :: "string list \<Rightarrow> bool" where
  "flags_stop args \<longleftrightarrow> (case args of [] \<Rightarrow> True | s # _ \<Rightarrow> flag_word s \<in> {NotAFlag, EndOfFlags})"

lemma parse_flags_stop:
  "flags_stop args \<Longrightarrow> \<exists>rest. parse_flags args fl = Parsed fl rest"
  by (cases args) (auto simp: flags_stop_def)

lemma flag_word_o: "flag_word ''-o'' = Named ''o'' None"
  by code_simp

lemma flag_word_o_eq: "flag_word (''-o='' @ v) = Named ''o'' (Some v)"
  using Index_byte_append [of "CHR ''=''" "''o''" v] by (simp add: flag_word_def Let_def)

text \<open>The directory may be given any number of times, in either form; the last one counts.\<close>

datatype dir_flag = Separate string | Joined string

fun dir_words :: "dir_flag \<Rightarrow> string list" where
  "dir_words (Separate d) = [''-o'', d]"
| "dir_words (Joined d) = [''-o='' @ d]"

fun dir_of :: "dir_flag \<Rightarrow> string" where
  "dir_of (Separate d) = d"
| "dir_of (Joined d) = d"

lemma parse_dirs:
  "parse_flags (concat (map dir_words ds) @ rest) fl =
     parse_flags rest (fl\<lparr>fl_Output := last (fl_Output fl # map dir_of ds)\<rparr>)"
proof (induction ds arbitrary: fl)
  case (Cons d ds)
  then show ?case
    using flag_word_o_eq [of "dir_of d"]
    by (cases d) (auto simp: flag_word_o)
qed simp

end
