(* ===== verification/Report_Figures.thy ===== *)
theory Report_Figures
  imports Run_Samples
begin

text \<open>
  Where the figures of a report come from, as far as it matters to the JSON encoder, which fails on
  a figure that is no finite number: preparing the report keeps them, a host that was not read has
  none, and in a world in which nothing answers all of them are finite.
\<close>

lemma finite_float_simps [simp]:
  "finite_float (FNum s q)" "\<not> finite_float FNaN" "\<not> finite_float (FInf s)"
  by (auto simp: finite_float_def)

lemma Prepare_figures [simp]:
  "finite_report (snd (Prepare prs fs now nc report)) = finite_report report"
  by (auto simp: Prepare_def demotePending_def finite_report_def Let_def list.pred_map comp_def
      split: option.splits)

lemma finite_host_texts [simp]:
  "finite_host (m\<lparr>hm_IP := ip\<rparr>) = finite_host m" "finite_host (m\<lparr>hm_Error := e\<rparr>) = finite_host m"
  by (simp_all add: finite_host_def)

lemma finite_host_zero [simp]: "finite_host HostMetrics_zero"
  by (simp add: finite_host_def HostMetrics_zero_def fzero_def)

lemma foldl_all:
  assumes "\<And>s x. P s \<Longrightarrow> P (f s x)" "P s"
  shows "P (foldl f s xs)"
  using assms(2) by (induction xs arbitrary: s) (simp_all add: assms(1))

lemma list_all_update: "list_all P xs \<Longrightarrow> (i < length xs \<Longrightarrow> P x) \<Longrightarrow> list_all P (xs[i := x])"
  by (induction xs arbitrary: i) (auto split: nat.split)

lemma CollectAllHosts_finite:
  assumes "\<And>ip cpu. finite_host (parseHostOutput oob ip cpu (fst (run True ip)) mounts nfs)"
  shows "list_all finite_host (CollectAllHosts oob run sched1 sched2 hosts mounts nfs)"
proof -
  let ?fine = "list_all (\<lambda>s. finite_host (fst s))"
  have one: "?fine (phase1_task run hosts slots i)" if "?fine slots" for slots i
    using that
    by (auto simp: phase1_task_def case_prod_beta split: option.splits intro!: list_all_update)
      (simp_all add: list_all_length)
  have two: "?fine (phase2_task oob run mounts nfs hosts slots i)" if "?fine slots" for slots i
    using that by (simp add: phase2_task_def case_prod_beta Let_def list_all_update assms)
  have "?fine (replicate (length hosts) (HostMetrics_zero, []))" by (simp add: list_all_iff)
  then have "?fine (foldl (phase1_task run hosts) (replicate (length hosts) (HostMetrics_zero, [])) sched1)"
    by (intro foldl_all [where P = ?fine and f = "phase1_task run hosts"] one)
  then have "?fine (foldl (phase2_task oob run mounts nfs hosts)
      (foldl (phase1_task run hosts) (replicate (length hosts) (HostMetrics_zero, [])) sched1) sched2)"
    by (intro foldl_all [where P = ?fine and f = "phase2_task oob run mounts nfs hosts"] two)
  then show ?thesis by (simp add: CollectAllHosts_def list.pred_map comp_def)
qed

text \<open>The checkers only paint, so the figures are those of the collectors.\<close>

lemma painted_clusters_finite:
  "list_all finite_cluster (fst (CheckES cs t)) = list_all finite_cluster cs"
proof -
  have "finite_cluster (erase_es c) = finite_cluster c" for c
    by (simp add: finite_cluster_def erase_es_def erase_es_node_def list.pred_map comp_def)
  then have "list_all finite_cluster (map erase_es cs) = list_all finite_cluster cs" for cs
    by (simp add: list.pred_map comp_def)
  then show ?thesis by (metis es_clusters.erase_check)
qed

lemma collected_finite:
  "finite_report (collect_report w cfg client) \<longleftrightarrow>
     list_all finite_host (CollectAllHosts (w_Oob w) (host_run w client) (w_Phase1 w) (w_Phase2 w)
       (cf_AllHosts cfg) (cf_CheckMountPath cfg) (cf_DiskIncludeNFS cfg)) \<and>
     list_all finite_cluster (CollectES (w_Oob w) (w_HaveCurl w) (w_CurlGet w) (w_Reach w) cfg)"
  by (simp add: finite_report_def collect_report_def Let_def case_prod_beta painted_clusters_finite
      host_results_def HostCheckResult_zero_def list.pred_map comp_def)

text \<open>No answer over SSH and no \<open>curl\<close>: every figure is the zero of its type.\<close>

definition dark :: "world \<Rightarrow> bool" where
  "dark w \<longleftrightarrow> w_NetAfter w = dark_net \<and> \<not> w_HaveCurl w"

lemma dark_report_finite:
  assumes "dark w"
  shows "finite_report (collect_report w cfg client)"
proof -
  have "host_run w client True ip = ([], Some (''ssh dial '' @ ip @ '': connection refused''))" for ip
    using assms by (simp add: dark_def host_run_def RunContext_def dark_net_def Let_def)
  moreover have "finite_host (parseHostOutput oob ip cpu [] mounts nfs)" for oob ip cpu mounts nfs
    by (simp add: parseHostOutput_def SplitN_def)
  ultimately have "list_all finite_host (CollectAllHosts (w_Oob w) (host_run w client) (w_Phase1 w)
      (w_Phase2 w) (cf_AllHosts cfg) (cf_CheckMountPath cfg) (cf_DiskIncludeNFS cfg))"
    by (intro CollectAllHosts_finite) simp
  moreover have "list_all finite_cluster (CollectES (w_Oob w) (w_HaveCurl w) (w_CurlGet w) (w_Reach w) cfg)"
    using assms by (simp add: CollectES_def dark_def finite_cluster_def ESCluster_zero_def fzero_def)
  ultimately show ?thesis by (simp add: collected_finite)
qed

end
