(* ===== verification/Run_Properties.thy ===== *)
theory Run_Properties
  imports Command_Line Report_Figures Check_Properties Notify_Properties
begin

text \<open>
  The properties of a whole run: the report does not depend on the schedules, unreachable hosts
  show in the summary, and what a run leaves behind on every way it can end.
\<close>

subsection \<open>Service checks under any schedule\<close>

definition entries_results :: "Thresholds \<Rightarrow> service_results \<Rightarrow> CheckResult multiset" where
  "entries_results t results = (\<Sum>e \<in># mset results. mset (snd (check_module t e)))"

definition job_results :: "Thresholds \<Rightarrow> ssh_run \<Rightarrow> service_job \<Rightarrow> CheckResult multiset" where
  "job_results t run job = mset (snd (check_service_status t (fst job) (job_status run job)))"

lemma check_module_results:
  "snd (check_module t (m, statuses)) = concat (map (\<lambda>s. snd (check_service_status t m s)) statuses)"
  by (simp add: check_module_def check_list_eq)

lemma entries_append:
  "entries_results t (append_result m s results) =
     entries_results t results + mset (snd (check_service_status t m s))"
  by (induction m s results rule: append_result.induct)
    (simp_all add: entries_results_def check_module_results ac_simps)

lemma entries_tasks:
  "entries_results t (foldl (service_task run) results jobs) =
     entries_results t results + (\<Sum>job \<in># mset jobs. job_results t run job)"
proof (induction jobs arbitrary: results)
  case Nil
  then show ?case by simp
next
  case (Cons job jobs)
  have "entries_results t (service_task run results job) =
      entries_results t results + job_results t run job"
    by (cases job) (simp add: service_task_def entries_append job_results_def job_status_def)
  with Cons show ?case by (simp add: ac_simps)
qed

lemma service_checks_perm:
  assumes "mset sched = mset [0..<length (service_jobs cfg)]"
    and "mset visit = mset [0..<length (CollectAllServices run sched cfg)]"
  shows "mset (snd (check_services t visit (CollectAllServices run sched cfg))) =
    (\<Sum>job \<in># mset (service_jobs cfg). job_results t run job)"
proof -
  let ?results = "CollectAllServices run sched cfg"
  have "mset (snd (check_services t visit ?results)) =
      (\<Sum>i \<in># mset visit. mset (snd (check_module t (?results ! i))))"
    by (simp add: check_services_def mset_concat_map)
  also have "\<dots> = (\<Sum>e \<in># mset (map (\<lambda>i. ?results ! i) visit). mset (snd (check_module t e)))"
    by (simp add: image_mset.compositionality comp_def)
  also have "mset (map (\<lambda>i. ?results ! i) visit) = mset ?results"
    by (rule scheduled_jobs) (rule assms(2))
  also have "(\<Sum>e \<in># mset ?results. mset (snd (check_module t e))) = entries_results t ?results"
    by (simp add: entries_results_def)
  also have "\<dots> = (\<Sum>job \<in># mset (map (\<lambda>i. service_jobs cfg ! i) sched). job_results t run job)"
    unfolding CollectAllServices_def entries_tasks by (simp add: entries_results_def)
  also have "mset (map (\<lambda>i. service_jobs cfg ! i) sched) = mset (service_jobs cfg)"
    by (rule scheduled_jobs) (rule assms(1))
  finally show ?thesis .
qed

text \<open>Every goroutine runs once, and every module is visited once.\<close>

definition complete_schedules :: "world \<Rightarrow> Config \<Rightarrow> ssh_client \<Rightarrow> bool" where
  "complete_schedules w cfg client \<longleftrightarrow>
     mset (w_Phase1 w) = mset [0..<length (cf_AllHosts cfg)] \<and>
     mset (w_Phase2 w) = mset [0..<length (cf_AllHosts cfg)] \<and>
     mset (w_Services w) = mset [0..<length (service_jobs cfg)] \<and>
     mset (w_Visit w) =
       mset [0..<length (CollectAllServices (RunContext (w_NetAfter w) client) (w_Services w) cfg)] \<and>
     mset (w_Reach w) = mset [0..<length (cf_ES7IPs cfg)]"

definition rescheduled :: "world \<Rightarrow> world \<Rightarrow> bool" where
  "rescheduled w w' \<longleftrightarrow>
     w' = w\<lparr>w_Phase1 := w_Phase1 w', w_Phase2 := w_Phase2 w', w_Services := w_Services w',
            w_Visit := w_Visit w', w_Reach := w_Reach w'\<rparr>"

lemma CollectES_any:
  assumes "mset sched = mset [0..<length (cf_ES7IPs cfg)]" "mset sched' = mset [0..<length (cf_ES7IPs cfg)]"
  shows "CollectES oob have_curl curl sched cfg = CollectES oob have_curl curl sched' cfg"
  unfolding CollectES_def probeES7Nodes_eq [OF assms(1)] probeES7Nodes_eq [OF assms(2)] by (rule refl)

text \<open>
  C10. The report does not depend on how the goroutines are scheduled nor on the order in which Go
  visits the map of services: the summary, the hosts and every component section are the same, and
  so are the check results but for their order.
\<close>

definition same_findings :: "InspectReport \<Rightarrow> InspectReport \<Rightarrow> bool" where
  "same_findings r r' \<longleftrightarrow>
     ir_Summary r = ir_Summary r' \<and> ir_Hosts r = ir_Hosts r' \<and> ir_ES r = ir_ES r' \<and>
     ir_MySQL r = ir_MySQL r' \<and> ir_RedisStandalone r = ir_RedisStandalone r' \<and>
     ir_RedisSentinel r = ir_RedisSentinel r' \<and> ir_MongoDB r = ir_MongoDB r' \<and>
     ir_RabbitMQ r = ir_RabbitMQ r' \<and> ir_Replication r = ir_Replication r' \<and>
     ir_BKMonitorV3 r = ir_BKMonitorV3 r' \<and> mset (ir_AllChecks r) = mset (ir_AllChecks r')"

lemma collect_report_fields:
  fixes w cfg client
  defines "r \<equiv> collect_report w cfg client" and "t \<equiv> cf_Thresholds cfg"
  shows "ir_Hosts r = host_results t (CollectAllHosts (w_Oob w) (host_run w client) (w_Phase1 w)
      (w_Phase2 w) (cf_AllHosts cfg) (cf_CheckMountPath cfg) (cf_DiskIncludeNFS cfg))"
    and "ir_Services r = fst (check_services t (w_Visit w)
      (CollectAllServices (RunContext (w_NetAfter w) client) (w_Services w) cfg))"
    and "ir_Summary r = Summarize (ir_AllChecks r)"
    and "\<exists>rest. ir_AllChecks r = concat (map hc_Checks (ir_Hosts r)) @ rest"
  by (simp_all add: r_def t_def collect_report_def Let_def case_prod_beta InspectReport_zero_def)

theorem report_schedule_independent:
  assumes "rescheduled w w'" "complete_schedules w cfg client" "complete_schedules w' cfg client"
  shows "same_findings (collect_report w cfg client) (collect_report w' cfg client)"
proof -
  obtain a b c d e where w': "w' = w\<lparr>w_Phase1 := a, w_Phase2 := b, w_Services := c, w_Visit := d,
      w_Reach := e\<rparr>"
    using assms(1) unfolding rescheduled_def by blast
  have run: "host_run w' client = host_run w client"
    by (simp add: w' host_run_def fun_eq_iff)
  have hosts: "CollectAllHosts (w_Oob w) (host_run w client) (w_Phase1 w) (w_Phase2 w)
        (cf_AllHosts cfg) (cf_CheckMountPath cfg) (cf_DiskIncludeNFS cfg) =
      CollectAllHosts (w_Oob w) (host_run w client) a b
        (cf_AllHosts cfg) (cf_CheckMountPath cfg) (cf_DiskIncludeNFS cfg)"
    using assms(2,3) by (simp add: complete_schedules_def w' CollectAllHosts_eq)
  have es: "CollectES (w_Oob w) (w_HaveCurl w) (w_CurlGet w) (w_Reach w) cfg =
      CollectES (w_Oob w) (w_HaveCurl w) (w_CurlGet w) e cfg"
    using assms(2,3) by (intro CollectES_any) (simp_all add: complete_schedules_def w')
  have services: "mset (snd (check_services t (w_Visit w)
        (CollectAllServices (RunContext (w_NetAfter w) client) (w_Services w) cfg))) =
      mset (snd (check_services t d
        (CollectAllServices (RunContext (w_NetAfter w) client) c cfg)))" for t
    using assms(2,3) by (simp add: complete_schedules_def w' service_checks_perm)
  have checks: "mset (ir_AllChecks (collect_report w cfg client)) =
      mset (ir_AllChecks (collect_report w' cfg client))"
    unfolding collect_report_def Let_def case_prod_beta
    by (simp add: run) (simp add: w' hosts es services)
  have rest: "ir_Hosts (collect_report w cfg client) = ir_Hosts (collect_report w' cfg client)"
    unfolding collect_report_fields run by (simp add: w' hosts)
  show ?thesis
    unfolding same_findings_def
    by (intro conjI checks rest)
      (simp add: collect_report_fields(3) Summarize_perm [OF checks],
       simp_all add: collect_report_def Let_def case_prod_beta InspectReport_zero_def w' es)
qed

lemma two_hosts_jobs: "service_jobs two_hosts = []"
  by (simp add: service_jobs_def two_hosts_def sample_config_of_def load_config_def GetModuleHosts_def roleIPs_def
      Getenv_def parseIPList_Nil)

lemma two_hosts_schedules:
  assumes "mset (w_Phase1 w) = {#0, 1#}" "mset (w_Phase2 w) = {#0, 1#}" "w_Services w = []"
    "w_Visit w = []" "w_Reach w = []"
  shows "complete_schedules w two_hosts client"
  using assms
  by (simp add: complete_schedules_def two_hosts_fields two_hosts_jobs CollectAllServices_def
      numeral_2_eq_2)

theorem report_schedule_independent_witness:
  "same_findings (collect_report (dark_world [] 2) two_hosts plain_client)
     (collect_report ((dark_world [] 2)\<lparr>w_Phase1 := [1, 0]\<rparr>) two_hosts plain_client)"
  by (rule report_schedule_independent; (rule two_hosts_schedules)?)
    (simp_all add: rescheduled_def dark_world_def numeral_2_eq_2 add_mset_commute)

subsection \<open>Unreachable hosts\<close>

definition unreachable :: "world \<Rightarrow> ssh_client \<Rightarrow> string \<Rightarrow> bool" where
  "unreachable w client ip \<longleftrightarrow> sw_Dial (w_NetBefore w) (ssh_addr client ip) \<noteq> None"

lemma count_status_concat:
  "count_status s (concat rss) = (\<Sum>rs \<leftarrow> rss. count_status s rs)"
  by (induction rss) simp_all

lemma count_status_nonneg: "0 \<le> count_status s rs"
  by (simp add: count_status_def)

lemma sum_list_bound:
  assumes "\<And>x. 0 \<le> f x" "\<And>x. P x \<Longrightarrow> k \<le> f x"
  shows "k * int (length (filter P xs)) \<le> (\<Sum>x \<leftarrow> xs. f x)"
proof (induction xs)
  case Nil
  then show ?case by simp
next
  case (Cons x xs)
  then show ?case
    using assms(1) [of x] assms(2) [of x] by (cases "P x") (simp_all add: distrib_left)
qed

text \<open>
  C28. An unreachable host does not go unnoticed: every host that could not be dialled adds at
  least four warnings to the summary, for positive thresholds.
\<close>

theorem unreachable_hosts_counted:
  assumes "complete_schedules w cfg client"
    and "flt fzero (th_CPUUsage (cf_Thresholds cfg))" "flt fzero (th_MemUsage (cf_Thresholds cfg))"
    and "0 < th_MaxOpenFiles (cf_Thresholds cfg)"
  shows "4 * int (length (filter (unreachable w client) (cf_AllHosts cfg)))
    \<le> cs_Warn (ir_Summary (collect_report w cfg client))"
proof -
  let ?t = "cf_Thresholds cfg" and ?r = "collect_report w cfg client"
  let ?host = "collect_host (w_Oob w) (host_run w client) (cf_CheckMountPath cfg) (cf_DiskIncludeNFS cfg)"
  let ?warns = "\<lambda>ip. count_status StatusWarn (CheckHost (?host ip) ?t)"
  have four: "4 \<le> ?warns ip" if "unreachable w client ip" for ip
  proof -
    obtain e where "sw_Dial (w_NetBefore w) (ssh_addr client ip) = Some e"
      using \<open>unreachable w client ip\<close> by (auto simp: unreachable_def)
    then obtain err where host: "?host ip = HostMetrics_zero\<lparr>hm_IP := ip, hm_Error := err\<rparr>"
      by (simp add: collect_host_def host_run_def RunContext_def)
    have "length (map cr_Field (filter (\<lambda>c. cr_Status c = StatusWarn) (CheckHost (?host ip) ?t))) = 4"
      unfolding host by (subst unreachable_host_warns [OF assms(2,3,4)]) simp
    then show ?thesis by (simp add: count_status_def)
  qed
  have hosts: "ir_Hosts ?r = host_results ?t (map ?host (cf_AllHosts cfg))"
    using assms(1) by (simp add: collect_report_fields complete_schedules_def CollectAllHosts_eq)
  obtain rest where checks: "ir_AllChecks ?r = concat (map hc_Checks (ir_Hosts ?r)) @ rest"
    using collect_report_fields(4) by blast
  have "4 * int (length (filter (unreachable w client) (cf_AllHosts cfg)))
      \<le> (\<Sum>ip \<leftarrow> cf_AllHosts cfg. ?warns ip)"
    by (rule sum_list_bound) (simp_all add: count_status_nonneg four)
  also have "\<dots> = count_status StatusWarn (concat (map hc_Checks (ir_Hosts ?r)))"
    by (simp add: hosts host_results_def count_status_concat comp_def)
  also have "\<dots> \<le> count_status StatusWarn (ir_AllChecks ?r)"
    by (simp add: checks count_status_nonneg)
  finally show ?thesis by (simp add: collect_report_fields(3) Summarize_counts)
qed

theorem unreachable_hosts_counted_witness:
  "8 \<le> cs_Warn (ir_Summary (collect_report (dark_world [] 2) two_hosts plain_client))"
proof -
  have "complete_schedules (dark_world [] 2) two_hosts plain_client"
    by (rule two_hosts_schedules) (simp_all add: dark_world_def numeral_2_eq_2)
  moreover have "flt fzero (th_CPUUsage sample_thresholds)" "flt fzero (th_MemUsage sample_thresholds)"
    "0 < th_MaxOpenFiles sample_thresholds"
    by (simp_all add: sample_thresholds_def of_goint_small fzero_def Go_Float.signed_def)
  moreover have "filter (unreachable (dark_world [] 2) plain_client) (cf_AllHosts two_hosts) =
      [''10.0.0.1'', ''10.0.0.2'']"
    by (simp add: unreachable_def dark_world_def dark_net_def two_hosts_fields)
  ultimately show ?thesis
    using unreachable_hosts_counted [of "dark_world [] 2" two_hosts plain_client]
    by (simp add: two_hosts_fields)
qed

subsection \<open>How a run ends\<close>

lemma Prepare_summary:
  assumes "Prepare prs fs now nc report = (prep, report')"
    and "ir_Summary report = Summarize (ir_AllChecks report)"
  shows "ir_Summary report' = Summarize (ir_AllChecks report')"
  using assms
  by (auto simp: Prepare_def demotePending_def recompute_Summarize Let_def
      split: option.splits if_splits)

lemma main_run_cases:
  assumes "main_run w = (e, d, fs)"
  obtains (stopped) "e \<in> {ConfigFailed, NoHostsConfigured, AnotherInstance, SSHFailed}"
      "d = w_Disk w" "fs = w_Files w"
  | (inspected) cfg client where "Load (w_Env w) (w_OutputDir w) = Inr cfg"
      "inspect w cfg client = (e, d, fs)"
      "New (w_Env w) (w_Auth w) (cf_SSHUser cfg) (cf_SSHPort cfg) (cf_SSHKeyPath cfg)
         (cf_SSHUseSudo cfg) = Inr client"
  using assms by (auto simp: main_run_def Let_def split: sum.splits if_splits)

text \<open>
  C8. A run that ends well leaves both files of the report on disk, rendered from one report whose
  summary counts its results; without a notification configuration it sends nothing and touches no
  notification state.  A run that stops earlier leaves the disk as it was, and one whose report
  could not be written leaves the notification state as it was: no mail without a report.
\<close>

theorem run_outcome:
  assumes "main_run w = (e, d, fs)"
  shows "case e of
      Inspected report sent \<Rightarrow>
        (\<exists>cfg html json. Load (w_Env w) (w_OutputDir w) = Inr cfg \<and>
           render w report = Inr html \<and> MarshalReport (w_FormatFloat w) report = Some json \<and>
           d (html_path (cf_OutputDir cfg)) = Some html \<and>
           d (json_path (cf_OutputDir cfg)) = Some json) \<and>
        ir_Summary report = Summarize (ir_AllChecks report) \<and>
        (notify_config w = None \<longrightarrow> sent = None \<and> fs = w_Files w)
    | ReportFailed \<Rightarrow> fs = w_Files w
    | _ \<Rightarrow> d = w_Disk w \<and> fs = w_Files w"
  using assms
proof (cases rule: main_run_cases)
  case stopped
  then show ?thesis by auto
next
  case (inspected cfg client)
  note load = inspected(1) and run = inspected(2)
  obtain prep report where prep: "Prepare (w_ParseTime w) (w_Files w) (w_Now w) (notify_config w)
      (collect_report w cfg client) = (prep, report)"
    by fastforce
  have sum: "ir_Summary report = Summarize (ir_AllChecks report)"
    by (rule Prepare_summary [OF prep]) (rule collect_report_fields(3))
  obtain r d' where written: "Write (w_Write w) (w_Junk w) (render w) (w_FormatFloat w) report
      (cf_OutputDir cfg) (w_Disk w) = (r, d')"
    by fastforce
  show ?thesis
  proof (cases r)
    case (Inl err)
    then have "e = ReportFailed" "fs = w_Files w"
      using run by (simp_all add: inspect_def prep written)
    then show ?thesis by simp
  next
    case (Inr htmlPath)
    then obtain html json where "render w report = Inr html" "MarshalReport (w_FormatFloat w) report = Some json"
      "d' = (w_Disk w)(html_path (cf_OutputDir cfg) \<mapsto> html, json_path (cf_OutputDir cfg) \<mapsto> json)"
      using Write_success [OF written [unfolded Inr]] by blast
    moreover have "d = d' \<and> (\<exists>sent. e = Inspected report sent \<and>
        (notify_config w = None \<longrightarrow> sent = None \<and> fs = w_Files w))"
      using run Inr by (auto simp: inspect_def prep written split: option.splits prod.splits)
    ultimately show ?thesis
      using load sum report_paths_differ [of "cf_OutputDir cfg"] by auto
  qed
qed

definition one_host :: "(string \<times> string) list" where
  "one_host = [(''BK_PAAS_IP_COMMA'', ''10.0.0.1''), (''INSPECT_SSH_KEY_PATH'', ''/k''),
     (''WEOPS_CONFIG'', ''/c/config.json'')]"

lemma one_host_loaded:
  obtains cfg where "Load (map_of one_host) ''/tmp'' = Inr cfg" "cf_AllHosts cfg \<noteq> []"
    "cf_SSHKeyPath cfg = ''/k''" "cf_OutputDir cfg = ''/tmp''"
proof -
  have "load_faults (map_of one_host) = []"
    by (simp add: load_faults_def float_keys_def int_keys_def float_fault_def int_fault_def
        Getenv_def one_host_def)
  then obtain cfg where load: "Load (map_of one_host) ''/tmp'' = Inr cfg"
    using Load_faults [of "map_of one_host" "''/tmp''"] by (auto simp: first_fault_def)
  then have "cf_PaaSIPs cfg = parseIPList ''10.0.0.1''" "cf_SSHKeyPath cfg = ''/k''"
    "cf_OutputDir cfg = ''/tmp''"
    by (auto simp: Load_def bindE_Inr_iff load_config_def Getenv_def one_host_def Let_def)
  moreover have "parseIPList ''10.0.0.1'' = [''10.0.0.1'']" by code_simp
  ultimately have "''10.0.0.1'' \<in> set (cf_AllHosts cfg)"
    by (simp add: Load_hosts [OF load] set_buildAllHosts all_ip_lists_def)
  then show thesis
    using load \<open>cf_SSHKeyPath cfg = ''/k''\<close> \<open>cf_OutputDir cfg = ''/tmp''\<close> that by force
qed

text \<open>A run that gets to the report: the configuration loads, there is a key, the lock is free.\<close>

lemma one_host_run:
  assumes "w_Env w = map_of one_host" "w_OutputDir w = ''/tmp''" "aw_File (w_Auth w) = (\<lambda>path. Key ''k'')"
    and "lock_verdict (Acquire (w_Lock w)) = WithLock"
  obtains cfg client where "main_run w = inspect w cfg client" "cf_OutputDir cfg = ''/tmp''"
    "Load (map_of one_host) ''/tmp'' = Inr cfg"
    "New (map_of one_host) (w_Auth w) (cf_SSHUser cfg) (cf_SSHPort cfg) (cf_SSHKeyPath cfg)
       (cf_SSHUseSudo cfg) = Inr client"
proof -
  obtain cfg where cfg: "Load (map_of one_host) ''/tmp'' = Inr cfg" "cf_AllHosts cfg \<noteq> []"
      "cf_SSHKeyPath cfg = ''/k''" "cf_OutputDir cfg = ''/tmp''"
    by (rule one_host_loaded)
  have env: "Getenv (map_of one_host) ''HOME'' = []" "Getenv (map_of one_host) ''SSH_AUTH_SOCK'' = []"
    by (simp_all add: Getenv_def one_host_def)
  have "\<exists>client. New (map_of one_host) (w_Auth w) u p ''/k'' b = Inr client" for u p b
    by (simp add: New_def buildAuthMethods_def explicit_key_def assms env)
  then obtain client where client: "New (map_of one_host) (w_Auth w) (cf_SSHUser cfg)
      (cf_SSHPort cfg) ''/k'' (cf_SSHUseSudo cfg) = Inr client"
    by blast
  have "\<not> busy w" using assms(4) by (simp add: busy_def split: sum.split)
  with cfg client have "main_run w = inspect w cfg client"
    by (simp add: main_run_def assms Validate_hosts_def)
  then show thesis by (rule that) (simp_all add: cfg client)
qed

lemma inspect_success:
  assumes "wc_Mkdir (w_Write w)" "wc_WriteHTML (w_Write w)" "wc_WriteJSON (w_Write w)"
    and "w_Templates w = Some (\<lambda>r. Some html)" "finite_report (collect_report w cfg client)"
  shows "\<exists>report sent d fs. inspect w cfg client = (Inspected report sent, d, fs) \<and>
    (notify_config w = None \<longrightarrow> sent = None \<and> fs = w_Files w)"
proof -
  have "MarshalReport (w_FormatFloat w) (snd (Prepare (w_ParseTime w) (w_Files w) (w_Now w) nc
      (collect_report w cfg client))) \<noteq> None" for nc
    using assms(5) by (simp add: MarshalReport_None Prepare_figures)
  then show ?thesis
    using assms(1-4)
    by (auto simp: inspect_def Write_def render_def RenderHTML_eq Let_def case_prod_beta
        split: option.split)
qed

theorem run_outcome_witness:
  "\<exists>report d. main_run (dark_world one_host 2) = (Inspected report None, d, Map.empty) \<and>
     d (html_path ''/tmp'') = Some ''<html>'' \<and> ir_Summary report = Summarize (ir_AllChecks report)"
proof -
  let ?w = "dark_world one_host 2"
  obtain cfg client where run: "main_run ?w = inspect ?w cfg client" "cf_OutputDir cfg = ''/tmp''"
      "Load (map_of one_host) ''/tmp'' = Inr cfg"
    by (rule one_host_run [of ?w]) (simp_all add: dark_world_def Acquire_def lock_verdict_def)
  have "notify_config ?w = None"
    by (simp add: notify_config_def notify_Load_def dark_world_def ConfigPath_def Getenv_def
        one_host_def)
  then obtain report d where out: "main_run ?w = (Inspected report None, d, Map.empty)"
    using inspect_success [of ?w "''<html>''" cfg client] run(1) dark_report_finite [of ?w cfg client]
    by (auto simp: dark_world_def dark_def)
  have "render ?w = (\<lambda>r. Inr ''<html>'')"
    by (simp add: dark_world_def render_def RenderHTML_eq fun_eq_iff)
  with run_outcome [OF out] run have "d (html_path ''/tmp'') = Some ''<html>''"
      "ir_Summary report = Summarize (ir_AllChecks report)"
    by (auto simp: dark_world_def)
  with out show ?thesis by blast
qed

subsection \<open>A run and the notification machine\<close>

text \<open>The alerts a run finds, before confirmation.\<close>

definition run_alerts :: "world \<Rightarrow> AlertItem list" where
  "run_alerts w =
     (case Load (w_Env w) (w_OutputDir w) of
        Inl e \<Rightarrow> []
      | Inr cfg \<Rightarrow>
          (case New (w_Env w) (w_Auth w) (cf_SSHUser cfg) (cf_SSHPort cfg) (cf_SSHKeyPath cfg)
                  (cf_SSHUseSudo cfg) of
             Inl e \<Rightarrow> []
           | Inr client \<Rightarrow> ExtractAlerts (Some (collect_report w cfg client))))"

definition run_state :: "world \<Rightarrow> NotifyConfig \<Rightarrow> State" where
  "run_state w nc = disk_state (w_ParseTime w) nc (w_Files w)"

definition run_action :: "NotifyConfig \<Rightarrow> world \<Rightarrow> Action" where
  "run_action nc w = notify_action (params_of nc) (run_state w nc) (run_alerts w) (w_Now w)"

lemma run_process:
  assumes "main_run w = (Inspected report sent, d, fs')" "notify_config w = Some nc"
  obtains r0 htmlPath page where "run_alerts w = ExtractAlerts (Some r0)"
    "ir_Summary r0 = Summarize (ir_AllChecks r0)"
    "report = snd (Prepare (w_ParseTime w) (w_Files w) (w_Now w) (Some nc) r0)"
    "Process (w_ParseTime w) ((w_Dispatch w)\<lparr>dw_ReadHTML := page\<rparr>) (w_Now w) nc r0 htmlPath
       (w_Files w) = (sent, fs')"
    "\<And>cfg client. Load (w_Env w) (w_OutputDir w) = Inr cfg \<Longrightarrow>
       New (w_Env w) (w_Auth w) (cf_SSHUser cfg) (cf_SSHPort cfg) (cf_SSHKeyPath cfg)
         (cf_SSHUseSudo cfg) = Inr client \<Longrightarrow> r0 = collect_report w cfg client"
  using assms(1)
proof (cases rule: main_run_cases)
  case (inspected cfg client)
  let ?r = "collect_report w cfg client"
  obtain prep report' where prep: "Prepare (w_ParseTime w) (w_Files w) (w_Now w) (Some nc) ?r =
      (prep, report')"
    by fastforce
  obtain htmlPath where
    "Write (w_Write w) (w_Junk w) (render w) (w_FormatFloat w) report' (cf_OutputDir cfg) (w_Disk w) =
       (Inr htmlPath, d)"
    and dispatch: "report' = report"
    "Dispatch ((w_Dispatch w)\<lparr>dw_ReadHTML := read_page (cf_OutputDir cfg) htmlPath d\<rparr>) prep nc
       report htmlPath (w_Files w) = (sent, fs')"
    using inspected(2) assms(2)
    by (auto simp: inspect_def prep split: prod.splits sum.splits)
  show thesis
  proof (rule that)
    show "run_alerts w = ExtractAlerts (Some ?r)" using inspected by (simp add: run_alerts_def)
    show "ir_Summary ?r = Summarize (ir_AllChecks ?r)" by (rule collect_report_fields(3))
    show "report = snd (Prepare (w_ParseTime w) (w_Files w) (w_Now w) (Some nc) ?r)"
      using dispatch by (simp add: prep)
    show "Process (w_ParseTime w)
        ((w_Dispatch w)\<lparr>dw_ReadHTML := read_page (cf_OutputDir cfg) htmlPath d\<rparr>) (w_Now w) nc ?r
        htmlPath (w_Files w) = (sent, fs')"
      using dispatch by (simp add: Process_def prep)
  qed (use inspected in simp)
qed auto

lemma run_shown:
  assumes "main_run w = (Inspected report sent, d, fs')" "notify_config w = Some nc"
    and "em_Enabled (nc_Email nc)" "notify_Validate nc = None"
  shows "ExtractAlerts (Some report) =
      firing (params_of nc) (run_state w nc) (run_alerts w) (w_Now w)"
    and "cs_Warn (ir_Summary report) = int (length (ExtractAlerts (Some report)))"
proof -
  obtain r0 htmlPath page where r0: "run_alerts w = ExtractAlerts (Some r0)"
      "ir_Summary r0 = Summarize (ir_AllChecks r0)"
      "report = snd (Prepare (w_ParseTime w) (w_Files w) (w_Now w) (Some nc) r0)"
    using assms(1,2) by (rule run_process)
  obtain ctx where ctx: "fst (Prepare (w_ParseTime w) (w_Files w) (w_Now w) (Some nc) r0) = Some ctx"
      "pc_Filtered ctx = firing (params_of nc) (run_state w nc) (run_alerts w) (w_Now w)"
    using Prepare_Some [OF assms(3,4), of "w_ParseTime w" "w_Files w" "w_Now w" r0]
    by (simp add: run_state_def disk_state_def r0(1))
  have "Prepare (w_ParseTime w) (w_Files w) (w_Now w) (Some nc) r0 = (Some ctx, report)"
    using ctx(1) r0(3) by (simp add: prod_eq_iff)
  note shown = Prepare_consistent [OF this r0(2)]
  show "ExtractAlerts (Some report) =
      firing (params_of nc) (run_state w nc) (run_alerts w) (w_Now w)"
    using shown ctx(2) by simp
  show "cs_Warn (ir_Summary report) = int (length (ExtractAlerts (Some report)))"
    using shown by simp
qed

text \<open>
  C2. A whole run implements the notification machine: with notifications enabled and valid, the
  alerts of the report that was written are the ones the machine fires on the alerts of the
  collected report, the state on disk afterwards is the machine's next state or the one before,
  a mail is delivered only when the machine chose one, and a mail that could not be delivered
  leaves the state as it was.
\<close>

theorem run_refines_machine:
  assumes "main_run w = (Inspected report sent, d, fs')" "notify_config w = Some nc"
    and "em_Enabled (nc_Email nc)" "notify_Validate nc = None"
    and "storable (dw_FormatTime (w_Dispatch w)) (w_ParseTime w)
      (notify_next (params_of nc) (run_state w nc) (run_alerts w) (w_Now w))"
    and "fresh_temp (dw_Save (w_Dispatch w)) (StatePath (nc_path nc)) (w_Files w)"
  shows "let s = run_state w nc; act = notify_action (params_of nc) s (run_alerts w) (w_Now w)
    in ExtractAlerts (Some report) = firing (params_of nc) s (run_alerts w) (w_Now w) \<and>
       cs_Warn (ir_Summary report) = int (length (ExtractAlerts (Some report))) \<and>
       disk_state (w_ParseTime w) nc fs' \<in>
         {s, notify_next (params_of nc) s (run_alerts w) (w_Now w)} \<and>
       (sent \<noteq> None \<longrightarrow> act \<noteq> ActionNone) \<and> (sent = None \<and> act \<noteq> ActionNone \<longrightarrow> fs' = w_Files w)"
proof -
  obtain r0 htmlPath page where r0: "run_alerts w = ExtractAlerts (Some r0)"
    and process: "Process (w_ParseTime w) ((w_Dispatch w)\<lparr>dw_ReadHTML := page\<rparr>) (w_Now w) nc r0
      htmlPath (w_Files w) = (sent, fs')"
    using assms(1,2) by (rule run_process)
  have state: "run_state w nc = disk_state (w_ParseTime w) nc (w_Files w)"
    by (simp add: run_state_def)
  have "storable (dw_FormatTime ((w_Dispatch w)\<lparr>dw_ReadHTML := page\<rparr>)) (w_ParseTime w)
      (notify_next (params_of nc) (run_state w nc) (run_alerts w) (w_Now w))"
    "fresh_temp (dw_Save ((w_Dispatch w)\<lparr>dw_ReadHTML := page\<rparr>)) (StatePath (nc_path nc)) (w_Files w)"
    using assms(5,6) by simp_all
  from Process_state [OF assms(3,4) state r0 this process] show ?thesis
    using run_shown [OF assms(1-4)] by (simp add: Let_def)
qed

definition mail_config_doc :: json where
  "mail_config_doc =
     JObj [(''email'', JObj [(''enabled'', JBool True), (''smtp_host'', JStr ''mail''),
             (''smtp_port'', JNum ''25''), (''from'', JStr ''a@b''), (''to'', JArr [JStr ''c@d''])]),
           (''persistence'', JObj [(''consecutive_runs'', JNum ''1'')])]"

definition mail_config :: NotifyConfig where
  "mail_config =
     \<lparr>nc_Email = \<lparr>em_Enabled = True, em_SMTPHost = ''mail'', em_SMTPPort = 25, em_UseTLS = False,
        em_Username = [], em_Password = [], em_From = ''a@b'', em_To = [''c@d'']\<rparr>,
      nc_Trigger = \<lparr>tg_MinIntervalMinutes = 120, tg_SendRecovery = False\<rparr>,
      nc_Persistence = \<lparr>ps_ConsecutiveRuns = 1\<rparr>, nc_path = ''/c/config.json''\<rparr>"

definition mail_world :: world where
  "mail_world =
     (dark_world one_host 2)
       \<lparr>w_Stat := (\<lambda>path. StatMode 0), w_ParseTime := (\<lambda>t. Some 0),
        w_Files := [''/c/config.json'' \<mapsto> MarshalIndent mail_config_doc],
        w_Dispatch := (w_Dispatch (dark_world [] 2))
          \<lparr>dw_FormatTime := (\<lambda>t. Some ''now''),
           dw_Save := \<lparr>sv_Mkdir = True, sv_CreateTemp = Some ''/c/state-1.json'', sv_Write = True, sv_Written = 0,
             sv_Chmod = True, sv_Close = True, sv_Rename = True, sv_Remove = True\<rparr>,
           dw_Mailer := \<lparr>ml_From = (\<lambda>a. True), ml_To = (\<lambda>a. True), ml_NewClient = (\<lambda>a b. True),
             ml_Deliver = (\<lambda>a b c. True)\<rparr>\<rparr>\<rparr>"

lemma mail_config_loaded: "notify_config mail_world = Some mail_config"
proof -
  have "map_option (\<lambda>c. apply_defaults (c\<lparr>nc_path := ''/c/config.json''\<rparr>))
      (dec_struct set_config_field mail_config_doc NotifyConfig_zero) = Some mail_config"
    by code_simp
  moreover have "scan_json (MarshalIndent mail_config_doc) = Some mail_config_doc"
    by (rule scan_text) (simp add: mail_config_doc_def json_number_def is_digit_def code_def)
  ultimately show ?thesis
    by (auto simp: notify_config_def notify_Load_def ConfigPath_def Getenv_def mail_world_def
        dark_world_def read_file_def one_host_def)
qed

text \<open>With one run nothing is ever pending, so the next state is storable whatever the alerts.\<close>

lemma mail_world_storable:
  "storable (dw_FormatTime (w_Dispatch mail_world)) (w_ParseTime mail_world)
     (notify_next (params_of mail_config) State_zero items (w_Now mail_world))"
proof -
  have runs: "np_Runs (params_of mail_config) = 1" by (simp add: params_of_def mail_config_def)
  have "pr_NextPending (ApplyPersistence items (st_Pending State_zero) 1 now) = Map.empty" for now
    by (simp add: ApplyPersistence_def)
  then show ?thesis
    by (cases "notify_action (params_of mail_config) State_zero items 0")
      (simp_all add: notify_next_def runs storable_def mail_world_def dark_world_def State_zero_def
        new_streak_def UpdateRecoveryStreak_def valid_signature in_int64_def int64_min_def
        int64_max_def Let_def code_def)
qed

theorem run_refines_machine_witness:
  "\<exists>report sent d fs. main_run mail_world = (Inspected report sent, d, fs) \<and>
     ExtractAlerts (Some report) = run_alerts mail_world"
proof -
  let ?w = mail_world
  have world: "w_Env ?w = map_of one_host" "w_OutputDir ?w = ''/tmp''"
      "aw_File (w_Auth ?w) = (\<lambda>path. Key ''k'')" "lock_verdict (Acquire (w_Lock ?w)) = WithLock"
    by (simp_all add: mail_world_def dark_world_def Acquire_def lock_verdict_def)
  obtain cfg client where run: "main_run ?w = inspect ?w cfg client"
    by (rule one_host_run [OF world])
  obtain report sent d fs where out: "main_run ?w = (Inspected report sent, d, fs)"
    using inspect_success [of ?w "''<html>''" cfg client] run dark_report_finite [of ?w cfg client]
    by (auto simp: mail_world_def dark_world_def dark_def)
  have path: "StatePath (nc_path mail_config) = ''/c/state.json''"
    by (simp add: mail_config_def) code_simp
  have zero: "run_state ?w mail_config = State_zero"
    unfolding run_state_def disk_state_def path
    by (simp add: mail_world_def read_file_def LoadState_def)
  have fresh: "fresh_temp (dw_Save (w_Dispatch ?w)) (StatePath (nc_path mail_config)) (w_Files ?w)"
    unfolding path by (simp add: fresh_temp_def mail_world_def)
  have "em_Enabled (nc_Email mail_config)" "notify_Validate mail_config = None"
    by (simp_all add: mail_config_def notify_Validate_def)
  from run_refines_machine [OF out mail_config_loaded this, unfolded zero, OF mail_world_storable fresh]
  have "ExtractAlerts (Some report) = firing (params_of mail_config) State_zero (run_alerts ?w) (w_Now ?w)"
    by (simp add: Let_def)
  also have "\<dots> = run_alerts ?w"
    by (simp add: firing_def params_of_def mail_config_def ApplyPersistence_def)
  finally show ?thesis using out by blast
qed

subsection \<open>The command line\<close>

text \<open>
  C20. The command line decides what runs: with any number of \<open>-o\<close> before the end of the flags the
  inspection runs, with the directory given last, or the current one when none is given; one of the
  version flags prints the version instead; a word that is no flag of the program ends it with exit
  code 2; and unless the inspection ran, nothing on disk has changed.
\<close>

theorem command_line_decides:
  assumes "flags_stop rest" "flag_word s = Named name value"
    and "name \<notin> {''o'', ''v'', ''version'', ''help'', ''h''}"
  shows "weops_main (concat (map dir_words ds) @ rest) w =
      (case main_run (w\<lparr>w_OutputDir := last (''.'' # map dir_of ds)\<rparr>) of (e, d, fs) \<Rightarrow> (Ran e, d, fs)) \<and>
    fst (weops_main (concat (map dir_words ds) @ ''-v'' # rest) w) = VersionPrinted \<and>
    fst (weops_main (concat (map dir_words ds) @ ''--version'' # rest) w) = VersionPrinted \<and>
    main_exit_code (fst (weops_main (concat (map dir_words ds) @ s # args) w)) = 2 \<and>
    (case weops_main argv w of
       (Ran e, d, fs) \<Rightarrow> \<exists>fl others. parse_flags argv main_flags_default = Parsed fl others \<and>
         \<not> fl_VersionShort fl \<and> \<not> fl_VersionLong fl
     | (e, d, fs) \<Rightarrow> d = w_Disk w \<and> fs = w_Files w)"
proof -
  let ?fl = "main_flags_default\<lparr>fl_Output := last (''.'' # map dir_of ds)\<rparr>"
  have dirs: "parse_flags (concat (map dir_words ds) @ us) main_flags_default = parse_flags us ?fl" for us
    by (simp add: parse_dirs main_flags_default_def)
  have flags: "\<not> fl_VersionShort ?fl" "\<not> fl_VersionLong ?fl"
    by (simp_all add: main_flags_default_def)
  have words: "flag_word ''-v'' = Named ''v'' None" "flag_word ''--version'' = Named ''version'' None"
    by code_simp+
  obtain r where "parse_flags rest ?fl = Parsed ?fl r"
    using parse_flags_stop [OF assms(1)] by blast
  then have run: "weops_main (concat (map dir_words ds) @ rest) w =
      (case main_run (w\<lparr>w_OutputDir := last (''.'' # map dir_of ds)\<rparr>) of (e, d, fs) \<Rightarrow> (Ran e, d, fs))"
    using flags by (simp add: weops_main_def dirs)
  have version: "\<exists>fl r. parse_flags (u # rest) ?fl = Parsed fl r \<and> (fl_VersionShort fl \<or> fl_VersionLong fl)"
    if "u \<in> {''-v'', ''--version''}" for u
    using that parse_flags_stop [OF assms(1), of "?fl\<lparr>fl_VersionShort := True\<rparr>"]
      parse_flags_stop [OF assms(1), of "?fl\<lparr>fl_VersionLong := True\<rparr>"]
    by (auto simp: words set_bool_flag_def)
  have printed: "fst (weops_main (concat (map dir_words ds) @ u # rest) w) = VersionPrinted"
    if "u \<in> {''-v'', ''--version''}" for u
    using version [OF that] by (auto simp: weops_main_def dirs simp del: parse_flags.simps)
  have "parse_flags (s # args) ?fl = BadUsage" using assms(2,3) by simp
  then have bad: "main_exit_code (fst (weops_main (concat (map dir_words ds) @ s # args) w)) = 2"
    by (simp add: weops_main_def dirs main_exit_code_def)
  have "case weops_main argv w of
      (Ran e, d, fs) \<Rightarrow> \<exists>fl others. parse_flags argv main_flags_default = Parsed fl others \<and>
         \<not> fl_VersionShort fl \<and> \<not> fl_VersionLong fl
     | (e, d, fs) \<Rightarrow> d = w_Disk w \<and> fs = w_Files w"
    by (cases "parse_flags argv main_flags_default") (auto simp: weops_main_def split: prod.splits)
  with run printed bad show ?thesis by simp
qed

theorem command_line_decides_witness:
  "weops_main [''-o'', ''/a'', ''-o=/b''] (dark_world [] 2) =
      (case main_run ((dark_world [] 2)\<lparr>w_OutputDir := ''/b''\<rparr>) of (e, d, fs) \<Rightarrow> (Ran e, d, fs)) \<and>
   main_exit_code (fst (weops_main [''-o'', ''/a'', ''-o=/b'', ''-q''] (dark_world [] 2))) = 2"
proof -
  have "flag_word ''-q'' = Named ''q'' None" by code_simp
  moreover have "flags_stop []" by (simp add: flags_stop_def)
  ultimately show ?thesis
    using command_line_decides [of "[]" "''-q''" "''q''" None "[Separate ''/a'', Joined ''/b'']"
        "dark_world [] 2" "[]" "[]"]
    by simp
qed

end
