(* ===== verification/Outage_Properties.thy ===== *)
theory Outage_Properties
  imports Run_Properties
begin

text \<open>
  From an outage to the mail, through several runs: the report shows a host that stays unreachable
  with its confirmed warnings, the mail lists them under the address the code attributes them to,
  and every mail tells what the report shows.  The sample at the end is two hosts, two runs.
\<close>

subsection \<open>The host of a measurement\<close>

lemma with_section_IP:
  "(\<And>s m. hm_IP (f s m) = hm_IP m) \<Longrightarrow> hm_IP (with_section sections tag f m) = hm_IP m"
  by (simp add: with_section_def split: option.split)

lemma meminfo_IP: "hm_IP (foldl meminfo_line m ls) = hm_IP m"
  by (induction ls arbitrary: m) (auto simp: meminfo_line_def Let_def)

lemma setters_IP:
  "hm_IP (set_load s m) = hm_IP m" "hm_IP (set_free oob s m) = hm_IP m"
  "hm_IP (set_disks mountPaths includeNFS s m) = hm_IP m"
  "hm_IP (set_inodes mountPaths includeNFS s m) = hm_IP m" "hm_IP (set_uptime oob s m) = hm_IP m"
  "hm_IP (set_meminfo s m) = hm_IP m" "hm_IP (set_hardware s m) = hm_IP m"
  by (simp_all add: set_load_def set_free_def set_disks_def set_inodes_def set_uptime_def
      set_meminfo_def meminfo_IP set_hardware_def Let_def case_prod_beta split: list.split)

lemma parse_batch_IP: "hm_IP (parse_batch oob mountPaths includeNFS sections m) = hm_IP m"
  by (simp add: parse_batch_def Let_def with_section_IP setters_IP)

lemma collect_host_IP: "hm_IP (collect_host oob run mountPaths includeNFS ip) = ip"
  by (simp add: collect_host_def parseHostOutput_def parse_batch_IP Let_def case_prod_beta
      split: option.split list.split)

subsection \<open>An outage\<close>

text \<open>
  The host cannot be dialled in the run.  The last host of the list is the one the code attributes
  every host alert to, so it is part of what is said of the run.  Addresses have no bar in them,
  which separates host and field in the keys of the alerts.
\<close>

definition outage :: "string \<Rightarrow> string \<Rightarrow> world \<Rightarrow> bool" where
  "outage ip anchor w \<longleftrightarrow>
     (\<exists>cfg client. Load (w_Env w) (w_OutputDir w) = Inr cfg \<and>
        New (w_Env w) (w_Auth w) (cf_SSHUser cfg) (cf_SSHPort cfg) (cf_SSHKeyPath cfg)
          (cf_SSHUseSudo cfg) = Inr client \<and>
        complete_schedules w cfg client \<and> unreachable w client ip \<and>
        ip \<in> set (cf_AllHosts cfg) \<and> last (cf_AllHosts cfg) = anchor \<and>
        (\<forall>host \<in> set (cf_AllHosts cfg). CHR ''|'' \<notin> set host) \<and>
        flt fzero (th_CPUUsage (cf_Thresholds cfg)) \<and> flt fzero (th_MemUsage (cf_Thresholds cfg)) \<and>
        0 < th_MaxOpenFiles (cf_Thresholds cfg))"

text \<open>The warnings of a host that could not be reached.\<close>

definition down_fields :: "string list" where
  "down_fields = [''max_open_files'', ''selinux'', ''firewalld'', ''chronyd'']"

lemma down_fields_checked: "field \<in> set down_fields \<Longrightarrow> field \<in> cr_Field ` set (CheckHost h t)"
  by (auto simp: CheckHost_def down_fields_def)

text \<open>Every host has its own checks, so each field is attributed to the last one.\<close>

lemma collected_hosts:
  assumes "complete_schedules w cfg client"
  shows "ir_Hosts (collect_report w cfg client) =
    host_results (cf_Thresholds cfg)
      (map (collect_host (w_Oob w) (host_run w client) (cf_CheckMountPath cfg) (cf_DiskIncludeNFS cfg))
         (cf_AllHosts cfg))"
  using assms by (simp add: collect_report_fields complete_schedules_def CollectAllHosts_eq)

lemma attributed_last_host:
  assumes "complete_schedules w cfg client" "cf_AllHosts cfg \<noteq> []"
    and field: "\<And>h. field \<in> cr_Field ` set (CheckHost h (cf_Thresholds cfg))"
  shows "attributed_host (ir_Hosts (collect_report w cfg client)) field = last (cf_AllHosts cfg)"
proof -
  let ?m = "collect_host (w_Oob w) (host_run w client) (cf_CheckMountPath cfg) (cf_DiskIncludeNFS cfg)"
  let ?res = "\<lambda>ip. HostCheckResult_zero\<lparr>hc_Metrics := ?m ip, hc_Checks := CheckHost (?m ip) (cf_Thresholds cfg)\<rparr>"
  have "cf_AllHosts cfg = butlast (cf_AllHosts cfg) @ [last (cf_AllHosts cfg)]"
    using assms(2) by simp
  from arg_cong [OF this, of "map ?res"] have split: "ir_Hosts (collect_report w cfg client) =
      map ?res (butlast (cf_AllHosts cfg)) @ [?res (last (cf_AllHosts cfg))]"
    by (simp only: collected_hosts [OF assms(1)] host_results_def map_map comp_def map_append list.map)
  obtain c where "c \<in> set (hc_Checks (?res (last (cf_AllHosts cfg))))" "cr_Field c = field"
    using field [of "?m (last (cf_AllHosts cfg))"] by auto
  from attributed_host_last [OF this(1), of "map ?res (butlast (cf_AllHosts cfg))"] this(2) show ?thesis
    by (simp add: split collect_host_IP)
qed

lemma attributed_some_host:
  "attributed_host hosts field \<in> insert [] ((\<lambda>h. hm_IP (hc_Metrics h)) ` set hosts)"
  by (auto simp: attributed_host_def hostByField_eq host_fields_def split: option.split dest!: map_of_SomeD)

text \<open>What the run finds of the host that is down, and under which address the alert goes.\<close>

definition down_entry :: "string \<Rightarrow> HostCheckResult \<Rightarrow> bool" where
  "down_entry ip h \<longleftrightarrow>
     (\<exists>err. hc_Metrics h = HostMetrics_zero\<lparr>hm_IP := ip,
        hm_Error := ''SSH error: ssh dial '' @ ip @ '': '' @ err\<rparr>)"

lemma outage_found:
  assumes "outage ip anchor w" "field \<in> set down_fields"
  obtains cfg client h c where "Load (w_Env w) (w_OutputDir w) = Inr cfg"
    "New (w_Env w) (w_Auth w) (cf_SSHUser cfg) (cf_SSHPort cfg) (cf_SSHKeyPath cfg)
       (cf_SSHUseSudo cfg) = Inr client"
    "h \<in> set (ir_Hosts (collect_report w cfg client))" "down_entry ip h"
    "c \<in> set (hc_Checks h)" "cr_Status c = StatusWarn" "cr_Field c = field"
    "attributed_host (ir_Hosts (collect_report w cfg client)) field = anchor"
    "\<forall>f. CHR ''|'' \<notin> set (attributed_host (ir_Hosts (collect_report w cfg client)) f)"
    "CHR ''|'' \<notin> set ip" "CHR ''|'' \<notin> set anchor"
proof -
  obtain cfg client where cfg: "Load (w_Env w) (w_OutputDir w) = Inr cfg"
      "New (w_Env w) (w_Auth w) (cf_SSHUser cfg) (cf_SSHPort cfg) (cf_SSHKeyPath cfg)
        (cf_SSHUseSudo cfg) = Inr client"
    and full: "complete_schedules w cfg client" and down: "unreachable w client ip"
    and hosts: "ip \<in> set (cf_AllHosts cfg)" "last (cf_AllHosts cfg) = anchor"
    and plain: "\<forall>host \<in> set (cf_AllHosts cfg). CHR ''|'' \<notin> set host"
    and t: "flt fzero (th_CPUUsage (cf_Thresholds cfg))" "flt fzero (th_MemUsage (cf_Thresholds cfg))"
      "0 < th_MaxOpenFiles (cf_Thresholds cfg)"
    using assms(1) unfolding outage_def by blast
  let ?t = "cf_Thresholds cfg" and ?r = "collect_report w cfg client"
  let ?m = "collect_host (w_Oob w) (host_run w client) (cf_CheckMountPath cfg) (cf_DiskIncludeNFS cfg)"
  let ?h = "HostCheckResult_zero\<lparr>hc_Metrics := ?m ip, hc_Checks := CheckHost (?m ip) ?t\<rparr>"
  obtain err where dead: "?m ip = HostMetrics_zero\<lparr>hm_IP := ip,
      hm_Error := ''SSH error: ssh dial '' @ ip @ '': '' @ err\<rparr>"
    using down by (auto simp: unreachable_def collect_host_def host_run_def RunContext_def)
  have "map cr_Field (filter (\<lambda>c. cr_Status c = StatusWarn) (CheckHost (?m ip) ?t)) = down_fields"
    unfolding dead down_fields_def by (rule unreachable_host_warns [OF t])
  from arg_cong [OF this, of set] assms(2)
  have "field \<in> cr_Field ` {c \<in> set (CheckHost (?m ip) ?t). cr_Status c = StatusWarn}" by simp
  then obtain c where "c \<in> set (CheckHost (?m ip) ?t)" "cr_Status c = StatusWarn" "cr_Field c = field"
    by blast
  moreover have "?h \<in> set (ir_Hosts ?r)"
    using hosts(1) by (auto simp: collected_hosts [OF full] host_results_def)
  moreover have "down_entry ip ?h" by (auto simp: down_entry_def dead)
  moreover have "attributed_host (ir_Hosts ?r) field = anchor"
    using attributed_last_host [OF full _ down_fields_checked] hosts assms(2) by force
  moreover have "(\<lambda>h. hm_IP (hc_Metrics h)) ` set (ir_Hosts ?r) = set (cf_AllHosts cfg)"
    by (simp add: collected_hosts [OF full] host_results_def image_image collect_host_IP)
  then have "CHR ''|'' \<notin> set (attributed_host (ir_Hosts ?r) f)" for f
    using attributed_some_host [of "ir_Hosts ?r" f] plain by auto
  moreover have "anchor \<in> set (cf_AllHosts cfg)" using hosts by (metis last_in_set empty_iff empty_set)
  ultimately show thesis using plain hosts(1) cfg by (intro that [of cfg client ?h c]) auto
qed

lemma outage_alert:
  assumes "outage ip anchor w" "field \<in> set down_fields"
  shows "PendingKey anchor field \<in> keys_of (run_alerts w)"
proof -
  obtain cfg client h c where found: "Load (w_Env w) (w_OutputDir w) = Inr cfg"
      "New (w_Env w) (w_Auth w) (cf_SSHUser cfg) (cf_SSHPort cfg) (cf_SSHKeyPath cfg)
         (cf_SSHUseSudo cfg) = Inr client"
      "h \<in> set (ir_Hosts (collect_report w cfg client))" "c \<in> set (hc_Checks h)"
      "cr_Status c = StatusWarn" "cr_Field c = field"
      "attributed_host (ir_Hosts (collect_report w cfg client)) field = anchor"
    using assms by (rule outage_found)
  let ?r = "collect_report w cfg client"
  have "c \<in> set (ir_AllChecks ?r)"
    using collect_report_fields(4) [of w cfg client] found(3,4) by auto
  then have "alert_item (ir_Hosts ?r) c \<in> set (run_alerts w)"
    using found by (simp add: run_alerts_def ExtractAlerts_def)
  moreover have "item_key (alert_item (ir_Hosts ?r) c) = PendingKey anchor field"
    by (simp add: item_key_def alert_item_def found)
  ultimately show ?thesis by (metis keys_of_def image_eqI)
qed

lemma PendingKey_inj:
  assumes "CHR ''|'' \<notin> set a" "CHR ''|'' \<notin> set b" "PendingKey a f = PendingKey b g"
  shows "a = b \<and> f = g"
  using assms
proof (induction a arbitrary: b)
  case Nil
  then show ?case by (cases b) (auto simp: PendingKey_def)
next
  case (Cons x a)
  then show ?case by (cases b) (auto simp: PendingKey_def)
qed

text \<open>So a key of the run with a plain address tells the host and the field of its alert.\<close>

lemma outage_key:
  assumes "outage ip anchor w" "field \<in> set down_fields"
    and "it \<in> set (run_alerts w)" "item_key it = PendingKey host field" "CHR ''|'' \<notin> set host"
  shows "ai_Host it = anchor \<and> ai_Field it = field \<and> host = anchor"
proof -
  obtain cfg client where found: "Load (w_Env w) (w_OutputDir w) = Inr cfg"
      "New (w_Env w) (w_Auth w) (cf_SSHUser cfg) (cf_SSHPort cfg) (cf_SSHKeyPath cfg)
         (cf_SSHUseSudo cfg) = Inr client"
      "attributed_host (ir_Hosts (collect_report w cfg client)) field = anchor"
      "\<forall>f. CHR ''|'' \<notin> set (attributed_host (ir_Hosts (collect_report w cfg client)) f)"
    using assms(1,2) by (rule outage_found)
  obtain c where c: "it = alert_item (ir_Hosts (collect_report w cfg client)) c"
    using assms(3) by (auto simp: run_alerts_def found ExtractAlerts_def)
  have "ai_Host it = host \<and> ai_Field it = field"
    using assms(4,5) found(4) by (intro PendingKey_inj) (simp_all add: c alert_item_def item_key_def)
  then show ?thesis using found(3) by (auto simp: c alert_item_def)
qed

subsection \<open>Runs in a row\<close>

text \<open>
  Runs whose state was kept, the latest first: each finds on disk the state the one before left,
  and leaves there the machine's next state.  A run whose mail failed is not one of them, it leaves
  the disk as it was.
\<close>

definition next_state :: "NotifyConfig \<Rightarrow> world \<Rightarrow> State" where
  "next_state nc w = notify_next (params_of nc) (run_state w nc) (run_alerts w) (w_Now w)"

inductive kept :: "NotifyConfig \<Rightarrow> world list \<Rightarrow> State \<Rightarrow> bool" for nc where
  cold: "kept nc [] State_zero"
| run: "kept nc ws (run_state w nc) \<Longrightarrow> notify_config w = Some nc \<Longrightarrow>
    main_run w = (Inspected report sent, d, fs') \<Longrightarrow>
    disk_state (w_ParseTime w) nc fs' = next_state nc w \<Longrightarrow> kept nc (w # ws) (next_state nc w)"

definition runs_history :: "world list \<Rightarrow> history" where
  "runs_history ws = map (\<lambda>w. (run_alerts w, w_Now w)) ws"

lemma kept_reached: "kept nc ws s \<Longrightarrow> reached (params_of nc) s (runs_history ws)"
proof (induction rule: kept.induct)
  case cold
  then show ?case by (simp add: runs_history_def reached.cold)
next
  case (run ws w report sent d fs')
  then show ?case
    by (simp add: runs_history_def next_state_def reached.run)
qed

subsection \<open>The report of a run in an outage\<close>

lemma demoted_hosts: "ir_Hosts (demotePending r ks) = map (demote_host ks) (ir_Hosts r)"
proof (cases "ks = {}")
  case True
  have "demote_host {} h = h" for h
    by (simp add: demote_host_def map_idI demote_check_def)
  then show ?thesis using True by (simp add: demotePending_def map_idI)
qed (simp add: demotePending_def Let_def)

text \<open>A confirmed warning stays with the host that is down.\<close>

lemma outage_shown:
  assumes "main_run w = (Inspected report sent, d, fs')" "notify_config w = Some nc"
    and "em_Enabled (nc_Email nc)" "notify_Validate nc = None"
    and "outage ip anchor w" "field \<in> set down_fields"
    and fires: "PendingKey anchor field \<in> keys_of (ExtractAlerts (Some report))"
  shows "\<exists>h \<in> set (ir_Hosts report). down_entry ip h \<and>
    (\<exists>c \<in> set (hc_Checks h). cr_Field c = field \<and> cr_Status c = StatusWarn)"
proof -
  obtain cfg client h c where cfg: "Load (w_Env w) (w_OutputDir w) = Inr cfg"
      "New (w_Env w) (w_Auth w) (cf_SSHUser cfg) (cf_SSHPort cfg) (cf_SSHKeyPath cfg)
         (cf_SSHUseSudo cfg) = Inr client"
    and h: "h \<in> set (ir_Hosts (collect_report w cfg client))" "down_entry ip h"
    and c: "c \<in> set (hc_Checks h)" "cr_Status c = StatusWarn" "cr_Field c = field"
    and plain: "CHR ''|'' \<notin> set ip"
    using assms(5,6) by (rule outage_found)
  obtain r0 where "report = snd (Prepare (w_ParseTime w) (w_Files w) (w_Now w) (Some nc) r0)"
      "r0 = collect_report w cfg client" "run_alerts w = ExtractAlerts (Some r0)"
    using assms(1,2) by (rule run_process) (use cfg in blast)
  moreover define ks where "ks = pr_PendingKeys (ApplyPersistence (run_alerts w)
    (st_Pending (run_state w nc)) (np_Runs (params_of nc)) (w_Now w))"
  ultimately have report: "ir_Hosts report = map (demote_host ks) (ir_Hosts (collect_report w cfg client))"
    using assms(3,4)
    by (simp add: Prepare_def Let_def demoted_hosts run_state_def disk_state_def params_of_def)
  have "PendingKey ip field \<notin> ks"
  proof
    assume pending: "PendingKey ip field \<in> ks"
    then obtain it where "it \<in> set (run_alerts w)" "item_key it = PendingKey ip field"
      by (auto simp: ks_def persistence_simps keys_of_def)
    then have "ip = anchor" using outage_key [OF assms(5,6)] plain by blast
    moreover have "PendingKey anchor field \<notin> ks"
      using fires run_shown(1) [OF assms(1-4)]
      by (auto simp: firing_def ks_def persistence_simps keys_of_def)
    ultimately show False using pending by simp
  qed
  then have "c \<in> set (hc_Checks (demote_host ks h))"
    using c h(2) by (force simp: demote_host_def demote_check_def down_entry_def)
  moreover have "down_entry ip (demote_host ks h)" using h(2) by (simp add: down_entry_def)
  ultimately show ?thesis using c h(1) unfolding report by auto
qed

lemma confirmed_item:
  assumes "main_run w = (Inspected report sent, d, fs')" "notify_config w = Some nc"
    and "em_Enabled (nc_Email nc)" "notify_Validate nc = None"
    and "outage ip anchor w" "field \<in> set down_fields"
    and "PendingKey anchor field \<in> keys_of (ExtractAlerts (Some report))"
  shows "\<exists>it \<in> set (ExtractAlerts (Some report)). ai_Host it = anchor \<and> ai_Field it = field"
proof -
  obtain it where it: "it \<in> set (ExtractAlerts (Some report))" "item_key it = PendingKey anchor field"
    using assms(7) by (auto simp: keys_of_def)
  have "it \<in> set (run_alerts w)"
    using it(1) run_shown(1) [OF assms(1-4)] by (simp add: firing_def persistence_simps)
  moreover obtain cfg client where "CHR ''|'' \<notin> set anchor"
    using assms(5,6) by (rule outage_found)
  ultimately show ?thesis using outage_key [OF assms(5,6)] it by blast
qed

subsection \<open>The mail of a run\<close>

text \<open>The mail library takes every message from this sender to these recipients and delivers it.\<close>

definition takes_mail :: "world \<Rightarrow> NotifyConfig \<Rightarrow> bool" where
  "takes_mail w nc \<longleftrightarrow>
     (let m = dw_Mailer (w_Dispatch w); e = nc_Email nc; opts = mail_options e
      in ml_From m (em_From e) \<and> ml_To m (em_To e) \<and> ml_NewClient m (em_SMTPHost e) opts \<and>
         (\<forall>msg. ml_Deliver m (em_SMTPHost e) opts msg))"

text \<open>The same alerts were mailed less than the cooldown before.\<close>

definition cooling :: "world \<Rightarrow> NotifyConfig \<Rightarrow> InspectReport \<Rightarrow> bool" where
  "cooling w nc report \<longleftrightarrow>
     st_LastStatus (run_state w nc) = ''alert'' \<and>
     st_LastSignature (run_state w nc) = Signature (ExtractAlerts (Some report)) \<and>
     time_sub (w_Now w) (st_LastSentAt (run_state w nc)) < np_Cooldown (params_of nc)"

lemma run_mail:
  assumes "main_run w = (Inspected report sent, d, fs')" "notify_config w = Some nc"
    and "em_Enabled (nc_Email nc)" "notify_Validate nc = None"
  obtains html htmlPath where "run_action nc w = ActionNone \<longrightarrow> sent = None"
    "run_action nc w \<noteq> ActionNone \<and> sent = None \<longrightarrow> fs' = w_Files w \<and> \<not> takes_mail w nc"
    "\<forall>msg. run_action nc w = ActionSendAlert \<and> sent = Some msg \<longrightarrow>
       msg = compose (nc_Email nc) (BuildAlertSubject (ir_Summary report))
         (BuildAlertBody (dw_Sort (w_Dispatch w)) report (ExtractAlerts (Some report))) html htmlPath"
    "\<forall>msg. run_action nc w = ActionSendRecovery \<and> sent = Some msg \<longrightarrow>
       msg = compose (nc_Email nc) (BuildRecoverySubject (ir_Summary report))
         (BuildRecoveryBody report) html htmlPath"
    "run_action nc w = ActionNone \<longrightarrow>
       fs' = fst (SaveState (dw_FormatTime (w_Dispatch w)) (dw_Save (w_Dispatch w))
         (StatePath (nc_path nc)) (next_state nc w) (w_Files w))"
proof -
  obtain r0 htmlPath page where r0: "run_alerts w = ExtractAlerts (Some r0)"
      "report = snd (Prepare (w_ParseTime w) (w_Files w) (w_Now w) (Some nc) r0)"
    and process: "Process (w_ParseTime w) ((w_Dispatch w)\<lparr>dw_ReadHTML := page\<rparr>) (w_Now w) nc r0
      htmlPath (w_Files w) = (sent, fs')"
    using assms(1,2) by (rule run_process)
  have state: "run_state w nc = LoadState (w_ParseTime w) (read_file (w_Files w) (StatePath (nc_path nc)))"
    by (simp add: run_state_def disk_state_def)
  let ?send = "notify_send ((w_Dispatch w)\<lparr>dw_ReadHTML := page\<rparr>) nc report htmlPath (run_action nc w)
      (ExtractAlerts (Some report))"
  have outcome: "(sent, fs') =
    (let saved = fst (SaveState (dw_FormatTime (w_Dispatch w)) (dw_Save (w_Dispatch w))
         (StatePath (nc_path nc)) (next_state nc w) (w_Files w))
     in if run_action nc w = ActionNone then (None, saved)
        else case ?send of Inl err \<Rightarrow> (None, w_Files w) | Inr msg \<Rightarrow> (Some msg, saved))"
    unfolding run_action_def next_state_def run_shown(1) [OF assms]
    unfolding r0(2)
    using Process_eq [OF assms(3,4) state r0(1) refl,
      of "(w_Dispatch w)\<lparr>dw_ReadHTML := page\<rparr>" "w_Now w" htmlPath] process
    by simp
  let ?html = "loadHTMLBody page htmlPath"
  show thesis
    by (rule that [of ?html htmlPath])
      (use outcome in \<open>auto simp: notify_send_def Send_def takes_mail_def Let_def
         split: if_splits sum.splits\<close>)
qed

lemma loaded_config:
  assumes "Load env dir = Inr cfg"
  obtains th port timeout where "load_thresholds env = Inr th"
    "cfg = (load_config env dir th port timeout)
       \<lparr>cf_AllHosts := buildAllHosts (load_config env dir th port timeout)\<rparr>"
proof -
  obtain th port timeout where "load_thresholds env = Inr th"
      "Inr cfg = (let c = load_config env dir th port timeout
         in Inr (c\<lparr>cf_AllHosts := buildAllHosts c\<rparr>) :: config_error + Config)"
    using assms unfolding Load_def bindE_Inr_iff by metis
  then show thesis by (simp only: Let_def sum.inject that)
qed

lemma loaded_host_named:
  assumes "Load env dir = Inr cfg" "ip \<in> set (cf_AllHosts cfg)"
  shows "ip \<noteq> []"
proof -
  obtain th port timeout where "cfg = (load_config env dir th port timeout)
      \<lparr>cf_AllHosts := buildAllHosts (load_config env dir th port timeout)\<rparr>"
    using assms(1) by (rule loaded_config)
  then have "list_all (\<lambda>ips. \<exists>val. ips = parseIPList val) (all_ip_lists cfg)"
    unfolding Let_def all_ip_lists_def load_config_def by (simp only: list.pred_inject Config.simps) blast
  moreover obtain ips where "ips \<in> set (all_ip_lists cfg)" "ip \<in> set ips"
    using assms(2) by (auto simp: Load_hosts [OF assms(1)] set_buildAllHosts)
  ultimately show ?thesis using parseIPList_clean by (fastforce simp: list_all_iff clean_ip_def)
qed

lemma outage_anchor: "outage ip anchor w \<Longrightarrow> anchor \<noteq> []"
  unfolding outage_def by (metis loaded_host_named last_in_set empty_iff empty_set)

text \<open>A mail has a line for an alert.\<close>

definition mail_lists :: "string \<Rightarrow> string \<Rightarrow> message \<Rightarrow> bool" where
  "mail_lists host field msg \<longleftrightarrow>
     (\<exists>before after. msg_Text msg =
        before @ ''  '' @ pad_right 16 host @ '' '' @ pad_right 40 field @ '' = '' @ after)"

lemma alert_listed:
  assumes "sort_slice sorter" "it \<in> set items" "ai_Host it \<noteq> []"
  shows "mail_lists (ai_Host it) (ai_Field it) (compose e subject (BuildAlertBody sorter report items) html path)"
proof -
  have "it \<in> set (sorter items)"
    using assms(1,2) by (metis sort_slice_def set_mset_mset)
  then obtain xs ys where "sorter items = xs @ it # ys" by (meson split_list)
  then have lines: "concat (map alert_line (sorter items)) =
      concat (map alert_line xs) @ alert_line it @ concat (map alert_line ys)"
    by simp
  have "\<exists>before after. BuildAlertBody sorter report items =
      before @ concat (map alert_line (sorter items)) @ after"
    unfolding BuildAlertBody_def append_assoc [symmetric] by (metis append_assoc)
  then obtain before after where
    body: "BuildAlertBody sorter report items = before @ alert_line it @ after"
    unfolding lines by (metis append_assoc)
  have "\<exists>rest. alert_line it = ''  '' @ pad_right 16 (ai_Host it) @ '' '' @ pad_right 40 (ai_Field it)
      @ '' = '' @ rest"
    using assms(3) by (simp add: alert_line_def Let_def)
  then show ?thesis unfolding mail_lists_def compose_def message.simps body by (metis append_assoc)
qed

subsection \<open>From the outage to the mail\<close>

text \<open>N runs in a row confirm the warning.\<close>

lemma outage_confirmed:
  assumes "kept nc (ws @ past) (run_state w nc)" "notify_config w = Some nc"
    and "main_run w = (Inspected report sent, d, fs')"
    and "em_Enabled (nc_Email nc)" "notify_Validate nc = None" "in_int64 (np_Runs (params_of nc))"
    and "int (length (w # ws)) = np_Runs (params_of nc)"
    and "\<And>v. v \<in> set (w # ws) \<Longrightarrow> outage ip anchor v"
    and "\<And>v. v \<in> set (w # ws) \<Longrightarrow> time_sub (w_Now v) (w_Now (last (w # ws))) < pendingTTL"
    and "field \<in> set down_fields"
    and "pending_after (np_Runs (params_of nc)) (runs_history past) (PendingKey anchor field) = None"
  shows "PendingKey anchor field \<in> keys_of (ExtractAlerts (Some report))"
proof -
  let ?k = "PendingKey anchor field" and ?p = "params_of nc"
  have "?k \<in> keys_of (fired (np_Runs ?p) (runs_history (w # ws) @ runs_history past))"
  proof (rule streak_fires [OF assms(6)])
    show "int (length (runs_history (w # ws))) = np_Runs ?p"
      using assms(7) by (simp add: runs_history_def)
    show "?k \<in> keys_of (fst run)" if r: "run \<in> set (runs_history (w # ws))" for run
    proof -
      have "run \<in> (\<lambda>v. (run_alerts v, w_Now v)) ` set (w # ws)"
        using r unfolding runs_history_def by (simp only: list.set_map)
      then obtain v where v: "run = (run_alerts v, w_Now v)" "v \<in> set (w # ws)" by (rule imageE)
      show ?thesis using outage_alert [OF assms(8) [OF v(2)] assms(10)] by (simp only: v(1) fst_conv)
    qed
    show "time_sub (snd run) (snd (last (runs_history (w # ws)))) < pendingTTL"
      if "run \<in> set (runs_history (w # ws))" for run
      using that assms(9) by (auto simp: runs_history_def last_map)
  qed (use assms(11) in \<open>simp_all add: runs_history_def\<close>)
  moreover have "ExtractAlerts (Some report) = fired (np_Runs ?p) (runs_history (w # ws) @ runs_history past)"
    using reached_firing [OF kept_reached [OF assms(1)], of "run_alerts w" "w_Now w"]
      run_shown(1) [OF assms(3,2,4,5)]
    by (simp add: runs_history_def)
  ultimately show ?thesis by simp
qed

text \<open>
  C3. A host that stays down is reported.  Let N runs in a row, the last less than 24 hours after
  the first, be unable to dial the host \<open>ip\<close> (with positive thresholds, addresses without a bar and
  every goroutine run once, as \<open>outage\<close> says); let nothing be pending for the warning before, and let
  the N - 1 earlier ones have left their state on disk (a run whose mail failed leaves none and does
  not count).  Then the report the N-th run writes shows \<open>ip\<close> with its dial error and with the
  warning, no longer demoted to a notice; the warning is one of the confirmed alerts of the report;
  and unless the same alerts were mailed within the cooldown, an alert mail is due, which lists the
  warning: either it is sent, or the mail library did not take it, and then the state on disk is
  as before, so the next run will try again.  All of this holds for each of the warnings
  of a dead host.  The alert and the line of the mail carry the address of the last host of the list,
  not \<open>ip\<close>: only the report names the host that is down.
\<close>

theorem outage_reported:
  assumes "kept nc (ws @ past) (run_state w nc)" "notify_config w = Some nc"
    and "main_run w = (Inspected report sent, d, fs')"
    and "em_Enabled (nc_Email nc)" "notify_Validate nc = None" "in_int64 (np_Runs (params_of nc))"
    and "sort_slice (dw_Sort (w_Dispatch w))"
    and "int (length (w # ws)) = np_Runs (params_of nc)"
    and "\<And>v. v \<in> set (w # ws) \<Longrightarrow> outage ip anchor v"
    and "\<And>v. v \<in> set (w # ws) \<Longrightarrow> time_sub (w_Now v) (w_Now (last (w # ws))) < pendingTTL"
    and "field \<in> set down_fields"
    and "pending_after (np_Runs (params_of nc)) (runs_history past) (PendingKey anchor field) = None"
  shows "(\<exists>h \<in> set (ir_Hosts report). down_entry ip h \<and>
      (\<exists>c \<in> set (hc_Checks h). cr_Field c = field \<and> cr_Status c = StatusWarn)) \<and>
    (\<exists>it \<in> set (ExtractAlerts (Some report)). ai_Host it = anchor \<and> ai_Field it = field) \<and>
    (if cooling w nc report then sent = None
     else run_action nc w = ActionSendAlert \<and>
       (case sent of
          Some msg \<Rightarrow> msg_To msg = em_To (nc_Email nc) \<and> mail_lists anchor field msg
        | None \<Rightarrow> \<not> takes_mail w nc \<and> fs' = w_Files w))"
proof -
  let ?k = "PendingKey anchor field" and ?p = "params_of nc"
  note shown = run_shown(1) [OF assms(3,2,4,5)]
  have down: "outage ip anchor w" by (rule assms(9)) simp
  have key: "?k \<in> keys_of (ExtractAlerts (Some report))"
    by (rule outage_confirmed [OF assms(1-6,8-12)])
  obtain it where it: "it \<in> set (ExtractAlerts (Some report))" "ai_Host it = anchor" "ai_Field it = field"
    using confirmed_item [OF assms(3,2,4,5) down assms(11) key] by blast
  obtain html path where mail: "run_action nc w = ActionNone \<longrightarrow> sent = None"
    "run_action nc w \<noteq> ActionNone \<and> sent = None \<longrightarrow> fs' = w_Files w \<and> \<not> takes_mail w nc"
    "\<forall>msg. run_action nc w = ActionSendAlert \<and> sent = Some msg \<longrightarrow>
       msg = compose (nc_Email nc) (BuildAlertSubject (ir_Summary report))
         (BuildAlertBody (dw_Sort (w_Dispatch w)) report (ExtractAlerts (Some report))) html path"
    using assms(3,2,4,5) by (rule run_mail)
  have act: "run_action nc w = (if cooling w nc report then ActionNone else ActionSendAlert)"
    using it(1) shown by (auto simp: run_action_def notify_action_def cooling_def)
  have listed: "msg_To msg = em_To (nc_Email nc) \<and> mail_lists anchor field msg"
    if "run_action nc w = ActionSendAlert" "sent = Some msg" for msg
    using alert_listed [OF assms(7) it(1)] it(2,3) outage_anchor [OF down] mail(3) that
    by (auto simp: compose_def)
  show ?thesis
    using outage_shown [OF assms(3,2,4,5) down assms(11) key] it act mail(1,2) listed
    by (cases sent) (auto split: if_splits)
qed

subsection \<open>Mails\<close>

lemma alert_line_eq:
  "alert_line = (\<lambda>it. ''  '' @ pad_right 16 (if ai_Host it = [] then ''-'' else ai_Host it) @ '' ''
     @ pad_right 40 (ai_Field it) @ '' = '' @ ai_Value it
     @ (if ai_Threshold it = [] then [] else txt_threshold_open @ ai_Threshold it @ '')'') @ newline)"
  by (simp add: alert_line_def Let_def fun_eq_iff)

text \<open>
  C7. A delivered mail tells what the report shows: it goes from the configured sender to the
  configured recipients, and it is either the alert mail or the recovery mail.  The subject of the
  alert mail counts the alerts of the report that was written; its text has the time of the report,
  the counts of its summary, the number of warnings being that of the alerts, and then a line for
  each of those alerts, each once and no other, ordered by host and field: the host or a dash, the
  field, the value and, where there is one, the threshold.  The recovery mail, which goes out only
  when the run found no alert at all, has the time of the report and the number of its checks.
\<close>

theorem delivered_mail:
  assumes "main_run w = (Inspected report (Some msg), d, fs')" "notify_config w = Some nc"
    and "em_Enabled (nc_Email nc)" "notify_Validate nc = None" "sort_slice (dw_Sort (w_Dispatch w))"
  shows "msg_From msg = em_From (nc_Email nc) \<and> msg_To msg = em_To (nc_Email nc) \<and>
    (let s = ir_Summary report; alerts = ExtractAlerts (Some report); n = Itoa (int (length alerts))
     in if run_action nc w = ActionSendAlert then
       msg_Subject msg = txt_alert_title @ n @ ''/'' @ Itoa (cs_Total s) @ txt_items_abnormal \<and>
       (\<exists>items. mset items = mset alerts \<and> sorted (map alert_key items) \<and>
          msg_Text msg =
            txt_alert_title @ ir_Timestamp report @ newline
            @ txt_total @ Itoa (cs_Total s) @ txt_checks_comma @ Itoa (cs_OK s) @ txt_ok_comma
            @ n @ txt_warn_comma @ Itoa (cs_Unknown s) @ txt_unknown @ newline @ newline
            @ txt_details @ newline
            @ concat (map (\<lambda>it.
                ''  '' @ pad_right 16 (if ai_Host it = [] then ''-'' else ai_Host it) @ '' ''
                @ pad_right 40 (ai_Field it) @ '' = '' @ ai_Value it
                @ (if ai_Threshold it = [] then []
                   else txt_threshold_open @ ai_Threshold it @ '')'') @ newline) items)
            @ newline @ txt_see_attachment @ newline)
     else
       run_action nc w = ActionSendRecovery \<and> run_alerts w = [] \<and>
       msg_Subject msg = txt_recovery_title @ txt_all_ok_open @ Itoa (cs_Total s) @ txt_checks_close \<and>
       msg_Text msg = txt_recovery_title @ ir_Timestamp report @ newline @ newline
         @ txt_all_recovered @ Itoa (cs_Total s) @ txt_items_see @ newline)"
proof -
  let ?alerts = "ExtractAlerts (Some report)" and ?sort = "dw_Sort (w_Dispatch w)"
  obtain html path where none: "run_action nc w = ActionNone \<longrightarrow> Some msg = None"
    and alert: "\<forall>m. run_action nc w = ActionSendAlert \<and> Some msg = Some m \<longrightarrow>
       m = compose (nc_Email nc) (BuildAlertSubject (ir_Summary report))
         (BuildAlertBody ?sort report ?alerts) html path"
    and recovery: "\<forall>m. run_action nc w = ActionSendRecovery \<and> Some msg = Some m \<longrightarrow>
       m = compose (nc_Email nc) (BuildRecoverySubject (ir_Summary report))
         (BuildRecoveryBody report) html path"
    using assms(1-4) by (rule run_mail)
  note count = run_shown(2) [OF assms(1-4)]
  show ?thesis
  proof (cases "run_action nc w = ActionSendAlert")
    case True
    with alert have msg: "msg = compose (nc_Email nc) (BuildAlertSubject (ir_Summary report))
        (BuildAlertBody ?sort report ?alerts) html path"
      by simp
    show ?thesis
      unfolding Let_def if_P [OF True]
      using sort_slice_sorted [OF assms(5), of ?alerts]
      by (auto simp: msg compose_def BuildAlertSubject_def BuildAlertBody_def alert_line_eq count)
  next
    case False
    with none have act: "run_action nc w = ActionSendRecovery" by (cases "run_action nc w") auto
    with recovery have msg: "msg = compose (nc_Email nc) (BuildRecoverySubject (ir_Summary report))
        (BuildRecoveryBody report) html path"
      by simp
    have "run_alerts w = []"
      using act by (auto simp: run_action_def notify_action_def split: if_splits)
    then show ?thesis
      by (simp add: act msg compose_def BuildRecoverySubject_def BuildRecoveryBody_def)
  qed
qed

subsection \<open>Two hosts, two runs\<close>

text \<open>
  Two hosts that never answer, N = 2, a mail library that takes everything.  The first run finds no
  state, the second one a minute later finds the state of the first.
\<close>

definition pair_env :: "(string \<times> string) list" where
  "pair_env = [(''BK_MYSQL_IP_COMMA'', ''10.0.0.1,10.0.0.2''), (''INSPECT_SSH_KEY_PATH'', ''/k''),
     (''WEOPS_CONFIG'', ''/c/config.json'')]"

definition confirm_doc :: json where
  "confirm_doc =
     JObj [(''email'', JObj [(''enabled'', JBool True), (''smtp_host'', JStr ''mail''),
             (''smtp_port'', JNum ''25''), (''from'', JStr ''a@b''), (''to'', JArr [JStr ''c@d''])]),
           (''persistence'', JObj [(''consecutive_runs'', JNum ''2'')])]"

definition confirm_config :: NotifyConfig where
  "confirm_config = mail_config\<lparr>nc_Persistence := \<lparr>ps_ConsecutiveRuns = 2\<rparr>\<rparr>"

definition pair_world :: "files \<Rightarrow> int \<Rightarrow> world" where
  "pair_world fs now = mail_world\<lparr>w_Env := map_of pair_env, w_Files := fs, w_Now := now\<rparr>"

lemma pair_world_sel:
  "w_Env (pair_world fs now) = map_of pair_env" "w_OutputDir (pair_world fs now) = ''/tmp''"
  "w_Files (pair_world fs now) = fs" "w_Now (pair_world fs now) = now"
  "w_Dispatch (pair_world fs now) = w_Dispatch mail_world"
  "w_ParseTime (pair_world fs now) = (\<lambda>t. Some 0)"
  "w_Auth (pair_world fs now) = \<lparr>aw_File = (\<lambda>path. Key ''k''), aw_AgentDial = (\<lambda>sock. False)\<rparr>"
  "w_Lock (pair_world fs now) = \<lparr>lk_Mkdir = True, lk_Open = True, lk_Flock = FlockOK\<rparr>"
  "w_NetBefore (pair_world fs now) = dark_net" "w_Stat (pair_world fs now) = (\<lambda>path. StatMode 0)"
  "w_Phase1 (pair_world fs now) = [0..<2]" "w_Phase2 (pair_world fs now) = [0..<2]"
  "w_Services (pair_world fs now) = []" "w_Visit (pair_world fs now) = []" "w_Reach (pair_world fs now) = []"
  by (simp_all add: pair_world_def mail_world_def dark_world_def)

lemma pair_dispatch:
  "dw_Mailer (w_Dispatch mail_world) = \<lparr>ml_From = (\<lambda>a. True), ml_To = (\<lambda>a. True),
     ml_NewClient = (\<lambda>a b. True), ml_Deliver = (\<lambda>a b c. True)\<rparr>"
  "dw_Sort (w_Dispatch mail_world) = insertion_sort"
  "dw_FormatTime (w_Dispatch mail_world) = (\<lambda>t. Some ''now'')"
  "dw_Save (w_Dispatch mail_world) = \<lparr>sv_Mkdir = True, sv_CreateTemp = Some ''/c/state-1.json'',
     sv_Write = True, sv_Written = 0, sv_Chmod = True, sv_Close = True, sv_Rename = True, sv_Remove = True\<rparr>"
  by (simp_all add: mail_world_def dark_world_def)

lemma confirm_config_sel:
  "em_Enabled (nc_Email confirm_config)" "notify_Validate confirm_config = None"
  "params_of confirm_config = \<lparr>np_Runs = 2, np_Cooldown = 7200000000000, np_Recovery = False\<rparr>"
  "nc_path confirm_config = ''/c/config.json''" "em_To (nc_Email confirm_config) = [''c@d'']"
  by (simp_all add: confirm_config_def mail_config_def notify_Validate_def params_of_def wrap64_def)

lemma confirm_state_path: "StatePath (nc_path confirm_config) = ''/c/state.json''"
  by (simp add: confirm_config_sel) code_simp

lemma pair_world_config:
  assumes "fs ''/c/config.json'' = Some (MarshalIndent confirm_doc)"
  shows "notify_config (pair_world fs now) = Some confirm_config"
proof -
  have "map_option (\<lambda>c. apply_defaults (c\<lparr>nc_path := ''/c/config.json''\<rparr>))
      (dec_struct set_config_field confirm_doc NotifyConfig_zero) = Some confirm_config"
    by code_simp
  moreover have "scan_json (MarshalIndent confirm_doc) = Some confirm_doc"
    by (rule scan_text) (simp add: confirm_doc_def json_number_def is_digit_def code_def)
  ultimately show ?thesis
    using assms
    by (auto simp: notify_config_def notify_Load_def ConfigPath_def Getenv_def pair_world_sel
        read_file_def pair_env_def)
qed

lemma pair_loaded:
  obtains cfg where "Load (map_of pair_env) ''/tmp'' = Inr cfg"
    "cf_AllHosts cfg = [''10.0.0.1'', ''10.0.0.2'']" "cf_SSHKeyPath cfg = ''/k''"
    "flt fzero (th_CPUUsage (cf_Thresholds cfg))" "flt fzero (th_MemUsage (cf_Thresholds cfg))"
    "0 < th_MaxOpenFiles (cf_Thresholds cfg)" "service_jobs cfg = []" "cf_ES7IPs cfg = []"
    "cf_RedisIPs cfg = []" "cf_RedisSentinelIPs cfg = []" "cf_MongoDBIPs cfg = []"
    "cf_RabbitMQIPs cfg = []" "CollectBKMonitorV3Deps mc cfg = None"
    "CollectReplication mysqls dial cfg = None"
proof -
  have "load_faults (map_of pair_env) = []"
    by (simp add: load_faults_def float_keys_def int_keys_def float_fault_def int_fault_def
        Getenv_def pair_env_def)
  then obtain cfg where load: "Load (map_of pair_env) ''/tmp'' = Inr cfg"
    using Load_faults [of "map_of pair_env" "''/tmp''"] by (auto simp: first_fault_def)
  then obtain th port timeout where th: "load_thresholds (map_of pair_env) = Inr th"
    and cfg: "cfg = (load_config (map_of pair_env) ''/tmp'' th port timeout)
      \<lparr>cf_AllHosts := buildAllHosts (load_config (map_of pair_env) ''/tmp'' th port timeout)\<rparr>"
    by (rule loaded_config)
  have ips: "parseIPList ''10.0.0.1,10.0.0.2'' = [''10.0.0.1'', ''10.0.0.2'']" by code_simp
  have "parseFloatEnv (map_of pair_env) ''INSPECT_CPU_THRESHOLD'' d = Inr d"
      "parseFloatEnv (map_of pair_env) ''INSPECT_MEM_THRESHOLD'' d = Inr d"
      "parseIntEnv (map_of pair_env) ''INSPECT_MAX_OPEN_FILES'' n = Inr n" for d n
    by (simp_all add: parseFloatEnv_def parseIntEnv_def Getenv_def pair_env_def)
  with th have "th_CPUUsage th = FNum False 95 \<and> th_MemUsage th = FNum False 95 \<and>
      th_MaxOpenFiles th = 65536"
    by (auto simp: load_thresholds_def bindE_Inr_iff)
  then have limits: "flt fzero (th_CPUUsage th)" "flt fzero (th_MemUsage th)" "0 < th_MaxOpenFiles th"
    by (simp_all add: fzero_def Go_Float.signed_def)
  note read = load_config_def Getenv_def pair_env_def parseIPList_Nil ips
  show thesis
    by (rule that [OF load])
      (simp_all add: cfg buildAllHosts_eq all_ip_lists_def service_jobs_def GetModuleHosts_def
        roleIPs_def CollectBKMonitorV3Deps_def CollectReplication_def read limits Let_def)
qed

lemma pair_run:
  obtains cfg client report sent d fs' where "main_run (pair_world fs now) = (Inspected report sent, d, fs')"
    "outage ''10.0.0.1'' ''10.0.0.2'' (pair_world fs now)"
    "keys_of (run_alerts (pair_world fs now)) \<subseteq> PendingKey ''10.0.0.2'' ` set down_fields"
proof -
  let ?w = "pair_world fs now"
  obtain cfg where load: "Load (map_of pair_env) ''/tmp'' = Inr cfg"
    and hosts: "cf_AllHosts cfg = [''10.0.0.1'', ''10.0.0.2'']" and key: "cf_SSHKeyPath cfg = ''/k''"
    and limits: "flt fzero (th_CPUUsage (cf_Thresholds cfg))" "flt fzero (th_MemUsage (cf_Thresholds cfg))"
      "0 < th_MaxOpenFiles (cf_Thresholds cfg)"
    and none: "service_jobs cfg = []" "cf_ES7IPs cfg = []" "cf_RedisIPs cfg = []"
      "cf_RedisSentinelIPs cfg = []" "cf_MongoDBIPs cfg = []" "cf_RabbitMQIPs cfg = []"
      "CollectBKMonitorV3Deps (w_Machine ?w) cfg = None"
      "CollectReplication (w_MySQL ?w) (w_Redis ?w) cfg = None"
    by (rule pair_loaded)
  have env: "Getenv (map_of pair_env) ''HOME'' = []" "Getenv (map_of pair_env) ''SSH_AUTH_SOCK'' = []"
    by (simp_all add: Getenv_def pair_env_def)
  have "\<exists>client. New (map_of pair_env) (w_Auth ?w) u p ''/k'' b = Inr client" for u p b
    by (simp add: New_def buildAuthMethods_def explicit_key_def pair_world_sel env)
  then obtain client where client: "New (w_Env ?w) (w_Auth ?w) (cf_SSHUser cfg)
      (cf_SSHPort cfg) (cf_SSHKeyPath cfg) (cf_SSHUseSudo cfg) = Inr client"
    unfolding key pair_world_sel(1) by blast
  have "\<not> busy ?w"
    by (simp add: busy_def pair_world_sel Acquire_def lock_verdict_def split: sum.split)
  then have run: "main_run ?w = inspect ?w cfg client"
    using client by (simp add: main_run_def pair_world_sel load Validate_hosts_def hosts)
  obtain report sent d fs' where out: "main_run ?w = (Inspected report sent, d, fs')"
    unfolding run using inspect_success [of ?w "''<html>''" cfg client] dark_report_finite [of ?w cfg client]
    by (auto simp: pair_world_def mail_world_def dark_world_def dark_def)
  have full: "complete_schedules ?w cfg client"
    by (simp add: complete_schedules_def pair_world_sel hosts none CollectAllServices_def numeral_2_eq_2)
  have down: "outage ''10.0.0.1'' ''10.0.0.2'' ?w"
    unfolding outage_def
  proof (intro exI conjI)
    show "Load (w_Env ?w) (w_OutputDir ?w) = Inr cfg" by (simp add: pair_world_sel load)
    show "unreachable ?w client ''10.0.0.1''" by (simp add: unreachable_def pair_world_sel dark_net_def)
  qed (use client full limits in \<open>simp_all add: hosts\<close>)
  let ?r = "collect_report ?w cfg client" and ?t = "cf_Thresholds cfg"
  let ?m = "collect_host (w_Oob ?w) (host_run ?w client) (cf_CheckMountPath cfg) (cf_DiskIncludeNFS cfg)"
  have dead: "?m ip = HostMetrics_zero\<lparr>hm_IP := ip,
      hm_Error := ''SSH error: ssh dial '' @ ip @ '': connection refused''\<rparr>" for ip
    by (simp add: collect_host_def host_run_def RunContext_def pair_world_sel dark_net_def Let_def)
  have checks: "ir_AllChecks ?r = concat (map hc_Checks (ir_Hosts ?r))"
    by (simp add: collect_report_def Let_def InspectReport_zero_def check_services_def pair_world_sel
        CollectAllServices_def CollectES_def CheckES_def CollectRedisStandalone_def CheckRedis_def
        CollectRedisSentinel_def CrossCheckSentinelMaster_def CheckRedisSentinel_def CollectMongo_def
        CheckMongo_def CollectRabbitMQ_def CheckRabbitMQ_def CheckBKDeps_def CheckReplication_def
        check_list_eq none)
  have "cr_Field c \<in> set down_fields" if "c \<in> set (ir_AllChecks ?r)" "cr_Status c = StatusWarn" for c
  proof -
    have "c \<in> set (concat (map hc_Checks (host_results ?t (map ?m (cf_AllHosts cfg)))))"
      using that(1) by (simp only: checks collected_hosts [OF full])
    then obtain ip where "c \<in> set (CheckHost (?m ip) ?t)"
      unfolding host_results_def map_map comp_def by auto
    then have "cr_Field c \<in> set (map cr_Field (filter (\<lambda>c. cr_Status c = StatusWarn) (CheckHost (?m ip) ?t)))"
      using that(2) by simp
    moreover have "map cr_Field (filter (\<lambda>c. cr_Status c = StatusWarn) (CheckHost (?m ip) ?t)) = down_fields"
      unfolding dead down_fields_def by (rule unreachable_host_warns [OF limits])
    ultimately show ?thesis by (simp only:)
  qed
  moreover have "attributed_host (ir_Hosts ?r) field = ''10.0.0.2''" if "field \<in> set down_fields" for field
    using attributed_last_host [OF full _ down_fields_checked [OF that]] by (simp add: hosts)
  ultimately have "keys_of (run_alerts ?w) \<subseteq> PendingKey ''10.0.0.2'' ` set down_fields"
    using client
    by (auto simp: run_alerts_def pair_world_sel load ExtractAlerts_def keys_of_def item_key_def
        alert_item_def)
  then show thesis by (rule that [OF out down])
qed

text \<open>The first run finds its alerts once and mails nothing; its state can be stored.\<close>

lemma first_run_quiet: "notify_action (params_of confirm_config) State_zero items now = ActionNone"
  by (simp add: notify_action_def firing_def persistence_simps fires_def next_entry_def State_zero_def
      confirm_config_sel)

lemma first_run_status: "st_LastStatus (notify_next (params_of confirm_config) State_zero items now) = []"
  by (simp add: notify_next_def first_run_quiet Let_def) (simp add: State_zero_def)

lemma first_run_storable:
  assumes "keys_of items \<subseteq> PendingKey ''10.0.0.2'' ` set down_fields"
  shows "storable (\<lambda>t. Some ''now'') (\<lambda>t. Some 0) (notify_next (params_of confirm_config) State_zero items 0)"
proof -
  have "list_all (\<lambda>f. valid_utf8 (PendingKey ''10.0.0.2'' f)) down_fields" "valid_utf8 ''now''"
    by code_simp+
  then have utf8: "valid_utf8 k" if "k \<in> keys_of items" for k
    using assms that by (auto simp: list_all_iff)
  have "finite (keys_of items)" by (simp add: keys_of_def)
  then have "finite (dom (pr_NextPending (ApplyPersistence items Map.empty 2 0)))"
    by (rule rev_finite_subset) (auto simp: persistence_simps split: if_splits)
  moreover have "notify_next (params_of confirm_config) State_zero items 0 = State_zero
      \<lparr>st_Pending := pr_NextPending (ApplyPersistence items Map.empty 2 0),
       st_RecoveryStreak := new_streak State_zero items\<rparr>"
    by (simp add: notify_next_def first_run_quiet Let_def) (simp add: State_zero_def confirm_config_sel)
  ultimately show ?thesis
    using utf8 \<open>valid_utf8 ''now''\<close>
    by (auto simp: storable_def State_zero_def
        new_streak_def UpdateRecoveryStreak_def persistence_simps next_entry_def in_int64_def
        int64_min_def int64_max_def Let_def split: if_splits)
qed

lemma short_time: "time_sub 0 0 < pendingTTL" "time_sub 60000000000 0 < pendingTTL"
  by (simp_all add: time_sub_def clamp64_def int64_min_def int64_max_def pendingTTL_def)

lemma pair_runs:
  obtains v w report sent d fs' where "main_run w = (Inspected report sent, d, fs')"
    "kept confirm_config [v] (run_state w confirm_config)" "notify_config w = Some confirm_config"
    "outage ''10.0.0.1'' ''10.0.0.2'' v" "outage ''10.0.0.1'' ''10.0.0.2'' w"
    "w_Now v = 0" "w_Now w = 60000000000" "sort_slice (dw_Sort (w_Dispatch w))"
    "takes_mail w confirm_config" "st_LastStatus (run_state w confirm_config) \<noteq> ''alert''"
    "PendingKey ''10.0.0.2'' ''chronyd'' \<in> keys_of (ExtractAlerts (Some report))"
proof -
  let ?fs = "[''/c/config.json'' \<mapsto> MarshalIndent confirm_doc]" and ?nc = confirm_config
  let ?v = "pair_world ?fs 0"
  obtain cfg client r1 s1 d1 fs1 where first: "main_run ?v = (Inspected r1 s1, d1, fs1)"
    and down: "outage ''10.0.0.1'' ''10.0.0.2'' ?v"
    and keys: "keys_of (run_alerts ?v) \<subseteq> PendingKey ''10.0.0.2'' ` set down_fields"
    by (rule pair_run)
  have config: "notify_config ?v = Some ?nc" by (rule pair_world_config) simp
  have zero: "run_state ?v ?nc = State_zero"
    by (simp add: run_state_def disk_state_def confirm_state_path pair_world_sel read_file_def LoadState_def)
  have quiet: "run_action ?nc ?v = ActionNone" by (simp add: run_action_def zero first_run_quiet)
  have new: "next_state ?nc ?v = notify_next (params_of ?nc) State_zero (run_alerts ?v) 0"
    by (simp add: next_state_def zero pair_world_sel)
  note store = first_run_storable [OF keys]
  obtain doc where marshal: "marshal_state (\<lambda>t. Some ''now'') (next_state ?nc ?v) = Some doc"
    using state_roundtrip [OF store] new by auto
  have saved: "fs1 = fst (SaveState (\<lambda>t. Some ''now'') (dw_Save (w_Dispatch mail_world)) ''/c/state.json''
      (next_state ?nc ?v) ?fs)"
    using first config confirm_config_sel(1,2)
    by (rule run_mail) (use quiet in \<open>simp add: pair_world_sel pair_dispatch(3) confirm_state_path\<close>)
  have state: "disk_state (\<lambda>t. Some 0) ?nc fs1 = next_state ?nc ?v"
    unfolding disk_state_def confirm_state_path
  proof (rule SaveState_success)
    show "storable (\<lambda>t. Some ''now'') (\<lambda>t. Some 0) (next_state ?nc ?v)" unfolding new by (rule store)
    show "SaveState (\<lambda>t. Some ''now'') (dw_Save (w_Dispatch mail_world)) ''/c/state.json'' (next_state ?nc ?v) ?fs
        = (fs1, None)"
      using saved by (simp add: SaveState_def marshal pair_dispatch Let_def)
  qed (simp add: pair_dispatch)
  let ?w = "pair_world fs1 60000000000"
  obtain cfg' client' report sent d fs' where second: "main_run ?w = (Inspected report sent, d, fs')"
    and down': "outage ''10.0.0.1'' ''10.0.0.2'' ?w"
    by (rule pair_run)
  have found: "run_state ?w ?nc = next_state ?nc ?v" by (simp add: run_state_def pair_world_sel state)
  have config': "notify_config ?w = Some ?nc"
    by (rule pair_world_config) (simp add: saved SaveState_def marshal pair_dispatch Let_def)
  moreover have before: "kept ?nc [?v] (run_state ?w ?nc)"
    unfolding found
    by (rule kept.run [OF _ config first]) (simp_all add: zero kept.cold pair_world_sel state)
  moreover have "PendingKey ''10.0.0.2'' ''chronyd'' \<in> keys_of (ExtractAlerts (Some report))"
  proof (rule outage_confirmed [OF _ config' second confirm_config_sel(1,2)])
    show "kept ?nc ([?v] @ []) (run_state ?w ?nc)" using before by simp
    show "outage ''10.0.0.1'' ''10.0.0.2'' u" if "u \<in> set (?w # [?v])" for u
      using that down down' by auto
    show "time_sub (w_Now u) (w_Now (last (?w # [?v]))) < pendingTTL" if "u \<in> set (?w # [?v])" for u
      using that by (auto simp: pair_world_sel short_time)
  qed (simp_all add: confirm_config_sel down_fields_def runs_history_def in_int64_def int64_min_def
      int64_max_def)
  moreover have "st_LastStatus (run_state ?w ?nc) \<noteq> ''alert''"
    by (simp add: found new first_run_status)
  ultimately show thesis
    by (intro that [of ?w report sent d fs' ?v] second down down')
      (simp_all add: pair_world_sel pair_dispatch sort_slice_insertion takes_mail_def Let_def)
qed

text \<open>
  The first of the two hosts is down in both runs: the report names it, the mail lists the warning
  under the second host.
\<close>

theorem outage_reported_witness:
  "\<exists>w report msg d fs'. main_run w = (Inspected report (Some msg), d, fs') \<and>
     msg_To msg = [''c@d''] \<and> mail_lists ''10.0.0.2'' ''chronyd'' msg \<and>
     (\<exists>h \<in> set (ir_Hosts report). down_entry ''10.0.0.1'' h \<and>
        (\<exists>c \<in> set (hc_Checks h). cr_Field c = ''chronyd'' \<and> cr_Status c = StatusWarn))"
proof -
  let ?nc = confirm_config and ?f = "''chronyd''"
  obtain v w report sent d fs' where out: "main_run w = (Inspected report sent, d, fs')"
    and before: "kept ?nc [v] (run_state w ?nc)" and config: "notify_config w = Some ?nc"
    and down: "outage ''10.0.0.1'' ''10.0.0.2'' v" "outage ''10.0.0.1'' ''10.0.0.2'' w"
    and time: "w_Now v = 0" "w_Now w = 60000000000" and sorter: "sort_slice (dw_Sort (w_Dispatch w))"
    and taken: "takes_mail w ?nc" and status: "st_LastStatus (run_state w ?nc) \<noteq> ''alert''"
    by (rule pair_runs)
  have "(\<exists>h \<in> set (ir_Hosts report). down_entry ''10.0.0.1'' h \<and>
      (\<exists>c \<in> set (hc_Checks h). cr_Field c = ?f \<and> cr_Status c = StatusWarn)) \<and>
    (\<exists>it \<in> set (ExtractAlerts (Some report)). ai_Host it = ''10.0.0.2'' \<and> ai_Field it = ?f) \<and>
    (if cooling w ?nc report then sent = None
     else run_action ?nc w = ActionSendAlert \<and>
       (case sent of
          Some msg \<Rightarrow> msg_To msg = em_To (nc_Email ?nc) \<and> mail_lists ''10.0.0.2'' ?f msg
        | None \<Rightarrow> \<not> takes_mail w ?nc \<and> fs' = w_Files w))"
  proof (rule outage_reported [OF _ config out confirm_config_sel(1,2) _ sorter])
    show "kept ?nc ([v] @ []) (run_state w ?nc)" using before by simp
    show "outage ''10.0.0.1'' ''10.0.0.2'' u" if "u \<in> set (w # [v])" for u using that down by auto
    show "time_sub (w_Now u) (w_Now (last (w # [v]))) < pendingTTL" if "u \<in> set (w # [v])" for u
      using that by (auto simp: time short_time)
  qed (simp_all add: confirm_config_sel down_fields_def runs_history_def in_int64_def int64_min_def
      int64_max_def)
  moreover have "\<not> cooling w ?nc report" using status by (simp add: cooling_def)
  ultimately obtain msg where "sent = Some msg" "msg_To msg = [''c@d'']" "mail_lists ''10.0.0.2'' ?f msg"
      "\<exists>h \<in> set (ir_Hosts report). down_entry ''10.0.0.1'' h \<and>
        (\<exists>c \<in> set (hc_Checks h). cr_Field c = ?f \<and> cr_Status c = StatusWarn)"
    using taken by (cases sent) (auto simp only: if_False option.case confirm_config_sel)
  then show ?thesis using out by blast
qed

text \<open>The same mail, with a line for each alert of the report.\<close>

theorem delivered_mail_witness:
  "\<exists>w report msg d fs'. main_run w = (Inspected report (Some msg), d, fs') \<and>
     msg_From msg = ''a@b'' \<and> msg_To msg = [''c@d''] \<and> ExtractAlerts (Some report) \<noteq> [] \<and>
     (\<exists>items head tail. mset items = mset (ExtractAlerts (Some report)) \<and>
        msg_Text msg = head @ concat (map (\<lambda>it.
          ''  '' @ pad_right 16 (if ai_Host it = [] then ''-'' else ai_Host it) @ '' ''
          @ pad_right 40 (ai_Field it) @ '' = '' @ ai_Value it
          @ (if ai_Threshold it = [] then []
             else txt_threshold_open @ ai_Threshold it @ '')'') @ newline) items) @ tail)"
proof -
  let ?nc = confirm_config
  obtain v w report sent d fs' where out: "main_run w = (Inspected report sent, d, fs')"
    and config: "notify_config w = Some ?nc" and sorter: "sort_slice (dw_Sort (w_Dispatch w))"
    and taken: "takes_mail w ?nc" and status: "st_LastStatus (run_state w ?nc) \<noteq> ''alert''"
    and alert: "PendingKey ''10.0.0.2'' ''chronyd'' \<in> keys_of (ExtractAlerts (Some report))"
    by (rule pair_runs)
  have alerts: "ExtractAlerts (Some report) \<noteq> []" using alert by auto
  then have act: "run_action ?nc w = ActionSendAlert"
    using run_shown(1) [OF out config confirm_config_sel(1,2)] status
    by (simp add: run_action_def notify_action_def)
  obtain html path where "run_action ?nc w \<noteq> ActionNone \<and> sent = None \<longrightarrow>
      fs' = w_Files w \<and> \<not> takes_mail w ?nc"
    using out config confirm_config_sel(1,2) by (rule run_mail)
  then obtain msg where msg: "main_run w = (Inspected report (Some msg), d, fs')"
    using act taken out by (cases sent) auto
  note mail = delivered_mail [OF msg config confirm_config_sel(1,2) sorter, unfolded Let_def if_P [OF act]]
  have "msg_From msg = ''a@b''" "msg_To msg = [''c@d'']"
    using mail by (simp_all add: confirm_config_def mail_config_def)
  moreover let ?s = "ir_Summary report"
  let ?head = "txt_alert_title @ ir_Timestamp report @ newline
    @ txt_total @ Itoa (cs_Total ?s) @ txt_checks_comma @ Itoa (cs_OK ?s) @ txt_ok_comma
    @ Itoa (int (length (ExtractAlerts (Some report)))) @ txt_warn_comma
    @ Itoa (cs_Unknown ?s) @ txt_unknown @ newline @ newline @ txt_details @ newline"
  from mail obtain items where "mset items = mset (ExtractAlerts (Some report))"
    "msg_Text msg = ?head @ concat (map (\<lambda>it.
          ''  '' @ pad_right 16 (if ai_Host it = [] then ''-'' else ai_Host it) @ '' ''
          @ pad_right 40 (ai_Field it) @ '' = '' @ ai_Value it
          @ (if ai_Threshold it = [] then []
             else txt_threshold_open @ ai_Threshold it @ '')'') @ newline) items)
       @ newline @ txt_see_attachment @ newline"
    unfolding append_assoc by blast
  ultimately show ?thesis using msg alerts by blast
qed

end
