(* ===== verification/Report_Reader.thy ===== *)
theory Report_Reader
  imports Report_Json Collect_Curl
begin

text \<open>
  What a reader of the report's document finds, by the names of the fields: the specification of
  the encoders of \<open>Report_Json\<close>, and that they meet it.
\<close>

definition json_get :: "json \<Rightarrow> string \<Rightarrow> json" where
  "json_get v k = (case v of JObj fs \<Rightarrow> json_at fs k | _ \<Rightarrow> JNull)"

definition json_items :: "json \<Rightarrow> json list" where
  "json_items v = (case v of JArr vs \<Rightarrow> vs | _ \<Rightarrow> [])"

text \<open>
  The document tells the time, the four counts of the summary, and for every host in order its
  address, its error and the name, value and status of each of its checks.
\<close>

definition tells_check :: "json \<Rightarrow> CheckResult \<Rightarrow> bool" where
  "tells_check v c \<longleftrightarrow>
     json_get v ''field'' = JStr (to_valid (cr_Field c)) \<and>
     json_get v ''value'' = JStr (to_valid (cr_Value c)) \<and>
     json_get v ''status'' = JStr (to_valid (status_text (cr_Status c)))"

definition tells_host :: "json \<Rightarrow> HostCheckResult \<Rightarrow> bool" where
  "tells_host v h \<longleftrightarrow>
     json_get (json_get v ''metrics'') ''ip'' = JStr (to_valid (hm_IP (hc_Metrics h))) \<and>
     json_get (json_get v ''metrics'') ''error'' =
       (if hm_Error (hc_Metrics h) = [] then JNull else JStr (to_valid (hm_Error (hc_Metrics h)))) \<and>
     list_all2 tells_check (json_items (json_get v ''checks'')) (hc_Checks h)"

definition tells_report :: "json \<Rightarrow> InspectReport \<Rightarrow> bool" where
  "tells_report doc r \<longleftrightarrow>
     json_get doc ''timestamp'' = JStr (to_valid (ir_Timestamp r)) \<and>
     list_all2 tells_host (json_items (json_get doc ''hosts'')) (ir_Hosts r) \<and>
     (\<forall>(k, n) \<in> {(''total'', cs_Total (ir_Summary r)), (''ok'', cs_OK (ir_Summary r)),
                 (''warn'', cs_Warn (ir_Summary r)), (''unknown'', cs_Unknown (ir_Summary r))}.
        json_get (json_get doc ''summary'') k = JNum (Itoa n))"

definition field_at :: "json_field \<Rightarrow> string \<Rightarrow> json option option" where
  "field_at f k = map_of (rev f) k"

lemma field_at_struct [simp]: "field_at (struct_field name v) k = (if k = name then Some v else None)"
  by (simp add: field_at_def struct_field_def)

lemma field_at_omitempty [simp]:
  "field_at (omitempty z f) k = (if z then None else field_at f k)"
  by (simp add: omitempty_def field_at_def)

lemma field_at_append [simp]:
  "field_at [] k = None"
  "field_at (f @ g) k = (case field_at g k of None \<Rightarrow> field_at f k | Some v \<Rightarrow> Some v)"
  unfolding field_at_def by (simp_all add: map_add_def)

lemma enc_fields_values: "enc_fields f = Some vs \<Longrightarrow> f = map (\<lambda>(k, v). (k, Some v)) vs"
  by (induction f arbitrary: vs rule: enc_fields.induct) (auto split: option.splits)

lemma enc_struct_get:
  assumes "enc_struct fs = Some v"
  shows "json_get v k = (case field_at (concat fs) k of Some (Some x) \<Rightarrow> x | _ \<Rightarrow> JNull)"
proof -
  obtain vs where vs: "enc_fields (concat fs) = Some vs" "v = JObj vs"
    using assms by (auto simp: enc_struct_def)
  have "map_of (rev (map (\<lambda>(k, v). (k, Some v)) vs)) k = map_option Some (map_of (rev vs) k)"
    by (simp add: rev_map map_of_map)
  then show ?thesis
    unfolding field_at_def enc_fields_values [OF vs(1)]
    by (auto simp: json_get_def json_at_def vs(2) split: option.splits)
qed

lemmas field_defs = str_field_def int_field_def float_field_def slice_field_def pointer_field_def
  map_field_def str_opt_def pointer_opt_def str_value_def

lemma enc_list_all2:
  assumes "enc_list enc xs = Some vs" "\<And>x v. enc x = Some v \<Longrightarrow> P v x"
  shows "list_all2 P vs xs"
  using assms(1) by (induction xs arbitrary: vs) (auto intro: assms(2) split: option.splits)

lemma enc_slice_all2:
  assumes "enc_slice enc xs = Some v" "\<And>x v. enc x = Some v \<Longrightarrow> P v x"
  shows "list_all2 P (json_items v) xs"
  using assms by (auto simp: enc_slice_def json_items_def intro: enc_list_all2 split: if_splits)

lemma CheckResult_told:
  assumes "enc_CheckResult c = Some v"
  shows "tells_check v c"
  by (simp add: tells_check_def enc_struct_get [OF assms [unfolded enc_CheckResult_def]] field_defs)

lemma CheckSummary_told:
  assumes "enc_CheckSummary s = Some v"
  shows "json_get v ''total'' = JNum (Itoa (cs_Total s))" "json_get v ''ok'' = JNum (Itoa (cs_OK s))"
    "json_get v ''warn'' = JNum (Itoa (cs_Warn s))" "json_get v ''unknown'' = JNum (Itoa (cs_Unknown s))"
  by (simp_all add: enc_struct_get [OF assms [unfolded enc_CheckSummary_def]] field_defs)

lemma HostMetrics_told:
  assumes "enc_HostMetrics fmt m = Some v"
  shows "json_get v ''ip'' = JStr (to_valid (hm_IP m))"
    "json_get v ''error'' = (if hm_Error m = [] then JNull else JStr (to_valid (hm_Error m)))"
  by (simp_all add: enc_struct_get [OF assms [unfolded enc_HostMetrics_def]] field_defs)

lemma HostCheckResult_told:
  assumes "enc_HostCheckResult fmt h = Some v"
  shows "tells_host v h"
proof -
  obtain m cs where parts: "enc_HostMetrics fmt (hc_Metrics h) = Some m"
    "enc_slice enc_CheckResult (hc_Checks h) = Some cs"
  proof -
    have "enc_HostCheckResult fmt h \<noteq> None" using assms by simp
    then have "enc_HostMetrics fmt (hc_Metrics h) \<noteq> None"
      by (simp only: enc_HostCheckResult_def enc_struct_None) simp
    moreover have "enc_slice enc_CheckResult (hc_Checks h) \<noteq> None" by simp
    ultimately show thesis using that by blast
  qed
  have "json_get v ''metrics'' = m" "json_get v ''checks'' = cs"
    by (simp_all add: enc_struct_get [OF assms [unfolded enc_HostCheckResult_def]] field_defs parts)
  with HostMetrics_told [OF parts(1)] enc_slice_all2 [OF parts(2) CheckResult_told] show ?thesis
    by (simp add: tells_host_def)
qed

lemma InspectReport_told:
  assumes "enc_InspectReport fmt r = Some v"
  shows "tells_report v r"
proof -
  have "\<not> list_ex (\<lambda>h. enc_HostCheckResult fmt h = None) (ir_Hosts r)"
  proof -
    have "enc_InspectReport fmt r \<noteq> None" using assms by simp
    then show ?thesis by (simp only: enc_InspectReport_def enc_struct_None) simp
  qed
  then obtain hs where hosts: "enc_slice (enc_HostCheckResult fmt) (ir_Hosts r) = Some hs"
    by (cases "enc_slice (enc_HostCheckResult fmt) (ir_Hosts r)") simp_all
  obtain s where sum: "enc_CheckSummary (ir_Summary r) = Some s"
    by (cases "enc_CheckSummary (ir_Summary r)") simp_all
  have "json_get v ''timestamp'' = JStr (to_valid (ir_Timestamp r))"
    "json_get v ''hosts'' = hs" "json_get v ''summary'' = s"
    by (simp_all add: enc_struct_get [OF assms [unfolded enc_InspectReport_def]] field_defs hosts sum)
  with enc_slice_all2 [OF hosts HostCheckResult_told] CheckSummary_told [OF sum] show ?thesis
    by (simp add: tells_report_def)
qed

end
