(* ===== verification/Report_Properties.thy ===== *)
theory Report_Properties
  imports Run_Properties Report_Reader
begin

text \<open>
  The JSON file of a run: what it holds, and when it cannot be written.
\<close>

text \<open>
  C9. The JSON file tells what the report says: when every call succeeds and every figure is a
  finite number, the run leaves a text that reads back as the document of its report, with the
  counts of the summary and the address, the error and the checks of every host under their names;
  one figure that is no finite number, such as a load average that a host gives as \<open>inf\<close>, and the
  run ends with exit code 1, without a new JSON file, a mail or a new state.
\<close>

theorem report_file_reads_back:
  assumes "Load (w_Env w) (w_OutputDir w) = Inr cfg" "Validate_hosts cfg = None" "\<not> busy w"
    and "New (w_Env w) (w_Auth w) (cf_SSHUser cfg) (cf_SSHPort cfg) (cf_SSHKeyPath cfg)
      (cf_SSHUseSudo cfg) = Inr client"
    and "wc_Mkdir (w_Write w)" "wc_WriteHTML (w_Write w)" "wc_WriteJSON (w_Write w)"
    and "w_Templates w = Some t" "\<And>r. t r \<noteq> None"
    and "writes_numbers (w_FormatFloat w)" "main_run w = (e, d, fs)"
  shows "if finite_report (collect_report w cfg client)
    then \<exists>report sent text doc. e = Inspected report sent \<and>
      d (json_path (cf_OutputDir cfg)) = Some text \<and> scan_json text = Some doc \<and>
      enc_InspectReport (w_FormatFloat w) report = Some doc \<and> tells_report doc report
    else e = ReportFailed \<and> exit_code e = 1 \<and> fs = w_Files w \<and>
      d (json_path (cf_OutputDir cfg)) = w_Disk w (json_path (cf_OutputDir cfg))"
proof -
  obtain prep report where prep: "Prepare (w_ParseTime w) (w_Files w) (w_Now w) (notify_config w)
      (collect_report w cfg client) = (prep, report)"
    by fastforce
  have same: "finite_report report = finite_report (collect_report w cfg client)"
    using Prepare_figures [of "w_ParseTime w" "w_Files w" "w_Now w" "notify_config w"
        "collect_report w cfg client"] prep by simp
  obtain html where html: "render w report = Inr html"
    using assms(9) [of report] by (auto simp: render_def RenderHTML_eq assms(8))
  have run: "inspect w cfg client = (e, d, fs)"
    using assms(11) by (simp add: main_run_def assms(1-4))
  note writing = Write_def html assms(5-7) write_file_def Let_def
  show ?thesis
  proof (cases "MarshalReport (w_FormatFloat w) report")
    case None
    then have "e = ReportFailed \<and> fs = w_Files w \<and> d = (w_Disk w)(html_path (cf_OutputDir cfg) \<mapsto> html)"
      using run by (auto simp: inspect_def prep writing)
    moreover have "\<not> finite_report (collect_report w cfg client)"
      using None same by (simp add: MarshalReport_None)
    ultimately show ?thesis
      using report_paths_differ [of "cf_OutputDir cfg"] by (simp add: exit_code_def)
  next
    case (Some json)
    then have "finite_report (collect_report w cfg client)"
      using same MarshalReport_None [of "w_FormatFloat w" report] by simp
    moreover obtain doc where "enc_InspectReport (w_FormatFloat w) report = Some doc"
      using Some by (auto simp: MarshalReport_def)
    moreover have "\<exists>sent. e = Inspected report sent \<and> d (json_path (cf_OutputDir cfg)) = Some json"
      using run Some by (auto simp: inspect_def prep writing split: option.splits prod.splits)
    ultimately show ?thesis
      using MarshalReport_scanned [OF assms(10) Some] InspectReport_told by auto
  qed
qed

text \<open>A world in which every host answers with an infinite load average.\<close>

definition inf_batch :: string where
  "inf_batch = ''===LOADAVG==='' @ [CHR 0x0A] @ ''inf 0 0'' @ [CHR 0x0A]"

definition inf_output :: string where
  "inf_output = ''cpu'' @ [CHR 0x0A] @ inf_batch"

definition inf_net :: ssh_net where
  "inf_net =
     \<lparr>sw_Dial = (\<lambda>addr. None), sw_Session = (\<lambda>addr. None),
      sw_Exec = (\<lambda>addr cmd. session_end.Ended inf_output None)\<rparr>"

definition inf_world :: "Config \<Rightarrow> world" where
  "inf_world cfg =
     (dark_world one_host 2)
       \<lparr>w_NetBefore := inf_net, w_NetAfter := inf_net,
        w_Phase1 := [0..<length (cf_AllHosts cfg)], w_Phase2 := [0..<length (cf_AllHosts cfg)]\<rparr>"

lemma load_kept:
  "hm_LoadAvg1 (set_free oob s m) = hm_LoadAvg1 m" "hm_LoadAvg1 (set_disks mounts nfs s m) = hm_LoadAvg1 m"
  "hm_LoadAvg1 (set_inodes mounts nfs s m) = hm_LoadAvg1 m"
  "hm_LoadAvg1 (set_uptime oob s m) = hm_LoadAvg1 m" "hm_LoadAvg1 (set_meminfo s m) = hm_LoadAvg1 m"
  "hm_LoadAvg1 (set_hardware s m) = hm_LoadAvg1 m"
proof -
  have "hm_LoadAvg1 (meminfo_line m line) = hm_LoadAvg1 m" for m line
    by (simp add: meminfo_line_def Let_def)
  then have "hm_LoadAvg1 (foldl meminfo_line m ls) = hm_LoadAvg1 m" for ls
    by (induction ls arbitrary: m) simp_all
  then show "hm_LoadAvg1 (set_meminfo s m) = hm_LoadAvg1 m" by (simp add: set_meminfo_def)
qed (simp_all add: set_free_def set_disks_def set_inodes_def set_uptime_def set_hardware_def Let_def
    case_prod_beta split: list.split)

lemma with_section_kept:
  assumes "\<And>s m. g (f s m) = g m"
  shows "g (with_section sections tag f m) = g m"
  using assms by (simp add: with_section_def split: option.split)

lemma parse_batch_load:
  "hm_LoadAvg1 (parse_batch oob mounts nfs sections m) =
     hm_LoadAvg1 (with_section sections ''LOADAVG'' set_load m)"
  by (simp add: parse_batch_def Let_def with_section_kept [where g = hm_LoadAvg1] load_kept)

lemma inf_host: "\<not> finite_host (parseHostOutput oob ip cpu inf_output mounts nfs)"
proof -
  have "SplitN inf_output [CHR 0x0A] 2 = [''cpu'', inf_batch]"
    and "parseSections inf_batch ''LOADAVG'' = Some ''inf 0 0''"
    and "Fields ''inf 0 0'' = [''inf'', ''0'', ''0'']" "ParseFloat0 ''inf'' = FInf False"
    by code_simp+
  then have "hm_LoadAvg1 (parseHostOutput oob ip cpu inf_output mounts nfs) = FInf False"
    by (simp add: parseHostOutput_def parse_batch_load with_section_def set_load_def Let_def)
  then show ?thesis by (simp add: finite_host_def)
qed

theorem report_file_reads_back_witness:
  "\<exists>w d. (\<forall>addr. sw_Dial (w_NetAfter w) addr = None) \<and> main_run w = (ReportFailed, d, w_Files w)"
proof -
  obtain cfg where load: "Load (map_of one_host) ''/tmp'' = Inr cfg" and hosts: "cf_AllHosts cfg \<noteq> []"
    and key: "cf_SSHKeyPath cfg = ''/k''"
    by (rule one_host_loaded)
  define w where "w = inf_world cfg"
  have world: "w_Env w = map_of one_host" "w_OutputDir w = ''/tmp''" "w_NetAfter w = inf_net"
      "w_NetBefore w = inf_net" "aw_File (w_Auth w) = (\<lambda>path. Key ''k'')"
      "lock_verdict (Acquire (w_Lock w)) = WithLock"
      "w_Phase1 w = [0..<length (cf_AllHosts cfg)]" "w_Phase2 w = [0..<length (cf_AllHosts cfg)]"
    by (simp_all add: w_def inf_world_def dark_world_def Acquire_def lock_verdict_def)
  obtain cfg' client where "Load (map_of one_host) ''/tmp'' = Inr cfg'"
      "New (map_of one_host) (w_Auth w) (cf_SSHUser cfg') (cf_SSHPort cfg') (cf_SSHKeyPath cfg')
         (cf_SSHUseSudo cfg') = Inr client"
    by (rule one_host_run [OF world(1,2,5,6)])
  then have client: "New (w_Env w) (w_Auth w) (cf_SSHUser cfg) (cf_SSHPort cfg) (cf_SSHKeyPath cfg)
      (cf_SSHUseSudo cfg) = Inr client"
    using load by (simp add: world)
  have answers: "host_run w client b ip = (inf_output, None)" for b ip
    by (simp add: host_run_def world RunContext_def inf_net_def Let_def)
  have "\<not> finite_host (collect_host (w_Oob w) (host_run w client) mounts nfs ip)" for mounts nfs ip
    by (simp add: collect_host_def answers inf_host)
  then have bad: "\<not> finite_report (collect_report w cfg client)"
    using hosts
    by (cases "cf_AllHosts cfg") (auto simp: collected_finite CollectAllHosts_eq world)
  obtain e d fs where out: "main_run w = (e, d, fs)" by (cases "main_run w") auto
  have "\<not> busy w" using world(6) by (simp add: busy_def split: sum.split)
  from report_file_reads_back [OF _ _ this client, of "\<lambda>r. Some ''<html>''", OF _ _ _ _ _ _ _ _ out] bad
  have "e = ReportFailed \<and> fs = w_Files w"
    using load hosts
    by (simp add: world Validate_hosts_def w_def inf_world_def dark_world_def writes_numbers_def
        json_number_def is_digit_def code_def)
  with out show ?thesis
    by (intro exI [of _ w] exI [of _ d]) (simp add: world inf_net_def)
qed

end
