(* ===== verification/Spec2Isabelle.thy ===== *)
theory Spec2Isabelle
  imports Config_Properties Check_Properties Notify_Properties Collect_Properties Probe_Properties
    Redis_Properties Component_Properties Routine_Properties Run_Properties Outage_Properties
    Report_Properties
begin

text \<open>
  A model of weops-inspect, a host and component inspection tool written in Go, and the
  properties that make it correct.

  \<^bold>\<open>The program.\<close>  A run (src/main.go) reads its configuration from the environment, takes a lock,
  collects metrics of hosts over SSH, the state of the BlueKing services and of the components
  (MySQL, Redis, sentinels, replication, MongoDB, RabbitMQ, Elasticsearch, the dependencies of
  bkmonitorv3), checks them against thresholds, confirms alerts over several runs, writes an HTML
  and a JSON report and sends a mail.

  \<^bold>\<open>The theories and the code they model.\<close>
  \<^item> \<open>Prelude\<close>, \<open>Go_Strings\<close>, \<open>Go_Float\<close>, \<open>Go_Json\<close>, \<open>Go_Json_Text\<close>, \<open>Sha256\<close>, \<open>Texts\<close>: what the
    program uses of Go's standard library (strings as lists of bytes, 64-bit integers with their
    wrap-around written out, binary64 values with exact rounding, JSON documents, their scanner and
    their indented text, the hash) and its Chinese texts as bytes.
  \<^item> \<open>Inspect_Model\<close>: the structs of src/model, one record each.
  \<^item> \<open>Config_Load\<close>: src/config.  \<open>Load\<close> is composed as in the code; the process environment is a
    map.
  \<^item> \<open>Check_Base\<close>, \<open>Check_Rules\<close>, \<open>Check_ES\<close>, \<open>Check_Redis\<close>, \<open>Check_Mongo\<close>, \<open>Check_RabbitMQ\<close>,
    \<open>Check_BKDeps\<close>: src/checker.  A checker that fills in render fields returns the changed value
    with its results; the locales \<open>checker\<close>, \<open>painting_checker\<close> and \<open>colouring_checker\<close> state
    their common contract and are interpreted on every one of them.
  \<^item> \<open>Collect_Host\<close>, \<open>Collect_Registry\<close>, \<open>Collect_Service\<close>, \<open>Collect_Probe\<close>, \<open>Collect_MySQL\<close>,
    \<open>Collect_Redis\<close>, \<open>Collect_Curl\<close>, \<open>Collect_ES\<close>, \<open>Collect_RabbitMQ\<close>, \<open>Collect_Mongo\<close>,
    \<open>Collect_BKDeps\<close>: src/collector.  A server, a process or a connection is an argument that
    answers requests; everything the code does with the answers is modelled.  \<open>Collect_Redis\<close> also
    has the Redis part of replication.go and \<open>Collect_MySQL\<close> the MySQL part.  Goroutines are tasks on a
    shared list, run in the order of a schedule: the locale \<open>slot_task\<close> covers those that write
    their own index, \<open>Collect_Service\<close> those that append to a map under a mutex.  The locale
    \<open>classifier\<close> is the contract of the error classifiers.
  \<^item> \<open>Goroutines\<close>, \<open>Service_Routines\<close>: what the schedules stand for.  \<open>Goroutines\<close> has threads
    that move in any order, the locale \<open>ending\<close> of programs all of whose executions end, and the
    pool, a fork and join of tasks; \<open>Service_Routines\<close> is the body of \<open>CollectAllServices\<close> in its
    moves (start, ask, lock, read, write, unlock, done, wait), which implements the pool.
  \<^item> \<open>Ssh_Client\<close>: src/ssh.  \<open>Instance_Lock\<close>: src/lock and its use in src/main.go, as processes that
    start and end in any order.
  \<^item> \<open>Notify_Persistence\<close>, \<open>Notify_State\<close>, \<open>Notify_Trigger\<close>, \<open>Notify_Signature\<close>,
    \<open>Notify_Alerts\<close>, \<open>Notify_Config\<close>, \<open>Notify_Email\<close>, \<open>Notify_Html\<close>, \<open>Notify\<close>: src/notify.  \<open>Notify\<close>
    has the pass itself and, as its specification, the machine \<open>notify_next\<close> over states with the
    relation \<open>reached\<close> of states and histories.
  \<^item> \<open>Render_Funcs\<close>, \<open>Report_Json\<close>, \<open>Output_Writer\<close>: the functions the templates call and
    src/render/html.go; the report as a JSON document by the tags of src/model; src/output.
  \<^item> \<open>Inspect_Run\<close>: src/main.go.  The outside world of a run is the record \<open>world\<close>; \<open>main_run\<close>
    gives the way the run ended, the reports on disk and the notification state.  \<open>Command_Line\<close>
    has the flags before it.

  \<^bold>\<open>The properties.\<close>
  \<^item> \<open>Run_Properties\<close>: the report does not depend on any schedule, unreachable hosts show in the
    summary, what is left on disk on every way a run can end, what the flags decide; and the
    refinement of a whole run: from the collected report to the mail it implements the machine.
  \<^item> \<open>Outage_Properties\<close>: several runs in a row, from a host that stays down to the report that
    names it and to the mail, which lists its warnings under the last host of the list; and what a
    delivered mail says, subject and text written out.
  \<^item> \<open>Report_Reader\<close>, \<open>Report_Figures\<close>, \<open>Report_Properties\<close>: what a reader of the JSON file finds,
    which figures can be written, and the two ways a run ends accordingly.
  \<^item> \<open>Routine_Properties\<close>: the interleavings of the goroutines end and give exactly the results of
    the schedules.
  \<^item> \<open>Notify_Properties\<close>: the machine's safety and liveness over all reachable states, and the
    refinement: the code's pass on disk implements the machine.
  \<^item> \<open>Check_Properties\<close>: checkers only colour and do not look at colours, one coloured cell per
    finding, counts of the summary, thresholds are monotonic.
  \<^item> \<open>Collect_Properties\<close>, \<open>Component_Properties\<close>, \<open>Redis_Properties\<close>, \<open>Probe_Properties\<close>: what the
    collectors report, on every branch and under every schedule; secrets are redacted.
  \<^item> \<open>Config_Properties\<close>, \<open>Ssh_Client\<close>, \<open>Instance_Lock\<close>: errors of the configuration, quoting for
    sudo, at most one instance with the lock.

  \<^bold>\<open>Parameters and bounds.\<close>  \<open>oob\<close> is the machine's conversion of a float outside the 64-bit range
  to an integer, which Go leaves open; the JSON scanner allows the 10000 open containers that Go
  allows, and the documents the program writes need at most six.  A schedule is a list of indices;
  where a property needs that every goroutine ran once, the list is a permutation of all indices.
  The properties on histories bound the number of runs by the range of a 64-bit counter.  No definition has fuel: every loop of the program is
  over a list or shortens its input, and all functions are total.

  \<^bold>\<open>Not modelled.\<close>  The clients of the servers (drivers, SSH, SMTP, the curl process), the template
  engine and the text formats of times and of floats in JSON are arguments, for they are not code of
  the repository.  A goroutine that writes its own index is one move of the pool, for no
  other goroutine touches that index.  Left out are progress lines on stderr, the latency of a probe
  (zero, as the callers ignore it), and time-outs other than as outcomes of the calls they end.  The
  reports and the notification state are kept as two maps of files: a report directory that holds
  the state file is not covered.
\<close>

end
